(* ===== verification/GoBase.thy ===== *)
theory GoBase
  imports Complex_Main "HOL-Library.State_Monad" "HOL-Library.Multiset" "HOL-Library.Sublist"
begin

text \<open>
  Prelude of the development: Go's error values, contexts, effectful functions and goroutines.

  \<^item> A Go \<open>error\<close> result is \<open>error option\<close> (\<open>None\<close> is nil); a pair \<open>(T, error)\<close> is
    \<open>error + 'a\<close>. Formatted errors keep their format string and their arguments.
  \<^item> A \<open>context.Context\<close> is the chain of constructors that built it, so that a theorem can say
    whether the cancellation of the signal context still reaches a call and which deadlines hold.
  \<^item> An effectful function is a state monad of the library (\<open>('w, 'a) state\<close>); \<open>'w\<close> is the world.
    The SDKs that are not part of the repository are oracles which read the trace of the calls
    made so far; \<open>sdk_call\<close> appends the call to the trace.
  \<^item> \<open>ensures\<close> is the judgement for what a program returns together with the calls it makes.
  \<^item> A goroutine is a \<open>task\<close>: atomic steps on the world, \<open>select\<close> statements (the list of the
    branches that may fire) and a result. \<open>par_step\<close> interleaves tasks.
\<close>

named_theorems errs \<comment> \<open>facts on error values\<close>

section \<open>Errors\<close>

datatype error =
    ErrNew string "string list"        \<comment> \<open>\<open>errors.New\<close>, \<open>fmt.Errorf\<close> without \<open>%w\<close>\<close>
  | ErrWrap string "string list" error \<comment> \<open>\<open>fmt.Errorf\<close> with \<open>%w\<close>\<close>
  | ErrWrapNil string                  \<comment> \<open>\<open>fmt.Errorf\<close> with \<open>%w\<close> applied to a nil error\<close>
  | ErrJoin "error list"               \<comment> \<open>\<open>errors.Join\<close>\<close>
  | ErrExt string                      \<comment> \<open>an error made by code outside the repository\<close>

abbreviation errorf :: "string \<Rightarrow> error" where
  "errorf s \<equiv> ErrNew s []"

definition wrapf :: "string \<Rightarrow> string list \<Rightarrow> error option \<Rightarrow> error option" where
  "wrapf f args r = map_option (ErrWrap f args) r"

lemma wrapf_simps [simp, errs]:
  "wrapf f args None = None" "wrapf f args (Some e) = Some (ErrWrap f args e)"
  "wrapf f args r = None \<longleftrightarrow> r = None"
  by (simp_all add: wrapf_def)

text \<open>\<open>errors.Join\<close> drops nil errors and is nil when nothing is left.\<close>

definition errors_join :: "error option list \<Rightarrow> error option" where
  "errors_join rs = (case List.map_filter id rs of [] \<Rightarrow> None | es \<Rightarrow> Some (ErrJoin es))"

lemma map_filter_id_Nil: "List.map_filter id rs = [] \<longleftrightarrow> (\<forall>r \<in> set rs. r = None)"
  by (induction rs) (auto simp: List.map_filter_simps split: option.splits)

lemma errors_join_None [simp, errs]: "errors_join rs = None \<longleftrightarrow> (\<forall>r \<in> set rs. r = None)"
  by (auto simp: errors_join_def map_filter_id_Nil [symmetric] split: list.splits)

fun unwraps :: "error \<Rightarrow> error list" where
  "unwraps (ErrWrap f args e) = ErrWrap f args e # unwraps e"
| "unwraps (ErrJoin es) = ErrJoin es # concat (map unwraps es)"
| "unwraps e = [e]"

definition errors_Is :: "error \<Rightarrow> error \<Rightarrow> bool" where
  "errors_Is err target \<longleftrightarrow> target \<in> set (unwraps err)"

text \<open>\<open>fmt.Sprintf\<close> on rendered arguments; \<open>w\<close> is the text of the wrapped error.\<close>

fun sprintf :: "string \<Rightarrow> string list \<Rightarrow> string \<Rightarrow> string" where
  "sprintf [] args w = []"
| "sprintf [c] args w = [c]"
| "sprintf (c # v # rest) args w =
     (if c \<noteq> CHR ''%'' then c # sprintf (v # rest) args w
      else if v = CHR ''%'' then CHR ''%'' # sprintf rest args w
      else if v = CHR ''w'' then w @ sprintf rest args w
      else (case args of [] \<Rightarrow> sprintf rest [] w | a # args' \<Rightarrow> a @ sprintf rest args' w))"

fun error_text :: "error \<Rightarrow> string" where
  "error_text (ErrNew f args) = sprintf f args ''''"
| "error_text (ErrWrap f args e) = sprintf f args (error_text e)"
| "error_text (ErrWrapNil f) = sprintf f [] ''%!w(<nil>)''"
| "error_text (ErrJoin es) = (case map error_text es of
     [] \<Rightarrow> '''' | t # ts \<Rightarrow> t @ concat (map (\<lambda>u. CHR 0x0A # u) ts))"
| "error_text (ErrExt s) = s"

text \<open>The deadline error of the standard library, and a panic (a panic ends the process).\<close>

definition DeadlineExceeded :: error where
  "DeadlineExceeded = ErrExt ''context deadline exceeded''"

definition nil_panic :: error where
  "nil_panic = ErrExt ''runtime error: invalid memory address or nil pointer dereference''"

section \<open>Contexts\<close>

datatype ctx =
    CtxBackground                  \<comment> \<open>\<open>context.Background()\<close>\<close>
  | CtxTop                         \<comment> \<open>the process context, canceled by SIGINT/SIGTERM\<close>
  | CtxCancel ctx                  \<comment> \<open>\<open>context.WithCancel\<close>\<close>
  | CtxTimeout ctx int             \<comment> \<open>\<open>context.WithTimeout\<close>, in nanoseconds\<close>
  | CtxWithoutCancel ctx           \<comment> \<open>\<open>context.WithoutCancel\<close>\<close>
  | CtxNamespace ctx string        \<comment> \<open>\<open>namespaces.WithNamespace\<close>\<close>

text \<open>Can the cancellation (or an earlier deadline) of the process context still end it?\<close>

fun ctx_detached :: "ctx \<Rightarrow> bool" where
  "ctx_detached CtxBackground = True"
| "ctx_detached CtxTop = False"
| "ctx_detached (CtxCancel c) = ctx_detached c"
| "ctx_detached (CtxTimeout c d) = ctx_detached c"
| "ctx_detached (CtxWithoutCancel c) = True"
| "ctx_detached (CtxNamespace c n) = ctx_detached c"

fun ctx_deadlines :: "ctx \<Rightarrow> int list" where
  "ctx_deadlines CtxBackground = []"
| "ctx_deadlines CtxTop = []"
| "ctx_deadlines (CtxCancel c) = ctx_deadlines c"
| "ctx_deadlines (CtxTimeout c d) = d # ctx_deadlines c"
| "ctx_deadlines (CtxWithoutCancel c) = []"
| "ctx_deadlines (CtxNamespace c n) = ctx_deadlines c"

text \<open>The pattern of every cleanup in the repository.\<close>

definition cleanup_ctx :: "ctx \<Rightarrow> int \<Rightarrow> ctx" where
  "cleanup_ctx c d = CtxTimeout (CtxWithoutCancel c) d"

lemma cleanup_ctx_simps [simp]:
  "ctx_detached (cleanup_ctx c d)" "ctx_deadlines (cleanup_ctx c d) = [d]"
  by (simp_all add: cleanup_ctx_def)

section \<open>Durations\<close>

text \<open>\<open>time.Duration\<close> is a signed 64-bit count of nanoseconds; products wrap around.\<close>

type_synonym duration = int

definition second :: duration where "second = 1000000000"
definition millisecond :: duration where "millisecond = 1000000"

definition int64 :: "int \<Rightarrow> int" where
  "int64 x = (x + 2 ^ 63) mod 2 ^ 64 - 2 ^ 63"

lemma int64_bounds: "- (2 ^ 63) \<le> int64 x \<and> int64 x < 2 ^ 63"
proof -
  have "0 \<le> (x + 2 ^ 63) mod 2 ^ 64" "(x + 2 ^ 63) mod 2 ^ 64 < (2 ^ 64 :: int)"
    by (rule pos_mod_sign, simp) (rule pos_mod_bound, simp)
  then show ?thesis by (simp add: int64_def)
qed

lemma int64_id: "- (2 ^ 63) \<le> x \<Longrightarrow> x < 2 ^ 63 \<Longrightarrow> int64 x = x"
  by (simp add: int64_def)

text \<open>Go's integer division truncates towards zero.\<close>

definition quot :: "int \<Rightarrow> int \<Rightarrow> int" where
  "quot a b = sgn a * sgn b * (\<bar>a\<bar> div \<bar>b\<bar>)"

section \<open>Effects\<close>

lemmas run_state_simps = run_state_return run_state_bind run_state_get run_state_set

definition exec_state :: "('w, 'a) state \<Rightarrow> 'w \<Rightarrow> 'w" where
  "exec_state m w = snd (run_state m w)"

definition eval_state :: "('w, 'a) state \<Rightarrow> 'w \<Rightarrow> 'a" where
  "eval_state m w = fst (run_state m w)"

text \<open>A call of a library outside the repository: the answer is an oracle of the history.\<close>

definition sdk_call :: "'e \<Rightarrow> ('e list \<Rightarrow> 'a) \<Rightarrow> ('e list, 'a) state" where
  "sdk_call e f = State (\<lambda>tr. (f tr, tr @ [e]))"

lemma run_sdk_call [simp]: "run_state (sdk_call e f) tr = (f tr, tr @ [e])"
  by (simp add: sdk_call_def)

text \<open>\<open>for _, x := range xs { if err := f(x); err != nil { return err } }\<close>\<close>

primrec for_err :: "('a \<Rightarrow> ('w, error option) state) \<Rightarrow> 'a list \<Rightarrow> ('w, error option) state" where
  "for_err f [] = State_Monad.return None"
| "for_err f (x # xs) = do {
     r \<leftarrow> f x;
     case r of Some e \<Rightarrow> State_Monad.return (Some e) | None \<Rightarrow> for_err f xs }"

text \<open>\<open>for _, x := range xs { if e := f(x); e != nil { err = errors.Join(err, e) } }\<close>\<close>

primrec join_loop ::
  "('a \<Rightarrow> ('w, error option) state) \<Rightarrow> 'a list \<Rightarrow> error option \<Rightarrow> ('w, error option) state" where
  "join_loop f [] err = State_Monad.return err"
| "join_loop f (x # xs) err = do {
     e \<leftarrow> f x;
     join_loop f xs (if e = None then err else errors_join [err, e]) }"

text \<open>The state of an enclosing function that a closure updates is a second component of the world.\<close>

definition lift_state :: "('w, 'a) state \<Rightarrow> ('w \<times> 'l, 'a) state" where
  "lift_state m = State (\<lambda>(w, l). case run_state m w of (a, w') \<Rightarrow> (a, (w', l)))"

lemma run_lift_state [simp]:
  "run_state (lift_state m) (w, l) = (case run_state m w of (a, w') \<Rightarrow> (a, (w', l)))"
  by (simp add: lift_state_def)

lemma fst_run_lift_state: "fst (snd (run_state (lift_state m) wl)) = snd (run_state m (fst wl))"
  by (cases wl) (simp split: prod.splits)

text \<open>
  \<open>confined R m\<close>: from every world, \<open>m\<close> ends in a world that \<open>R\<close> allows. For a preorder \<open>R\<close> this
  composes along the structure of the program; the locale has the rules once, and the three
  preorders of the development interpret it:
  \<^item> \<open>quiet v m\<close>: \<open>m\<close> leaves the part \<open>v\<close> of the world as it is;
  \<^item> \<open>preserves I m\<close>: \<open>m\<close> keeps the invariant \<open>I\<close>;
  \<^item> \<open>emits P m\<close>: whatever the oracles answer, \<open>m\<close> only appends calls that satisfy \<open>P\<close>.
\<close>

definition confined :: "('w \<Rightarrow> 'w \<Rightarrow> bool) \<Rightarrow> ('w, 'a) state \<Rightarrow> bool" where
  "confined R m \<longleftrightarrow> (\<forall>w. R w (snd (run_state m w)))"

lemma confinedD: "confined R m \<Longrightarrow> run_state m w = (a, w') \<Longrightarrow> R w w'"
  unfolding confined_def by (metis snd_conv)

lemma confinedI: "(\<And>w a w'. run_state m w = (a, w') \<Longrightarrow> R w w') \<Longrightarrow> confined R m"
  unfolding confined_def by (metis prod.collapse)

lemma confined_mono: "confined R m \<Longrightarrow> (\<And>w w'. R w w' \<Longrightarrow> S w w') \<Longrightarrow> confined S m"
  by (simp add: confined_def)

locale effect_order =
  fixes R :: "'w \<Rightarrow> 'w \<Rightarrow> bool"
  assumes R_refl: "R w w" and R_trans: "R u v \<Longrightarrow> R v w \<Longrightarrow> R u w"

context effect_order
begin

lemma confined_return: "confined R (State_Monad.return x)"
  by (simp add: confined_def R_refl)

lemma confined_get: "confined R State_Monad.get"
  by (simp add: confined_def R_refl)

lemma confined_bind:
  "confined R m \<Longrightarrow> (\<And>x. confined R (f x)) \<Longrightarrow> confined R (State_Monad.bind m f)"
  by (rule confinedI) (auto split: prod.splits intro: R_trans dest!: confinedD)

lemma confined_if: "(b \<Longrightarrow> confined R m) \<Longrightarrow> (\<not> b \<Longrightarrow> confined R n) \<Longrightarrow> confined R (if b then m else n)"
  by simp

lemma confined_case_option:
  "(r = None \<Longrightarrow> confined R m) \<Longrightarrow> (\<And>x. r = Some x \<Longrightarrow> confined R (f x)) \<Longrightarrow>
    confined R (case r of None \<Rightarrow> m | Some x \<Rightarrow> f x)"
  by (cases r) auto

lemma confined_case_sum:
  "(\<And>x. r = Inl x \<Longrightarrow> confined R (f x)) \<Longrightarrow> (\<And>x. r = Inr x \<Longrightarrow> confined R (g x)) \<Longrightarrow>
    confined R (case r of Inl x \<Rightarrow> f x | Inr x \<Rightarrow> g x)"
  by (cases r) auto

lemma confined_case_prod:
  "(\<And>x y. r = (x, y) \<Longrightarrow> confined R (f x y)) \<Longrightarrow> confined R (case r of (x, y) \<Rightarrow> f x y)"
  by (cases r) auto

lemma confined_case_list:
  "(xs = [] \<Longrightarrow> confined R m) \<Longrightarrow> (\<And>y ys. xs = y # ys \<Longrightarrow> confined R (f y ys)) \<Longrightarrow>
    confined R (case xs of [] \<Rightarrow> m | y # ys \<Rightarrow> f y ys)"
  by (cases xs) auto

lemma confined_for_err: "(\<And>x. x \<in> set xs \<Longrightarrow> confined R (f x)) \<Longrightarrow> confined R (for_err f xs)"
  by (induction xs) (auto intro!: confined_return confined_bind confined_case_option)

lemma confined_join_loop:
  "(\<And>x. x \<in> set xs \<Longrightarrow> confined R (f x)) \<Longrightarrow> confined R (join_loop f xs err)"
  by (induction xs arbitrary: err) (auto intro!: confined_return confined_bind)

lemma confined_let: "(\<And>x. x = a \<Longrightarrow> confined R (f x)) \<Longrightarrow> confined R (Let a f)"
  by simp

lemmas confined_intros = confined_return confined_get confined_bind confined_if confined_case_option
  confined_case_sum confined_case_prod confined_case_list confined_for_err
  confined_join_loop confined_let

end

text \<open>
  \<open>above R w\<close> says of a step what \<open>R\<close> says, for the worlds that \<open>R\<close> reaches from \<open>w\<close>: what is known in
  \<open>w\<close>, and is stable under \<open>R\<close>, may be relied on. It is a preorder again.
\<close>

definition above :: "('w \<Rightarrow> 'w \<Rightarrow> bool) \<Rightarrow> 'w \<Rightarrow> 'w \<Rightarrow> 'w \<Rightarrow> bool" where
  "above R w u v \<longleftrightarrow> (R w u \<longrightarrow> R u v)"

lemma confined_aboveD: "confined (above R w) m \<Longrightarrow> R w u \<Longrightarrow> run_state m u = (a, v) \<Longrightarrow> R u v"
  unfolding confined_def above_def by (metis snd_conv)

lemma confined_aboveI: "(\<And>u a v. R w u \<Longrightarrow> run_state m u = (a, v) \<Longrightarrow> R u v) \<Longrightarrow> confined (above R w) m"
  by (rule confinedI) (simp add: above_def)

lemma confined_above: "confined R m \<Longrightarrow> confined (above R w) m"
  by (erule confined_mono) (simp add: above_def)

context effect_order
begin

lemma above_order: "effect_order (above R w)"
  by unfold_locales (auto simp: above_def intro: R_refl R_trans)

lemmas above_intros = effect_order.confined_intros [OF above_order]

lemma confined_above_mono: "confined (above R w) m \<Longrightarrow> R w w' \<Longrightarrow> confined (above R w') m"
  by (erule confined_mono) (auto simp: above_def intro: R_trans)

lemma confined_all_above: "(\<And>w. confined (above R w) m) \<Longrightarrow> confined R m"
  unfolding confined_def above_def using R_refl by blast

lemma confined_at: "confined (above R w) m \<Longrightarrow> run_state m w = (a, v) \<Longrightarrow> R w v"
  by (rule confined_aboveD [where w = w]) (simp_all add: R_refl)

lemma above_bind:
  assumes "confined (above R w) m"
    and "\<And>u a v. R w u \<Longrightarrow> run_state m u = (a, v) \<Longrightarrow> R w v \<Longrightarrow> confined (above R v) (f a)"
  shows "confined (above R w) (State_Monad.bind m f)"
proof (rule confined_aboveI)
  fix u a v assume u: "R w u" and run: "run_state (State_Monad.bind m f) u = (a, v)"
  obtain b u' where b: "run_state m u = (b, u')" by fastforce
  have u': "R u u'" by (rule confined_aboveD [OF assms(1) u b])
  have "R u' v"
    using run b by (intro confined_at [OF assms(2) [OF u b R_trans [OF u u']]]) simp
  with u' show "R u v" by (rule R_trans)
qed

end

abbreviation quiet :: "('w \<Rightarrow> 'v) \<Rightarrow> ('w, 'a) state \<Rightarrow> bool" where
  "quiet v \<equiv> confined (\<lambda>w w'. v w' = v w)"

abbreviation preserves :: "('w \<Rightarrow> bool) \<Rightarrow> ('w, 'a) state \<Rightarrow> bool" where
  "preserves I \<equiv> confined (\<lambda>w w'. I w \<longrightarrow> I w')"

definition extends :: "('e \<Rightarrow> bool) \<Rightarrow> 'e list \<Rightarrow> 'e list \<Rightarrow> bool" where
  "extends P tr tr' \<longleftrightarrow> (\<exists>evs. tr' = tr @ evs \<and> list_all P evs)"

abbreviation emits :: "('e \<Rightarrow> bool) \<Rightarrow> ('e list, 'a) state \<Rightarrow> bool" where
  "emits P \<equiv> confined (extends P)"

interpretation view: effect_order "\<lambda>w w'. v w' = v w" for v :: "'w \<Rightarrow> 'v"
  by unfold_locales simp_all

interpretation invariant: effect_order "\<lambda>w w'. I w \<longrightarrow> I w'" for I :: "'w \<Rightarrow> bool"
  by unfold_locales simp_all

interpretation emission: effect_order "extends P" for P :: "'e \<Rightarrow> bool"
proof unfold_locales
  fix u v w :: "'e list"
  show "extends P w w" by (simp add: extends_def)
  show "extends P u v \<Longrightarrow> extends P v w \<Longrightarrow> extends P u w"
    unfolding extends_def by (metis append_assoc list_all_append)
qed

lemma emits_sdk_call: "P e \<Longrightarrow> emits P (sdk_call e f)"
  by (simp add: confined_def extends_def)

lemma emits_mono: "emits P m \<Longrightarrow> (\<And>e. P e \<Longrightarrow> Q e) \<Longrightarrow> emits Q m"
  by (erule confined_mono) (auto simp: extends_def list_all_iff)

lemma emits_run: "emits P m \<Longrightarrow> run_state m tr = (x, tr') \<Longrightarrow> \<exists>evs. tr' = tr @ evs \<and> list_all P evs"
  by (drule confinedD) (auto simp: extends_def)

lemma emits_quiet: "emits (\<lambda>e. \<not> Q e) m \<Longrightarrow> quiet (filter Q) m"
  by (erule confined_mono) (auto simp: extends_def list_all_iff)

lemma quiet_lift_state: "quiet v m \<Longrightarrow> quiet (\<lambda>wl. v (fst wl)) (lift_state m)"
  by (simp add: confined_def fst_run_lift_state)

lemma quiet_lift_local: "quiet snd (lift_state m)"
  by (auto simp: confined_def split: prod.splits)

section \<open>Postconditions on traces\<close>

text \<open>
  \<open>ensures m Q\<close>: whatever the oracles answer, started with the trace \<open>tr\<close> the program \<open>m\<close> appends
  calls \<open>evs\<close> and returns \<open>a\<close> such that \<open>Q tr a evs\<close>. The rules compose such specifications.
\<close>

definition ensures :: "('e list, 'a) state \<Rightarrow> ('e list \<Rightarrow> 'a \<Rightarrow> 'e list \<Rightarrow> bool) \<Rightarrow> bool" where
  "ensures m Q \<longleftrightarrow> (\<forall>tr a tr'. run_state m tr = (a, tr') \<longrightarrow> (\<exists>evs. tr' = tr @ evs \<and> Q tr a evs))"

lemma ensuresI:
  "(\<And>tr a tr'. run_state m tr = (a, tr') \<Longrightarrow> \<exists>evs. tr' = tr @ evs \<and> Q tr a evs) \<Longrightarrow> ensures m Q"
  by (simp add: ensures_def)

lemma ensuresE:
  assumes "ensures m Q" and "run_state m tr = (a, tr')"
  obtains evs where "tr' = tr @ evs" and "Q tr a evs"
  using assms unfolding ensures_def by blast

lemma ensures_return: "(\<And>tr. Q tr x []) \<Longrightarrow> ensures (State_Monad.return x) Q"
  by (simp add: ensures_def)

lemma ensures_sdk_call: "(\<And>tr. Q tr (f tr) [e]) \<Longrightarrow> ensures (sdk_call e f) Q"
  by (simp add: ensures_def)

lemma ensures_mono: "ensures m P \<Longrightarrow> (\<And>tr a evs. P tr a evs \<Longrightarrow> Q tr a evs) \<Longrightarrow> ensures m Q"
  unfolding ensures_def by blast

lemma ensures_bind:
  assumes "ensures m P" and "\<And>x. ensures (f x) (R x)"
    and "\<And>tr x xs y ys. P tr x xs \<Longrightarrow> R x (tr @ xs) y ys \<Longrightarrow> Q tr y (xs @ ys)"
  shows "ensures (State_Monad.bind m f) Q"
proof (rule ensuresI)
  fix tr a tr' assume "run_state (State_Monad.bind m f) tr = (a, tr')"
  then obtain x t where x: "run_state m tr = (x, t)" and a: "run_state (f x) t = (a, tr')"
    by (auto split: prod.splits)
  obtain xs where xs: "t = tr @ xs" "P tr x xs" by (rule ensuresE [OF assms(1) x])
  obtain ys where "tr' = t @ ys" "R x t a ys" by (rule ensuresE [OF assms(2) a])
  then show "\<exists>evs. tr' = tr @ evs \<and> Q tr a evs"
    using xs by (intro exI [of _ "xs @ ys"] conjI assms(3)) simp_all
qed

lemma ensures_emits: "emits P m \<Longrightarrow> ensures m (\<lambda>tr a evs. list_all P evs)"
  by (auto simp: ensures_def dest!: emits_run)

lemma ensures_conj: "ensures m P \<Longrightarrow> ensures m Q \<Longrightarrow> ensures m (\<lambda>tr a evs. P tr a evs \<and> Q tr a evs)"
  by (fastforce simp: ensures_def)

lemma emits_ensures: "ensures m (\<lambda>tr a evs. list_all P evs) \<Longrightarrow> emits P m"
  by (rule confinedI) (auto simp: ensures_def extends_def)

lemma ensures_get_bind: "(\<And>x. ensures (f x) Q) \<Longrightarrow> ensures (State_Monad.bind State_Monad.get f) Q"
  by (fastforce simp: ensures_def)

lemma ensures_bind_return:
  assumes "ensures m P" and "\<And>tr x evs. P tr x evs \<Longrightarrow> Q tr (g x) evs"
  shows "ensures (do { x \<leftarrow> m; State_Monad.return (g x) }) Q"
  by (rule ensures_bind [OF assms(1) ensures_return [of "\<lambda>tr y ys. y = g _ \<and> ys = []"]])
    (auto intro: assms(2))

lemma ensures_cases:
  "(\<And>x. q = Some x \<Longrightarrow> ensures (f x) Q) \<Longrightarrow> (q = None \<Longrightarrow> ensures m Q) \<Longrightarrow>
    ensures (case q of None \<Rightarrow> m | Some x \<Rightarrow> f x) Q"
  "(\<And>x. s = Inl x \<Longrightarrow> ensures (g x) Q) \<Longrightarrow> (\<And>y. s = Inr y \<Longrightarrow> ensures (h y) Q) \<Longrightarrow>
    ensures (case s of Inl x \<Rightarrow> g x | Inr y \<Rightarrow> h y) Q"
  "(b \<Longrightarrow> ensures m Q) \<Longrightarrow> (\<not> b \<Longrightarrow> ensures n Q) \<Longrightarrow> ensures (if b then m else n) Q"
  subgoal by (cases q) simp_all
  subgoal by (cases s) simp_all
  subgoal by simp
  done

text \<open>
  The rule for a loop that stops at the first error: \<open>g\<close> reads off the trace what each turn does, \<open>h x\<close>
  is what the turn for \<open>x\<close> does when it succeeds.
\<close>

lemma ensures_for_err:
  assumes step: "\<And>x. ensures (f x) (\<lambda>tr r evs. list_all P evs \<and>
      (if r = None then g evs = [h x] else prefix (g evs) [h x]))"
    and g: "g [] = []" "\<And>xs ys. g (xs @ ys) = g xs @ g ys"
  shows "ensures (for_err f xs) (\<lambda>tr r evs. list_all P evs \<and>
    (if r = None then g evs = map h xs else prefix (g evs) (map h xs)))"
proof (induction xs)
  case Nil
  show ?case by (simp, rule ensures_return) (simp add: g)
next
  case (Cons x xs)
  have rest: "ensures (case r of Some e \<Rightarrow> State_Monad.return (Some e) | None \<Rightarrow> for_err f xs)
     (\<lambda>tr r' evs. if r = None then list_all P evs \<and> (if r' = None then g evs = map h xs else prefix (g evs) (map h xs))
        else evs = [] \<and> r' = r)" for r
    by (cases r) (auto intro: ensures_return ensures_mono [OF Cons])
  show ?case unfolding for_err.simps
  proof (rule ensures_bind [OF step rest])
    fix tr r evs r' evs'
    assume "list_all P evs \<and> (if r = None then g evs = [h x] else prefix (g evs) [h x])"
      and "if r = None then list_all P evs' \<and> (if r' = None then g evs' = map h xs else prefix (g evs') (map h xs))
        else evs' = [] \<and> r' = r"
    then show "list_all P (evs @ evs') \<and>
        (if r' = None then g (evs @ evs') = map h (x # xs) else prefix (g (evs @ evs')) (map h (x # xs)))"
      using prefix_order.trans [of "g evs" "[h x]" "map h (x # xs)"]
      by (cases r) (auto simp: g split: if_splits)
  qed
qed

lemma map_sum_Inr: "map_sum f g s = Inr y \<longleftrightarrow> (\<exists>x. s = Inr x \<and> y = g x)"
  by (cases s) auto

end
