(* ===== verification/GoStrings.thy ===== *)
theory GoStrings
  imports GoBase "HOL-Library.Char_ord"
begin

text \<open>
  The parts of Go's \<open>strings\<close>, \<open>strconv\<close> and \<open>slices\<close> packages and of \<open>float64\<close> that the program
  uses. Strings are lists of bytes (\<open>char\<close>); white space is that of Unicode.
\<close>

section \<open>Searching and cutting\<close>

fun strings_contains :: "string \<Rightarrow> string \<Rightarrow> bool" where
  "strings_contains [] sub = (sub = [])"
| "strings_contains (c # s) sub = (prefix sub (c # s) \<or> strings_contains s sub)"

lemma strings_contains_sublist: "strings_contains s sub \<longleftrightarrow> sublist sub s"
  by (induction s sub rule: strings_contains.induct) (auto simp: sublist_Cons_right)

definition cut_prefix :: "string \<Rightarrow> string \<Rightarrow> string option" where
  "cut_prefix s p = (if prefix p s then Some (drop (length p) s) else None)"

lemma cut_prefix_Some: "cut_prefix s p = Some r \<longleftrightarrow> s = p @ r"
  by (auto simp: cut_prefix_def prefix_def)

text \<open>\<open>strings.Split(s, sep)\<close> for a separator of one byte.\<close>

fun split_on :: "char \<Rightarrow> string \<Rightarrow> string list" where
  "split_on c [] = [ [] ]"
| "split_on c (x # xs) =
     (if x = c then [] # split_on c xs
      else (case split_on c xs of [] \<Rightarrow> [ [x] ] | w # ws \<Rightarrow> (x # w) # ws))"

text \<open>\<open>strings.Join(parts, sep)\<close>.\<close>

fun join_with :: "string \<Rightarrow> string list \<Rightarrow> string" where
  "join_with sep [] = []"
| "join_with sep [w] = w"
| "join_with sep (w # ws) = w @ sep @ join_with sep ws"

lemma split_on_not_Nil [simp]: "split_on c s \<noteq> []"
  by (induction s) (auto split: list.splits)

lemma split_on_no_sep: "w \<in> set (split_on c s) \<Longrightarrow> c \<notin> set w"
  by (induction s arbitrary: w) (auto split: if_splits list.splits)

lemma join_with_Cons: "ws \<noteq> [] \<Longrightarrow> join_with sep (w # ws) = w @ sep @ join_with sep ws"
  by (cases ws) auto

lemma join_with_cons_char: "join_with sep ((x # a) # ws) = x # join_with sep (a # ws)"
  by (cases ws) auto

lemma join_split_on: "join_with [c] (split_on c s) = s"
proof (induction s)
  case Nil
  then show ?case by simp
next
  case (Cons x xs)
  then show ?case
    by (cases "split_on c xs") (auto simp: join_with_Cons join_with_cons_char)
qed

lemma split_on_append_sep: "split_on c (u @ c # v) = split_on c u @ split_on c v"
  by (induction u) (auto split: list.splits)

lemma split_on_no_sep_id: "c \<notin> set s \<Longrightarrow> split_on c s = [s]"
  by (induction s) auto

lemma split_join_on: "ws \<noteq> [] \<Longrightarrow> \<forall>w \<in> set ws. c \<notin> set w \<Longrightarrow> split_on c (join_with [c] ws) = ws"
proof (induction ws)
  case Nil
  then show ?case by simp
next
  case (Cons w ws)
  then show ?case
    by (cases "ws = []") (auto simp: join_with_Cons split_on_append_sep split_on_no_sep_id)
qed

lemma length_split_on: "length (split_on c s) = Suc (count_list s c)"
  by (induction s) (auto split: list.splits)

text \<open>\<open>strings.SplitN(s, sep, n)\<close> for \<open>n > 0\<close>: at most \<open>n\<close> parts, the last is the unsplit rest.\<close>

fun split_n :: "char \<Rightarrow> nat \<Rightarrow> string \<Rightarrow> string list" where
  "split_n c 0 s = []"
| "split_n c (Suc 0) s = [s]"
| "split_n c (Suc (Suc n)) [] = [ [] ]"
| "split_n c (Suc (Suc n)) (x # xs) =
     (if x = c then [] # split_n c (Suc n) xs
      else (case split_n c (Suc (Suc n)) xs of [] \<Rightarrow> [ [x] ] | w # ws \<Rightarrow> (x # w) # ws))"

lemma split_n_append:
  "c \<notin> set u \<Longrightarrow> split_n c (Suc (Suc n)) (u @ c # v) = u # split_n c (Suc n) v"
  by (induction u) auto

text \<open>\<open>strings.LastIndex(s, "c")\<close>; \<open>None\<close> is -1.\<close>

fun last_index :: "char \<Rightarrow> string \<Rightarrow> nat option" where
  "last_index c [] = None"
| "last_index c (x # xs) =
     (case last_index c xs of Some i \<Rightarrow> Some (Suc i) | None \<Rightarrow> if x = c then Some 0 else None)"

lemma last_index_None: "last_index c s = None \<longleftrightarrow> c \<notin> set s"
  by (induction s) (auto split: option.splits)

lemma last_index_append_sep: "c \<notin> set v \<Longrightarrow> last_index c (u @ c # v) = Some (length u)"
  by (induction u) (auto simp: last_index_None [THEN iffD2])

lemma last_index_SomeD: "last_index c s = Some i \<Longrightarrow> \<exists>u v. s = u @ c # v \<and> length u = i \<and> c \<notin> set v"
proof (induction s arbitrary: i)
  case Nil
  then show ?case by simp
next
  case (Cons x xs)
  show ?case
  proof (cases "last_index c xs")
    case None
    with Cons.prems show ?thesis
      by (intro exI [of _ "[]"] exI [of _ xs]) (auto simp: last_index_None split: if_splits)
  next
    case (Some j)
    with Cons.IH obtain u v where "xs = u @ c # v" "length u = j" "c \<notin> set v" by blast
    with Some Cons.prems show ?thesis by (intro exI [of _ "x # u"] exI [of _ v]) simp
  qed
qed

lemma last_index_Some:
  "last_index c s = Some i \<longleftrightarrow> (\<exists>u v. s = u @ c # v \<and> length u = i \<and> c \<notin> set v)"
  by (auto simp: last_index_append_sep dest: last_index_SomeD)

section \<open>White space\<close>

text \<open>
  \<open>unicode.IsSpace\<close> on strings in UTF-8: the six characters of ASCII and the encodings of U+0085, U+00A0,
  U+1680, U+2000 to U+200A, U+2028, U+2029, U+202F, U+205F and U+3000. No encoding occurs inside another
  character, so that to look for the encodings at each byte is to look at each character.
\<close>

definition is_space :: "char \<Rightarrow> bool" where
  "is_space c \<longleftrightarrow> c \<in> {CHR '' '', CHR 0x09, CHR 0x0A, CHR 0x0B, CHR 0x0C, CHR 0x0D}"

definition white_space :: "string list" where
  "white_space =
     ['' '', [CHR 0x09], [CHR 0x0A], [CHR 0x0B], [CHR 0x0C], [CHR 0x0D],
      [CHR 0xC2, CHR 0x85], [CHR 0xC2, CHR 0xA0], [CHR 0xE1, CHR 0x9A, CHR 0x80],
      [CHR 0xE2, CHR 0x80, CHR 0x80], [CHR 0xE2, CHR 0x80, CHR 0x81], [CHR 0xE2, CHR 0x80, CHR 0x82],
      [CHR 0xE2, CHR 0x80, CHR 0x83], [CHR 0xE2, CHR 0x80, CHR 0x84], [CHR 0xE2, CHR 0x80, CHR 0x85],
      [CHR 0xE2, CHR 0x80, CHR 0x86], [CHR 0xE2, CHR 0x80, CHR 0x87], [CHR 0xE2, CHR 0x80, CHR 0x88],
      [CHR 0xE2, CHR 0x80, CHR 0x89], [CHR 0xE2, CHR 0x80, CHR 0x8A], [CHR 0xE2, CHR 0x80, CHR 0xA8],
      [CHR 0xE2, CHR 0x80, CHR 0xA9], [CHR 0xE2, CHR 0x80, CHR 0xAF], [CHR 0xE2, CHR 0x81, CHR 0x9F],
      [CHR 0xE3, CHR 0x80, CHR 0x80]]"

text \<open>The character of a list with which a string begins; the string without all of them.\<close>

definition starts_with :: "string list \<Rightarrow> string \<Rightarrow> string option" where
  "starts_with us s = List.find (\<lambda>u. u \<noteq> [] \<and> prefix u s) us"

lemma starts_with_SomeD: "starts_with us s = Some u \<Longrightarrow> u \<in> set us \<and> u \<noteq> [] \<and> prefix u s"
  unfolding starts_with_def find_Some_iff by auto

lemma starts_with_None: "starts_with us s = None \<longleftrightarrow> (\<forall>u \<in> set us. u \<noteq> [] \<longrightarrow> \<not> prefix u s)"
  by (auto simp: starts_with_def find_None_iff)

lemma starts_with_shorter: "starts_with us s = Some u \<Longrightarrow> length s - length u < length s"
  by (drule starts_with_SomeD) (auto simp: prefix_def)

function drop_any :: "string list \<Rightarrow> string \<Rightarrow> string" where
  "drop_any us s = (case starts_with us s of None \<Rightarrow> s | Some u \<Rightarrow> drop_any us (drop (length u) s))"
  by pat_completeness auto
termination by (relation "measure (length \<circ> snd)") (auto simp: starts_with_shorter)

declare drop_any.simps [simp del]

lemma drop_any_id: "starts_with us s = None \<Longrightarrow> drop_any us s = s"
  by (simp add: drop_any.simps)

lemma drop_any_start: "starts_with us (drop_any us s) = None"
proof (induction us s rule: drop_any.induct)
  case (1 us s)
  show ?case by (cases "starts_with us s") (simp_all add: 1 drop_any.simps [of us s])
qed

lemma drop_any_suffix: "suffix (drop_any us s) s"
proof (induction us s rule: drop_any.induct)
  case (1 us s)
  show ?case
  proof (cases "starts_with us s")
    case (Some u)
    with 1 have "suffix (drop_any us s) (drop (length u) s)" by (simp add: drop_any.simps [of us s])
    then show ?thesis using suffix_drop suffix_order.trans by blast
  qed (simp add: drop_any_id)
qed

text \<open>\<open>strings.TrimSpace\<close>, and \<open>strings.TrimRight(s, "c")\<close>.\<close>

definition trim_space :: "string \<Rightarrow> string" where
  "trim_space s = rev (drop_any (map rev white_space) (rev (drop_any white_space s)))"

definition trim_right :: "char \<Rightarrow> string \<Rightarrow> string" where
  "trim_right c s = rev (dropWhile (\<lambda>x. x = c) (rev s))"

text \<open>\<open>strings.Fields\<close>: the maximal parts that contain no white space.\<close>

fun cut_field :: "string \<Rightarrow> string \<times> string" where
  "cut_field [] = ([], [])"
| "cut_field (c # s) =
     (if starts_with white_space (c # s) = None then (let (w, r) = cut_field s in (c # w, r)) else ([], c # s))"

lemma cut_field_append: "cut_field s = (w, r) \<Longrightarrow> s = w @ r"
  by (induction s arbitrary: w) (auto split: if_splits prod.splits)

lemma cut_field_shorter: "(w, r) = cut_field s \<Longrightarrow> length r < Suc (length s)"
  by (drule sym) (drule cut_field_append, simp)

function str_fields :: "string \<Rightarrow> string list" where
  "str_fields [] = []"
| "str_fields (c # s) = (case starts_with white_space (c # s) of
     Some u \<Rightarrow> str_fields (drop (length u) (c # s))
   | None \<Rightarrow> (let (w, r) = cut_field s in (c # w) # str_fields r))"
  by pat_completeness auto
termination by (relation "measure length") (auto dest: starts_with_shorter cut_field_shorter)

section \<open>Facts: white space\<close>

definition no_space :: "string \<Rightarrow> bool" where
  "no_space s \<longleftrightarrow> list_all (\<lambda>u. \<not> strings_contains s u) white_space"

lemma no_space_iff: "no_space s \<longleftrightarrow> (\<forall>u \<in> set white_space. \<not> sublist u s)"
  by (simp add: no_space_def list_all_iff strings_contains_sublist)

lemma no_space_Nil [simp]: "no_space []"
  by (simp add: no_space_iff white_space_def)

lemma no_space_starts: "no_space s \<Longrightarrow> starts_with white_space s = None"
  "no_space s \<Longrightarrow> starts_with (map rev white_space) (rev s) = None"
  by (auto simp: no_space_iff starts_with_None simp flip: suffix_to_prefix)

lemma trim_space_id: "no_space s \<Longrightarrow> trim_space s = s"
  by (simp add: trim_space_def drop_any_id no_space_starts)

text \<open>What is trimmed neither begins nor ends with white space, and trimming it again changes nothing.\<close>

lemma trim_space_ends:
  "starts_with white_space (trim_space s) = None"
  "starts_with (map rev white_space) (rev (trim_space s)) = None"
proof -
  let ?d = "drop_any white_space s"
  show "starts_with (map rev white_space) (rev (trim_space s)) = None"
    by (simp add: trim_space_def drop_any_start)
  have "prefix (trim_space s) ?d"
    using drop_any_suffix [of "map rev white_space" "rev ?d"] by (simp add: trim_space_def suffix_to_prefix)
  then show "starts_with white_space (trim_space s) = None"
    using drop_any_start [of white_space s] prefix_order.trans unfolding starts_with_None by blast
qed

lemma trim_space_idem [simp]: "trim_space (trim_space s) = trim_space s"
  using trim_space_ends [of s] by (simp add: trim_space_def [of "trim_space s"] drop_any_id)

lemma trim_space_chars: "set (trim_space s) \<subseteq> set s"
  using drop_any_suffix [of white_space s] drop_any_suffix [of "map rev white_space" "rev (drop_any white_space s)"]
  unfolding trim_space_def by (metis set_mono_suffix set_rev subset_trans)

lemma trim_space_Nil [simp]: "trim_space [] = []"
  by (simp add: trim_space_id)

lemma white_space_newline: "u \<in> set white_space \<Longrightarrow> CHR 0x0A \<in> set u \<Longrightarrow> u = [CHR 0x0A]"
  by (auto simp: white_space_def)

lemma no_space_newline: "no_space s \<Longrightarrow> CHR 0x0A \<notin> set s"
proof
  assume "no_space s" and "CHR 0x0A \<in> set s"
  moreover have "[CHR 0x0A] \<in> set white_space" by (simp add: white_space_def)
  ultimately show False unfolding no_space_iff by (fastforce simp: sublist_def dest: split_list)
qed

lemma trim_space_line:
  assumes "no_space s" shows "trim_space (s @ [CHR 0x0A]) = s"
proof -
  have last: "starts_with (map rev white_space) (CHR 0x0A # t) = Some [CHR 0x0A]" for t
    by (simp add: starts_with_def white_space_def)
  have right: "drop_any (map rev white_space) (rev (s @ [CHR 0x0A])) = rev s"
    using no_space_starts(2) [OF assms] by (simp add: drop_any.simps [of _ "CHR 0x0A # _"] last drop_any_id)
  show ?thesis
  proof (cases "s = ''''")
    case True
    then have "drop_any white_space (s @ [CHR 0x0A]) = ''''"
      using drop_any_id [of white_space "[]"] no_space_starts(1) [of "[]"]
      by (simp add: drop_any.simps [of _ "[CHR 0x0A]"]) (simp add: starts_with_def white_space_def)
    with True show ?thesis using no_space_starts(2) [of "[]"] by (simp add: trim_space_def drop_any_id)
  next
    case False
    have "\<not> prefix u (s @ [CHR 0x0A])" if "u \<in> set white_space" for u
      using assms False that white_space_newline [of u] unfolding no_space_iff by (auto simp: prefix_snoc)
    then have "drop_any white_space (s @ [CHR 0x0A]) = s @ [CHR 0x0A]"
      by (simp add: drop_any_id starts_with_None)
    with right show ?thesis by (simp add: trim_space_def)
  qed
qed

lemma no_space_sep:
  assumes "\<forall>u \<in> set white_space. c \<notin> set u"
  shows "no_space (a @ c # b) \<longleftrightarrow> no_space a \<and> no_space b"
proof -
  have "sublist u (a @ c # b) \<longleftrightarrow> sublist u a \<or> sublist u b" if "c \<notin> set u" for u
    using that by (auto simp: sublist_append sublist_Cons_right prefix_Cons)
  with assms show ?thesis unfolding no_space_iff by blast
qed

lemma no_space_bytes:
  "list_all (\<lambda>c. \<not> is_space c \<and> c \<notin> {CHR 0xC2, CHR 0xE1, CHR 0xE2, CHR 0xE3}) s \<Longrightarrow> no_space s"
proof (induction s)
  case (Cons c s)
  then have "\<not> prefix u (c # s)" if "u \<in> set white_space" for u
    using that by (auto simp: white_space_def is_space_def)
  with Cons show ?case unfolding no_space_iff by (auto simp: sublist_Cons_right)
qed simp

text \<open>Each field is a string without white space.\<close>

lemma cut_field_starts: "cut_field s = (w, r) \<Longrightarrow> w = a @ b \<Longrightarrow> b \<noteq> [] \<Longrightarrow> starts_with white_space (b @ r) = None"
proof (induction s arbitrary: w a)
  case (Cons c s)
  then obtain v where v: "starts_with white_space (c # s) = None" "cut_field s = (v, r)" "w = c # v"
    by (auto split: if_splits prod.splits)
  show ?case
  proof (cases a)
    case Nil
    with v Cons.prems cut_field_append [OF v(2)] show ?thesis by simp
  next
    case (Cons x xs)
    with v Cons.prems Cons.IH [OF v(2), of xs] show ?thesis by simp
  qed
qed simp

lemma fields_no_space: "w \<in> set (str_fields s) \<Longrightarrow> w \<noteq> [] \<and> no_space w"
proof (induction s arbitrary: w rule: str_fields.induct)
  case (2 c s)
  show ?case
  proof (cases "starts_with white_space (c # s)")
    case None
    obtain v r where cut: "cut_field s = (v, r)" by fastforce
    then have cut': "cut_field (c # s) = (c # v, r)" using None by simp
    have "no_space (c # v)"
      unfolding no_space_iff
    proof (intro ballI notI)
      fix u assume u: "u \<in> set white_space" and "sublist u (c # v)"
      then obtain a z where split: "c # v = a @ (u @ z)" by (auto simp: sublist_def)
      have "u \<noteq> []" using u by (auto simp: white_space_def)
      with cut_field_starts [OF cut' split] u show False by (auto simp: starts_with_None)
    qed
    with 2 None cut show ?thesis by auto
  qed (use 2 in simp)
qed simp

section \<open>Numbers\<close>

definition is_digit :: "char \<Rightarrow> bool" where
  "is_digit c \<longleftrightarrow> c \<in> set ''0123456789''"

definition digit_val :: "char \<Rightarrow> int" where
  "digit_val c = int (of_char c) - 48"

definition digit_char :: "nat \<Rightarrow> char" where
  "digit_char d = ''0123456789'' ! (d mod 10)"

fun digits_val :: "int \<Rightarrow> string \<Rightarrow> int" where
  "digits_val acc [] = acc"
| "digits_val acc (c # s) = digits_val (acc * 10 + digit_val c) s"

fun nat_digits :: "nat \<Rightarrow> string" where
  "nat_digits n = (if n < 10 then [digit_char n] else nat_digits (n div 10) @ [digit_char (n mod 10)])"

declare nat_digits.simps [simp del]

text \<open>\<open>strconv.Itoa\<close>.\<close>

definition itoa :: "int \<Rightarrow> string" where
  "itoa i = (if i < 0 then CHR ''-'' # nat_digits (nat (- i)) else nat_digits (nat i))"

lemma digit_char_digit: "d < 10 \<Longrightarrow> is_digit (digit_char d) \<and> digit_val (digit_char d) = int d"
proof -
  assume "d < 10"
  then have "d = 0 \<or> d = 1 \<or> d = 2 \<or> d = 3 \<or> d = 4 \<or> d = 5 \<or> d = 6 \<or> d = 7 \<or> d = 8 \<or> d = 9" by arith
  then show ?thesis by (elim disjE) (simp_all add: digit_char_def is_digit_def digit_val_def)
qed

lemma digits_val_append: "digits_val acc (s @ [c]) = digits_val acc s * 10 + digit_val c"
  by (induction s arbitrary: acc) auto

lemma nat_digits_correct:
  "nat_digits n \<noteq> [] \<and> list_all is_digit (nat_digits n) \<and> digits_val 0 (nat_digits n) = int n"
proof (induction n rule: nat_digits.induct)
  case (1 n)
  show ?case
  proof (cases "n < 10")
    case True
    then show ?thesis by (subst (1 2 3) nat_digits.simps) (simp add: digit_char_digit)
  next
    case False
    have "int (n div 10) * 10 + int (n mod 10) = int n"
      by (metis div_mult_mod_eq of_nat_add of_nat_mult of_nat_numeral)
    with 1 False show ?thesis
      by (subst (1 2 3) nat_digits.simps) (simp add: digit_char_digit digits_val_append)
  qed
qed

text \<open>
  \<open>strconv.ParseInt(s, 10, 64)\<close>: an optional sign, one or more digits, and a value that fits in
  64 bits. \<open>strconv.Atoi\<close> agrees with it on a 64-bit platform. The error is not inspected.
\<close>

definition parse_uint :: "string \<Rightarrow> int option" where
  "parse_uint s = (if s \<noteq> [] \<and> list_all is_digit s then Some (digits_val 0 s) else None)"

definition parse_int :: "string \<Rightarrow> error + int" where
  "parse_int s =
     (let (neg, body) = (case s of c # r \<Rightarrow> if c = CHR ''-'' then (True, r)
                                          else if c = CHR ''+'' then (False, r) else (False, s)
                         | [] \<Rightarrow> (False, []))
      in case parse_uint body of
           None \<Rightarrow> Inl (ErrExt ''strconv: invalid syntax'')
         | Some v \<Rightarrow> (let x = (if neg then - v else v) in
             if - (2 ^ 63) \<le> x \<and> x < 2 ^ 63 then Inr x else Inl (ErrExt ''strconv: value out of range'')))"

lemma hd_nat_digits: "hd (nat_digits n) \<noteq> CHR ''-'' \<and> hd (nat_digits n) \<noteq> CHR ''+''"
proof -
  have "is_digit (hd (nat_digits n))"
    using nat_digits_correct [of n] by (cases "nat_digits n") auto
  then show ?thesis by (auto simp: is_digit_def)
qed

lemma parse_uint_nat_digits: "parse_uint (nat_digits n) = Some (int n)"
  using nat_digits_correct [of n] by (simp add: parse_uint_def)

lemma parse_int_itoa: "- (2 ^ 63) \<le> i \<Longrightarrow> i < 2 ^ 63 \<Longrightarrow> parse_int (itoa i) = Inr i"
proof (cases "i < 0")
  case True
  assume "- (2 ^ 63) \<le> i" "i < 2 ^ 63"
  with True show ?thesis by (simp add: itoa_def parse_int_def parse_uint_nat_digits)
next
  case False
  assume b: "- (2 ^ 63) \<le> i" "i < 2 ^ 63"
  obtain c r where cr: "nat_digits (nat i) = c # r"
    using nat_digits_correct [of "nat i"] by (cases "nat_digits (nat i)") auto
  then have "c \<noteq> CHR ''-''" "c \<noteq> CHR ''+''" using hd_nat_digits [of "nat i"] by simp_all
  moreover have "parse_uint (c # r) = Some i"
    using parse_uint_nat_digits [of "nat i"] False by (simp add: cr)
  ultimately show ?thesis using False b by (simp add: itoa_def parse_int_def cr)
qed

section \<open>Case\<close>

text \<open>
  \<open>strings.ToUpper\<close>, as far as it decides equality with a string of ASCII: of the other characters, the
  dotless i (U+0131) and the long s (U+017F) have the ASCII letters I and S for upper case, and no
  other does. A character whose upper case is not ASCII is left as it is.
\<close>

definition upper_char :: "char \<Rightarrow> char" where
  "upper_char c = (if CHR ''a'' \<le> c \<and> c \<le> CHR ''z'' then char_of (of_char c - (32 :: nat)) else c)"

fun to_upper :: "string \<Rightarrow> string" where
  "to_upper (c # d # s) =
     (if c = CHR 0xC4 \<and> d = CHR 0xB1 then CHR ''I'' # to_upper s
      else if c = CHR 0xC5 \<and> d = CHR 0xBF then CHR ''S'' # to_upper s
      else upper_char c # to_upper (d # s))"
| "to_upper s = map upper_char s"

section \<open>Floating point\<close>

text \<open>
  A \<open>float64\<close> by its value: not a number, the infinities, negative zero, or the rational number
  that a finite value denotes. Comparisons follow IEEE 754: every comparison with NaN is false.
\<close>

datatype float64 = NaN | PosInf | NegInf | NegZero | Fin rat

fun float_lt :: "float64 \<Rightarrow> rat \<Rightarrow> bool" where
  "float_lt NaN c = False"
| "float_lt PosInf c = False"
| "float_lt NegInf c = True"
| "float_lt NegZero c = (0 < c)"
| "float_lt (Fin r) c = (r < c)"

fun float_gt :: "float64 \<Rightarrow> rat \<Rightarrow> bool" where
  "float_gt NaN c = False"
| "float_gt PosInf c = True"
| "float_gt NegInf c = False"
| "float_gt NegZero c = (c < 0)"
| "float_gt (Fin r) c = (c < r)"

text \<open>Round a non-negative rational to the nearest integer, a tie to the even one.\<close>

definition round_half_even :: "rat \<Rightarrow> int" where
  "round_half_even x =
     (let f = \<lfloor>x\<rfloor>; d = x - of_int f in
      if d < 1 / 2 then f else if d > 1 / 2 then f + 1 else if even f then f else f + 1)"

text \<open>\<open>strconv.FormatFloat(x, 'f', 2, 64)\<close>.\<close>

definition two_decimals :: "nat \<Rightarrow> string" where
  "two_decimals n = nat_digits (n div 100) @ ''.'' @ [digit_char (n mod 100 div 10), digit_char (n mod 10)]"

fun format_float2 :: "float64 \<Rightarrow> string" where
  "format_float2 NaN = ''NaN''"
| "format_float2 PosInf = ''+Inf''"
| "format_float2 NegInf = ''-Inf''"
| "format_float2 NegZero = ''-0.00''"
| "format_float2 (Fin r) =
     (if r < 0 then ''-'' else '''') @ two_decimals (nat (round_half_even (\<bar>r\<bar> * 100)))"

text \<open>The values a check \<open>x < 0.0 || x > hi\<close> lets through: the range, and NaN.\<close>

lemma float_range_check:
  "\<not> (float_lt x 0 \<or> float_gt x hi) \<longleftrightarrow>
    x = NaN \<or> (x = NegZero \<and> 0 \<le> hi) \<or> (\<exists>r. x = Fin r \<and> 0 \<le> r \<and> r \<le> hi)"
  by (cases x) auto

lemma round_half_even_bounds:
  assumes "0 \<le> x" and "x \<le> of_int n" shows "0 \<le> round_half_even x \<and> round_half_even x \<le> n"
proof -
  have f: "0 \<le> \<lfloor>x\<rfloor>" "\<lfloor>x\<rfloor> \<le> n" using assms by (simp_all add: floor_le_iff le_floor_iff)
  show ?thesis
  proof (cases "\<lfloor>x\<rfloor> = n")
    case True
    then have "x = of_int n" using assms(2) by (metis of_int_floor_le antisym)
    then show ?thesis using f by (simp add: round_half_even_def)
  next
    case False
    then show ?thesis using f by (auto simp: round_half_even_def Let_def)
  qed
qed

lemma round_half_even_error: "\<bar>of_int (round_half_even x) - x\<bar> \<le> 1 / 2"
proof -
  define f where "f = \<lfloor>x\<rfloor>"
  have "of_int f \<le> x" "x < of_int f + 1" unfolding f_def by linarith+
  then show ?thesis
    unfolding round_half_even_def Let_def f_def [symmetric] by (auto simp: abs_if)
qed

end
