(* ===== verification/Regex.thy ===== *)
theory Regex
  imports GoStrings
begin

text \<open>
  Go's \<open>regexp\<close> as far as the two fixed patterns of the program need it: an abstract syntax, the
  ends of the matches at a position in the order of preference of leftmost-first matching
  (\<open>ends\<close>: the left branch of an alternative first, repetition greedy), and \<open>Regexp.FindString\<close>
  (\<open>find_string\<close>). \<open>in_lang\<close> is the declarative language; \<open>ends_iff\<close> relates the two.
\<close>

datatype re = REps | RChr "char \<Rightarrow> bool" | RCat re re | RAlt re re | RStar re

definition RPlus :: "re \<Rightarrow> re" where "RPlus r = RCat r (RStar r)"
definition ROpt :: "re \<Rightarrow> re" where "ROpt r = RAlt r REps"

primrec RStr :: "string \<Rightarrow> re" where
  "RStr [] = REps"
| "RStr (c # s) = RCat (RChr (\<lambda>x. x = c)) (RStr s)"

function ends :: "re \<Rightarrow> string \<Rightarrow> nat list" where
  "ends REps s = [0]"
| "ends (RChr P) s = (case s of c # _ \<Rightarrow> if P c then [1] else [] | [] \<Rightarrow> [])"
| "ends (RCat r q) s = concat (map (\<lambda>n. map (\<lambda>m. n + m) (ends q (drop n s))) (ends r s))"
| "ends (RAlt r q) s = ends r s @ ends q s"
| "ends (RStar r) s =
     concat (map (\<lambda>n. if 0 < n \<and> n \<le> length s
                       then map (\<lambda>m. n + m) (ends (RStar r) (drop n s)) else []) (ends r s)) @ [0]"
  by pat_completeness auto
termination
  by (relation "measures [\<lambda>(r, s). size r, \<lambda>(r, s). length s]") auto

fun find_string :: "re \<Rightarrow> string \<Rightarrow> string" where
  "find_string r s =
     (case ends r s of
        n # _ \<Rightarrow> take n s
      | [] \<Rightarrow> (case s of [] \<Rightarrow> [] | c # s' \<Rightarrow> find_string r s'))"

declare find_string.simps [simp del] ends.simps(5) [simp del]

lemma ends_star_chr_simps:
  "ends (RStar (RChr P)) [] = [0]"
  "ends (RStar (RChr P)) (c # s) =
     (if P c then map Suc (ends (RStar (RChr P)) s) else []) @ [0]"
  by (subst ends.simps(5), simp) (subst ends.simps(5), simp)

section \<open>The language\<close>

inductive in_lang :: "re \<Rightarrow> string \<Rightarrow> bool" where
  lang_eps: "in_lang REps []"
| lang_chr: "P c \<Longrightarrow> in_lang (RChr P) [c]"
| lang_cat: "in_lang r u \<Longrightarrow> in_lang q v \<Longrightarrow> in_lang (RCat r q) (u @ v)"
| lang_alt1: "in_lang r u \<Longrightarrow> in_lang (RAlt r q) u"
| lang_alt2: "in_lang q u \<Longrightarrow> in_lang (RAlt r q) u"
| lang_star0: "in_lang (RStar r) []"
| lang_star1: "in_lang r u \<Longrightarrow> in_lang (RStar r) v \<Longrightarrow> in_lang (RStar r) (u @ v)"

inductive_simps in_lang_eps [simp]: "in_lang REps w"
inductive_simps in_lang_chr [simp]: "in_lang (RChr P) w"
inductive_simps in_lang_cat: "in_lang (RCat r q) w"
inductive_simps in_lang_alt [simp]: "in_lang (RAlt r q) w"

lemma ends_sound: "n \<in> set (ends r s) \<Longrightarrow> n \<le> length s \<and> in_lang r (take n s)"
proof (induction r s arbitrary: n rule: ends.induct)
  case (1 s)
  then show ?case by simp
next
  case (2 P s)
  then show ?case by (auto split: list.splits if_splits)
next
  case (3 r q s)
  from "3.prems" obtain a b where ab: "a \<in> set (ends r s)" "b \<in> set (ends q (drop a s))" "n = a + b"
    by auto
  from "3.IH"(1) [OF ab(1)] "3.IH"(2) [OF ab(1,2)] show ?case
    by (auto simp: ab(3) take_add intro: lang_cat)
next
  case (4 r q s)
  then show ?case by auto
next
  case (5 r s)
  have "n \<in> set (concat (map (\<lambda>n. if 0 < n \<and> n \<le> length s
      then map (\<lambda>m. n + m) (ends (RStar r) (drop n s)) else []) (ends r s)) @ [0])"
    using "5.prems" by (subst (asm) ends.simps(5))
  then consider "n = 0"
    | a b where "a \<in> set (ends r s)" "0 < a \<and> a \<le> length s" "b \<in> set (ends (RStar r) (drop a s))" "n = a + b"
    by (auto split: if_splits)
  then show ?case
  proof cases
    case 1
    then show ?thesis by (simp add: lang_star0)
  next
    case 2
    from "5.IH"(1) [OF 2(1)] "5.IH"(2) [OF 2(1,2,3)] show ?thesis
      by (auto simp: 2(4) take_add intro: lang_star1)
  qed
qed

lemma ends_complete: "in_lang r w \<Longrightarrow> length w \<in> set (ends r (w @ v))"
proof (induction arbitrary: v rule: in_lang.induct)
  case (lang_cat r u q w)
  have "length u \<in> set (ends r (u @ (w @ v)))" by (rule lang_cat.IH(1))
  moreover have "length w \<in> set (ends q (drop (length u) (u @ (w @ v))))"
    using lang_cat.IH(2) by simp
  ultimately show ?case by (auto simp del: drop_append)
next
  case (lang_star1 r u w)
  show ?case
  proof (cases "u = []")
    case True
    then show ?thesis using lang_star1.IH(2) by simp
  next
    case False
    have "length u \<in> set (ends r (u @ (w @ v)))" by (rule lang_star1.IH(1))
    moreover have "length w \<in> set (ends (RStar r) (drop (length u) (u @ (w @ v))))"
      using lang_star1.IH(2) by simp
    ultimately show ?thesis using False
      by (subst ends.simps(5)) (auto simp del: drop_append intro!: bexI [of _ "length u"])
  qed
next
  case (lang_star0 r)
  show ?case by (subst ends.simps(5)) simp
qed auto

theorem ends_iff: "n \<in> set (ends r s) \<longleftrightarrow> n \<le> length s \<and> in_lang r (take n s)"
proof
  assume "n \<in> set (ends r s)"
  then show "n \<le> length s \<and> in_lang r (take n s)" by (rule ends_sound)
next
  assume "n \<le> length s \<and> in_lang r (take n s)"
  then show "n \<in> set (ends r s)"
    using ends_complete [of r "take n s" "drop n s"] by (simp add: min.absorb2)
qed

lemma in_lang_RStr [simp]: "in_lang (RStr t) w \<longleftrightarrow> w = t"
  by (induction t arbitrary: w) (auto simp: in_lang_cat)

lemma in_lang_star_chr: "in_lang (RStar (RChr P)) w \<longleftrightarrow> list_all P w"
proof
  show "list_all P w \<Longrightarrow> in_lang (RStar (RChr P)) w"
  proof (induction w)
    case (Cons c w)
    then show ?case using lang_star1 [of "RChr P" "[c]" w] by simp
  qed (simp add: lang_star0)
next
  have "in_lang r w \<Longrightarrow> r = RStar (RChr P) \<Longrightarrow> list_all P w" for r
    by (induction rule: in_lang.induct) auto
  then show "in_lang (RStar (RChr P)) w \<Longrightarrow> list_all P w" by blast
qed

lemma in_lang_plus_chr: "in_lang (RPlus (RChr P)) w \<longleftrightarrow> w \<noteq> [] \<and> list_all P w"
proof (cases w)
  case (Cons c u)
  have "P c \<Longrightarrow> list_all P u \<Longrightarrow> in_lang (RCat (RChr P) (RStar (RChr P))) ([c] @ u)"
    by (intro lang_cat) (auto simp: in_lang_star_chr)
  then show ?thesis by (auto simp: Cons RPlus_def in_lang_cat in_lang_star_chr)
qed (simp add: RPlus_def in_lang_cat)

lemma in_lang_ROpt: "in_lang (ROpt r) w \<longleftrightarrow> in_lang r w \<or> w = []"
  by (simp add: ROpt_def)

section \<open>When FindString returns the whole string\<close>

lemma length_find_string: "length (find_string r s) \<le> length s"
  by (induction s) (auto simp: find_string.simps [of r] split: list.splits)

lemma find_string_whole_start:
  assumes "s \<noteq> []" and "find_string r s = s"
  shows "\<exists>ns. ends r s = length s # ns"
proof -
  obtain c s' where s: "s = c # s'" using assms(1) by (cases s) auto
  show ?thesis
  proof (cases "ends r s")
    case Nil
    then have "find_string r s = find_string r s'" by (subst find_string.simps) (simp add: s)
    with length_find_string [of r s'] assms(2) have "length s \<le> length s'" by simp
    then show ?thesis by (simp add: s)
  next
    case (Cons n ns)
    then have "take n s = s" using assms(2) by (simp add: find_string.simps [of r s])
    moreover have "n \<le> length s" using Cons ends_sound [of n r s] by simp
    ultimately have "n = length s" by (metis length_take min.absorb2)
    with Cons show ?thesis by simp
  qed
qed

lemma find_string_whole:
  "s \<noteq> [] \<Longrightarrow> find_string r s = s \<longleftrightarrow> (\<exists>ns. ends r s = length s # ns)"
  using find_string_whole_start [of s r] by (auto simp: find_string.simps [of r s])

text \<open>If no proper prefix of a word of the language is in the language, preference is immaterial.\<close>

lemma find_string_prefix_free:
  assumes "s \<noteq> []" and "\<And>n. n < length s \<Longrightarrow> in_lang r s \<Longrightarrow> \<not> in_lang r (take n s)"
  shows "find_string r s = s \<longleftrightarrow> in_lang r s"
proof
  assume "find_string r s = s"
  then obtain ns where "ends r s = length s # ns"
    using assms(1) by (auto simp: find_string_whole)
  then show "in_lang r s" using ends_sound [of "length s" r s] by simp
next
  assume l: "in_lang r s"
  then have "length s \<in> set (ends r s)" by (simp add: ends_iff)
  moreover have "\<forall>n \<in> set (ends r s). n = length s"
    using ends_sound [of _ r s] assms(2) l by (metis le_neq_implies_less)
  ultimately show "find_string r s = s"
    using assms(1) by (cases "ends r s") (auto simp: find_string_whole)
qed

text \<open>Greedy repetition of a character class takes the longest run.\<close>

lemma ends_star_chr: "\<exists>ns. ends (RStar (RChr P)) s = length (takeWhile P s) # ns"
proof (induction s)
  case Nil
  then show ?case by (simp add: ends_star_chr_simps)
next
  case (Cons c s)
  then show ?case by (auto simp: ends_star_chr_simps)
qed

end
