(* ===== verification/NetAddr.thy ===== *)
theory NetAddr
  imports GoStrings
begin

text \<open>
  The part of Go's \<open>net\<close> and \<open>net/netip\<close> packages that \<open>util.ParseCIDR\<close> and the command
  builders use: \<open>net.ParseCIDR\<close> and \<open>(*net.IPNet).String\<close>. An address is its list of bytes, 4 or
  16 of them; a network is a masked address and the length of its prefix.
\<close>

record ip_net =
  ip_bytes :: "nat list"
  ip_prefix :: nat

section \<open>Parsing\<close>

definition parse_octet :: "string \<Rightarrow> nat option" where
  "parse_octet s =
     (if s \<noteq> [] \<and> list_all is_digit s \<and> (length s = 1 \<or> hd s \<noteq> CHR ''0'') \<and> digits_val 0 s \<le> 255
      then Some (nat (digits_val 0 s)) else None)"

definition parse_ipv4 :: "string \<Rightarrow> nat list option" where
  "parse_ipv4 s =
     (case map parse_octet (split_on (CHR ''.'') s) of
        [Some a, Some b, Some c, Some d] \<Rightarrow> Some [a, b, c, d]
      | _ \<Rightarrow> None)"

definition hex_val :: "char \<Rightarrow> nat option" where
  "hex_val c =
     (if CHR ''0'' \<le> c \<and> c \<le> CHR ''9'' then Some (of_char c - 48)
      else if CHR ''a'' \<le> c \<and> c \<le> CHR ''f'' then Some (of_char c - 87)
      else if CHR ''A'' \<le> c \<and> c \<le> CHR ''F'' then Some (of_char c - 55)
      else None)"

definition is_hex :: "char \<Rightarrow> bool" where "is_hex c \<longleftrightarrow> hex_val c \<noteq> None"

definition hex_group :: "string \<Rightarrow> nat" where
  "hex_group s = fold (\<lambda>c acc. acc * 16 + (case hex_val c of Some d \<Rightarrow> d | None \<Rightarrow> 0)) s 0"

text \<open>
  The loop of \<open>netip.parseIPv6\<close> over the groups: \<open>bs\<close> are the bytes read, \<open>el\<close> the position of the
  ellipsis. \<open>None\<close> is an error; otherwise the rest of the text, the bytes and the ellipsis.
\<close>

function ipv6_groups ::
  "nat list \<Rightarrow> nat option \<Rightarrow> string \<Rightarrow> (string \<times> nat list \<times> nat option) option" where
  "ipv6_groups bs el s =
     (if 16 \<le> length bs then Some (s, bs, el)
      else
        let h = takeWhile is_hex s; r = dropWhile is_hex s in
        if h = [] \<or> 4 < length h then None
        else case r of
          [] \<Rightarrow> Some ([], bs @ [hex_group h div 256, hex_group h mod 256], el)
        | c # r' \<Rightarrow>
            if c = CHR ''.'' then
              (if (el = None \<and> length bs \<noteq> 12) \<or> 16 < length bs + 4 then None
               else map_option (\<lambda>v4. ([], bs @ v4, el)) (parse_ipv4 s))
            else if c \<noteq> CHR '':'' \<or> r' = [] then None
            else
              let bs' = bs @ [hex_group h div 256, hex_group h mod 256] in
              if hd r' = CHR '':'' then
                (if el \<noteq> None then None
                 else if tl r' = [] then Some ([], bs', Some (length bs'))
                 else ipv6_groups bs' (Some (length bs')) (tl r'))
              else ipv6_groups bs' el r')"
  by pat_completeness auto
termination
proof (relation "measure (\<lambda>(bs, el, s). length s)", goal_cases)
  case 1
  then show ?case by simp
next
  case (2 bs el s h r c r')
  then have "length (c # r') \<le> length s" by (metis length_dropWhile_le)
  then have "length (tl r') < length s" by simp
  with 2 show ?case by simp
next
  case (3 bs el s h r c r')
  then have "length (c # r') \<le> length s" by (metis length_dropWhile_le)
  with 3 show ?case by simp
qed

declare ipv6_groups.simps [simp del]

definition parse_ipv6 :: "string \<Rightarrow> nat list option" where
  "parse_ipv6 s =
     (if CHR ''%'' \<in> set s then None \<comment> \<open>a zone: \<open>net.ParseCIDR\<close> refuses it\<close>
      else if take 2 s = ''::'' \<and> length s = 2 then Some (replicate 16 0)
      else
        let (el, s') = (if take 2 s = ''::'' then (Some 0, drop 2 s) else (None, s)) in
        case ipv6_groups [] el s' of
          None \<Rightarrow> None
        | Some (rest, bs, el') \<Rightarrow>
            if rest \<noteq> [] then None
            else if length bs < 16 then
              (case el' of
                 None \<Rightarrow> None
               | Some e \<Rightarrow> Some (take e bs @ replicate (16 - length bs) 0 @ drop e bs))
            else if el' \<noteq> None then None
            else Some bs)"

text \<open>\<open>netip.ParseAddr\<close>: the first of \<open>.\<close>, \<open>:\<close> and \<open>%\<close> decides the family.\<close>

definition parse_addr :: "string \<Rightarrow> nat list option" where
  "parse_addr s =
     (case find (\<lambda>c. c = CHR ''.'' \<or> c = CHR '':'' \<or> c = CHR ''%'') s of
        Some c \<Rightarrow> if c = CHR ''.'' then parse_ipv4 s else if c = CHR '':'' then parse_ipv6 s else None
      | None \<Rightarrow> None)"

text \<open>\<open>dtoi\<close>: decimal digits only, below \<open>0xFFFFFF\<close>.\<close>

definition parse_prefix :: "string \<Rightarrow> nat option" where
  "parse_prefix s =
     (if s \<noteq> [] \<and> list_all is_digit s \<and> digits_val 0 s < 16777215
      then Some (nat (digits_val 0 s)) else None)"

text \<open>The byte mask of a prefix, and \<open>IP.Mask\<close>.\<close>

fun mask_bytes :: "nat \<Rightarrow> nat list \<Rightarrow> nat list" where
  "mask_bytes n [] = []"
| "mask_bytes n (b # bs) =
     (if 8 \<le> n then b # mask_bytes (n - 8) bs
      else b div 2 ^ (8 - n) * 2 ^ (8 - n) # mask_bytes 0 bs)"

definition net_parse_cidr :: "string \<Rightarrow> error + ip_net" where
  "net_parse_cidr s =
     (case split_n (CHR ''/'') 2 s of
        [astr, mstr] \<Rightarrow>
          (case (parse_addr astr, parse_prefix mstr) of
             (Some bs, Some n) \<Rightarrow>
               if n \<le> 8 * length bs then Inr \<lparr>ip_bytes = mask_bytes n bs, ip_prefix = n\<rparr>
               else Inl (ErrExt ''invalid CIDR address'')
           | _ \<Rightarrow> Inl (ErrExt ''invalid CIDR address''))
      | _ \<Rightarrow> Inl (ErrExt ''invalid CIDR address''))"

section \<open>Printing\<close>

definition dotted :: "nat list \<Rightarrow> string" where
  "dotted bs = join_with ''.'' (map nat_digits bs)"

fun hex_digits :: "nat \<Rightarrow> string" where
  "hex_digits n = (if n < 16 then [''0123456789abcdef'' ! n] else hex_digits (n div 16) @ [''0123456789abcdef'' ! (n mod 16)])"

declare hex_digits.simps [simp del]

fun v6_groups :: "nat list \<Rightarrow> nat list" where
  "v6_groups (a # b # bs) = (a * 256 + b) # v6_groups bs"
| "v6_groups bs = []"

definition zero_run :: "nat list \<Rightarrow> nat" where
  "zero_run gs = length (takeWhile (\<lambda>g. g = 0) gs)"

text \<open>The first longest run of at least two zero groups: its start and its length.\<close>

fun best_run :: "nat \<Rightarrow> nat list \<Rightarrow> nat \<times> nat \<Rightarrow> nat \<times> nat" where
  "best_run i [] best = best"
| "best_run i (g # gs) best =
     (let l = zero_run (g # gs) in
      best_run (Suc i) gs (if 2 \<le> l \<and> snd best < l then (i, l) else best))"

definition v6_string :: "nat list \<Rightarrow> string" where
  "v6_string bs =
     (let gs = v6_groups bs; (z, l) = best_run 0 gs (0, 0); hx = map hex_digits gs in
      if l = 0 then join_with '':'' hx
      else join_with '':'' (take z hx) @ ''::'' @ join_with '':'' (drop (z + l) hx))"

definition v4_in_v6 :: "nat list \<Rightarrow> bool" where
  "v4_in_v6 bs \<longleftrightarrow> length bs = 16 \<and> take 10 bs = replicate 10 0 \<and> take 2 (drop 10 bs) = [255, 255]"

definition ipnet_string :: "ip_net \<Rightarrow> string" where
  "ipnet_string n =
     (if length (ip_bytes n) = 4 then dotted (ip_bytes n) @ ''/'' @ nat_digits (ip_prefix n)
      else if v4_in_v6 (ip_bytes n) then
        dotted (drop 12 (ip_bytes n)) @ ''/'' @ nat_digits (ip_prefix n - 96)
      else v6_string (ip_bytes n) @ ''/'' @ nat_digits (ip_prefix n))"

section \<open>Facts\<close>

lemma length_mask_bytes [simp]: "length (mask_bytes n bs) = length bs"
  by (induction n bs rule: mask_bytes.induct) auto

lemma mask_bytes_full: "8 * length bs \<le> n \<Longrightarrow> mask_bytes n bs = bs"
  by (induction n bs rule: mask_bytes.induct) auto

lemma mask_bytes_idem [simp]: "mask_bytes n (mask_bytes n bs) = mask_bytes n bs"
  by (induction n bs rule: mask_bytes.induct) auto

lemma digit_not_sep: "is_digit c \<Longrightarrow> c \<noteq> CHR ''.'' \<and> c \<noteq> CHR '':'' \<and> c \<noteq> CHR ''/'' \<and> c \<noteq> CHR ''%''"
  by (auto simp: is_digit_def)

lemma nat_digits_set: "c \<in> set (nat_digits n) \<Longrightarrow> is_digit c"
  using nat_digits_correct [of n] by (auto simp: list_all_iff)

lemma length_nat_digits_1: "length (nat_digits n) = 1 \<longleftrightarrow> n < 10"
proof (cases "n < 10")
  case True
  then show ?thesis by (subst nat_digits.simps) simp
next
  case False
  then show ?thesis
    using nat_digits_correct [of "n div 10"] by (subst nat_digits.simps) simp
qed

lemma hd_nat_digits_0: "10 \<le> n \<Longrightarrow> hd (nat_digits n) \<noteq> CHR ''0''"
proof (induction n rule: nat_digits.induct)
  case (1 n)
  then have e: "nat_digits n = nat_digits (n div 10) @ [digit_char (n mod 10)]"
    by (subst nat_digits.simps) simp
  have ne: "nat_digits (n div 10) \<noteq> []" using nat_digits_correct by blast
  show ?case
  proof (cases "10 \<le> n div 10")
    case True
    with 1 e ne show ?thesis by simp
  next
    case False
    then have k: "n div 10 < 10" "0 < n div 10" using 1 by (auto simp: div_greater_zero_iff)
    then have "nat_digits (n div 10) = [digit_char (n div 10)]" by (subst nat_digits.simps) simp
    moreover have "digit_val (digit_char (n div 10)) = int (n div 10)" using k digit_char_digit by blast
    then have "digit_char (n div 10) \<noteq> CHR ''0''" using k by (auto simp: digit_val_def)
    ultimately show ?thesis using e by simp
  qed
qed

lemma parse_octet_nat_digits: "n \<le> 255 \<Longrightarrow> parse_octet (nat_digits n) = Some n"
  using nat_digits_correct [of n] length_nat_digits_1 [of n] hd_nat_digits_0 [of n]
  by (cases "n < 10") (auto simp: parse_octet_def)

lemma parse_prefix_nat_digits: "n < 16777215 \<Longrightarrow> parse_prefix (nat_digits n) = Some n"
  using nat_digits_correct [of n] by (simp add: parse_prefix_def)

lemma split_dotted:
  "split_on (CHR ''.'') (dotted [a, b, c, d]) = map nat_digits [a, b, c, d]"
  unfolding dotted_def
  by (rule split_join_on) (auto dest: nat_digits_set digit_not_sep)

lemma parse_ipv4_dotted:
  "\<forall>x \<in> set [a, b, c, d]. x \<le> 255 \<Longrightarrow> parse_ipv4 (dotted [a, b, c, d]) = Some [a, b, c, d]"
  unfolding parse_ipv4_def split_dotted by (simp add: parse_octet_nat_digits)

lemma dotted_chars: "x \<in> set (dotted [a, b, c, d]) \<Longrightarrow> is_digit x \<or> x = CHR ''.''"
  by (auto simp: dotted_def dest: nat_digits_set)

lemma find_dotted:
  "find (\<lambda>c. c = CHR ''.'' \<or> c = CHR '':'' \<or> c = CHR ''%'') (dotted [a, b, c, d]) = Some (CHR ''.'')"
proof -
  have skip: "\<forall>x \<in> set u. \<not> Q x \<Longrightarrow> Q y \<Longrightarrow> find Q (u @ y # v) = Some y" for u v :: string and y Q
    by (induction u) auto
  show ?thesis
    unfolding dotted_def by (simp, rule skip) (auto dest: nat_digits_set digit_not_sep)
qed

lemma net_parse_cidr_dotted:
  assumes "\<forall>x \<in> set [a, b, c, d]. x \<le> 255" and "n \<le> 32"
  shows "net_parse_cidr (dotted [a, b, c, d] @ ''/'' @ nat_digits n) =
    Inr \<lparr>ip_bytes = mask_bytes n [a, b, c, d], ip_prefix = n\<rparr>"
proof -
  have "CHR ''/'' \<notin> set (dotted [a, b, c, d])"
    using dotted_chars digit_not_sep by fastforce
  then have "split_n (CHR ''/'') 2 (dotted [a, b, c, d] @ CHR ''/'' # nat_digits n)
      = [dotted [a, b, c, d], nat_digits n]"
    by (simp add: numeral_2_eq_2 split_n_append)
  moreover have "parse_addr (dotted [a, b, c, d]) = Some [a, b, c, d]"
    using assms(1) unfolding parse_addr_def find_dotted by (simp add: parse_ipv4_dotted)
  ultimately show ?thesis
    using assms(2) by (simp add: net_parse_cidr_def parse_prefix_nat_digits)
qed

end
