(* ===== verification/Util.thy ===== *)
theory Util
  imports Regex NetAddr
begin

text \<open>
  \<open>pkg/util/util.go\<close>: the guards between the command line and the \<open>tc\<close>/\<open>iptables\<close> commands.
\<close>

section \<open>Interface names\<close>

definition is_letter :: "char \<Rightarrow> bool" where
  "is_letter c \<longleftrightarrow> (CHR ''a'' \<le> c \<and> c \<le> CHR ''z'') \<or> (CHR ''A'' \<le> c \<and> c \<le> CHR ''Z'')"

definition is_iface_char :: "char \<Rightarrow> bool" where
  "is_iface_char c \<longleftrightarrow> is_letter c \<or> is_digit c \<or> c \<in> set ''.:_-''"

definition reInterface :: re where
  "reInterface = RCat (RChr is_letter) (RStar (RChr is_iface_char))"

definition reInterface_string :: string where
  "reInterface_string = ''[a-zA-Z][a-zA-Z0-9.:_-]*''"

definition ValidateInterfaceName :: "string \<Rightarrow> error option" where
  "ValidateInterfaceName name =
     (if name = '''' \<or> name \<noteq> find_string reInterface name
      then Some (ErrNew (''bad network interface name: must match '%s'' @ [CHR 0x27]) [reInterface_string])
      else None)"

definition iface_ok :: "string \<Rightarrow> bool" where
  "iface_ok name \<longleftrightarrow> (case name of [] \<Rightarrow> False | c # s \<Rightarrow> is_letter c \<and> list_all is_iface_char s)"

lemma ends_reInterface:
  "is_letter c \<Longrightarrow> \<exists>ns. ends reInterface (c # s) = Suc (length (takeWhile is_iface_char s)) # ns"
  using ends_star_chr [of is_iface_char s] by (auto simp: reInterface_def)

lemma find_reInterface_whole:
  "find_string reInterface (c # s) = c # s \<longleftrightarrow> is_letter c \<and> list_all is_iface_char s"
proof (cases "is_letter c")
  case True
  then obtain ns where "ends reInterface (c # s) = Suc (length (takeWhile is_iface_char s)) # ns"
    using ends_reInterface by blast
  moreover have "length (takeWhile is_iface_char s) = length s \<longleftrightarrow> list_all is_iface_char s"
    by (metis takeWhile_eq_all_conv takeWhile_eq_take length_takeWhile_le take_all list_all_iff le_refl)
  ultimately show ?thesis using True by (simp add: find_string_whole)
next
  case False
  then show ?thesis by (simp add: find_string_whole) (simp add: reInterface_def)
qed

lemma ValidateInterfaceName_iff: "ValidateInterfaceName name = None \<longleftrightarrow> iface_ok name"
proof (cases name)
  case (Cons c s)
  then show ?thesis
    using find_reInterface_whole [of c s] by (auto simp: ValidateInterfaceName_def iface_ok_def)
qed (simp add: ValidateInterfaceName_def iface_ok_def)

section \<open>Ports\<close>

definition verifyPort :: "string \<Rightarrow> error option" where
  "verifyPort port =
     (if port = '''' then None
      else case parse_int port of
        Inl err \<Rightarrow> Some (ErrWrap ''failed to parse port as number: %w'' [] err)
      | Inr portNum \<Rightarrow>
          if portNum < 0 \<or> portNum > 65535
          then Some (ErrNew ''port is either below 0 or greater than 65535: %s'' [port])
          else None)"

text \<open>The loop over the ports: the first error is returned.\<close>

fun verify_ports :: "string list \<Rightarrow> error option" where
  "verify_ports [] = None"
| "verify_ports (port # ports) =
     (case verifyPort port of
        Some err \<Rightarrow> Some (ErrWrap ''invalid port specified: %w'' [] err)
      | None \<Rightarrow> verify_ports ports)"

definition GetPorts :: "string \<Rightarrow> error + string list" where
  "GetPorts ports =
     (let portList = split_on (CHR '','') ports in
      if hd portList = '''' then Inr []
      else case verify_ports portList of
        Some err \<Rightarrow> Inl err
      | None \<Rightarrow> Inr portList)"

definition port_ok :: "string \<Rightarrow> bool" where
  "port_ok p \<longleftrightarrow> p = '''' \<or> (\<exists>n. parse_int p = Inr n \<and> 0 \<le> n \<and> n \<le> 65535)"

lemma verifyPort_iff: "verifyPort p = None \<longleftrightarrow> port_ok p"
  by (auto simp: verifyPort_def port_ok_def split: sum.splits)

lemma verify_ports_iff: "verify_ports ps = None \<longleftrightarrow> list_all port_ok ps"
  by (induction ps) (auto simp: verifyPort_iff [symmetric] split: option.splits)

lemma GetPorts_ok:
  "GetPorts s = Inr ps \<longleftrightarrow>
    (if hd (split_on (CHR '','') s) = '''' then ps = []
     else ps = split_on (CHR '','') s \<and> list_all port_ok ps)"
  by (auto simp: GetPorts_def Let_def verify_ports_iff [symmetric] split: option.splits)

section \<open>Networks\<close>

definition cidrNotation :: "string \<Rightarrow> string" where
  "cidrNotation ip = (if \<not> strings_contains ip ''/'' then ip @ ''/32'' else ip)"

definition ParseCIDR :: "string \<Rightarrow> error + ip_net" where
  "ParseCIDR ip =
     (let cidr = cidrNotation ip in
      case net_parse_cidr cidr of
        Inl err \<Rightarrow> Inl (ErrWrap ''failed to parse CIDR: %w'' [] err)
      | Inr ipNet \<Rightarrow> Inr ipNet)"

lemma strings_contains_char: "strings_contains s [c] \<longleftrightarrow> c \<in> set s"
  by (induction s) auto

lemma parse_prefix_32: "parse_prefix ''32'' = Some 32"
  by code_simp

lemma net_parse_cidr_prefix:
  "CHR ''/'' \<notin> set s \<Longrightarrow> net_parse_cidr (s @ ''/'' @ m) = Inr net \<Longrightarrow> parse_prefix m = Some (ip_prefix net)"
  by (auto simp: net_parse_cidr_def numeral_2_eq_2 split_n_append split: option.splits if_splits)

lemma ParseCIDR_no_slash:
  assumes "CHR ''/'' \<notin> set s" and "ParseCIDR s = Inr net" shows "ip_prefix net = 32"
proof -
  have "net_parse_cidr (s @ ''/'' @ ''32'') = Inr net"
    using assms by (auto simp: ParseCIDR_def cidrNotation_def strings_contains_char split: sum.splits)
  then have "parse_prefix ''32'' = Some (ip_prefix net)" by (rule net_parse_cidr_prefix [OF assms(1)])
  then show ?thesis by (simp add: parse_prefix_32)
qed

lemma nat_digits_32: "nat_digits 32 = ''32''"
  by code_simp

lemma ParseCIDR_dotted:
  assumes "\<forall>x \<in> set [a, b, c, d]. x \<le> 255"
  shows "ParseCIDR (dotted [a, b, c, d]) = Inr \<lparr>ip_bytes = [a, b, c, d], ip_prefix = 32\<rparr>"
proof -
  have "CHR ''/'' \<notin> set (dotted [a, b, c, d])" using dotted_chars digit_not_sep by fastforce
  then show ?thesis
    using net_parse_cidr_dotted [OF assms, of 32]
    by (simp add: ParseCIDR_def cidrNotation_def strings_contains_char nat_digits_32 mask_bytes_full)
qed

lemma ParseCIDR_dotted_prefix:
  assumes "\<forall>x \<in> set [a, b, c, d]. x \<le> 255" and "n \<le> 32"
  shows "ParseCIDR (dotted [a, b, c, d] @ ''/'' @ nat_digits n) =
    Inr \<lparr>ip_bytes = mask_bytes n [a, b, c, d], ip_prefix = n\<rparr>"
  using net_parse_cidr_dotted [OF assms]
  by (simp add: ParseCIDR_def cidrNotation_def strings_contains_char)

lemma mask_bytes_le: "\<forall>x \<in> set bs. x \<le> 255 \<Longrightarrow> \<forall>x \<in> set (mask_bytes n bs). x \<le> 255"
  by (induction n bs rule: mask_bytes.induct)
     (auto intro: order.trans [OF div_times_less_eq_dividend])

lemma length_4_cases: "length xs = 4 \<Longrightarrow> \<exists>a b c d. xs = [a, b, c, d]"
  by (auto simp: length_Suc_conv eval_nat_numeral)

lemma length_4_list: "length [a, b, c, d] = 4"
  by simp

text \<open>Parsing, printing and parsing again an IPv4 network gives the same network.\<close>

lemma ParseCIDR_roundtrip:
  assumes "\<forall>x \<in> set [a, b, c, d]. x \<le> 255" and "n \<le> 32"
    and net: "ParseCIDR (dotted [a, b, c, d] @ ''/'' @ nat_digits n) = Inr net"
  shows "ParseCIDR (ipnet_string net) = Inr net"
proof -
  have net': "net = \<lparr>ip_bytes = mask_bytes n [a, b, c, d], ip_prefix = n\<rparr>"
    using net ParseCIDR_dotted_prefix [OF assms(1,2)] by simp
  obtain a' b' c' d' where m: "mask_bytes n [a, b, c, d] = [a', b', c', d']"
    using length_4_cases [of "mask_bytes n [a, b, c, d]"] length_mask_bytes [of n "[a, b, c, d]"]
    by (metis length_4_list)
  have le: "\<forall>x \<in> set [a', b', c', d']. x \<le> 255" using mask_bytes_le [OF assms(1), of n] m by simp
  have "mask_bytes n [a', b', c', d'] = [a', b', c', d']"
    using mask_bytes_idem [of n "[a, b, c, d]"] by (simp only: m)
  then show ?thesis
    using ParseCIDR_dotted_prefix [OF le assms(2)] by (simp add: net' m ipnet_string_def length_4_list del: mask_bytes.simps)
qed

section \<open>Properties\<close>

text \<open>C34: An interface name is accepted exactly when the whole of it is a letter followed by letters,
  digits and the characters \<open>. : _ -\<close> (so nothing that is accepted can carry a second shell or
  \<open>tc\<close> word), although the code only compares the name with the leftmost match of its pattern.\<close>

theorem ValidateInterfaceName_accepts:
  "ValidateInterfaceName name = None \<longleftrightarrow>
    (\<exists>c s. name = c # s \<and> is_letter c \<and> list_all is_iface_char s)"
  by (auto simp: ValidateInterfaceName_iff iface_ok_def split: list.splits)

text \<open>C35: \<open>GetPorts\<close> returns a list exactly in two cases: the text starts with an empty item, then the
  list is empty whatever follows; or every item is empty or a decimal number from 0 to 65535, then
  the items are returned as they are, and joining them with commas gives the input back.\<close>

theorem GetPorts_returns:
  "GetPorts s = Inr ps \<longleftrightarrow>
    (if hd (split_on (CHR '','') s) = '''' then ps = []
     else list_all port_ok (split_on (CHR '','') s) \<and> ps = split_on (CHR '','') s \<and>
          join_with '','' ps = s)"
  using join_split_on [of "CHR '',''" s] by (auto simp: GetPorts_ok)



text \<open>An address without a slash always gets the prefix length 32: one host for IPv4, and the
  upper 32 bits of the address for IPv6.\<close>

theorem ParseCIDR_default_prefix:
  assumes "CHR ''/'' \<notin> set s" and "ParseCIDR s = Inr net" shows "ip_prefix net = 32"
  using assms by (rule ParseCIDR_no_slash)

theorem ParseCIDR_default_prefix_witness:
  "ip_prefix \<lparr>ip_bytes = [0x20, 0x01, 0x0d, 0xb8, 0, 0, 0, 0, 0, 0, 0, 0, 0, 0, 0, 0], ip_prefix = 32\<rparr> = 32 \<and>
    ParseCIDR ''2001:db8::1'' =
      Inr \<lparr>ip_bytes = [0x20, 0x01, 0x0d, 0xb8, 0, 0, 0, 0, 0, 0, 0, 0, 0, 0, 0, 0], ip_prefix = 32\<rparr>"
proof -
  have p: "ParseCIDR ''2001:db8::1'' =
      Inr \<lparr>ip_bytes = [0x20, 0x01, 0x0d, 0xb8, 0, 0, 0, 0, 0, 0, 0, 0, 0, 0, 0, 0], ip_prefix = 32\<rparr>"
    by code_simp
  show ?thesis using ParseCIDR_default_prefix [OF _ p] p by simp
qed

end
