(* ===== verification/Tasks.thy ===== *)
theory Tasks
  imports GoBase
begin

text \<open>
  Goroutines. A \<open>task\<close> is what a closure handed to \<open>errgroup.Go\<close> does: atomic steps on the world
  (one call of the container client each), \<open>select\<close> statements and the returned error.
  \<^item> \<open>exec_task\<close> runs a task alone; the chooser picks the branch of each \<open>select\<close>.
  \<^item> \<open>par_step\<close> is one step of a group of tasks under any scheduler; \<open>par_run\<close> runs a given
    schedule. Every group comes to an end (\<open>wfp_par_step\<close>), with one result per task.
\<close>

section \<open>Tasks\<close>

datatype (dead 'w) task =
    Ret "error option"
  | Step "'w \<Rightarrow> 'w task \<times> 'w"
  | Select "'w task" "'w task list" \<comment> \<open>the first branch and the others: a \<open>select\<close> has a branch\<close>

definition perform :: "('w, 'a) state \<Rightarrow> ('a \<Rightarrow> 'w task) \<Rightarrow> 'w task" where
  "perform m k = Step (\<lambda>w. case run_state m w of (a, w') \<Rightarrow> (k a, w'))"

text \<open>
  One task alone, with a chooser for its selects. The definition by primitive recursion folds the
  continuations; the equations below it are the ones to use.
\<close>

primrec run_task :: "('w \<Rightarrow> nat \<Rightarrow> nat) \<Rightarrow> 'w task \<Rightarrow> 'w \<Rightarrow> error option \<times> 'w" where
  "run_task ch (Ret r) = (\<lambda>w. (r, w))"
| "run_task ch (Step f) = (\<lambda>w. case map_prod (run_task ch) id (f w) of (g, w') \<Rightarrow> g w')"
| "run_task ch (Select b bs) =
     (\<lambda>w. ((run_task ch b # map (run_task ch) bs) ! (ch w (Suc (length bs)) mod Suc (length bs))) w)"

lemma run_task_Step [simp]:
  "run_task ch (Step f) w = (case f w of (t, w') \<Rightarrow> run_task ch t w')"
  by (cases "f w") simp

lemma run_task_Select [simp]:
  "run_task ch (Select b bs) w =
     run_task ch ((b # bs) ! (ch w (Suc (length bs)) mod Suc (length bs))) w"
proof -
  have "ch w (Suc (length bs)) mod Suc (length bs) < length (b # bs)"
    by simp
  then have "map (run_task ch) (b # bs) ! (ch w (Suc (length bs)) mod Suc (length bs)) =
      run_task ch ((b # bs) ! (ch w (Suc (length bs)) mod Suc (length bs)))" by (rule nth_map)
  then show ?thesis by simp
qed

declare run_task.simps(2,3) [simp del]

lemma run_task_perform [simp]:
  "run_task ch (perform m k) w = (case run_state m w of (a, w') \<Rightarrow> run_task ch (k a) w')"
  by (simp add: perform_def split: prod.splits)

definition exec_task :: "('w \<Rightarrow> nat \<Rightarrow> nat) \<Rightarrow> 'w task \<Rightarrow> ('w, error option) state" where
  "exec_task ch t = State (run_task ch t)"

lemma run_exec_task [simp]: "run_state (exec_task ch t) w = run_task ch t w"
  by (simp add: exec_task_def)

text \<open>What a caller makes of the error that a task returns.\<close>

primrec map_result :: "(error option \<Rightarrow> error option) \<Rightarrow> 'w task \<Rightarrow> 'w task" where
  "map_result g (Ret r) = Ret (g r)"
| "map_result g (Step f) = Step (\<lambda>w. map_prod (map_result g) id (f w))"
| "map_result g (Select b bs) = Select (map_result g b) (map (map_result g) bs)"

lemma map_result_perform [simp]: "map_result g (perform m k) = perform m (\<lambda>a. map_result g (k a))"
  by (simp add: perform_def fun_eq_iff split: prod.splits)

declare map_result.simps(2) [simp del]

section \<open>Groups of tasks\<close>

text \<open>
  A group holds the tasks still running, the results in the order in which the tasks returned, and
  the world they share.
\<close>

record 'w group =
  running :: "'w task list"
  results :: "error option list"
  world :: 'w

inductive par_step :: "'w group \<Rightarrow> 'w group \<Rightarrow> bool" where
  par_act: "i < length (running g) \<Longrightarrow> running g ! i = Step f \<Longrightarrow> f (world g) = (t, w') \<Longrightarrow>
     par_step g (g\<lparr>running := (running g)[i := t], world := w'\<rparr>)"
| par_choose: "i < length (running g) \<Longrightarrow> running g ! i = Select b bs \<Longrightarrow> t \<in> set (b # bs) \<Longrightarrow>
     par_step g (g\<lparr>running := (running g)[i := t]\<rparr>)"
| par_return: "i < length (running g) \<Longrightarrow> running g ! i = Ret r \<Longrightarrow>
     par_step g (g\<lparr>running := take i (running g) @ drop (Suc i) (running g),
                   results := results g @ [r]\<rparr>)"

inductive_cases par_stepE: "par_step g g'"

definition start_group :: "'w task list \<Rightarrow> 'w \<Rightarrow> 'w group" where
  "start_group ts w = \<lparr>running = ts, results = [], world = w\<rparr>"

definition par_outcome :: "'w task list \<Rightarrow> 'w \<Rightarrow> error option list \<Rightarrow> 'w \<Rightarrow> bool" where
  "par_outcome ts w rs w' \<longleftrightarrow>
     par_step\<^sup>*\<^sup>* (start_group ts w) \<lparr>running = [], results = rs, world = w'\<rparr>"

text \<open>An executable scheduler: each entry names a running task and the branch of its select.\<close>

fun sched_step :: "nat \<times> nat \<Rightarrow> 'w group \<Rightarrow> 'w group" where
  "sched_step (i, b) g =
     (if i < length (running g) then
        (case running g ! i of
           Ret r \<Rightarrow> g\<lparr>running := take i (running g) @ drop (Suc i) (running g),
                      results := results g @ [r]\<rparr>
         | Step f \<Rightarrow> (case f (world g) of (t, w') \<Rightarrow>
                        g\<lparr>running := (running g)[i := t], world := w'\<rparr>)
         | Select c cs \<Rightarrow>
             (if b < length (c # cs) then g\<lparr>running := (running g)[i := (c # cs) ! b]\<rparr> else g))
      else g)"

fun par_run :: "(nat \<times> nat) list \<Rightarrow> 'w group \<Rightarrow> 'w group" where
  "par_run [] g = g"
| "par_run (s # ss) g = par_run ss (sched_step s g)"

lemma par_choose_nth:
  "i < length (running g) \<Longrightarrow> running g ! i = Select b bs \<Longrightarrow> k < Suc (length bs) \<Longrightarrow>
    par_step g (g\<lparr>running := (running g)[i := (b # bs) ! k]\<rparr>)"
  by (rule par_choose) (use nth_mem [of k "b # bs"] in simp_all)

lemma sched_step_par: "sched_step s g = g \<or> par_step g (sched_step s g)"
  by (cases s) (auto split: task.splits prod.splits simp del: nth_Cons_Suc
        intro: par_step.intros par_choose_nth)

lemma par_run_par: "par_step\<^sup>*\<^sup>* g (par_run ss g)"
proof (induction ss arbitrary: g)
  case Nil
  then show ?case by simp
next
  case (Cons s ss)
  have "par_step\<^sup>*\<^sup>* g (sched_step s g)" using sched_step_par [of s g] by auto
  also have "par_step\<^sup>*\<^sup>* (sched_step s g) (par_run ss (sched_step s g))" by (rule Cons.IH)
  finally show ?case by simp
qed

subsection \<open>Every group finishes\<close>

text \<open>The direct continuations of a task, and the order in which every step goes down.\<close>

inductive cont_of :: "'w task \<Rightarrow> 'w task \<Rightarrow> bool" where
  cont_step: "f w = (t, w') \<Longrightarrow> cont_of t (Step f)"
| cont_select: "t \<in> set (b # bs) \<Longrightarrow> cont_of t (Select b bs)"

inductive_simps cont_of_simps: "cont_of s (Ret r)" "cont_of s (Step f)" "cont_of s (Select b bs)"

lemma wf_cont_of: "wf {(s, t). cont_of s t}"
proof (rule wfUNIVI)
  fix P :: "'w task \<Rightarrow> bool" and t
  assume "\<forall>t. (\<forall>s. (s, t) \<in> {(s, t). cont_of s t} \<longrightarrow> P s) \<longrightarrow> P t"
  then have step: "\<And>t. (\<And>s. cont_of s t \<Longrightarrow> P s) \<Longrightarrow> P t" by blast
  show "P t"
  proof (induction t)
    case (Ret r)
    show ?case by (rule step) (simp add: cont_of_simps)
  next
    case (Step f)
    show ?case
    proof (rule step)
      fix s assume "cont_of s (Step f)"
      then obtain w w' where "f w = (s, w')" by (auto simp: cont_of_simps)
      then show "P s" by (intro Step [of "f w"]) (metis rangeI, simp)
    qed
  next
    case (Select b bs)
    show ?case by (rule step) (auto simp: cont_of_simps intro: Select)
  qed
qed

lemma mset_list_split: "i < length xs \<Longrightarrow> mset xs = mset (take i xs @ drop (Suc i) xs) + {#xs ! i#}"
  by (metis add_mset_add_single id_take_nth_drop mset.simps(2) mset_append union_mset_add_mset_right)

lemma mset_list_upd:
  "i < length xs \<Longrightarrow> mset (xs[i := y]) = mset (take i xs @ drop (Suc i) xs) + {#y#}"
  by (simp add: upd_conv_take_nth_drop)

lemma par_step_decreases:
  "par_step g g' \<Longrightarrow> (mset (running g'), mset (running g)) \<in> mult {(s, t). cont_of s t}"
proof (induction rule: par_step.induct)
  case (par_act i g f t w')
  have "(mset (take i (running g) @ drop (Suc i) (running g)) + {#t#},
         mset (take i (running g) @ drop (Suc i) (running g)) + {#running g ! i#})
        \<in> mult {(s, t). cont_of s t}"
    using par_act by (intro one_step_implies_mult) (auto simp: cont_of_simps)
  with mset_list_split [OF par_act(1)] par_act show ?case by (simp add: mset_list_upd)
next
  case (par_choose i g b bs t)
  have "(mset (take i (running g) @ drop (Suc i) (running g)) + {#t#},
         mset (take i (running g) @ drop (Suc i) (running g)) + {#running g ! i#})
        \<in> mult {(s, t). cont_of s t}"
    using par_choose by (intro one_step_implies_mult) (auto simp: cont_of_simps)
  with mset_list_split [OF par_choose(1)] par_choose show ?case by (simp add: mset_list_upd)
next
  case (par_return i g r)
  have "(mset (take i (running g) @ drop (Suc i) (running g)) + {#},
         mset (take i (running g) @ drop (Suc i) (running g)) + {#running g ! i#})
        \<in> mult {(s, t). cont_of s t}"
    by (intro one_step_implies_mult) auto
  with mset_list_split [OF par_return(1)] par_return show ?case by simp
qed

theorem wfp_par_step: "wfP (\<lambda>g' g. par_step g g')"
proof -
  have "wf (inv_image (mult {(s, t). cont_of s t}) (\<lambda>g. mset (running g)))"
    by (intro wf_inv_image wf_mult wf_cont_of)
  then show ?thesis
    unfolding wfp_def by (rule wf_subset) (auto simp: inv_image_def intro: par_step_decreases)
qed

lemma no_endless_group: "\<nexists>G. \<forall>n. par_step (G n) (G (Suc n))"
  using wfp_par_step unfolding wfp_def wf_iff_no_infinite_down_chain by auto

text \<open>Each return moves one task to the results.\<close>

lemma par_step_length: "par_step g g' \<Longrightarrow> length (results g') + length (running g') = length (results g) + length (running g)"
  by (induction rule: par_step.induct) auto

lemma par_steps_length:
  "par_step\<^sup>*\<^sup>* g g' \<Longrightarrow> length (results g') + length (running g') = length (results g) + length (running g)"
  by (induction rule: rtranclp_induct) (auto dest: par_step_length)

lemma par_outcome_length: "par_outcome ts w rs w' \<Longrightarrow> length rs = length ts"
  unfolding par_outcome_def start_group_def by (drule par_steps_length) simp

subsection \<open>Running a group to its end\<close>

text \<open>
  The scheduler names a task and, for a \<open>select\<close>, a branch; both numbers are taken modulo the
  number of candidates, so that every answer is a step.
\<close>

definition pick_step :: "nat \<times> nat \<Rightarrow> 'w group \<Rightarrow> 'w group" where
  "pick_step ib g =
     (let i = fst ib mod length (running g) in
      sched_step (i, case running g ! i of Select c cs \<Rightarrow> snd ib mod Suc (length cs) | _ \<Rightarrow> 0) g)"

lemma pick_step_par: "running g \<noteq> [] \<Longrightarrow> par_step g (pick_step ib g)"
  by (auto simp: pick_step_def Let_def split: task.splits prod.splits
      intro!: par_act par_return par_choose_nth)

lemma par_step_iff: "(\<exists>g'. par_step g g') \<longleftrightarrow> running g \<noteq> []"
  using pick_step_par by (auto elim: par_stepE)

function run_group :: "('w group \<Rightarrow> nat \<times> nat) \<Rightarrow> 'w group \<Rightarrow> 'w group" where
  "run_group sch g = (if running g = [] then g else run_group sch (pick_step (sch g) g))"
  by pat_completeness auto
termination
proof (relation "inv_image {(g', g). par_step g g'} snd")
  show "wf (inv_image {(g' :: 'w group, g). par_step g g'} (snd :: ('w group \<Rightarrow> nat \<times> nat) \<times> 'w group \<Rightarrow> 'w group))"
    using wfp_par_step unfolding wfp_def by (rule wf_inv_image)
qed (simp add: pick_step_par)

declare run_group.simps [simp del, code del]

lemma run_group_code [code]:
  "run_group sch g = (case running g of [] \<Rightarrow> g | _ \<Rightarrow> run_group sch (pick_step (sch g) g))"
  by (subst run_group.simps) (simp split: list.splits)

lemma run_group_par: "par_step\<^sup>*\<^sup>* g (run_group sch g) \<and> running (run_group sch g) = []"
proof (induction sch g rule: run_group.induct)
  case (1 sch g)
  show ?case
  proof (cases "running g = []")
    case True
    then show ?thesis by (simp add: run_group.simps)
  next
    case False
    then have e: "run_group sch g = run_group sch (pick_step (sch g) g)"
      by (subst run_group.simps) simp
    show ?thesis
      unfolding e using pick_step_par [OF False] 1 [OF False]
      by (blast intro: converse_rtranclp_into_rtranclp)
  qed
qed

lemma run_group_outcome:
  "par_outcome ts w (results (run_group sch (start_group ts w))) (world (run_group sch (start_group ts w)))"
proof -
  let ?g = "run_group sch (start_group ts w)"
  have "?g = \<lparr>running = [], results = results ?g, world = world ?g\<rparr>"
    using run_group_par [of "start_group ts w" sch] by simp
  then show ?thesis unfolding par_outcome_def by (metis run_group_par)
qed

section \<open>Tasks within a preorder of worlds\<close>

text \<open>
  \<open>task_from R t w\<close>: if \<open>t\<close> is started in \<open>w\<close> or later, and the other tasks stay within \<open>R\<close> between its
  steps, then each of its steps goes to a world that \<open>R\<close> allows. A continuation may rely on the world in
  which its step ended.
\<close>

primrec task_from :: "('w \<Rightarrow> 'w \<Rightarrow> bool) \<Rightarrow> 'w task \<Rightarrow> 'w \<Rightarrow> bool" where
  "task_from R (Ret r) = (\<lambda>w. True)"
| "task_from R (Step f) =
     (\<lambda>w. \<forall>u. R w u \<longrightarrow> (case map_prod (task_from R) id (f u) of (g, v) \<Rightarrow> R u v \<and> g v))"
| "task_from R (Select b bs) = (\<lambda>w. task_from R b w \<and> list_all (\<lambda>g. g w) (map (task_from R) bs))"

lemma task_from_Step [simp]:
  "task_from R (Step f) w \<longleftrightarrow> (\<forall>u t v. R w u \<longrightarrow> f u = (t, v) \<longrightarrow> R u v \<and> task_from R t v)"
  by (auto simp: map_prod_def split: prod.splits)

lemma task_from_Select [simp]:
  "task_from R (Select b bs) w \<longleftrightarrow> (\<forall>t \<in> set (b # bs). task_from R t w)"
  by (auto simp: list_all_iff)

declare task_from.simps(2,3) [simp del]

lemma task_from_Ret: "task_from R (Ret r) w"
  by simp

lemma task_from_case_option:
  "(r = None \<Longrightarrow> task_from R m w) \<Longrightarrow> (\<And>x. r = Some x \<Longrightarrow> task_from R (f x) w) \<Longrightarrow>
    task_from R (case r of None \<Rightarrow> m | Some x \<Rightarrow> f x) w"
  by (cases r) auto

lemma task_from_case_sum:
  "(\<And>x. r = Inl x \<Longrightarrow> task_from R (f x) w) \<Longrightarrow> (\<And>x. r = Inr x \<Longrightarrow> task_from R (g x) w) \<Longrightarrow>
    task_from R (case r of Inl x \<Rightarrow> f x | Inr x \<Rightarrow> g x) w"
  by (cases r) auto

lemma task_from_if:
  "(b \<Longrightarrow> task_from R m w) \<Longrightarrow> (\<not> b \<Longrightarrow> task_from R n w) \<Longrightarrow> task_from R (if b then m else n) w"
  by simp

lemma task_from_SelectI:
  "task_from R b w \<Longrightarrow> (\<And>t. t \<in> set bs \<Longrightarrow> task_from R t w) \<Longrightarrow> task_from R (Select b bs) w"
  by simp

lemma task_from_then:
  "confined (above R w) m \<Longrightarrow>
    (\<And>u a v. R w u \<Longrightarrow> run_state m u = (a, v) \<Longrightarrow> R u v \<Longrightarrow> task_from R (k a) v) \<Longrightarrow> task_from R (perform m k) w"
  by (auto simp: perform_def dest: confined_aboveD split: prod.splits)

definition run_parallel :: "('w group \<Rightarrow> nat \<times> nat) \<Rightarrow> 'w task list \<Rightarrow> ('w, error option list) state" where
  "run_parallel sch ts =
     State (\<lambda>w. let g = run_group sch (start_group ts w) in (results g, world g))"

context effect_order
begin

lemma task_from_mono: "task_from R t w \<Longrightarrow> R w w' \<Longrightarrow> task_from R t w'"
proof (induction t)
  case (Step f)
  then show ?case by (auto intro: R_trans)
qed auto

lemma task_from_perform:
  "confined (above R w) m \<Longrightarrow> (\<And>a. task_from R (k a) w) \<Longrightarrow> task_from R (perform m k) w"
  by (erule task_from_then) (blast intro: task_from_mono R_trans)

lemma run_task_from: "task_from R t w \<Longrightarrow> R w (snd (run_task ch t w))"
proof (induction t arbitrary: w)
  case (Step f)
  obtain t w' where f: "f w = (t, w')" by fastforce
  have "t \<in> Basic_BNFs.fsts (f w)" by (simp add: f)
  moreover have "R w w'" "task_from R t w'" using Step.prems f by (auto intro: R_refl)
  ultimately show ?case using Step.IH [OF rangeI [of f w]] f by (auto intro: R_trans)
next
  case (Select b bs)
  have "(b # bs) ! (ch w (Suc (length bs)) mod Suc (length bs)) \<in> set (b # bs)"
    by (rule nth_mem) simp
  with Select show ?case by (auto simp del: nth_Cons_Suc)
qed (simp add: R_refl)

lemma above_exec_task: "task_from R t w \<Longrightarrow> confined (above R w) (exec_task ch t)"
  by (rule confined_aboveI) (metis run_exec_task run_task_from snd_conv task_from_mono)

lemma par_step_from:
  "par_step g g' \<Longrightarrow> \<forall>t \<in> set (running g). task_from R t (world g) \<Longrightarrow>
    (\<forall>t \<in> set (running g'). task_from R t (world g')) \<and> R (world g) (world g')"
proof (induction rule: par_step.induct)
  case (par_act i g f t w')
  then have "task_from R (Step f) (world g)" by (metis nth_mem)
  with par_act(3) have "R (world g) w'" "task_from R t w'" by (auto intro: R_refl)
  with par_act(4) show ?case
    by (auto dest!: set_update_subset_insert [THEN subsetD] intro: task_from_mono)
next
  case (par_choose i g b bs t)
  then have "task_from R (Select b bs) (world g)" by (metis nth_mem)
  with par_choose show ?case by (auto simp: R_refl dest!: set_update_subset_insert [THEN subsetD])
next
  case (par_return i g r)
  then show ?case by (auto simp: R_refl dest: in_set_takeD in_set_dropD)
qed

lemma par_steps_from:
  "par_step\<^sup>*\<^sup>* g h \<Longrightarrow> \<forall>t \<in> set (running g). task_from R t (world g) \<Longrightarrow> R (world g) (world h)"
  by (induction rule: converse_rtranclp_induct) (auto simp: R_refl dest!: par_step_from intro: R_trans)

lemma above_run_parallel:
  assumes "\<And>t. t \<in> set ts \<Longrightarrow> task_from R t w" shows "confined (above R w) (run_parallel sch ts)"
proof (rule confined_aboveI)
  fix u a v assume u: "R w u" and run: "run_state (run_parallel sch ts) u = (a, v)"
  have "\<forall>t \<in> set ts. task_from R t u" using task_from_mono [OF assms u] by blast
  then have "R u (world (run_group sch (start_group ts u)))"
    using par_steps_from [of "start_group ts u" "run_group sch (start_group ts u)"]
      run_group_par [of "start_group ts u" sch] by (simp add: start_group_def)
  with run show "R u v" by (auto simp: run_parallel_def Let_def)
qed

lemmas task_intros = task_from_Ret task_from_perform task_from_case_option task_from_case_sum
  task_from_if task_from_SelectI

end

lemmas quiet_intros = view.confined_intros
lemmas inv_intros = invariant.confined_intros
lemmas emits_intros = emission.confined_intros emits_sdk_call

lemma run_parallel_outcome:
  "run_state (run_parallel sch ts) w = (rs, w') \<Longrightarrow> par_outcome ts w rs w'"
  using run_group_outcome [of ts w sch] by (auto simp: run_parallel_def Let_def)

section \<open>What each task contributes to the log of a group\<close>

text \<open>
  \<open>lg\<close> reads a log out of the world. \<open>contributes lg t L r\<close>: alone or among other tasks, whatever the
  others do to the world between its steps, \<open>t\<close> may append the entries \<open>L\<close> and return \<open>r\<close>.
  \<open>logs lg t\<close>: the steps of \<open>t\<close> only append to the log.
\<close>

inductive contributes :: "('w \<Rightarrow> 'e list) \<Rightarrow> 'w task \<Rightarrow> 'e list \<Rightarrow> error option \<Rightarrow> bool"
  for lg where
  contr_ret: "contributes lg (Ret r) [] r"
| contr_step: "f w = (t, w') \<Longrightarrow> lg w' = lg w @ es \<Longrightarrow> contributes lg t L r \<Longrightarrow>
     contributes lg (Step f) (es @ L) r"
| contr_select: "t \<in> set (b # bs) \<Longrightarrow> contributes lg t L r \<Longrightarrow> contributes lg (Select b bs) L r"

inductive_cases contr_RetE: "contributes lg (Ret q) L r"
inductive_cases contr_StepE: "contributes lg (Step f) L r"
inductive_cases contr_SelectE: "contributes lg (Select b bs) L r"

primrec logs :: "('w \<Rightarrow> 'e list) \<Rightarrow> 'w task \<Rightarrow> bool" where
  "logs lg (Ret r) = True"
| "logs lg (Step f) =
     (\<forall>w. case map_prod (logs lg) id (f w) of (b, w') \<Rightarrow> b \<and> (\<exists>es. lg w' = lg w @ es))"
| "logs lg (Select b bs) \<longleftrightarrow> logs lg b \<and> list_all id (map (logs lg) bs)"

lemma logs_Step [simp]:
  "logs lg (Step f) \<longleftrightarrow> (\<forall>w t w'. f w = (t, w') \<longrightarrow> logs lg t \<and> (\<exists>es. lg w' = lg w @ es))"
  by (auto simp: map_prod_def split: prod.splits)

lemma logs_Select [simp]: "logs lg (Select b bs) \<longleftrightarrow> (\<forall>t \<in> set (b # bs). logs lg t)"
  by (auto simp: list_all_iff)

declare logs.simps(2,3) [simp del]

definition contribution ::
  "('w \<Rightarrow> 'e list) \<Rightarrow> 'w task list \<Rightarrow> ('e list \<times> error option) list \<Rightarrow> bool" where
  "contribution lg ts cs \<longleftrightarrow> list_all2 (\<lambda>t c. contributes lg t (fst c) (snd c)) ts cs"

text \<open>
  The decomposition of a run: one contribution per task, the new entries of the log are exactly
  the entries of the contributions, each contribution occurs in the log in its own order, and
  the results collected are the results of the contributions.
\<close>

definition decomposes ::
  "('w \<Rightarrow> 'e list) \<Rightarrow> 'w group \<Rightarrow> error option list \<Rightarrow> 'w \<Rightarrow> bool" where
  "decomposes lg g rs w' \<longleftrightarrow> (\<exists>cs new.
     contribution lg (running g) cs \<and>
     lg w' = lg (world g) @ new \<and>
     mset new = (\<Sum>c \<leftarrow> cs. mset (fst c)) \<and>
     (\<forall>c \<in> set cs. subseq (fst c) new) \<and>
     mset rs = mset (results g) + mset (map snd cs))"

lemma decomposesI:
  "contribution lg (running g) cs \<Longrightarrow> lg w' = lg (world g) @ new \<Longrightarrow>
   mset new = (\<Sum>c \<leftarrow> cs. mset (fst c)) \<Longrightarrow> \<forall>c \<in> set cs. subseq (fst c) new \<Longrightarrow>
   mset rs = mset (results g) + mset (map snd cs) \<Longrightarrow> decomposes lg g rs w'"
  unfolding decomposes_def by blast

lemma sum_list_upd_mset:
  "i < length cs \<Longrightarrow> F (cs ! i) + X = F y \<Longrightarrow>
    (\<Sum>c \<leftarrow> cs[i := y]. F c) = (\<Sum>c \<leftarrow> cs. F c) + (X :: 'e multiset)"
proof -
  assume i: "i < length cs" and y: "F (cs ! i) + X = F y"
  have "cs = take i cs @ cs ! i # drop (Suc i) cs" using i by (rule id_take_nth_drop)
  then have "(\<Sum>c \<leftarrow> cs. F c) = (\<Sum>c \<leftarrow> take i cs. F c) + (F (cs ! i) + (\<Sum>c \<leftarrow> drop (Suc i) cs. F c))"
    by (metis map_append sum_list_append list.simps(9) sum_list.Cons)
  then show ?thesis using i y by (simp add: upd_conv_take_nth_drop ac_simps flip: y)
qed

lemma decomposes_act:
  assumes i: "i < length (running g)" and t: "running g ! i = Step f" "f (world g) = (t, w1)"
    and lg: "lg w1 = lg (world g) @ es"
    and d: "decomposes lg (g\<lparr>running := (running g)[i := t], world := w1\<rparr>) rs w'"
  shows "decomposes lg g rs w'"
proof -
  obtain cs new where cs: "contribution lg ((running g)[i := t]) cs" "lg w' = lg w1 @ new"
    "mset new = (\<Sum>c \<leftarrow> cs. mset (fst c))" "\<forall>c \<in> set cs. subseq (fst c) new"
    "mset rs = mset (results g) + mset (map snd cs)"
    using d by (auto simp: decomposes_def)
  have len: "length cs = length (running g)"
    using cs(1) by (auto simp: contribution_def dest: list_all2_lengthD)
  define c where "c = (es @ fst (cs ! i), snd (cs ! i))"
  have "contributes lg t (fst (cs ! i)) (snd (cs ! i))"
    using cs(1) i by (auto simp: contribution_def list_all2_conv_all_nth)
  then have "contributes lg (Step f) (fst c) (snd c)"
    unfolding c_def fst_conv snd_conv using t(2) lg by (intro contr_step)
  then have "contribution lg (running g) (cs[i := c])"
    using cs(1) i t(1) len
    by (auto simp: contribution_def list_all2_conv_all_nth nth_list_update split: if_splits)
  moreover have "mset (es @ new) = (\<Sum>c \<leftarrow> cs[i := c]. mset (fst c))"
    using sum_list_upd_mset [where F = "\<lambda>c. mset (fst c)" and X = "mset es" and y = c and cs = cs] i len cs(3)
    by (simp add: c_def add.commute)
  moreover have "\<forall>c' \<in> set (cs[i := c]). subseq (fst c') (es @ new)"
  proof
    fix c' assume "c' \<in> set (cs[i := c])"
    then consider "c' = c" | "c' \<in> set cs" using set_update_subset_insert by fastforce
    then show "subseq (fst c') (es @ new)"
    proof cases
      case 1
      with cs(4) i len show ?thesis by (simp add: c_def list_emb_append_mono)
    next
      case 2
      with cs(4) show ?thesis by (simp add: list_emb_append2)
    qed
  qed
  moreover have "map snd (cs[i := c]) = map snd cs"
    using i len by (simp add: c_def map_update list_update_same_conv)
  moreover have "lg w' = lg (world g) @ es @ new" using cs(2) lg by simp
  ultimately show ?thesis using cs(5)
    by (intro decomposesI [where cs = "cs[i := c]" and new = "es @ new"]) (simp_all del: mset_map mset_append)
qed

lemma decomposes_choose:
  assumes i: "i < length (running g)" and t: "running g ! i = Select b bs" "t \<in> set (b # bs)"
    and d: "decomposes lg (g\<lparr>running := (running g)[i := t]\<rparr>) rs w'"
  shows "decomposes lg g rs w'"
proof -
  obtain cs new where cs: "contribution lg ((running g)[i := t]) cs" "lg w' = lg (world g) @ new"
    "mset new = (\<Sum>c \<leftarrow> cs. mset (fst c))" "\<forall>c \<in> set cs. subseq (fst c) new"
    "mset rs = mset (results g) + mset (map snd cs)"
    using d by (auto simp: decomposes_def)
  have "contributes lg t (fst (cs ! i)) (snd (cs ! i))"
    using cs(1) i by (auto simp: contribution_def list_all2_conv_all_nth)
  then have "contributes lg (Select b bs) (fst (cs ! i)) (snd (cs ! i))"
    using t(2) by (intro contr_select)
  then have "contribution lg (running g) cs"
    using cs(1) i t(1) unfolding contribution_def list_all2_conv_all_nth
    by (metis length_list_update nth_list_update_neq)
  with cs(2-5) show ?thesis
    by (intro decomposesI [where cs = cs and new = new]) (simp_all del: mset_map)
qed

lemma decomposes_return:
  assumes i: "i < length (running g)" and t: "running g ! i = Ret r"
    and d: "decomposes lg (g\<lparr>running := take i (running g) @ drop (Suc i) (running g),
                              results := results g @ [r]\<rparr>) rs w'"
  shows "decomposes lg g rs w'"
proof -
  obtain cs new where cs: "contribution lg (take i (running g) @ drop (Suc i) (running g)) cs"
    "lg w' = lg (world g) @ new" "mset new = (\<Sum>c \<leftarrow> cs. mset (fst c))"
    "\<forall>c \<in> set cs. subseq (fst c) new" "mset rs = mset (results g @ [r]) + mset (map snd cs)"
    using d by (auto simp: decomposes_def)
  obtain c1 c2 where c: "cs = c1 @ c2"
    "list_all2 (\<lambda>t c. contributes lg t (fst c) (snd c)) (take i (running g)) c1"
    "list_all2 (\<lambda>t c. contributes lg t (fst c) (snd c)) (drop (Suc i) (running g)) c2"
    using cs(1) by (auto simp: contribution_def list_all2_append1)
  have "running g = take i (running g) @ Ret r # drop (Suc i) (running g)"
    using i t by (metis id_take_nth_drop)
  moreover have "list_all2 (\<lambda>t c. contributes lg t (fst c) (snd c))
      (take i (running g) @ Ret r # drop (Suc i) (running g)) (c1 @ ([], r) # c2)"
    using c by (intro list_all2_appendI list_all2_Cons [THEN iffD2]) (auto intro: contr_ret)
  ultimately have "contribution lg (running g) (c1 @ ([], r) # c2)"
    by (simp add: contribution_def)
  then show ?thesis
    unfolding decomposes_def using cs(2-5) c(1)
    by (intro exI [of _ "c1 @ ([], r) # c2"] exI [of _ new]) auto
qed

lemma decomposes_final: "decomposes lg \<lparr>running = [], results = rs, world = w\<rparr> rs w"
  unfolding decomposes_def by (intro exI [of _ "[]"]) (simp add: contribution_def)

lemma logs_par_step:
  "par_step g g' \<Longrightarrow> \<forall>t \<in> set (running g). logs lg t \<Longrightarrow> \<forall>t \<in> set (running g'). logs lg t"
proof (induction rule: par_step.induct)
  case (par_act i g f t w')
  then have "logs lg (Step f)" by (metis nth_mem)
  with par_act show ?case by (auto dest!: set_update_subset_insert [THEN subsetD])
next
  case (par_choose i g b bs t)
  then have "logs lg (Select b bs)" by (metis nth_mem)
  with par_choose show ?case by (auto dest!: set_update_subset_insert [THEN subsetD])
next
  case (par_return i g r)
  then show ?case by (auto dest: in_set_takeD in_set_dropD)
qed

theorem par_outcome_decomposes:
  assumes "par_outcome ts w rs w'" and "\<forall>t \<in> set ts. logs lg t"
  shows "decomposes lg (start_group ts w) rs w'"
proof -
  have "par_step\<^sup>*\<^sup>* g h \<Longrightarrow> \<forall>t \<in> set (running g). logs lg t \<Longrightarrow>
     h = \<lparr>running = [], results = rs, world = w'\<rparr> \<Longrightarrow> decomposes lg g rs w'" for g h
  proof (induction rule: converse_rtranclp_induct)
    case base
    then show ?case by (simp add: decomposes_final)
  next
    case (step g g1)
    have d: "decomposes lg g1 rs w'"
      using step.IH logs_par_step [OF step.hyps(1) step.prems(1)] step.prems(2) by blast
    from step.hyps(1) show ?case
    proof (cases rule: par_step.cases)
      case (par_act i f t w1)
      then have "logs lg (Step f)" using step.prems(1) by (metis nth_mem)
      with par_act(4) obtain es where "lg w1 = lg (world g) @ es"
        unfolding logs_Step by blast
      with par_act d show ?thesis by (intro decomposes_act [of i g f t w1 lg es]) auto
    next
      case (par_choose i b bs t)
      with d show ?thesis by (intro decomposes_choose [of i g b bs t lg]) auto
    next
      case (par_return i r)
      with d show ?thesis by (intro decomposes_return [of i g r lg]) auto
    qed
  qed
  then show ?thesis using assms by (simp add: par_outcome_def start_group_def)
qed

lemma decomposes_start:
  "decomposes lg (start_group ts w) rs w' \<longleftrightarrow> (\<exists>cs new.
     contribution lg ts cs \<and> lg w' = lg w @ new \<and> mset new = (\<Sum>c \<leftarrow> cs. mset (fst c)) \<and>
     (\<forall>c \<in> set cs. subseq (fst c) new) \<and> mset rs = mset (map snd cs))"
  by (simp add: decomposes_def start_group_def)

end
