(* ===== verification/Container.thy ===== *)
theory Container
  imports Util Tasks
begin

text \<open>
  \<open>pkg/container\<close>: the runtime-neutral container, the requests, the interface that a runtime
  implements (\<open>container.Client\<close>) and the selection of the targets of a chaos command.

  \<open>'w client\<close> has one field per method of \<open>container.Client\<close>; the world \<open>'w\<close> is the runtime's.
  The locale \<open>runtime_client\<close> states what the commands rely on; each runtime interprets it.
\<close>

section \<open>Containers (\<open>container.go\<close>)\<close>

text \<open>A Go map with string keys is the list of its entries in the order the range visits them.\<close>

record container =
  ContainerID :: string
  ContainerName :: string
  Image :: string
  ImageID :: string
  RunState :: string
  CLabels :: "(string \<times> string) list"
  Networks :: "(string \<times> string list) list"

text \<open>The nil pointer of a request that has no target yet.\<close>

definition nil_container :: container where
  "nil_container = \<lparr>ContainerID = '''', ContainerName = '''', Image = '''', ImageID = '''',
     RunState = '''', CLabels = [], Networks = []\<rparr>"

definition pumbaLabel :: string where "pumbaLabel = ''com.gaiaadm.pumba''"
definition pumbaSkipLabel :: string where "pumbaSkipLabel = ''com.gaiaadm.pumba.skip''"
definition signalLabel :: string where "signalLabel = ''com.gaiaadm.pumba.stop-signal''"
definition StateRunning :: string where "StateRunning = ''running''"
definition StateExited :: string where "StateExited = ''exited''"

definition ImageName :: "container \<Rightarrow> string" where
  "ImageName c = (if \<not> strings_contains (Image c) '':'' then Image c @ '':latest'' else Image c)"

definition Links :: "container \<Rightarrow> string list" where
  "Links c = [hd (split_on (CHR '':'') link). (_, links) \<leftarrow> Networks c, link \<leftarrow> links]"

definition IsPumba :: "container \<Rightarrow> bool" where
  "IsPumba c \<longleftrightarrow> map_of (CLabels c) pumbaLabel = Some ''true''"

definition IsPumbaSkip :: "container \<Rightarrow> bool" where
  "IsPumbaSkip c \<longleftrightarrow> map_of (CLabels c) pumbaSkipLabel = Some ''true''"

definition StopSignal :: "container \<Rightarrow> string" where
  "StopSignal c = (case map_of (CLabels c) signalLabel of Some v \<Rightarrow> v | None \<Rightarrow> '''')"

section \<open>Requests (\<open>requests.go\<close>)\<close>

record sidecar_spec =
  SImage :: string
  SPull :: bool

record netem_request =
  NContainer :: container
  NInterface :: string
  NCommand :: "string list"
  NIPs :: "ip_net list"
  NSPorts :: "string list"
  NDPorts :: "string list"
  NDuration :: duration
  NSidecar :: sidecar_spec
  NDryRun :: bool

record iptables_request =
  IContainer :: container
  CmdPrefix :: "string list"
  CmdSuffix :: "string list"
  SrcIPs :: "ip_net list"
  DstIPs :: "ip_net list"
  ISPorts :: "string list"
  IDPorts :: "string list"
  IDuration :: duration
  ISidecar :: sidecar_spec
  IDryRun :: bool

record stress_request =
  StContainer :: container
  Stressors :: "string list"
  StDuration :: duration
  StSidecar :: sidecar_spec
  InjectCgroup :: bool
  StDryRun :: bool

text \<open>
  The result of \<open>StressContainer\<close>: the values its goroutine sends on the two channels before it
  closes both of them (the goroutine closes them when the stress workload ends).
\<close>

record stress_result =
  SidecarID :: string
  Output :: "string list"
  Errors :: "error list"

record remove_opts =
  Force :: bool
  RLinks :: bool
  RVolumes :: bool
  RDryRun :: bool

record list_opts =
  All :: bool
  LLabels :: "string list"

section \<open>The runtime interface (\<open>client.go\<close>)\<close>

type_synonym filter_func = "container \<Rightarrow> bool"

record 'w client =
  ListContainers :: "ctx \<Rightarrow> filter_func \<Rightarrow> list_opts \<Rightarrow> ('w, error + container list) state"
  StopContainer :: "ctx \<Rightarrow> container \<Rightarrow> int \<Rightarrow> bool \<Rightarrow> ('w, error option) state"
  KillContainer :: "ctx \<Rightarrow> container \<Rightarrow> string \<Rightarrow> bool \<Rightarrow> ('w, error option) state"
  StartContainer :: "ctx \<Rightarrow> container \<Rightarrow> bool \<Rightarrow> ('w, error option) state"
  RestartContainer :: "ctx \<Rightarrow> container \<Rightarrow> duration \<Rightarrow> bool \<Rightarrow> ('w, error option) state"
  RemoveContainer :: "ctx \<Rightarrow> container \<Rightarrow> remove_opts \<Rightarrow> ('w, error option) state"
  PauseContainer :: "ctx \<Rightarrow> container \<Rightarrow> bool \<Rightarrow> ('w, error option) state"
  UnpauseContainer :: "ctx \<Rightarrow> container \<Rightarrow> bool \<Rightarrow> ('w, error option) state"
  StopContainerWithID :: "ctx \<Rightarrow> string \<Rightarrow> duration \<Rightarrow> bool \<Rightarrow> ('w, error option) state"
  ExecContainer :: "ctx \<Rightarrow> container \<Rightarrow> string \<Rightarrow> string list \<Rightarrow> bool \<Rightarrow> ('w, error option) state"
  NetemContainer :: "ctx \<Rightarrow> netem_request \<Rightarrow> ('w, error option) state"
  StopNetemContainer :: "ctx \<Rightarrow> netem_request \<Rightarrow> ('w, error option) state"
  IPTablesContainer :: "ctx \<Rightarrow> iptables_request \<Rightarrow> ('w, error option) state"
  StopIPTablesContainer :: "ctx \<Rightarrow> iptables_request \<Rightarrow> ('w, error option) state"
  StressContainer :: "ctx \<Rightarrow> stress_request \<Rightarrow> ('w, error + stress_result) state"
  CloseClient :: "('w, error option) state"

text \<open>The narrow interface \<open>Lister\<close> is one function.\<close>

type_synonym 'w lister_op = "ctx \<Rightarrow> filter_func \<Rightarrow> list_opts \<Rightarrow> ('w, error + container list) state"

section \<open>The environment of a chaos command\<close>

text \<open>
  What the code reads and the program does not determine, each as a function of the world so that
  every run may see other values: user-supplied RE2 patterns (\<open>None\<close>: the pattern does not
  compile), the random source, the \<open>select\<close> that finds several branches ready, the scheduler, and
  \<open>errgroup.Group.Wait\<close>, which reads the results in the order in which the goroutines returned.
\<close>

record 'w env =
  regexp_MatchString :: "string \<Rightarrow> string \<Rightarrow> bool option"
  intn :: "'w \<Rightarrow> nat \<Rightarrow> nat"
  shuffle_draw :: "'w \<Rightarrow> nat \<Rightarrow> nat"
  pick_branch :: "'w \<Rightarrow> nat \<Rightarrow> nat"
  schedule :: "'w group \<Rightarrow> nat \<times> nat"
  eg_wait :: "error option list \<Rightarrow> error option"

text \<open>
  The documented behaviour of \<open>errgroup.Group.Wait\<close>: nil when every function returned nil,
  otherwise the first non-nil error returned.
\<close>

definition errgroup_ok :: "(error option list \<Rightarrow> error option) \<Rightarrow> bool" where
  "errgroup_ok wait \<longleftrightarrow> (\<forall>rs. wait rs = (case List.map_filter id rs of [] \<Rightarrow> None | e # _ \<Rightarrow> Some e))"

lemma errgroup_ok_None: "errgroup_ok wait \<Longrightarrow> wait rs = None \<longleftrightarrow> (\<forall>r \<in> set rs. r = None)"
  by (auto simp: errgroup_ok_def map_filter_id_Nil [symmetric] split: list.splits)

lemma errgroup_ok_Some: "errgroup_ok wait \<Longrightarrow> wait rs = Some e \<Longrightarrow> Some e \<in> set rs"
proof -
  have "List.map_filter id rs = e # es \<Longrightarrow> Some e \<in> set rs" for es
    by (induction rs) (auto simp: List.map_filter_simps split: option.splits)
  then show "errgroup_ok wait \<Longrightarrow> wait rs = Some e \<Longrightarrow> Some e \<in> set rs"
    by (auto simp: errgroup_ok_def split: list.splits)
qed

section \<open>Filters (\<open>filter.go\<close>)\<close>

fun matchNames :: "string list \<Rightarrow> string \<Rightarrow> string \<Rightarrow> bool" where
  "matchNames [] containerName containerID = False"
| "matchNames (name # names) containerName containerID =
     (if name = containerName \<or> name = containerID then True
      else if prefix ''/'' containerName \<and> name = drop 1 containerName then True
      else matchNames names containerName containerID)"

definition matchPattern :: "(string \<Rightarrow> string \<Rightarrow> bool option) \<Rightarrow> string \<Rightarrow> string \<Rightarrow> bool" where
  "matchPattern MatchString pattern containerName =
     (case MatchString pattern containerName of
        None \<Rightarrow> False
      | Some matched \<Rightarrow>
          if \<not> matched \<and> prefix ''/'' containerName
          then (case MatchString pattern (drop 1 containerName) of None \<Rightarrow> False | Some m \<Rightarrow> m)
          else matched)"

record filter_spec =
  FNames :: "string list"
  FPattern :: string
  FOpts :: list_opts

definition applyContainerFilter ::
  "(string \<Rightarrow> string \<Rightarrow> bool option) \<Rightarrow> filter_spec \<Rightarrow> filter_func" where
  "applyContainerFilter MatchString flt = (\<lambda>c.
     if IsPumba c \<or> IsPumbaSkip c then False
     else if length (FNames flt) > 0 then matchNames (FNames flt) (ContainerName c) (ContainerID c)
     else matchPattern MatchString (FPattern flt) (ContainerName c))"

lemma matchNames_iff:
  "matchNames names cname cid \<longleftrightarrow>
    (\<exists>n \<in> set names. n = cname \<or> n = cid \<or> cname = CHR ''/'' # n)"
  by (induction names) (auto simp: prefix_def)

lemma applyContainerFilter_iff:
  "applyContainerFilter M flt c \<longleftrightarrow> \<not> IsPumba c \<and> \<not> IsPumbaSkip c \<and>
    (if FNames flt \<noteq> [] then matchNames (FNames flt) (ContainerName c) (ContainerID c)
     else matchPattern M (FPattern flt) (ContainerName c))"
  by (simp add: applyContainerFilter_def)

text \<open>The part of the filter that a command's names and pattern decide.\<close>

definition accepts :: "(string \<Rightarrow> string \<Rightarrow> bool option) \<Rightarrow> string list \<Rightarrow> string \<Rightarrow> filter_func" where
  "accepts M names pattern =
     applyContainerFilter M \<lparr>FNames = names, FPattern = pattern, FOpts = \<lparr>All = False, LLabels = []\<rparr>\<rparr>"

lemma applyContainerFilter_accepts:
  "applyContainerFilter M \<lparr>FNames = names, FPattern = pattern, FOpts = os\<rparr> = accepts M names pattern"
  by (simp add: accepts_def applyContainerFilter_def)

section \<open>Selection of the targets (\<open>util.go\<close>)\<close>

definition listContainers ::
  "'w env \<Rightarrow> ctx \<Rightarrow> 'w lister_op \<Rightarrow> string list \<Rightarrow> string \<Rightarrow> string list \<Rightarrow> bool \<Rightarrow>
     ('w, error + container list) state" where
  "listContainers en c lst names pattern labels all = do {
     let f = \<lparr>FNames = names, FPattern = pattern, FOpts = \<lparr>All = all, LLabels = labels\<rparr>\<rparr>;
     r \<leftarrow> lst c (applyContainerFilter (regexp_MatchString en) f) (FOpts f);
     case r of
       Inl err \<Rightarrow> State_Monad.return (Inl (ErrWrap ''failed to list containers: %w'' [] err))
     | Inr containers \<Rightarrow> State_Monad.return (Inr containers) }"

text \<open>\<open>rand.Intn(n)\<close> is some number below \<open>n\<close>.\<close>

definition RandomContainer :: "(nat \<Rightarrow> nat) \<Rightarrow> container list \<Rightarrow> container option" where
  "RandomContainer draw containers =
     (if length containers > 0
      then Some (containers ! (draw (length containers) mod length containers))
      else None)"

text \<open>\<open>rand.Shuffle\<close>: swap the element \<open>i\<close> with the one at \<open>Intn(i + 1)\<close>, from the end down to 1.\<close>

definition swap :: "nat \<Rightarrow> nat \<Rightarrow> 'a list \<Rightarrow> 'a list" where
  "swap i j xs = xs[i := xs ! j, j := xs ! i]"

primrec shuffle_from :: "(nat \<Rightarrow> nat) \<Rightarrow> nat \<Rightarrow> 'a list \<Rightarrow> 'a list" where
  "shuffle_from draw 0 xs = xs"
| "shuffle_from draw (Suc i) xs =
     shuffle_from draw i (swap (Suc i) (draw (Suc i) mod (Suc (Suc i))) xs)"

definition shuffle :: "(nat \<Rightarrow> nat) \<Rightarrow> 'a list \<Rightarrow> 'a list" where
  "shuffle draw xs = shuffle_from draw (length xs - 1) xs"

definition ListNContainersAll ::
  "'w env \<Rightarrow> ctx \<Rightarrow> 'w lister_op \<Rightarrow> string list \<Rightarrow> string \<Rightarrow> string list \<Rightarrow> int \<Rightarrow> bool \<Rightarrow>
     ('w, error + container list) state" where
  "ListNContainersAll en c lst names pattern labels limit all = do {
     r \<leftarrow> listContainers en c lst names pattern labels all;
     case r of
       Inl err \<Rightarrow> State_Monad.return (Inl err)
     | Inr containers \<Rightarrow>
         if limit > 0 \<and> int (length containers) > limit then do {
           w \<leftarrow> State_Monad.get;
           State_Monad.return (Inr (take (nat limit) (shuffle (shuffle_draw en w) containers))) }
         else State_Monad.return (Inr containers) }"

definition ListNContainers ::
  "'w env \<Rightarrow> ctx \<Rightarrow> 'w lister_op \<Rightarrow> string list \<Rightarrow> string \<Rightarrow> string list \<Rightarrow> int \<Rightarrow>
     ('w, error + container list) state" where
  "ListNContainers en c lst names pattern labels limit =
     ListNContainersAll en c lst names pattern labels limit False"

subsection \<open>The shuffle\<close>

lemma length_swap [simp]: "length (swap i j xs) = length xs"
  by (simp add: swap_def)

lemma nth_swap: "i < length xs \<Longrightarrow> j < length xs \<Longrightarrow> k < length xs \<Longrightarrow>
    swap i j xs ! k = (if k = i then xs ! j else if k = j then xs ! i else xs ! k)"
  by (auto simp: swap_def nth_list_update)

lemma mset_swap_at: "i < length xs \<Longrightarrow> j < length xs \<Longrightarrow> mset (swap i j xs) = mset xs"
  by (simp add: swap_def mset_swap)

lemma length_shuffle_from [simp]: "length (shuffle_from d i xs) = length xs"
  by (induction i arbitrary: xs) simp_all

lemma mod_Suc_less: "Suc i < n \<Longrightarrow> x mod Suc (Suc i) < n"
  by (rule less_le_trans [OF mod_less_divisor]) simp_all

lemma mset_shuffle_from: "i < length xs \<or> i = 0 \<Longrightarrow> mset (shuffle_from d i xs) = mset xs"
proof (induction i arbitrary: xs)
  case (Suc i)
  with mod_Suc_less [of i "length xs"] show ?case by (simp add: mset_swap_at)
qed simp

lemma mset_shuffle [simp]: "mset (shuffle d xs) = mset xs"
  unfolding shuffle_def by (rule mset_shuffle_from) auto

lemma shuffle_from_above: "i < k \<Longrightarrow> i < length xs \<Longrightarrow> k < length xs \<Longrightarrow> shuffle_from d i xs ! k = xs ! k"
proof (induction i arbitrary: xs)
  case (Suc i)
  with mod_Suc_less [of i "length xs"] mod_Suc_less [of i k] show ?case by (auto simp: nth_swap)
qed simp

lemma shuffle_from_cong: "(\<And>k. k \<le> i \<Longrightarrow> d k = d' k) \<Longrightarrow> shuffle_from d i xs = shuffle_from d' i xs"
  by (induction i arbitrary: xs) simp_all

text \<open>Every order of the elements is the outcome of some draws.\<close>

lemma mset_take_last:
  assumes "mset xs = mset ys" and "drop k xs = drop k ys" shows "mset (take k xs) = mset (take k ys)"
  using assms by (metis add_right_cancel append_take_drop_id mset_append)

lemma shuffle_from_reaches:
  assumes "i < length xs" and "mset xs = mset ys" and "drop (Suc i) xs = drop (Suc i) ys"
  shows "\<exists>d. shuffle_from d i xs = ys"
  using assms
proof (induction i arbitrary: xs)
  case 0
  have len: "length xs = length ys" using 0(2) by (rule mset_eq_length)
  have "mset (take 1 xs) = mset (take 1 ys)" using 0(2,3) by (intro mset_take_last) simp_all
  then have "take 1 xs = take 1 ys" using 0(1) len by (cases xs; cases ys) auto
  then have "xs = ys" using 0(3) by (metis One_nat_def append_take_drop_id)
  then show ?case by simp
next
  case (Suc i)
  have len: "length xs = length ys" using Suc.prems(2) by (rule mset_eq_length)
  have "mset (take (Suc (Suc i)) xs) = mset (take (Suc (Suc i)) ys)"
    using Suc.prems by (intro mset_take_last) simp_all
  then have "ys ! Suc i \<in> set (take (Suc (Suc i)) xs)"
    using Suc.prems(1) len by (metis in_set_conv_nth length_take lessI min.absorb2 nth_take set_mset_mset Suc_leI)
  then obtain j where j: "j \<le> Suc i" "xs ! j = ys ! Suc i"
    by (auto simp: in_set_conv_nth less_Suc_eq_le)
  define zs where "zs = swap (Suc i) j xs"
  have zs: "length zs = length xs" "mset zs = mset ys"
    using Suc.prems j by (simp_all add: zs_def mset_swap_at)
  have "drop (Suc i) zs = drop (Suc i) ys"
  proof (rule nth_equalityI)
    fix k assume "k < length (drop (Suc i) zs)"
    then have k: "Suc i + k < length xs" using zs by simp
    have "xs ! (Suc i + k) = ys ! (Suc i + k)" if pos: "0 < k"
    proof -
      obtain k' where k': "k = Suc k'" using gr0_implies_Suc [OF pos] by blast
      have "drop (Suc (Suc i)) xs ! k' = drop (Suc (Suc i)) ys ! k'" using Suc.prems(3) by simp
      then show ?thesis using k k' len by simp
    qed
    then show "drop (Suc i) zs ! k = drop (Suc i) ys ! k"
      using k j Suc.prems(1) zs len by (cases "k = 0") (auto simp: zs_def nth_swap)
  qed (use zs len in simp)
  then obtain d where d: "shuffle_from d i zs = ys" using Suc.IH [of zs] Suc.prems(1) zs by auto
  define d' where "d' = d(Suc i := j)"
  have "shuffle_from d' i zs = ys" unfolding d [symmetric] by (rule shuffle_from_cong) (simp add: d'_def)
  moreover have "d' (Suc i) mod Suc (Suc i) = j" using j by (simp add: d'_def)
  ultimately show ?case by (intro exI [of _ d']) (simp add: zs_def)
qed

lemma shuffle_reaches: "mset xs = mset ys \<Longrightarrow> \<exists>d. shuffle d xs = ys"
proof (cases "xs = []")
  case False
  moreover assume "mset xs = mset ys"
  ultimately show ?thesis
    unfolding shuffle_def by (intro shuffle_from_reaches) (auto dest: mset_eq_length)
qed (simp add: shuffle_def)

lemma RandomContainer_mem: "RandomContainer d cs = Some c \<Longrightarrow> c \<in> set cs"
  by (auto simp: RandomContainer_def split: if_splits intro!: nth_mem)

lemma RandomContainer_reaches: "c \<in> set cs \<Longrightarrow> \<exists>d. RandomContainer d cs = Some c"
proof -
  assume "c \<in> set cs"
  then obtain i where "i < length cs" "cs ! i = c" by (auto simp: in_set_conv_nth)
  then show ?thesis by (intro exI [of _ "\<lambda>_. i"]) (auto simp: RandomContainer_def)
qed

text \<open>What the selection makes of the containers that the runtime listed.\<close>

lemma ListNContainersAll_Inr:
  assumes "run_state (ListNContainersAll en c lst names pattern labels limit all) w = (Inr cs, w')"
  obtains xs where
    "run_state (lst c (applyContainerFilter (regexp_MatchString en)
        \<lparr>FNames = names, FPattern = pattern, FOpts = \<lparr>All = all, LLabels = labels\<rparr>\<rparr>)
        \<lparr>All = all, LLabels = labels\<rparr>) w = (Inr xs, w')"
    "mset cs \<subseteq># mset xs"
    "length cs = (if limit > 0 \<and> int (length xs) > limit then nat limit else length xs)"
proof -
  obtain r w1 where l: "run_state (lst c (applyContainerFilter (regexp_MatchString en)
        \<lparr>FNames = names, FPattern = pattern, FOpts = \<lparr>All = all, LLabels = labels\<rparr>\<rparr>)
        \<lparr>All = all, LLabels = labels\<rparr>) w = (r, w1)" by fastforce
  have sub: "mset (take n ys) \<subseteq># mset ys" for n and ys :: "container list"
    by (metis append_take_drop_id mset_append mset_subset_eq_add_left)
  show thesis
  proof (cases r)
    case (Inl e)
    with l assms show ?thesis by (simp add: ListNContainersAll_def listContainers_def)
  next
    case (Inr xs)
    have len: "length (shuffle d xs) = length xs" for d by (simp add: shuffle_def)
    show ?thesis
    proof (cases "limit > 0 \<and> int (length xs) > limit")
      case True
      with Inr l assms have "w' = w1" "cs = take (nat limit) (shuffle (shuffle_draw en w1) xs)"
        by (auto simp: ListNContainersAll_def listContainers_def)
      then show ?thesis using that [of xs] l Inr True sub [of "nat limit" "shuffle (shuffle_draw en w1) xs"]
        by (auto simp: len min_def)
    next
      case False
      with Inr l assms have "w' = w1" "cs = xs"
        by (auto simp: ListNContainersAll_def listContainers_def)
      then show ?thesis using that [of xs] l Inr False by simp
    qed
  qed
qed

section \<open>Properties\<close>

text \<open>\<open>rand.Shuffle\<close> as the code calls it permutes: whatever the draws, the elements stay the
  same, and every order of them is the outcome of some draws.\<close>

theorem shuffle_permutes: "mset ys = mset xs \<longleftrightarrow> (\<exists>d. shuffle d xs = ys)"
  using shuffle_reaches [of xs ys] by auto

text \<open>C18: With a positive limit the selection returns at most that many of the listed containers,
  none of them twice; without one it returns all of them. An error of the runtime is passed on.\<close>

theorem ListNContainersAll_selects:
  "case run_state (listContainers en c lst names pattern labels all) w of
     (Inl err, w1) \<Rightarrow> run_state (ListNContainersAll en c lst names pattern labels limit all) w = (Inl err, w1)
   | (Inr xs, w1) \<Rightarrow> (\<exists>cs. run_state (ListNContainersAll en c lst names pattern labels limit all) w = (Inr cs, w1) \<and>
       mset cs \<subseteq># mset xs \<and>
       int (length cs) = (if limit > 0 then min limit (int (length xs)) else int (length xs)))"
proof -
  have sub: "mset (take n ys) \<subseteq># mset ys" for n and ys :: "container list"
    by (metis append_take_drop_id mset_append mset_subset_eq_add_left)
  have len: "length (shuffle d xs) = length xs" for d and xs :: "container list" by (simp add: shuffle_def)
  show ?thesis
    using sub [of "nat limit" "shuffle d xs" for d xs]
    by (auto simp: ListNContainersAll_def len min_def split: prod.splits sum.splits)
qed

text \<open>C17: A container is a target exactly when it does not carry the Pumba label or the skip label
  with the value \<open>true\<close> and its name or ID is in the list of names (the name with or without the
  leading slash); with no names, when its name, with or without the slash, matches the pattern. A
  pattern that does not compile selects nothing.\<close>

theorem applyContainerFilter_selects:
  "applyContainerFilter M flt c \<longleftrightarrow>
    map_of (CLabels c) ''com.gaiaadm.pumba'' \<noteq> Some ''true'' \<and> map_of (CLabels c) ''com.gaiaadm.pumba.skip'' \<noteq> Some ''true'' \<and>
    (if FNames flt \<noteq> []
     then ContainerName c \<in> set (FNames flt) \<or> ContainerID c \<in> set (FNames flt) \<or>
          (\<exists>n. n \<in> set (FNames flt) \<and> ContainerName c = CHR ''/'' # n)
     else M (FPattern flt) (ContainerName c) = Some True \<or>
          (M (FPattern flt) (ContainerName c) = Some False \<and>
           (\<exists>n. ContainerName c = CHR ''/'' # n \<and> M (FPattern flt) n = Some True)))"
  by (auto simp: applyContainerFilter_iff IsPumba_def IsPumbaSkip_def pumbaLabel_def pumbaSkipLabel_def
      matchNames_iff matchPattern_def prefix_def split: option.splits)

end
