(* ===== verification/Client.thy ===== *)
theory Client
  imports Container
begin

text \<open>
  What the chaos commands rely on in a container runtime, as locales over the operations of
  \<open>container.Client\<close>. \<open>eff\<close> reads out of the runtime's world whatever counts as an effect on the
  host (for the adapters: the calls of their SDK that change something).
  \<^item> \<open>lister\<close>: listing returns only containers that the filter accepts and has no effect.
  \<^item> \<open>targeted_client\<close>: every operation on a container that is a target in the world in which it is called or
    in an earlier one, and whose dry-run flag satisfies \<open>ok\<close>, stays within a preorder of worlds; a listing
    with a filter below \<open>sel\<close> finds only targets, and a stop by ID is asked only for the IDs that a stress
    operation returned.
  \<^item> \<open>ordered_client\<close>: every operation whose dry-run flag satisfies \<open>ok\<close> stays within a preorder of worlds;
    what follows for the chaos commands is proved from this alone.
  \<^item> \<open>runtime_client\<close>: with the dry-run flag set, no operation has an effect. This is an \<open>ordered_client\<close>
    for the flag itself and the preorder that keeps the effects.
\<close>

locale lister =
  fixes lst :: "ctx \<Rightarrow> filter_func \<Rightarrow> list_opts \<Rightarrow> ('w, error + container list) state"
    and eff :: "'w \<Rightarrow> 'v"
  assumes lst_filter: "run_state (lst c f os) w = (Inr cs, w') \<Longrightarrow> x \<in> set cs \<Longrightarrow> f x"
    and lst_quiet: "quiet eff (lst c f os)"

text \<open>With a filter that lets nothing but \<open>sel\<close> pass, a lister finds targets of the world in which it ends.\<close>

definition lists_only :: "(container \<Rightarrow> bool) \<Rightarrow> ('w \<Rightarrow> container \<Rightarrow> bool) \<Rightarrow> 'w lister_op \<Rightarrow> bool" where
  "lists_only sel tgt lst \<longleftrightarrow> (\<forall>c f os w cs w'. run_state (lst c f os) w = (Inr cs, w') \<longrightarrow> (\<forall>y. f y \<longrightarrow> sel y) \<longrightarrow>
     (\<forall>x \<in> set cs. tgt w' x))"

locale targeted_client = effect_order R
  for R :: "'w \<Rightarrow> 'w \<Rightarrow> bool" +
  fixes cl :: "'w client" and ok :: "bool \<Rightarrow> bool" and sel :: "container \<Rightarrow> bool"
    and tgt :: "'w \<Rightarrow> container \<Rightarrow> bool" and own :: "'w \<Rightarrow> string \<Rightarrow> bool"
  assumes list_only: "lists_only sel tgt (ListContainers cl)"
    and tgt_stable: "R w w' \<Longrightarrow> tgt w x \<Longrightarrow> tgt w' x"
    and aim_List: "confined R (ListContainers cl c f os)"
    and aim_Stop: "ok d \<Longrightarrow> tgt w x \<Longrightarrow> confined (above R w) (StopContainer cl c x n d)"
    and aim_Kill: "ok d \<Longrightarrow> tgt w x \<Longrightarrow> confined (above R w) (KillContainer cl c x s d)"
    and aim_Start: "ok d \<Longrightarrow> tgt w x \<Longrightarrow> confined (above R w) (StartContainer cl c x d)"
    and aim_Restart: "ok d \<Longrightarrow> tgt w x \<Longrightarrow> confined (above R w) (RestartContainer cl c x t d)"
    and aim_Remove: "ok (RDryRun ro) \<Longrightarrow> tgt w x \<Longrightarrow> confined (above R w) (RemoveContainer cl c x ro)"
    and aim_Pause: "ok d \<Longrightarrow> tgt w x \<Longrightarrow> confined (above R w) (PauseContainer cl c x d)"
    and aim_Unpause: "ok d \<Longrightarrow> tgt w x \<Longrightarrow> confined (above R w) (UnpauseContainer cl c x d)"
    and aim_StopID: "ok d \<Longrightarrow> own w i \<Longrightarrow> confined (above R w) (StopContainerWithID cl c i t d)"
    and aim_Exec: "ok d \<Longrightarrow> tgt w x \<Longrightarrow> confined (above R w) (ExecContainer cl c x s args d)"
    and aim_Netem: "ok (NDryRun nr) \<Longrightarrow> tgt w (NContainer nr) \<Longrightarrow> confined (above R w) (NetemContainer cl c nr)"
    and aim_StopNetem: "ok (NDryRun nr) \<Longrightarrow> tgt w (NContainer nr) \<Longrightarrow> confined (above R w) (StopNetemContainer cl c nr)"
    and aim_IPTables: "ok (IDryRun ir) \<Longrightarrow> tgt w (IContainer ir) \<Longrightarrow> confined (above R w) (IPTablesContainer cl c ir)"
    and aim_StopIPTables: "ok (IDryRun ir) \<Longrightarrow> tgt w (IContainer ir) \<Longrightarrow> confined (above R w) (StopIPTablesContainer cl c ir)"
    and aim_Stress: "ok (StDryRun sr) \<Longrightarrow> tgt w (StContainer sr) \<Longrightarrow> confined (above R w) (StressContainer cl c sr)"
    and own_Stress: "\<not> StDryRun sr \<Longrightarrow> tgt w (StContainer sr) \<Longrightarrow> R w u \<Longrightarrow>
      run_state (StressContainer cl c sr) u = (Inr res, v) \<Longrightarrow> own v (SidecarID res)"

locale ordered_client = effect_order R
  for R :: "'w \<Rightarrow> 'w \<Rightarrow> bool" +
  fixes cl :: "'w client" and ok :: "bool \<Rightarrow> bool"
  assumes run_List: "confined R (ListContainers cl c f os)"
    and run_Stop: "ok d \<Longrightarrow> confined R (StopContainer cl c x n d)"
    and run_Kill: "ok d \<Longrightarrow> confined R (KillContainer cl c x s d)"
    and run_Start: "ok d \<Longrightarrow> confined R (StartContainer cl c x d)"
    and run_Restart: "ok d \<Longrightarrow> confined R (RestartContainer cl c x t d)"
    and run_Remove: "ok (RDryRun ro) \<Longrightarrow> confined R (RemoveContainer cl c x ro)"
    and run_Pause: "ok d \<Longrightarrow> confined R (PauseContainer cl c x d)"
    and run_Unpause: "ok d \<Longrightarrow> confined R (UnpauseContainer cl c x d)"
    and run_StopID: "ok d \<Longrightarrow> confined R (StopContainerWithID cl c i t d)"
    and run_Exec: "ok d \<Longrightarrow> confined R (ExecContainer cl c x s args d)"
    and run_Netem: "ok (NDryRun nr) \<Longrightarrow> confined R (NetemContainer cl c nr)"
    and run_StopNetem: "ok (NDryRun nr) \<Longrightarrow> confined R (StopNetemContainer cl c nr)"
    and run_IPTables: "ok (IDryRun ir) \<Longrightarrow> confined R (IPTablesContainer cl c ir)"
    and run_StopIPTables: "ok (IDryRun ir) \<Longrightarrow> confined R (StopIPTablesContainer cl c ir)"
    and run_Stress: "ok (StDryRun sr) \<Longrightarrow> confined R (StressContainer cl c sr)"

locale runtime_client = lister "ListContainers cl" eff
  for cl :: "'w client" and eff :: "'w \<Rightarrow> 'v" +
  assumes dry_Stop: "quiet eff (StopContainer cl c x n True)"
    and dry_Kill: "quiet eff (KillContainer cl c x s True)"
    and dry_Start: "quiet eff (StartContainer cl c x True)"
    and dry_Restart: "quiet eff (RestartContainer cl c x d True)"
    and dry_Remove: "RDryRun ro \<Longrightarrow> quiet eff (RemoveContainer cl c x ro)"
    and dry_Pause: "quiet eff (PauseContainer cl c x True)"
    and dry_Unpause: "quiet eff (UnpauseContainer cl c x True)"
    and dry_StopID: "quiet eff (StopContainerWithID cl c i d True)"
    and dry_Exec: "quiet eff (ExecContainer cl c x s args True)"
    and dry_Netem: "NDryRun nr \<Longrightarrow> quiet eff (NetemContainer cl c nr)"
    and dry_StopNetem: "NDryRun nr \<Longrightarrow> quiet eff (StopNetemContainer cl c nr)"
    and dry_IPTables: "IDryRun ir \<Longrightarrow> quiet eff (IPTablesContainer cl c ir)"
    and dry_StopIPTables: "IDryRun ir \<Longrightarrow> quiet eff (StopIPTablesContainer cl c ir)"
    and dry_Stress: "StDryRun sr \<Longrightarrow> quiet eff (StressContainer cl c sr)"

context lister
begin

lemma ListNContainersAll_quiet: "quiet eff (ListNContainersAll en c lst names pattern labels limit all)"
  unfolding ListNContainersAll_def listContainers_def by (intro quiet_intros lst_quiet)

lemma targets_filtered:
  assumes "run_state (ListNContainersAll en c lst names pattern labels limit all) w = (Inr cs, w')"
    and "x \<in> set cs"
  shows "applyContainerFilter (regexp_MatchString en)
    \<lparr>FNames = names, FPattern = pattern, FOpts = \<lparr>All = all, LLabels = labels\<rparr>\<rparr> x"
proof -
  from assms(1) obtain xs where
    "run_state (lst c (applyContainerFilter (regexp_MatchString en)
        \<lparr>FNames = names, FPattern = pattern, FOpts = \<lparr>All = all, LLabels = labels\<rparr>\<rparr>)
        \<lparr>All = all, LLabels = labels\<rparr>) w = (Inr xs, w')" "mset cs \<subseteq># mset xs"
    by (rule ListNContainersAll_Inr)
  then show ?thesis using assms(2) by (meson lst_filter mset_subset_eqD set_mset_mset in_multiset_in_set)
qed

end

sublocale runtime_client \<subseteq> dry: ordered_client "\<lambda>w w'. eff w' = eff w" cl "\<lambda>d. d"
  by unfold_locales (auto intro: lst_quiet dry_Stop dry_Kill dry_Start dry_Restart dry_Remove dry_Pause
      dry_Unpause dry_StopID dry_Exec dry_Netem dry_StopNetem dry_IPTables dry_StopIPTables dry_Stress)

sublocale ordered_client \<subseteq> aimed: targeted_client R cl ok "\<lambda>_. True" "\<lambda>_ _. True" "\<lambda>_ _. True"
  by unfold_locales (auto simp: lists_only_def intro: confined_above run_List run_Stop run_Kill run_Start run_Restart
      run_Remove run_Pause run_Unpause run_StopID run_Exec run_Netem run_StopNetem run_IPTables run_StopIPTables run_Stress)

lemma lists_only_targets:
  assumes "lists_only sel tgt lst" and "\<And>x. accepts (regexp_MatchString en) names pattern x \<Longrightarrow> sel x"
    and "run_state (ListNContainersAll en c lst names pattern labels limit all) w = (Inr cs, w')" and "x \<in> set cs"
  shows "tgt w' x"
proof -
  from assms(3) obtain xs where
    "run_state (lst c (accepts (regexp_MatchString en) names pattern) \<lparr>All = all, LLabels = labels\<rparr>) w = (Inr xs, w')"
    "mset cs \<subseteq># mset xs"
    by (rule ListNContainersAll_Inr) (simp add: applyContainerFilter_accepts)
  moreover have "x \<in> set xs" using calculation(2) assms(4) by (meson mset_subset_eqD set_mset_mset in_multiset_in_set)
  ultimately show ?thesis using assms(1,2) unfolding lists_only_def by blast
qed

lemma lists_only_filter:
  assumes "\<And>c f os w cs w' x. run_state (lst c f os) w = (Inr cs, w') \<Longrightarrow> x \<in> set cs \<Longrightarrow> f x"
  shows "lists_only sel (\<lambda>_. sel) lst"
  using assms unfolding lists_only_def by blast

context targeted_client
begin

lemmas aim_ops = aim_List aim_Stop aim_Kill aim_Start aim_Restart aim_Remove aim_Pause aim_Unpause
  aim_StopID aim_Exec aim_Netem aim_StopNetem aim_IPTables aim_StopIPTables aim_Stress

lemma ListNContainersAll_confined:
  "confined R (ListNContainersAll en c (ListContainers cl) names pattern labels limit all)"
  unfolding ListNContainersAll_def listContainers_def by (intro confined_intros aim_List)

end

context ordered_client
begin

lemmas run_ops = run_List run_Stop run_Kill run_Start run_Restart run_Remove run_Pause run_Unpause
  run_StopID run_Exec run_Netem run_StopNetem run_IPTables run_StopIPTables run_Stress

end

section \<open>Logging the calls\<close>

text \<open>
  A client that also logs every call of an operation that takes a target, in a second component of
  the world. It makes statements about the calls of a command possible for any runtime.
\<close>

datatype client_call =
    CStop ctx container int bool | CKill ctx container string bool | CStart ctx container bool
  | CRestart ctx container duration bool | CRemove ctx container remove_opts
  | CPause ctx container bool | CUnpause ctx container bool | CStopID ctx string duration bool
  | CExec ctx container string "string list" bool
  | CNetem ctx netem_request | CStopNetem ctx netem_request
  | CIPTables ctx iptables_request | CStopIPTables ctx iptables_request
  | CStress ctx stress_request

type_synonym call_log = "(client_call \<times> error option) list"

definition logged ::
  "client_call \<Rightarrow> ('a \<Rightarrow> error option) \<Rightarrow> ('w, 'a) state \<Rightarrow> ('w \<times> call_log, 'a) state" where
  "logged k outcome m =
     State (\<lambda>(w, l). case run_state m w of (a, w') \<Rightarrow> (a, (w', l @ [(k, outcome a)])))"

lemma run_logged [simp]:
  "run_state (logged k oc m) (w, l) = (case run_state m w of (a, w') \<Rightarrow> (a, (w', l @ [(k, oc a)])))"
  by (simp add: logged_def)

definition outcome_of :: "error + 'a \<Rightarrow> error option" where
  "outcome_of r = (case r of Inl e \<Rightarrow> Some e | Inr _ \<Rightarrow> None)"

definition recorded :: "'w client \<Rightarrow> ('w \<times> call_log) client" where
  "recorded cl = \<lparr>
     ListContainers = (\<lambda>c f os. lift_state (ListContainers cl c f os)),
     StopContainer = (\<lambda>c x n d. logged (CStop c x n d) id (StopContainer cl c x n d)),
     KillContainer = (\<lambda>c x s d. logged (CKill c x s d) id (KillContainer cl c x s d)),
     StartContainer = (\<lambda>c x d. logged (CStart c x d) id (StartContainer cl c x d)),
     RestartContainer = (\<lambda>c x t d. logged (CRestart c x t d) id (RestartContainer cl c x t d)),
     RemoveContainer = (\<lambda>c x ro. logged (CRemove c x ro) id (RemoveContainer cl c x ro)),
     PauseContainer = (\<lambda>c x d. logged (CPause c x d) id (PauseContainer cl c x d)),
     UnpauseContainer = (\<lambda>c x d. logged (CUnpause c x d) id (UnpauseContainer cl c x d)),
     StopContainerWithID = (\<lambda>c i t d. logged (CStopID c i t d) id (StopContainerWithID cl c i t d)),
     ExecContainer = (\<lambda>c x s as d. logged (CExec c x s as d) id (ExecContainer cl c x s as d)),
     NetemContainer = (\<lambda>c r. logged (CNetem c r) id (NetemContainer cl c r)),
     StopNetemContainer = (\<lambda>c r. logged (CStopNetem c r) id (StopNetemContainer cl c r)),
     IPTablesContainer = (\<lambda>c r. logged (CIPTables c r) id (IPTablesContainer cl c r)),
     StopIPTablesContainer = (\<lambda>c r. logged (CStopIPTables c r) id (StopIPTablesContainer cl c r)),
     StressContainer = (\<lambda>c r. logged (CStress c r) outcome_of (StressContainer cl c r)),
     CloseClient = lift_state (CloseClient cl)\<rparr>"

lemma recorded_sel [simp]:
  "ListContainers (recorded cl) c f os = lift_state (ListContainers cl c f os)"
  "StopContainer (recorded cl) c x n d = logged (CStop c x n d) id (StopContainer cl c x n d)"
  "KillContainer (recorded cl) c x s d = logged (CKill c x s d) id (KillContainer cl c x s d)"
  "StartContainer (recorded cl) c x d = logged (CStart c x d) id (StartContainer cl c x d)"
  "RestartContainer (recorded cl) c x t d = logged (CRestart c x t d) id (RestartContainer cl c x t d)"
  "RemoveContainer (recorded cl) c x ro = logged (CRemove c x ro) id (RemoveContainer cl c x ro)"
  "PauseContainer (recorded cl) c x d = logged (CPause c x d) id (PauseContainer cl c x d)"
  "UnpauseContainer (recorded cl) c x d = logged (CUnpause c x d) id (UnpauseContainer cl c x d)"
  "StopContainerWithID (recorded cl) c i t d = logged (CStopID c i t d) id (StopContainerWithID cl c i t d)"
  "ExecContainer (recorded cl) c x s as d = logged (CExec c x s as d) id (ExecContainer cl c x s as d)"
  "NetemContainer (recorded cl) c nr = logged (CNetem c nr) id (NetemContainer cl c nr)"
  "StopNetemContainer (recorded cl) c nr = logged (CStopNetem c nr) id (StopNetemContainer cl c nr)"
  "IPTablesContainer (recorded cl) c ir = logged (CIPTables c ir) id (IPTablesContainer cl c ir)"
  "StopIPTablesContainer (recorded cl) c ir = logged (CStopIPTables c ir) id (StopIPTablesContainer cl c ir)"
  "StressContainer (recorded cl) c sr = logged (CStress c sr) outcome_of (StressContainer cl c sr)"
  by (simp_all add: recorded_def)

section \<open>A runtime to evaluate on\<close>

text \<open>
  A runtime whose world never changes: it lists \<open>cs\<close>, an operation on \<open>x\<close> answers \<open>r x\<close>. The
  properties are evaluated on it at concrete inputs.
\<close>

definition still_client :: "container list \<Rightarrow> (container \<Rightarrow> error option) \<Rightarrow> 'w client" where
  "still_client cs r = \<lparr>
     ListContainers = (\<lambda>c f os. State_Monad.return (Inr (filter f cs))),
     StopContainer = (\<lambda>c x n d. State_Monad.return (r x)),
     KillContainer = (\<lambda>c x s d. State_Monad.return (r x)),
     StartContainer = (\<lambda>c x d. State_Monad.return (r x)),
     RestartContainer = (\<lambda>c x t d. State_Monad.return (r x)),
     RemoveContainer = (\<lambda>c x ro. State_Monad.return (r x)),
     PauseContainer = (\<lambda>c x d. State_Monad.return (r x)),
     UnpauseContainer = (\<lambda>c x d. State_Monad.return (r x)),
     StopContainerWithID = (\<lambda>c i t d. State_Monad.return None),
     ExecContainer = (\<lambda>c x s args d. State_Monad.return (r x)),
     NetemContainer = (\<lambda>c nr. State_Monad.return (r (NContainer nr))),
     StopNetemContainer = (\<lambda>c nr. State_Monad.return (r (NContainer nr))),
     IPTablesContainer = (\<lambda>c ir. State_Monad.return (r (IContainer ir))),
     StopIPTablesContainer = (\<lambda>c ir. State_Monad.return (r (IContainer ir))),
     StressContainer = (\<lambda>c sr. State_Monad.return (case r (StContainer sr) of
        Some e \<Rightarrow> Inl e | None \<Rightarrow> Inr \<lparr>SidecarID = '''', Output = [], Errors = []\<rparr>)),
     CloseClient = State_Monad.return None\<rparr>"

definition named :: "string \<Rightarrow> container" where
  "named n = \<lparr>ContainerID = n @ ''-id'', ContainerName = n, Image = ''img'', ImageID = ''sha'',
     RunState = StateRunning, CLabels = [], Networks = []\<rparr>"

definition plain_env :: "'w env" where
  "plain_env = \<lparr>regexp_MatchString = (\<lambda>p s. Some True), intn = (\<lambda>_ _. 0),
     shuffle_draw = (\<lambda>_ _. 0), pick_branch = (\<lambda>_ _. 0), schedule = (\<lambda>_. (0, 0)),
     eg_wait = (\<lambda>rs. case List.map_filter id rs of [] \<Rightarrow> None | e # _ \<Rightarrow> Some e)\<rparr>"

lemma plain_env_ok: "errgroup_ok (eg_wait plain_env)"
  by (simp add: plain_env_def errgroup_ok_def)

section \<open>Sequences of operations\<close>

text \<open>One operation on the client, its result dropped.\<close>

fun issue :: "'w client \<Rightarrow> client_call \<Rightarrow> ('w, unit) state" where
  "issue cl (CStop c x n d) = do { _ \<leftarrow> StopContainer cl c x n d; State_Monad.return () }"
| "issue cl (CKill c x s d) = do { _ \<leftarrow> KillContainer cl c x s d; State_Monad.return () }"
| "issue cl (CStart c x d) = do { _ \<leftarrow> StartContainer cl c x d; State_Monad.return () }"
| "issue cl (CRestart c x t d) = do { _ \<leftarrow> RestartContainer cl c x t d; State_Monad.return () }"
| "issue cl (CRemove c x ro) = do { _ \<leftarrow> RemoveContainer cl c x ro; State_Monad.return () }"
| "issue cl (CPause c x d) = do { _ \<leftarrow> PauseContainer cl c x d; State_Monad.return () }"
| "issue cl (CUnpause c x d) = do { _ \<leftarrow> UnpauseContainer cl c x d; State_Monad.return () }"
| "issue cl (CStopID c i t d) = do { _ \<leftarrow> StopContainerWithID cl c i t d; State_Monad.return () }"
| "issue cl (CExec c x s args d) = do { _ \<leftarrow> ExecContainer cl c x s args d; State_Monad.return () }"
| "issue cl (CNetem c r) = do { _ \<leftarrow> NetemContainer cl c r; State_Monad.return () }"
| "issue cl (CStopNetem c r) = do { _ \<leftarrow> StopNetemContainer cl c r; State_Monad.return () }"
| "issue cl (CIPTables c r) = do { _ \<leftarrow> IPTablesContainer cl c r; State_Monad.return () }"
| "issue cl (CStopIPTables c r) = do { _ \<leftarrow> StopIPTablesContainer cl c r; State_Monad.return () }"
| "issue cl (CStress c r) = do { _ \<leftarrow> StressContainer cl c r; State_Monad.return () }"

text \<open>The worlds that are reached from a world by listing and by operations, in any order.\<close>

inductive issued :: "'w client \<Rightarrow> 'w \<Rightarrow> 'w \<Rightarrow> bool" for cl :: "'w client" where
  issued_refl: "issued cl w w"
| issued_list: "issued cl u v \<Longrightarrow> run_state (ListContainers cl c f os) v = (r, w) \<Longrightarrow> issued cl u w"
| issued_call: "issued cl u v \<Longrightarrow> run_state (issue cl k) v = (r, w) \<Longrightarrow> issued cl u w"

lemma issued_trans: "issued cl v w \<Longrightarrow> issued cl u v \<Longrightarrow> issued cl u w"
  by (induction rule: issued.induct) (auto intro: issued.intros)

lemma issued_one:
  assumes "issue cl k = do { _ \<leftarrow> m; State_Monad.return () }"
  shows "confined (issued cl) m"
proof (rule confinedI)
  fix w a w' assume "run_state m w = (a, w')"
  then have "run_state (issue cl k) w = ((), w')" by (simp add: assms)
  then show "issued cl w w'" by (rule issued_call [OF issued_refl])
qed

text \<open>Every operation is a step; so what a command does is a sequence of them.\<close>

interpretation issuing: ordered_client "issued cl" cl "\<lambda>_. True" for cl :: "'w client"
proof unfold_locales
  show "confined (issued cl) (ListContainers cl c f os)" for c f os
    by (rule confinedI) (rule issued_list [OF issued_refl])
qed (rule issued_refl, erule issued_trans, assumption, (rule issued_one, rule issue.simps)+)

text \<open>Conversely, what every operation keeps is kept by a sequence.\<close>

context ordered_client
begin

lemma issue_confined: "(\<And>d. ok d) \<Longrightarrow> confined R (issue cl k)"
  by (cases k) (auto intro!: confined_bind confined_return run_ops)

lemma issued_within:
  assumes "issued cl u w" and "\<And>d. ok d"
  shows "R u w"
  using assms(1)
proof induction
  case (issued_refl w)
  show ?case by (rule R_refl)
next
  case (issued_list u v c f os r w)
  show ?case by (rule R_trans [OF issued_list.IH confinedD [OF run_List issued_list.hyps(2)]])
next
  case (issued_call u v k r w)
  show ?case by (rule R_trans [OF issued_call.IH confinedD [OF issue_confined [OF assms(2)] issued_call.hyps(2)]])
qed

end

end
