(* ===== verification/Authority.thy ===== *)
theory Authority
  imports Client
begin

text \<open>
  What a run may act on. A call of an SDK \<^emph>\<open>needs\<close> handles (the container or the exec that it acts on), and an
  answer \<^emph>\<open>gives\<close> handles. A trace is authorised when every call has been given its handles by the answers
  before it: nothing is touched by a name that the run made up or remembered from elsewhere. The traces
  that extend another one by authorised calls are a preorder, so that the \<open>targeted_client\<close> carries it to
  the commands.
\<close>

section \<open>Handles\<close>

datatype handle = ContainerHandle string | ExecHandle string

text \<open>The handles that the answers along a trace have given.\<close>

definition owned :: "('e list \<Rightarrow> 'e \<Rightarrow> handle set) \<Rightarrow> 'e list \<Rightarrow> handle set" where
  "owned gives tr = (\<Union>n \<in> {..<length tr}. gives (take n tr) (tr ! n))"

primrec authorised ::
  "('e \<Rightarrow> handle set) \<Rightarrow> ('e list \<Rightarrow> 'e \<Rightarrow> handle set) \<Rightarrow> 'e list \<Rightarrow> 'e list \<Rightarrow> bool" where
  "authorised needs gives tr [] = True"
| "authorised needs gives tr (k # evs) =
     (needs k \<subseteq> owned gives tr \<and> authorised needs gives (tr @ [k]) evs)"

definition authority ::
  "('e \<Rightarrow> handle set) \<Rightarrow> ('e list \<Rightarrow> 'e \<Rightarrow> handle set) \<Rightarrow> 'e list \<Rightarrow> 'e list \<Rightarrow> bool" where
  "authority needs gives tr tr' \<longleftrightarrow> (\<exists>evs. tr' = tr @ evs \<and> authorised needs gives tr evs)"

lemma owned_Nil [simp]: "owned gives [] = {}"
  by (simp add: owned_def)

lemma owned_snoc [simp]: "owned gives (tr @ [k]) = owned gives tr \<union> gives tr k"
proof -
  have "gives (take n (tr @ [k])) ((tr @ [k]) ! n) = gives (take n tr) (tr ! n)" if "n < length tr" for n
    using that by (simp add: nth_append)
  then show ?thesis by (auto simp: owned_def lessThan_Suc)
qed

lemma owned_append: "owned gives tr \<subseteq> owned gives (tr @ evs)"
proof (induction evs rule: rev_induct)
  case (snoc k evs)
  then show ?case unfolding append_assoc [symmetric] owned_snoc by blast
qed simp

lemma authorised_append:
  "authorised needs gives tr (xs @ ys) \<longleftrightarrow> authorised needs gives tr xs \<and> authorised needs gives (tr @ xs) ys"
  by (induction xs arbitrary: tr) simp_all

text \<open>Read off the trace: a handle that a call needs was given by the answer to an earlier call.\<close>

lemma owned_iff: "h \<in> owned gives tr \<longleftrightarrow> (\<exists>u k v. tr = u @ k # v \<and> h \<in> gives u k)"
proof
  assume "h \<in> owned gives tr"
  then obtain n where "n < length tr" "h \<in> gives (take n tr) (tr ! n)" by (auto simp: owned_def)
  then show "\<exists>u k v. tr = u @ k # v \<and> h \<in> gives u k" by (metis id_take_nth_drop)
next
  assume "\<exists>u k v. tr = u @ k # v \<and> h \<in> gives u k"
  then obtain u k v where tr: "tr = u @ k # v" and h: "h \<in> gives u k" by blast
  have "owned gives (u @ [k]) \<subseteq> owned gives ((u @ [k]) @ v)" by (rule owned_append)
  with tr h show "h \<in> owned gives tr" by auto
qed

lemma authorised_given:
  assumes "authorised needs gives [] (u @ k # v)" and "h \<in> needs k"
  shows "\<exists>u1 k1 u2. u = u1 @ k1 # u2 \<and> h \<in> gives u1 k1"
  using assms by (auto simp: authorised_append owned_iff)

interpretation authority: effect_order "authority needs gives" for needs gives
proof unfold_locales
  show "authority needs gives w w" for w by (simp add: authority_def)
  show "authority needs gives u v \<Longrightarrow> authority needs gives v w \<Longrightarrow> authority needs gives u w" for u v w
    unfolding authority_def using authorised_append by (metis append_assoc)
qed

section \<open>Authorised programs\<close>

abbreviation acts ::
  "('e \<Rightarrow> handle set) \<Rightarrow> ('e list \<Rightarrow> 'e \<Rightarrow> handle set) \<Rightarrow> 'e list \<Rightarrow> ('e list, 'a) state \<Rightarrow> bool" where
  "acts needs gives w m \<equiv> confined (above (authority needs gives) w) m"

lemma authority_owned: "authority needs gives u v \<Longrightarrow> owned gives u \<subseteq> owned gives v"
  unfolding authority_def using owned_append by blast

lemma authority_call:
  "authority needs gives w u \<Longrightarrow> needs k \<subseteq> owned gives w \<Longrightarrow> authority needs gives u (u @ [k])"
  by (drule authority_owned) (auto simp: authority_def)

lemma acts_call: "needs k \<subseteq> owned gives w \<Longrightarrow> acts needs gives w (sdk_call k f)"
  by (rule confined_aboveI) (auto dest: authority_call)

lemma acts_free: "emits (\<lambda>k. needs k = {}) m \<Longrightarrow> confined (authority needs gives) m"
proof (erule confined_mono)
  have "list_all (\<lambda>k. needs k = {}) evs \<Longrightarrow> authorised needs gives tr evs" for tr evs
    by (induction evs arbitrary: tr) simp_all
  then show "extends (\<lambda>k. needs k = {}) w w' \<Longrightarrow> authority needs gives w w'" for w w'
    unfolding extends_def authority_def by blast
qed

lemma acts_emits: "emits (\<lambda>k. needs k \<subseteq> owned gives w) m \<Longrightarrow> acts needs gives w m"
proof (erule confined_mono)
  have "list_all (\<lambda>k. needs k \<subseteq> owned gives w) evs \<Longrightarrow> owned gives w \<subseteq> owned gives u \<Longrightarrow> authorised needs gives u evs"
    for evs u
  proof (induction evs arbitrary: u)
    case (Cons k evs)
    then have "owned gives w \<subseteq> owned gives (u @ [k])" by auto
    with Cons show ?case by auto
  qed simp
  then show "above (authority needs gives) w u v" if "extends (\<lambda>k. needs k \<subseteq> owned gives w) u v" for u v
    using that authority_owned unfolding above_def extends_def authority_def [of needs gives u v] by metis
qed

text \<open>A call whose answer gives handles: what follows owns them too.\<close>

lemma acts_given:
  assumes "needs k \<subseteq> owned gives w" and "\<And>u. G (f u) \<subseteq> gives u k"
    and "\<And>v a. owned gives w \<subseteq> owned gives v \<Longrightarrow> G a \<subseteq> owned gives v \<Longrightarrow> acts needs gives v (g a)"
  shows "acts needs gives w (State_Monad.bind (sdk_call k f) g)"
proof (rule authority.above_bind, rule acts_call, rule assms(1))
  fix u a v assume u: "authority needs gives w u" and "run_state (sdk_call k f) u = (a, v)"
    and v: "authority needs gives w v"
  then have "a = f u" "v = u @ [k]" by simp_all
  with assms(2) [of u] authority_owned [OF v] show "acts needs gives v (g a)" by (intro assms(3)) auto
qed

lemma authorised_run: "confined (authority needs gives) m \<Longrightarrow> authorised needs gives [] (snd (run_state m []))"
  by (auto simp: confined_def authority_def dest!: spec [where x = "[]"])

text \<open>The handle that a creation returns.\<close>

definition returned :: "(string \<Rightarrow> handle) \<Rightarrow> error + string \<Rightarrow> handle set" where
  "returned mk r = (case r of Inl e \<Rightarrow> {} | Inr i \<Rightarrow> {mk i})"

lemma returned_simps [simp]: "returned mk (Inl e) = {}" "returned mk (Inr i) = {mk i}"
  by (simp_all add: returned_def)

text \<open>A container is a target when a filter below \<open>sel\<close> accepts it and its handle was given.\<close>

definition owned_target ::
  "(container \<Rightarrow> bool) \<Rightarrow> ('e list \<Rightarrow> 'e \<Rightarrow> handle set) \<Rightarrow> 'e list \<Rightarrow> container \<Rightarrow> bool" where
  "owned_target sel gives tr x \<longleftrightarrow> sel x \<and> ContainerHandle (ContainerID x) \<in> owned gives tr"

lemma owned_target_stable:
  "authority needs gives w w' \<Longrightarrow> owned_target sel gives w x \<Longrightarrow> owned_target sel gives w' x"
  by (auto simp: owned_target_def dest: authority_owned)

end
