(* ===== verification/CliFlags.thy ===== *)
theory CliFlags
  imports GoStrings GoBase
begin

text \<open>
  \<open>pkg/chaos/cliflags\<close>: the \<open>Flags\<close> interface over a \<open>cli.Context\<close> of urfave/cli v1.

  The library parses the command line; what it answers for a flag name in one context is
  \<open>flag_values\<close>, an argument of every definition. The chain of parent contexts is explicit.
\<close>

record flag_values =
  val_String :: "string \<Rightarrow> string"
  val_Bool :: "string \<Rightarrow> bool"
  val_BoolT :: "string \<Rightarrow> bool"
  val_Duration :: "string \<Rightarrow> duration"
  val_Int :: "string \<Rightarrow> int"
  val_Float64 :: "string \<Rightarrow> float64"
  val_StringSlice :: "string \<Rightarrow> string list"

datatype cli_ctx = CliCtx (ctx_values: flag_values) (ctx_args: "string list") (ctx_parent: "cli_ctx option")

type_synonym flags = cli_ctx

definition flag_String :: "flags \<Rightarrow> string \<Rightarrow> string" where
  "flag_String f name = val_String (ctx_values f) name"
definition flag_Bool :: "flags \<Rightarrow> string \<Rightarrow> bool" where
  "flag_Bool f name = val_Bool (ctx_values f) name"
definition flag_BoolT :: "flags \<Rightarrow> string \<Rightarrow> bool" where
  "flag_BoolT f name = val_BoolT (ctx_values f) name"
definition flag_Duration :: "flags \<Rightarrow> string \<Rightarrow> duration" where
  "flag_Duration f name = val_Duration (ctx_values f) name"
definition flag_Int :: "flags \<Rightarrow> string \<Rightarrow> int" where
  "flag_Int f name = val_Int (ctx_values f) name"
definition flag_Float64 :: "flags \<Rightarrow> string \<Rightarrow> float64" where
  "flag_Float64 f name = val_Float64 (ctx_values f) name"
definition flag_StringSlice :: "flags \<Rightarrow> string \<Rightarrow> string list" where
  "flag_StringSlice f name = val_StringSlice (ctx_values f) name"
definition flag_Args :: "flags \<Rightarrow> string list" where
  "flag_Args f = ctx_args f"

text \<open>\<open>Parent\<close> is nil at the root.\<close>

definition flag_Parent :: "flags \<Rightarrow> flags option" where
  "flag_Parent f = ctx_parent f"

fun flag_Global :: "flags \<Rightarrow> flags" where
  "flag_Global (CliCtx v args None) = CliCtx v args None"
| "flag_Global (CliCtx v args (Some p)) = flag_Global p"

definition NewV1FromApp :: "cli_ctx \<Rightarrow> flags" where
  "NewV1FromApp c = flag_Global c"

lemma flag_Parent_Global: "flag_Parent (flag_Global f) = None"
  by (induction f rule: flag_Global.induct) (simp_all add: flag_Parent_def)

lemma flag_Global_root: "flag_Parent f = None \<Longrightarrow> flag_Global f = f"
  by (cases f rule: flag_Global.cases) (simp_all add: flag_Parent_def)

lemma flag_Global_Parent: "flag_Parent f = Some p \<Longrightarrow> flag_Global f = flag_Global p"
  by (cases f rule: flag_Global.cases) (simp_all add: flag_Parent_def)

lemma flag_Global_idem [simp]: "flag_Global (flag_Global f) = flag_Global f"
  by (rule flag_Global_root) (rule flag_Parent_Global)

text \<open>The root's flags are the flags of one and only one ancestor: the one without a parent.\<close>

inductive ancestor :: "flags \<Rightarrow> flags \<Rightarrow> bool" for f where
  anc_self: "ancestor f f"
| anc_parent: "ancestor f g \<Longrightarrow> flag_Parent g = Some h \<Longrightarrow> ancestor f h"

lemma ancestor_Global: "ancestor f g \<Longrightarrow> flag_Global g = flag_Global f"
  by (induction rule: ancestor.induct) (simp_all add: flag_Global_Parent)

lemma ancestor_trans: "ancestor g h \<Longrightarrow> ancestor f g \<Longrightarrow> ancestor f h"
  by (induction rule: ancestor.induct) (auto intro: ancestor.intros)

lemma Global_ancestor: "ancestor f (flag_Global f)"
proof (induction f rule: flag_Global.induct)
  case (2 v args p)
  have "ancestor (CliCtx v args (Some p)) p"
    by (rule anc_parent [OF anc_self]) (simp add: flag_Parent_def)
  with 2 show ?case by (auto intro: ancestor_trans)
qed (auto intro: ancestor.intros)

lemma flag_Global_unique: "ancestor f g \<and> flag_Parent g = None \<longleftrightarrow> g = flag_Global f"
  using ancestor_Global flag_Global_root Global_ancestor flag_Parent_Global by metis

end
