(* ===== verification/Runner.thy ===== *)
theory Runner
  imports Client CliFlags
begin

text \<open>
  \<open>pkg/chaos\<close>: the global parameters, the loop that repeats a chaos command (\<open>command.go\<close>) and the
  runner that lists the targets and applies an action to each of them (\<open>runner.go\<close>).
\<close>

section \<open>Global parameters (\<open>command.go\<close>)\<close>

definition Re2Prefix :: string where "Re2Prefix = ''re2:''"

record global_params =
  Random :: bool
  GLabels :: "string list"
  GPattern :: string
  GNames :: "string list"
  Interval :: duration
  DryRun :: bool
  SkipErrors :: bool

type_synonym 'w command = "ctx \<Rightarrow> bool \<Rightarrow> ('w, error option) state"

definition splitLabels :: "string list \<Rightarrow> string list" where
  "splitLabels raw =
     concat (map (\<lambda>l. filter (\<lambda>part. part \<noteq> '''') (map trim_space (split_on (CHR '','') l))) raw)"

definition getNamesOrPattern :: "flags \<Rightarrow> string list \<times> string" where
  "getNamesOrPattern c =
     (let args = flag_Args c in
      if length args = 0 then ([], '''')
      else if length args > 1 then (args, '''')
      else (case cut_prefix (hd args) Re2Prefix of
              Some rest \<Rightarrow> ([], rest)
            | None \<Rightarrow> ([hd args], '''')))"

definition ParseGlobalParams :: "flags \<Rightarrow> global_params" where
  "ParseGlobalParams c =
     (let g = flag_Global c; (names, pattern) = getNamesOrPattern c in
      \<lparr>Random = flag_Bool g ''random'', GLabels = splitLabels (flag_StringSlice g ''label''),
       GPattern = pattern, GNames = names, Interval = flag_Duration g ''interval'',
       DryRun = flag_Bool g ''dry-run'', SkipErrors = flag_Bool g ''skip-error''\<rparr>)"

section \<open>The loop of a chaos command (\<open>command.go\<close>)\<close>

text \<open>
  After each run the loop waits in a \<open>select\<close>: \<open>wakeup list\<close> says which branch fires each time. When
  the list ends the loop is still waiting. \<open>time.NewTicker\<close> panics on a non-positive interval.
\<close>

datatype wakeup = TopDone | Tick
datatype loop_result = Panicked | Waiting | Returned "error option"

fun chaos_loop :: "'w command \<Rightarrow> global_params \<Rightarrow> ctx \<Rightarrow> wakeup list \<Rightarrow> ('w, loop_result) state" where
  "chaos_loop run params c wakeups = do {
     r \<leftarrow> run c (Random params);
     if r \<noteq> None \<and> \<not> SkipErrors params
     then State_Monad.return (Returned (wrapf ''error running chaos command: %w'' [] r))
     else (case wakeups of
         [] \<Rightarrow> State_Monad.return Waiting
       | wk # rest \<Rightarrow>
           (case wk of
              TopDone \<Rightarrow> State_Monad.return (Returned None)
            | Tick \<Rightarrow>
                if Interval params = 0 then State_Monad.return (Returned None)
                else chaos_loop run params c rest)) }"

declare chaos_loop.simps [simp del]

definition RunChaosCommand ::
  "ctx \<Rightarrow> 'w command \<Rightarrow> global_params \<Rightarrow> wakeup list \<Rightarrow> ('w, loop_result) state" where
  "RunChaosCommand topContext run params wakeups =
     (if Interval params < 0 then State_Monad.return Panicked
      else chaos_loop run params (CtxCancel topContext) wakeups)"

section \<open>The runner (\<open>runner.go\<close>)\<close>

text \<open>An action is one goroutine body: a task that may wait in a \<open>select\<close>.\<close>

type_synonym 'w action = "ctx \<Rightarrow> container \<Rightarrow> 'w task"

definition run_actions ::
  "'w env \<Rightarrow> ctx \<Rightarrow> bool \<Rightarrow> 'w action \<Rightarrow> container list \<Rightarrow> ('w, error option) state" where
  "run_actions en c par fn containers =
     (if \<not> par then for_err (\<lambda>x. exec_task (pick_branch en) (fn c x)) containers
      else do {
        rs \<leftarrow> run_parallel (schedule en) (map (fn c) containers);
        State_Monad.return (eg_wait en rs) })"

definition pick_random :: "'w env \<Rightarrow> bool \<Rightarrow> container list \<Rightarrow> ('w, container list) state" where
  "pick_random en random containers = do {
     w \<leftarrow> State_Monad.get;
     if random then
       (case RandomContainer (intn en w) containers of
          Some c \<Rightarrow> State_Monad.return [c]
        | None \<Rightarrow> State_Monad.return containers)
     else State_Monad.return containers }"

definition runOnContainers ::
  "'w env \<Rightarrow> ctx \<Rightarrow> 'w lister_op \<Rightarrow> global_params \<Rightarrow> int \<Rightarrow> bool \<Rightarrow> bool \<Rightarrow> bool \<Rightarrow> 'w action \<Rightarrow>
     ('w, error option) state" where
  "runOnContainers en c lst gp limit all random par fn = do {
     r \<leftarrow> ListNContainersAll en c lst (GNames gp) (GPattern gp) (GLabels gp) limit all;
     case r of
       Inl err \<Rightarrow> State_Monad.return (Some (ErrWrap ''listing containers: %w'' [] err))
     | Inr containers \<Rightarrow>
         if length containers = 0 then State_Monad.return None
         else do {
           containers \<leftarrow> pick_random en random containers;
           run_actions en c par fn containers } }"

definition RunOnContainers ::
  "'w env \<Rightarrow> ctx \<Rightarrow> 'w lister_op \<Rightarrow> global_params \<Rightarrow> int \<Rightarrow> bool \<Rightarrow> bool \<Rightarrow> 'w action \<Rightarrow>
     ('w, error option) state" where
  "RunOnContainers en c lst gp limit random par fn =
     runOnContainers en c lst gp limit False random par fn"

definition RunOnContainersAll ::
  "'w env \<Rightarrow> ctx \<Rightarrow> 'w lister_op \<Rightarrow> global_params \<Rightarrow> int \<Rightarrow> bool \<Rightarrow> bool \<Rightarrow> 'w action \<Rightarrow>
     ('w, error option) state" where
  "RunOnContainersAll en c lst gp limit random par fn =
     runOnContainers en c lst gp limit True random par fn"

section \<open>Facts: parameters\<close>

lemma splitLabels_parts:
  "p \<in> set (splitLabels raw) \<Longrightarrow> p \<noteq> '''' \<and> CHR '','' \<notin> set p \<and> trim_space p = p"
proof -
  assume "p \<in> set (splitLabels raw)"
  then obtain l q where q: "q \<in> set (split_on (CHR '','') l)" "p = trim_space q" "p \<noteq> ''''"
    by (auto simp: splitLabels_def)
  with trim_space_chars [of q] show ?thesis using split_on_no_sep by fastforce
qed

lemma splitLabels_append: "splitLabels (xs @ ys) = splitLabels xs @ splitLabels ys"
  by (simp add: splitLabels_def)

lemma splitLabels_comma: "splitLabels [a @ CHR '','' # b] = splitLabels [a] @ splitLabels [b]"
  by (simp add: splitLabels_def split_on_append_sep)

lemma getNamesOrPattern_cases:
  "getNamesOrPattern c = (names, pattern) \<Longrightarrow> names = [] \<or> pattern = ''''"
  by (auto simp: getNamesOrPattern_def Let_def split: if_splits option.splits)

section \<open>Facts: the loop\<close>

definition fatal :: "global_params \<Rightarrow> error option \<Rightarrow> bool" where
  "fatal params r \<longleftrightarrow> r \<noteq> None \<and> \<not> SkipErrors params"

lemma chaos_loop_run:
  "run_state (chaos_loop run params c wakeups) w =
    (case run_state (run c (Random params)) w of (r, w') \<Rightarrow>
       if fatal params r then (Returned (wrapf ''error running chaos command: %w'' [] r), w')
       else (case wakeups of
           [] \<Rightarrow> (Waiting, w')
         | TopDone # rest \<Rightarrow> (Returned None, w')
         | Tick # rest \<Rightarrow>
             if Interval params = 0 then (Returned None, w')
             else run_state (chaos_loop run params c rest) w'))"
  by (subst chaos_loop.simps) (auto simp: fatal_def split: prod.splits list.splits wakeup.splits)

text \<open>The outcome of the \<open>n\<close>-th run (from 0) and the world after it, when no run is fatal.\<close>

fun nth_run :: "'w command \<Rightarrow> global_params \<Rightarrow> ctx \<Rightarrow> 'w \<Rightarrow> nat \<Rightarrow> error option \<times> 'w" where
  "nth_run run params c w 0 = run_state (run c (Random params)) w"
| "nth_run run params c w (Suc n) =
     run_state (run c (Random params)) (snd (nth_run run params c w n))"

lemma nth_run_shift:
  "nth_run run params c w (Suc n) = nth_run run params c (snd (run_state (run c (Random params)) w)) n"
  by (induction n) simp_all

text \<open>With \<open>k\<close> ticks behind it the loop is in its run \<open>k\<close>, started in the world left by the others.\<close>

lemma chaos_loop_ticks:
  assumes "Interval params > 0" and "\<forall>i < k. \<not> fatal params (fst (nth_run run params c w i))"
  shows "run_state (chaos_loop run params c (replicate k Tick @ rest)) w =
    run_state (chaos_loop run params c rest) (case k of 0 \<Rightarrow> w | Suc j \<Rightarrow> snd (nth_run run params c w j))"
  using assms(2)
proof (induction k arbitrary: w)
  case (Suc k)
  obtain r w' where r: "run_state (run c (Random params)) w = (r, w')" by fastforce
  have "\<not> fatal params r" using Suc.prems r by (metis fst_conv nth_run.simps(1) zero_less_Suc)
  moreover have "\<forall>i < k. \<not> fatal params (fst (nth_run run params c w' i))"
    using Suc.prems r nth_run_shift [of run params c w] by (metis Suc_less_eq snd_conv)
  moreover have "(case k of 0 \<Rightarrow> w' | Suc j \<Rightarrow> snd (nth_run run params c w' j)) = snd (nth_run run params c w k)"
    using r nth_run_shift [of run params c w] by (cases k) simp_all
  ultimately show ?case
    using r Suc.IH [of w'] assms(1) by (subst chaos_loop_run) simp
qed simp

section \<open>Facts: the runner\<close>

text \<open>The rules for what a run keeps, for any preorder of worlds.\<close>

context effect_order
begin

lemma run_actions_from:
  "(\<And>x. x \<in> set xs \<Longrightarrow> task_from R (fn c x) w) \<Longrightarrow> confined (above R w) (run_actions en c par fn xs)"
  unfolding run_actions_def by (intro above_intros above_exec_task above_run_parallel) auto

lemma pick_random_confined: "confined R (pick_random en random xs)"
  unfolding pick_random_def by (intro confined_intros)

lemma runOnContainers_on:
  assumes list: "confined R (ListNContainersAll en c lst (GNames gp) (GPattern gp) (GLabels gp) limit all)"
    and only: "\<And>w cs w' x. run_state (ListNContainersAll en c lst (GNames gp) (GPattern gp) (GLabels gp) limit all) w = (Inr cs, w') \<Longrightarrow>
      x \<in> set cs \<Longrightarrow> tgt w' x"
    and fn: "\<And>w x. tgt w x \<Longrightarrow> task_from R (fn c x) w"
  shows "confined R (runOnContainers en c lst gp limit all random par fn)"
proof (rule confinedI)
  fix w a w' assume run: "run_state (runOnContainers en c lst gp limit all random par fn) w = (a, w')"
  obtain r w1 where r: "run_state (ListNContainersAll en c lst (GNames gp) (GPattern gp) (GLabels gp) limit all) w = (r, w1)"
    by fastforce
  have w1: "R w w1" using list r by (rule confinedD)
  show "R w w'"
  proof (cases r)
    case (Inl e)
    with run r w1 show ?thesis by (simp add: runOnContainers_def)
  next
    case (Inr cs)
    obtain ys w2 where ys: "run_state (pick_random en random cs) w1 = (ys, w2)" by fastforce
    have sub: "w2 = w1 \<and> set ys \<subseteq> set cs"
      using ys by (auto simp: pick_random_def RandomContainer_def split: if_splits option.splits)
    have "confined (above R w1) (run_actions en c par fn ys)"
      by (rule run_actions_from, rule fn, rule only [OF r [unfolded Inr]]) (use sub in blast)
    then show ?thesis using run r Inr ys sub w1
      by (auto simp: runOnContainers_def split: if_splits intro: R_trans dest: confined_at)
  qed
qed

end

context targeted_client
begin

lemma run_targets_confined:
  assumes "\<And>x. accepts (regexp_MatchString en) (GNames gp) (GPattern gp) x \<Longrightarrow> sel x"
    and "\<And>w x. tgt w x \<Longrightarrow> task_from R (fn c x) w"
  shows "confined R (runOnContainers en c (ListContainers cl) gp limit all random par fn)"
  by (rule runOnContainers_on [where tgt = tgt])
    (auto intro: ListNContainersAll_confined lists_only_targets [OF list_only assms(1)] assms(2))

end

lemma pick_random_run:
  "run_state (pick_random en random xs) w = (ys, w') \<Longrightarrow>
    w' = w \<and> set ys \<subseteq> set xs \<and> (random \<and> xs \<noteq> [] \<longrightarrow> length ys = 1) \<and> (\<not> random \<longrightarrow> ys = xs) \<and>
    mset ys \<subseteq># mset xs"
  by (auto simp: pick_random_def RandomContainer_def mset_subset_eq_single split: if_splits option.splits)

text \<open>A run that lists targets is the run of the actions on some of them.\<close>

lemma runOnContainers_targets:
  assumes "run_state (ListNContainersAll en c lst (GNames gp) (GPattern gp) (GLabels gp) limit all) w =
    (Inr cs, w1)"
  obtains ys where
    "run_state (runOnContainers en c lst gp limit all random par fn) w =
       (if cs = [] then (None, w1) else run_state (run_actions en c par fn ys) w1)"
    "mset ys \<subseteq># mset cs" "random \<and> cs \<noteq> [] \<longrightarrow> length ys = 1" "\<not> random \<longrightarrow> ys = cs"
proof -
  obtain ys w2 where p: "run_state (pick_random en random cs) w1 = (ys, w2)" by fastforce
  from pick_random_run [OF p] have "w2 = w1" "mset ys \<subseteq># mset cs" "\<not> random \<longrightarrow> ys = cs"
    "random \<and> cs \<noteq> [] \<longrightarrow> length ys = 1" by auto
  with p assms show thesis by (intro that [of ys]) (simp_all add: runOnContainers_def)
qed

lemma runOnContainers_list_error:
  assumes "run_state (ListNContainersAll en c lst (GNames gp) (GPattern gp) (GLabels gp) limit all) w =
    (Inl err, w1)"
  shows "run_state (runOnContainers en c lst gp limit all random par fn) w =
    (Some (ErrWrap ''listing containers: %w'' [] err), w1)"
  using assms by (simp add: runOnContainers_def)

text \<open>A serial run: the actions up to and including the first that fails.\<close>

fun serial_run :: "('a \<Rightarrow> ('w, error option) state) \<Rightarrow> 'a list \<Rightarrow> 'w \<Rightarrow> ('a \<times> error option) list \<times> 'w" where
  "serial_run f [] w = ([], w)"
| "serial_run f (x # xs) w =
     (case run_state (f x) w of
        (Some e, w') \<Rightarrow> ([(x, Some e)], w')
      | (None, w') \<Rightarrow> (case serial_run f xs w' of (l, w'') \<Rightarrow> ((x, None) # l, w'')))"

lemma for_err_serial_run:
  "serial_run f xs w = (l, w') \<Longrightarrow>
    run_state (for_err f xs) w = (if l = [] then None else snd (last l), w') \<and>
    prefix (map fst l) xs \<and> (\<forall>p \<in> set (butlast l). snd p = None) \<and>
    ((if l = [] then None else snd (last l)) = None \<longrightarrow> map fst l = xs)"
proof (induction xs arbitrary: w l w')
  case (Cons x xs)
  obtain r w1 where r: "run_state (f x) w = (r, w1)" by fastforce
  show ?case
  proof (cases r)
    case None
    obtain l1 w2 where l1: "serial_run f xs w1 = (l1, w2)" by fastforce
    with Cons.prems r None have l: "l = (x, None) # l1" "w' = w2" by simp_all
    from Cons.IH [OF l1] r None l show ?thesis by auto
  next
    case (Some e)
    with Cons.prems r show ?thesis by auto
  qed
qed simp

lemma run_actions_parallel:
  assumes "errgroup_ok (eg_wait en)" and "run_state (run_actions en c True fn xs) w = (r, w')"
  obtains rs where "par_outcome (map (fn c) xs) w rs w'" "r = None \<longleftrightarrow> (\<forall>q \<in> set rs. q = None)"
    "\<And>e. r = Some e \<Longrightarrow> Some e \<in> set rs"
proof -
  obtain rs w1 where rs: "run_state (run_parallel (schedule en) (map (fn c) xs)) w = (rs, w1)" by fastforce
  with assms(2) have "w1 = w'" "r = eg_wait en rs" by (simp_all add: run_actions_def)
  show thesis
  proof (rule that [of rs])
    show "par_outcome (map (fn c) xs) w rs w'"
      using rs \<open>w1 = w'\<close> by (simp add: run_parallel_outcome)
    show "r = None \<longleftrightarrow> (\<forall>q \<in> set rs. q = None)"
      using errgroup_ok_None [OF assms(1)] \<open>r = eg_wait en rs\<close> by simp
    show "r = Some e \<Longrightarrow> Some e \<in> set rs" for e
      using errgroup_ok_Some [OF assms(1), of rs e] \<open>r = eg_wait en rs\<close> by simp
  qed
qed

text \<open>A serial run of the runner, in terms of the actions it took and their results.\<close>

lemma runOnContainers_serial:
  assumes "run_state (runOnContainers en c lst gp limit all random False fn) s = (r, s')"
  obtains (list_error) err where
    "run_state (ListNContainersAll en c lst (GNames gp) (GPattern gp) (GLabels gp) limit all) s = (Inl err, s')"
    "r = Some (ErrWrap ''listing containers: %w'' [] err)"
  | (actions) cs ys tr s1 where
    "run_state (ListNContainersAll en c lst (GNames gp) (GPattern gp) (GLabels gp) limit all) s = (Inr cs, s1)"
    "mset ys \<subseteq># mset cs" "random \<longrightarrow> length ys \<le> 1" "\<not> random \<longrightarrow> ys = cs"
    "serial_run (\<lambda>x. exec_task (pick_branch en) (fn c x)) ys s1 = (tr, s')"
    "prefix (map fst tr) ys" "\<forall>p \<in> set (butlast tr). snd p = None"
    "r = (if tr = [] then None else snd (last tr))" "r = None \<longrightarrow> map fst tr = ys"
proof -
  obtain q s1 where q: "run_state (ListNContainersAll en c lst (GNames gp) (GPattern gp) (GLabels gp) limit all) s = (q, s1)"
    by fastforce
  show thesis
  proof (cases q)
    case (Inl err)
    have "r = Some (ErrWrap ''listing containers: %w'' [] err)" "s' = s1"
      using runOnContainers_list_error [OF q [unfolded Inl], where random = random and par = False and fn = fn] assms by simp_all
    with q Inl show ?thesis by (intro list_error) simp_all
  next
    case (Inr cs)
    from runOnContainers_targets [OF q [unfolded Inr], where random = random and par = False and fn = fn]
    obtain ys where ys: "run_state (runOnContainers en c lst gp limit all random False fn) s =
       (if cs = [] then (None, s1) else run_state (run_actions en c False fn ys) s1)"
      "mset ys \<subseteq># mset cs" "random \<and> cs \<noteq> [] \<longrightarrow> length ys = 1" "\<not> random \<longrightarrow> ys = cs" by metis
    let ?f = "\<lambda>x. exec_task (pick_branch en) (fn c x)"
    obtain tr s2 where tr: "serial_run ?f ys s1 = (tr, s2)" by fastforce
    from for_err_serial_run [OF tr]
    have f: "run_state (for_err ?f ys) s1 = (if tr = [] then None else snd (last tr), s2)"
      "prefix (map fst tr) ys" "\<forall>p \<in> set (butlast tr). snd p = None"
      "(if tr = [] then None else snd (last tr)) = None \<longrightarrow> map fst tr = ys" by blast+
    have nil: "cs = [] \<Longrightarrow> ys = []" using ys(2) by auto
    have r: "r = (if tr = [] then None else snd (last tr))" and s2: "s2 = s'"
      using assms ys(1) f(1) nil tr by (cases "cs = []"; simp add: run_actions_def)+
    have len: "random \<longrightarrow> length ys \<le> 1" using ys(3) nil by (cases "cs = []") auto
    show ?thesis
      using actions [OF q [unfolded Inr] ys(2) len ys(4) tr [unfolded s2] f(2,3) r] f(4) r by simp
  qed
qed

text \<open>What a serial run does to a view of the world, when each action updates it.\<close>

lemma serial_run_fold:
  assumes "\<And>x s r s'. run_state (f x) s = (r, s') \<Longrightarrow> g s' = upd x r (g s)"
  shows "serial_run f xs s = (tr, s') \<Longrightarrow> g s' = fold (\<lambda>(x, r). upd x r) tr (g s)"
proof (induction xs arbitrary: s tr)
  case (Cons x xs)
  obtain r s1 where r: "run_state (f x) s = (r, s1)" by fastforce
  show ?case
  proof (cases r)
    case None
    obtain l1 s2 where l1: "serial_run f xs s1 = (l1, s2)" by fastforce
    with Cons r None assms [OF r] show ?thesis by auto
  next
    case (Some e)
    with Cons.prems r assms [OF r] show ?thesis by auto
  qed
qed simp

lemma fold_append_map: "fold (\<lambda>(x, r) l. l @ [h x r]) tr l = l @ map (\<lambda>(x, r). h x r) tr"
  by (induction tr arbitrary: l) auto

text \<open>The error inside the last \<open>%w\<close>.\<close>

fun unwrap1 :: "error option \<Rightarrow> error option" where
  "unwrap1 (Some (ErrWrap f args e)) = Some e"
| "unwrap1 r = r"

lemma unwrap1_wrapf [simp]: "unwrap1 (wrapf f args r) = r"
  by (cases r) simp_all

lemma unwrap1_None [simp]: "unwrap1 r = None \<longleftrightarrow> r = None"
  by (cases r rule: unwrap1.cases) simp_all

lemma join_loop_run:
  assumes "\<And>x s e s'. run_state (f x) s = (e, s') \<Longrightarrow> g s' = g s @ [h x e]"
  shows "run_state (join_loop f xs err) s = (r, s') \<Longrightarrow>
    \<exists>es. map fst es = xs \<and> g s' = g s @ map (\<lambda>(x, e). h x e) es \<and>
      (r = None \<longleftrightarrow> err = None \<and> (\<forall>e \<in> set es. snd e = None))"
proof (induction xs arbitrary: err s)
  case (Cons x xs)
  obtain e s1 where e: "run_state (f x) s = (e, s1)" by fastforce
  with Cons.prems have "run_state (join_loop f xs (if e = None then err else errors_join [err, e])) s1 = (r, s')"
    by simp
  from Cons.IH [OF this] obtain es where "map fst es = xs" "g s' = g s1 @ map (\<lambda>(x, e). h x e) es"
    "r = None \<longleftrightarrow> (if e = None then err else errors_join [err, e]) = None \<and> (\<forall>e \<in> set es. snd e = None)"
    by blast
  with assms [OF e] show ?case by (intro exI [of _ "(x, e) # es"]) (auto split: if_splits)
qed simp

section \<open>Facts: parallel runs\<close>

lemma runOnContainers_parallel:
  assumes "errgroup_ok (eg_wait en)" and "run_state (runOnContainers en c lst gp limit all random True fn) s = (r, s')"
  obtains (list_error) err where
    "run_state (ListNContainersAll en c lst (GNames gp) (GPattern gp) (GLabels gp) limit all) s = (Inl err, s')"
    "r = Some (ErrWrap ''listing containers: %w'' [] err)"
  | (actions) cs ys rs s1 where
    "run_state (ListNContainersAll en c lst (GNames gp) (GPattern gp) (GLabels gp) limit all) s = (Inr cs, s1)"
    "mset ys \<subseteq># mset cs" "random \<longrightarrow> length ys \<le> 1" "\<not> random \<longrightarrow> ys = cs"
    "par_outcome (map (fn c) ys) s1 rs s'" "r = None \<longleftrightarrow> (\<forall>q \<in> set rs. q = None)"
proof -
  obtain q s1 where q: "run_state (ListNContainersAll en c lst (GNames gp) (GPattern gp) (GLabels gp) limit all) s = (q, s1)"
    by fastforce
  show thesis
  proof (cases q)
    case (Inl err)
    have "r = Some (ErrWrap ''listing containers: %w'' [] err)" "s' = s1"
      using runOnContainers_list_error [OF q [unfolded Inl], where random = random and par = True and fn = fn] assms(2)
      by simp_all
    with q Inl show ?thesis by (intro list_error) simp_all
  next
    case (Inr cs)
    from runOnContainers_targets [OF q [unfolded Inr], where random = random and par = True and fn = fn]
    obtain ys where ys: "run_state (runOnContainers en c lst gp limit all random True fn) s =
       (if cs = [] then (None, s1) else run_state (run_actions en c True fn ys) s1)"
      "mset ys \<subseteq># mset cs" "random \<and> cs \<noteq> [] \<longrightarrow> length ys = 1" "\<not> random \<longrightarrow> ys = cs" by metis
    show ?thesis
    proof (cases "cs = []")
      case True
      with ys assms(2) have "ys = []" "r = None" "s' = s1" by simp_all
      then show ?thesis using actions [OF q [unfolded Inr] ys(2) _ ys(4), of "[]"]
        by (simp add: par_outcome_def start_group_def)
    next
      case False
      with ys assms(2) have "run_state (run_actions en c True fn ys) s1 = (r, s')" by simp
      from run_actions_parallel [OF assms(1) this] obtain rs where
        "par_outcome (map (fn c) ys) s1 rs s'" "r = None \<longleftrightarrow> (\<forall>q \<in> set rs. q = None)" by metis
      with False ys show ?thesis by (intro actions [OF q [unfolded Inr] ys(2) _ ys(4)]) auto
    qed
  qed
qed

section \<open>Actions with a start and a stop\<close>

text \<open>
  The goroutine of the network commands: start the emulation; when that worked, wait for the
  duration or the abort and stop it, whatever fires. \<open>guarded_calls\<close> are its calls: \<open>start\<close> failed
  with \<open>e\<close>, or it worked and \<open>stop\<close> answered \<open>q\<close>.
\<close>

definition guarded_calls :: "client_call \<Rightarrow> client_call \<Rightarrow> error + error option \<Rightarrow> call_log" where
  "guarded_calls start stop res =
     (case res of Inl e \<Rightarrow> [(start, Some e)] | Inr q \<Rightarrow> [(start, None), (stop, q)])"

text \<open>
  \<open>behaves t lg calls may ok\<close>: whatever the other goroutines do, the calls of \<open>t\<close> are \<open>calls res\<close> for
  an outcome \<open>res\<close> that \<open>may\<close> allows, and \<open>t\<close> returns nil exactly for the outcomes that are \<open>ok\<close>.
\<close>

definition behaves ::
  "'w task \<Rightarrow> ('w \<Rightarrow> call_log) \<Rightarrow> ('r \<Rightarrow> call_log) \<Rightarrow> ('r \<Rightarrow> bool) \<Rightarrow> ('r \<Rightarrow> bool) \<Rightarrow> bool" where
  "behaves t lg calls may ok \<longleftrightarrow> logs lg t \<and> (\<forall>L r. contributes lg t L r \<longrightarrow>
     (\<exists>res. may res \<and> L = calls res \<and> (r = None \<longleftrightarrow> ok res)))"

definition started :: "error + error option \<Rightarrow> bool" where
  "started res \<longleftrightarrow> (case res of Inl e \<Rightarrow> False | Inr q \<Rightarrow> True)"

lemma contr_logged:
  "contributes snd (perform (logged k id m) K) L r \<longleftrightarrow>
    (\<exists>q L'. (\<exists>w w'. run_state m w = (q, w')) \<and> contributes snd (K q) L' r \<and> L = (k, q) # L')"
proof
  assume "contributes snd (perform (logged k id m) K) L r"
  then show "\<exists>q L'. (\<exists>w w'. run_state m w = (q, w')) \<and> contributes snd (K q) L' r \<and> L = (k, q) # L'"
    unfolding perform_def
    by (elim contr_StepE) (auto split: prod.splits; metis)
next
  assume "\<exists>q L'. (\<exists>w w'. run_state m w = (q, w')) \<and> contributes snd (K q) L' r \<and> L = (k, q) # L'"
  then obtain w q w' L' where *: "run_state m w = (q, w')" "contributes snd (K q) L' r" "L = (k, q) # L'"
    by blast
  then have "contributes snd (perform (logged k id m) K) ([(k, q)] @ L') r"
    unfolding perform_def by (intro contr_step [where w = "(w, [])" and w' = "(w', [] @ [(k, q)])"]) auto
  with * show "contributes snd (perform (logged k id m) K) L r" by simp
qed

lemma logs_logged: "logs snd (perform (logged k id m) K) \<longleftrightarrow> (\<forall>w q w'. run_state m w = (q, w') \<longrightarrow> logs snd (K q))"
  by (auto simp: perform_def split: prod.splits)

lemma contr_Ret: "contributes lg (Ret q) L r \<longleftrightarrow> L = [] \<and> r = q"
  by (auto elim: contr_RetE intro: contr_ret)

lemma contr_Select: "contributes lg (Select b bs) L r \<longleftrightarrow> (\<exists>t \<in> set (b # bs). contributes lg t L r)"
  by (auto elim: contr_SelectE intro: contr_select)

lemma guards_task:
  "behaves (perform (logged start id m) (\<lambda>err. case err of
       Some e \<Rightarrow> Ret (Some (f e))
     | None \<Rightarrow> Select (perform (logged stop id n) (\<lambda>_. Ret None)) [perform (logged stop id n) (\<lambda>_. Ret None)]))
     snd (guarded_calls start stop) (\<lambda>_. True) started"
  unfolding behaves_def guarded_calls_def started_def
proof (intro conjI allI impI)
  show "logs snd (perform (logged start id m) (\<lambda>err. case err of
       Some e \<Rightarrow> Ret (Some (f e))
     | None \<Rightarrow> Select (perform (logged stop id n) (\<lambda>_. Ret None)) [perform (logged stop id n) (\<lambda>_. Ret None)]))"
    by (auto simp: logs_logged split: option.splits)
next
  fix L r
  assume "contributes snd (perform (logged start id m) (\<lambda>err. case err of
       Some e \<Rightarrow> Ret (Some (f e))
     | None \<Rightarrow> Select (perform (logged stop id n) (\<lambda>_. Ret None)) [perform (logged stop id n) (\<lambda>_. Ret None)])) L r"
  then obtain q L' where q: "contributes snd (case q of
       Some e \<Rightarrow> Ret (Some (f e))
     | None \<Rightarrow> Select (perform (logged stop id n) (\<lambda>_. Ret None)) [perform (logged stop id n) (\<lambda>_. Ret None)]) L' r"
    "L = (start, q) # L'" unfolding contr_logged by auto
  show "\<exists>res. True \<and> L = (case res of Inl e \<Rightarrow> [(start, Some e)] | Inr q \<Rightarrow> [(start, None), (stop, q)]) \<and>
      (r = None \<longleftrightarrow> (case res of Inl e \<Rightarrow> False | Inr q \<Rightarrow> True))"
  proof (cases q)
    case (Some e)
    with q show ?thesis by (intro exI [of _ "Inl e"]) (simp add: contr_Ret)
  next
    case None
    with q obtain q' where "L' = [(stop, q')]" "r = None"
      by (simp add: contr_Select contr_logged contr_Ret) blast
    with q None show ?thesis by (intro exI [of _ "Inr q'"]) simp
  qed
qed

text \<open>
  \<open>parallel_log calls may ok limit random r l\<close>: the log \<open>l\<close> of a parallel run interleaves, for each
  target \<open>x\<close>, the calls of its goroutine: each goroutine's calls occur in their order, there are no
  other calls, and the run succeeds exactly when every goroutine did. No more than \<open>limit\<close> targets,
  at most one if random.
\<close>

definition parallel_log ::
  "(container \<Rightarrow> 'r \<Rightarrow> call_log) \<Rightarrow> (container \<Rightarrow> 'r \<Rightarrow> bool) \<Rightarrow> ('r \<Rightarrow> bool) \<Rightarrow> int \<Rightarrow> bool \<Rightarrow>
     error option \<Rightarrow> call_log \<Rightarrow> bool" where
  "parallel_log calls may ok limit random r l \<longleftrightarrow> (\<exists>tr.
     mset l = (\<Sum>(x, res) \<leftarrow> tr. mset (calls x res)) \<and>
     (\<forall>(x, res) \<in> set tr. subseq (calls x res) l \<and> may x res) \<and>
     (tr \<noteq> [] \<longrightarrow> (r = None \<longleftrightarrow> (\<forall>(x, res) \<in> set tr. ok res))) \<and>
     (limit > 0 \<longrightarrow> int (length tr) \<le> limit) \<and> (random \<longrightarrow> length tr \<le> 1))"

definition guarded_run ::
  "(container \<Rightarrow> client_call) \<Rightarrow> (container \<Rightarrow> client_call) \<Rightarrow> int \<Rightarrow> bool \<Rightarrow> error option \<Rightarrow> call_log \<Rightarrow> bool" where
  "guarded_run start stop =
     parallel_log (\<lambda>x. guarded_calls (start x) (stop x)) (\<lambda>_ _. True) started"

lemma behaves_contributions:
  assumes "\<And>x. behaves (t x) lg (calls x) (may x) ok" and "contribution lg (map t ys) cs"
  obtains tr where "map fst tr = ys" "map fst cs = map (\<lambda>(x, res). calls x res) tr"
    "\<forall>(x, res) \<in> set tr. may x res"
    "(\<forall>c \<in> set cs. snd c = None) \<longleftrightarrow> (\<forall>(x, res) \<in> set tr. ok res)"
proof -
  have "\<exists>tr. map fst tr = ys \<and> map fst cs = map (\<lambda>(x, res). calls x res) tr \<and>
    (\<forall>(x, res) \<in> set tr. may x res) \<and>
    ((\<forall>c \<in> set cs. snd c = None) \<longleftrightarrow> (\<forall>(x, res) \<in> set tr. ok res))"
    using assms(2)
  proof (induction ys arbitrary: cs)
    case Nil
    then show ?case by (simp add: contribution_def)
  next
    case (Cons y ys)
    then obtain c cs' where cs: "cs = c # cs'" "contributes lg (t y) (fst c) (snd c)" "contribution lg (map t ys) cs'"
      by (auto simp: contribution_def list_all2_Cons1)
    from assms(1) [of y] cs(2) obtain res where "may y res" "fst c = calls y res" "snd c = None \<longleftrightarrow> ok res"
      unfolding behaves_def by blast
    moreover from Cons.IH [OF cs(3)] obtain tr where "map fst tr = ys"
      "map fst cs' = map (\<lambda>(x, res). calls x res) tr" "\<forall>(x, res) \<in> set tr. may x res"
      "(\<forall>c \<in> set cs'. snd c = None) \<longleftrightarrow> (\<forall>(x, res) \<in> set tr. ok res)" by blast
    ultimately show ?case using cs(1) by (intro exI [of _ "(y, res) # tr"]) simp
  qed
  then show thesis using that by blast
qed

lemma ListNContainersAll_limit:
  "run_state (ListNContainersAll en c lst names pattern labels limit all) s = (Inr cs, s') \<Longrightarrow>
    limit > 0 \<Longrightarrow> int (length cs) \<le> limit"
  by (erule ListNContainersAll_Inr) (auto split: if_splits)

text \<open>Listing through a recorded client is not logged.\<close>

lemma recorded_list_quiet: "quiet snd (ListNContainersAll en c (ListContainers (recorded cl)) names pattern labels limit all)"
  unfolding ListNContainersAll_def listContainers_def
  by (intro quiet_intros) (simp add: quiet_lift_local)

lemma parallel_logs:
  assumes wait: "errgroup_ok (eg_wait en)"
    and g: "\<And>x. behaves (fn c x) snd (calls x) (may x) ok"
    and run: "run_state (runOnContainers en c (ListContainers (recorded cl)) gp limit all random True fn) (w, []) = (r, (w', l))"
  shows "parallel_log calls may ok limit random r l"
  using wait run
proof (cases rule: runOnContainers_parallel)
  case (list_error err)
  with confinedD [OF recorded_list_quiet list_error(1)] show ?thesis
    unfolding parallel_log_def by (intro exI [of _ "[]"]) simp
next
  case (actions cs ys rs s1)
  have s1: "snd s1 = []" using confinedD [OF recorded_list_quiet actions(1)] by simp
  have "\<forall>t \<in> set (map (fn c) ys). logs snd t" using g by (auto simp: behaves_def)
  from par_outcome_decomposes [OF actions(5) this] obtain ks new where ks:
    "contribution snd (map (fn c) ys) ks" "l = new" "mset new = (\<Sum>c \<leftarrow> ks. mset (fst c))"
    "\<forall>c \<in> set ks. subseq (fst c) new" "mset rs = mset (map snd ks)"
    by (auto simp: decomposes_start s1)
  from behaves_contributions [OF g ks(1)] obtain tr where tr: "map fst tr = ys"
    "map fst ks = map (\<lambda>(x, res). calls x res) tr" "\<forall>(x, res) \<in> set tr. may x res"
    "(\<forall>c \<in> set ks. snd c = None) \<longleftrightarrow> (\<forall>(x, res) \<in> set tr. ok res)" by blast
  have "(\<Sum>c \<leftarrow> ks. mset (fst c)) = (\<Sum>L \<leftarrow> map fst ks. mset L)" by (simp add: comp_def)
  then have 1: "mset l = (\<Sum>(x, res) \<leftarrow> tr. mset (calls x res))"
    using ks(2,3) by (simp only: tr(2)) (simp add: comp_def split_def)
  have "\<forall>L \<in> set (map fst ks). subseq L l" using ks(2,4) by simp
  then have 2: "\<forall>(x, res) \<in> set tr. subseq (calls x res) l \<and> may x res"
    unfolding tr(2) using tr(3) by auto
  have "set rs = snd ` set ks" using ks(5) by (metis set_mset_mset list.set_map)
  then have 3: "r = None \<longleftrightarrow> (\<forall>(x, res) \<in> set tr. ok res)" using actions(6) tr(4) by auto
  have "length tr = length ys" using tr(1) by (metis length_map)
  moreover have "length ys \<le> length cs" using actions(2) by (metis size_mset size_mset_mono)
  ultimately have 4: "limit > 0 \<longrightarrow> int (length tr) \<le> limit" "random \<longrightarrow> length tr \<le> 1"
    using ListNContainersAll_limit [OF actions(1)] actions(3) by auto
  show ?thesis unfolding parallel_log_def using 1 2 3 4 by blast
qed

section \<open>Properties\<close>

text \<open>Labels given in one comma-separated flag and labels given in several flags select alike.\<close>

theorem splitLabels_join: "splitLabels [join_with '','' ls] = splitLabels ls"
proof (induction ls)
  case (Cons w ls)
  show ?case
  proof (cases ls)
    case (Cons v vs)
    then show ?thesis
      using Cons.IH splitLabels_comma [of w "join_with '','' (v # vs)"] splitLabels_append [of "[w]" "v # vs"]
      by simp
  qed simp
qed (simp add: splitLabels_def)

text \<open>With interval 0 a chaos command runs exactly once and the loop returns whatever fires
  next: nil if the run succeeded or errors are skipped, else the wrapped error. A negative interval
  panics before the first run.\<close>

theorem RunChaosCommand_once:
  "run_state (RunChaosCommand tc run (params\<lparr>Interval := d\<rparr>) (wk # rest)) w =
    (if d < 0 then (Panicked, w)
     else case run_state (run (CtxCancel tc) (Random params)) w of (r, w') \<Rightarrow>
       if r \<noteq> None \<and> \<not> SkipErrors params
       then (Returned (wrapf ''error running chaos command: %w'' [] r), w')
       else if wk = TopDone \<or> d = 0 then (Returned None, w')
       else run_state (RunChaosCommand tc run (params\<lparr>Interval := d\<rparr>) rest) w')"
  by (auto simp: RunChaosCommand_def chaos_loop_run [of _ _ _ "wk # rest"] fatal_def
      split: prod.splits wakeup.splits)

text \<open>C15: With a positive interval, after \<open>k\<close> runs that did not fail fatally and \<open>k\<close> ticks, the loop is
  in its next run: it stops with the wrapped error of that run if it is fatal, with nil if the
  process context is done, and otherwise waits for the next tick. No run is skipped or repeated.\<close>

theorem RunChaosCommand_repeats:
  assumes "Interval params > 0"
    and "list_all (\<lambda>i. \<not> fatal params (fst (nth_run run params (CtxCancel tc) w i))) [0..<k]"
    and last: "nth_run run params (CtxCancel tc) w k = (r, w')"
  shows "run_state (RunChaosCommand tc run params (replicate k Tick @ stop)) w =
    (if fatal params r then (Returned (wrapf ''error running chaos command: %w'' [] r), w')
     else case stop of [] \<Rightarrow> (Waiting, w') | TopDone # _ \<Rightarrow> (Returned None, w')
       | Tick # rest \<Rightarrow> run_state (RunChaosCommand tc run params rest) w')"
proof -
  have "\<forall>i < k. \<not> fatal params (fst (nth_run run params (CtxCancel tc) w i))"
    using assms(2) by (simp add: list_all_iff)
  moreover have "nth_run run params (CtxCancel tc) w k = run_state (run (CtxCancel tc) (Random params))
      (case k of 0 \<Rightarrow> w | Suc j \<Rightarrow> snd (nth_run run params (CtxCancel tc) w j))"
    by (cases k) simp_all
  moreover from this last have "run_state (run (CtxCancel tc) (Random params))
      (case k of 0 \<Rightarrow> w | Suc j \<Rightarrow> snd (nth_run run params (CtxCancel tc) w j)) = (r, w')" by simp
  ultimately show ?thesis
    using assms(1) unfolding RunChaosCommand_def
    by (simp add: chaos_loop_ticks chaos_loop_run [of _ _ _ stop] split: list.splits wakeup.splits)
qed

definition counting_command :: "nat command" where
  "counting_command c random = State (\<lambda>n. (if n < 2 then None else Some (ErrExt ''third''), Suc n))"

theorem RunChaosCommand_repeats_witness:
  "run_state (RunChaosCommand CtxTop counting_command
      \<lparr>Random = False, GLabels = [], GPattern = '''', GNames = [], Interval = 5, DryRun = False, SkipErrors = False\<rparr>
      (replicate 2 Tick @ [])) 0 =
    (Returned (Some (ErrWrap ''error running chaos command: %w'' [] (ErrExt ''third''))), 3)"
proof -
  let ?ps = "\<lparr>Random = False, GLabels = [], GPattern = '''', GNames = [], Interval = 5, DryRun = False, SkipErrors = False\<rparr>"
  have "list_all (\<lambda>i. \<not> fatal ?ps (fst (nth_run counting_command ?ps (CtxCancel CtxTop) 0 i))) [0..<2]"
    by (simp add: counting_command_def fatal_def upt_rec eval_nat_numeral)
  moreover have "nth_run counting_command ?ps (CtxCancel CtxTop) 0 2 = (Some (ErrExt ''third''), 3)"
    by (simp add: counting_command_def eval_nat_numeral)
  ultimately show ?thesis
    using RunChaosCommand_repeats [of ?ps counting_command CtxTop 0 2 "Some (ErrExt ''third'')" 3 "[]"]
    by (simp add: fatal_def)
qed


end
