(* ===== verification/Lifecycle.thy ===== *)
theory Lifecycle
  imports Runner
begin

text \<open>
  \<open>pkg/chaos/lifecycle\<close>: kill, exec, restart, remove, pause and stop. All of them run serially; pause
  and stop remember what they changed and undo it after the duration or when they are interrupted.
\<close>

section \<open>What the commands share\<close>

text \<open>\<open>&chaos.GlobalParams{Names: names, Pattern: pattern, Labels: labels}\<close>\<close>

definition target_params :: "string list \<Rightarrow> string \<Rightarrow> string list \<Rightarrow> global_params" where
  "target_params names pattern labels =
     \<lparr>Random = False, GLabels = labels, GPattern = pattern, GNames = names, Interval = 0,
      DryRun = False, SkipErrors = False\<rparr>"

text \<open>\<open>select { case <-ctx.Done(): ...; case <-timer.C: ... }\<close>: the number of the branch that fires.\<close>

definition select_branch :: "'w env \<Rightarrow> nat \<Rightarrow> ('w, nat) state" where
  "select_branch en n = do { w \<leftarrow> State_Monad.get; State_Monad.return (pick_branch en w n mod n) }"

text \<open>
  The environment of a run whose world has the closure's variables beside it. The runs that use it
  are serial, so the scheduler is never asked.
\<close>

definition lift_env :: "'w env \<Rightarrow> ('w \<times> 'l) env" where
  "lift_env en = \<lparr>regexp_MatchString = regexp_MatchString en,
     intn = (\<lambda>wl. intn en (fst wl)), shuffle_draw = (\<lambda>wl. shuffle_draw en (fst wl)),
     pick_branch = (\<lambda>wl. pick_branch en (fst wl)), schedule = (\<lambda>_. (0, 0)), eg_wait = eg_wait en\<rparr>"

definition lift_lister :: "'w lister_op \<Rightarrow> ('w \<times> 'l) lister_op" where
  "lift_lister lst = (\<lambda>c f os. lift_state (lst c f os))"

text \<open>\<open>xs = append(xs, x)\<close> in a closure.\<close>

definition append_local :: "'a \<Rightarrow> ('w \<times> 'a list, unit) state" where
  "append_local x = State (\<lambda>(w, xs). ((), (w, xs @ [x])))"

lemma run_append_local [simp]: "run_state (append_local x) (w, xs) = ((), (w, xs @ [x]))"
  by (simp add: append_local_def)

definition with_local :: "'l \<Rightarrow> ('w \<times> 'l, 'a) state \<Rightarrow> ('w, 'a \<times> 'l) state" where
  "with_local l m = State (\<lambda>w. case run_state m (w, l) of (a, (w', l')) \<Rightarrow> ((a, l'), w'))"

lemma run_with_local [simp]:
  "run_state (with_local l m) w = (case run_state m (w, l) of (a, (w', l')) \<Rightarrow> ((a, l'), w'))"
  by (simp add: with_local_def)

section \<open>Kill (\<open>kill.go\<close>)\<close>

definition DefaultKillSignal :: string where "DefaultKillSignal = ''SIGKILL''"

definition linuxSignals :: "string \<rightharpoonup> int" where
  "linuxSignals = map_of
     [(''SIGHUP'', 0x1), (''SIGINT'', 0x2), (''SIGQUIT'', 0x3), (''SIGILL'', 0x4), (''SIGTRAP'', 0x5),
      (''SIGIOT'', 0x6), (''SIGBUS'', 0x7), (''SIGFPE'', 0x8), (''SIGKILL'', 0x9), (''SIGUSR1'', 0x1e),
      (''SIGSEGV'', 0xb), (''SIGUSR2'', 0x1f), (''SIGPIPE'', 0xd), (''SIGALRM'', 0xe),
      (''SIGTERM'', 0xf), (''SIGCHLD'', 0x14), (''SIGCONT'', 0x13), (''SIGSTOP'', 0x11),
      (''SIGTSTP'', 0x12), (''SIGTTIN'', 0x15), (''SIGTTOU'', 0x16), (''SIGURG'', 0x10),
      (''SIGXCPU'', 0x18), (''SIGXFSZ'', 0x19), (''SIGVTALRM'', 0x1a), (''SIGPROF'', 0x1b),
      (''SIGWINCH'', 0x1c), (''SIGIO'', 0x17)]"

record 'w killCommand =
  k_client :: "'w client"
  k_names :: "string list"
  k_pattern :: string
  k_labels :: "string list"
  k_signal :: string
  k_limit :: int
  k_dryRun :: bool

definition NewKillCommand :: "'w client \<Rightarrow> global_params \<Rightarrow> string \<Rightarrow> int \<Rightarrow> error + 'w killCommand" where
  "NewKillCommand cl params signal limit =
     (let kill = \<lparr>k_client = cl, k_names = GNames params, k_pattern = GPattern params,
                  k_labels = GLabels params,
                  k_signal = (if signal = '''' then DefaultKillSignal else signal),
                  k_limit = limit, k_dryRun = DryRun params\<rparr>
      in if linuxSignals (k_signal kill) = None
         then Inl (ErrNew ''undefined Linux signal: %s'' [signal]) else Inr kill)"

definition kill_action :: "'w killCommand \<Rightarrow> 'w action" where
  "kill_action k c x = perform (KillContainer (k_client k) c x (k_signal k) (k_dryRun k))
     (\<lambda>err. Ret (wrapf ''failed to kill ctr: %w'' [] err))"

definition kill_Run :: "'w env \<Rightarrow> 'w killCommand \<Rightarrow> 'w command" where
  "kill_Run en k c random =
     RunOnContainers en c (ListContainers (k_client k))
       (target_params (k_names k) (k_pattern k) (k_labels k)) (k_limit k) random False (kill_action k)"

section \<open>Exec (\<open>exec.go\<close>)\<close>

record 'w execCommand =
  e_client :: "'w client"
  e_names :: "string list"
  e_pattern :: string
  e_labels :: "string list"
  e_command :: string
  e_args :: "string list"
  e_limit :: int
  e_dryRun :: bool

definition NewExecCommand ::
  "'w client \<Rightarrow> global_params \<Rightarrow> string \<Rightarrow> string list \<Rightarrow> int \<Rightarrow> 'w execCommand" where
  "NewExecCommand cl params command args limit =
     \<lparr>e_client = cl, e_names = GNames params, e_pattern = GPattern params,
      e_labels = GLabels params, e_command = (if command = '''' then ''kill 1'' else command),
      e_args = args, e_limit = limit, e_dryRun = DryRun params\<rparr>"

definition exec_action :: "'w execCommand \<Rightarrow> 'w action" where
  "exec_action k c x = perform (ExecContainer (e_client k) c x (e_command k) (e_args k) (e_dryRun k))
     (\<lambda>err. Ret (wrapf ''failed to run exec command: %w'' [] err))"

definition exec_Run :: "'w env \<Rightarrow> 'w execCommand \<Rightarrow> 'w command" where
  "exec_Run en k c random =
     RunOnContainers en c (ListContainers (e_client k))
       (target_params (e_names k) (e_pattern k) (e_labels k)) (e_limit k) random False (exec_action k)"

section \<open>Restart (\<open>restart.go\<close>)\<close>

record 'w restartCommand =
  r_client :: "'w client"
  r_names :: "string list"
  r_pattern :: string
  r_labels :: "string list"
  r_timeout :: duration
  r_limit :: int
  r_dryRun :: bool

definition NewRestartCommand ::
  "'w client \<Rightarrow> global_params \<Rightarrow> duration \<Rightarrow> int \<Rightarrow> 'w restartCommand" where
  "NewRestartCommand cl params timeout limit =
     \<lparr>r_client = cl, r_names = GNames params, r_pattern = GPattern params,
      r_labels = GLabels params, r_timeout = timeout, r_limit = limit, r_dryRun = DryRun params\<rparr>"

definition restart_action :: "'w restartCommand \<Rightarrow> 'w action" where
  "restart_action k c x = perform (RestartContainer (r_client k) c x (r_timeout k) (r_dryRun k))
     (\<lambda>err. Ret (wrapf ''failed to restart container: %w'' [] err))"

definition restart_Run :: "'w env \<Rightarrow> 'w restartCommand \<Rightarrow> 'w command" where
  "restart_Run en k c random =
     RunOnContainers en c (ListContainers (r_client k))
       (target_params (r_names k) (r_pattern k) (r_labels k)) (r_limit k) random False (restart_action k)"

section \<open>Remove (\<open>remove.go\<close>)\<close>

record 'w removeCommand =
  rm_client :: "'w client"
  rm_names :: "string list"
  rm_pattern :: string
  rm_labels :: "string list"
  rm_opts :: remove_opts
  rm_limit :: int

definition NewRemoveCommand ::
  "'w client \<Rightarrow> global_params \<Rightarrow> bool \<Rightarrow> bool \<Rightarrow> bool \<Rightarrow> int \<Rightarrow> 'w removeCommand" where
  "NewRemoveCommand cl params force links volumes limit =
     \<lparr>rm_client = cl, rm_names = GNames params, rm_pattern = GPattern params,
      rm_labels = GLabels params,
      rm_opts = \<lparr>Force = force, RLinks = links, RVolumes = volumes, RDryRun = DryRun params\<rparr>,
      rm_limit = limit\<rparr>"

definition remove_action :: "'w removeCommand \<Rightarrow> 'w action" where
  "remove_action k c x = perform (RemoveContainer (rm_client k) c x (rm_opts k))
     (\<lambda>err. Ret (wrapf ''failed to remove container: %w'' [] err))"

definition remove_Run :: "'w env \<Rightarrow> 'w removeCommand \<Rightarrow> 'w command" where
  "remove_Run en k c random =
     RunOnContainersAll en c (ListContainers (rm_client k))
       (target_params (rm_names k) (rm_pattern k) (rm_labels k)) (rm_limit k) random False (remove_action k)"

section \<open>Pause (\<open>pause.go\<close>)\<close>

record 'w pauseCommand =
  p_client :: "'w client"
  p_names :: "string list"
  p_pattern :: string
  p_labels :: "string list"
  p_duration :: duration
  p_limit :: int
  p_dryRun :: bool

definition NewPauseCommand ::
  "'w client \<Rightarrow> global_params \<Rightarrow> duration \<Rightarrow> int \<Rightarrow> 'w pauseCommand" where
  "NewPauseCommand cl params d limit =
     \<lparr>p_client = cl, p_names = GNames params, p_pattern = GPattern params,
      p_labels = GLabels params, p_duration = d, p_limit = limit, p_dryRun = DryRun params\<rparr>"

text \<open>The closure appends to the list \<open>pausedContainers\<close> of the enclosing function.\<close>

definition pause_action :: "'w pauseCommand \<Rightarrow> ('w \<times> container list) action" where
  "pause_action p c x = perform (lift_state (PauseContainer (p_client p) c x (p_dryRun p)))
     (\<lambda>pErr. case pErr of Some e \<Rightarrow> Ret (Some e) | None \<Rightarrow> perform (append_local x) (\<lambda>_. Ret None))"

definition unpauseContainers ::
  "'w pauseCommand \<Rightarrow> ctx \<Rightarrow> container list \<Rightarrow> ('w, error option) state" where
  "unpauseContainers p c containers = join_loop (\<lambda>x. do {
     e \<leftarrow> UnpauseContainer (p_client p) c x (p_dryRun p);
     State_Monad.return (wrapf ''failed to unpause container: %w'' [] e) }) containers None"

definition pause_Run :: "'w env \<Rightarrow> 'w pauseCommand \<Rightarrow> 'w command" where
  "pause_Run en p c random = do {
     (err, pausedContainers) \<leftarrow> with_local []
       (RunOnContainers (lift_env en) c (lift_lister (ListContainers (p_client p)))
          (target_params (p_names p) (p_pattern p) (p_labels p)) (p_limit p) random False
          (pause_action p));
     if length pausedContainers > 0 then do {
       b \<leftarrow> select_branch en 2;
       unpauseErr \<leftarrow> (if b = 0 then unpauseContainers p (cleanup_ctx c (p_duration p)) pausedContainers
                      else unpauseContainers p c pausedContainers);
       State_Monad.return (errors_join [err, unpauseErr]) }
     else State_Monad.return err }"

section \<open>Stop (\<open>stop.go\<close>)\<close>

definition DeafultWaitTime :: int where "DeafultWaitTime = 5"

record 'w stopCommand =
  s_client :: "'w client"
  s_names :: "string list"
  s_pattern :: string
  s_labels :: "string list"
  s_restart :: bool
  s_duration :: duration
  s_waitTime :: int
  s_limit :: int
  s_dryRun :: bool

definition NewStopCommand ::
  "'w client \<Rightarrow> global_params \<Rightarrow> bool \<Rightarrow> duration \<Rightarrow> int \<Rightarrow> int \<Rightarrow> 'w stopCommand" where
  "NewStopCommand cl params restart d waitTime limit =
     (let waitTime = (if waitTime \<le> 0 then DeafultWaitTime else waitTime) in
      \<lparr>s_client = cl, s_names = GNames params, s_pattern = GPattern params,
       s_labels = GLabels params, s_restart = restart, s_duration = d, s_waitTime = waitTime,
       s_limit = limit, s_dryRun = DryRun params\<rparr>)"

definition stop_action :: "'w stopCommand \<Rightarrow> ('w \<times> container list) action" where
  "stop_action s c x =
     perform (lift_state (StopContainer (s_client s) c x (s_waitTime s) (s_dryRun s)))
     (\<lambda>sErr. case sErr of Some e \<Rightarrow> Ret (Some e) | None \<Rightarrow> perform (append_local x) (\<lambda>_. Ret None))"

definition startStoppedContainers ::
  "'w stopCommand \<Rightarrow> ctx \<Rightarrow> container list \<Rightarrow> ('w, error option) state" where
  "startStoppedContainers s c containers = join_loop (\<lambda>x. do {
     e \<leftarrow> StartContainer (s_client s) c x (s_dryRun s);
     State_Monad.return (wrapf ''failed to start stopped container: %w'' [] e) }) containers None"

definition stop_Run :: "'w env \<Rightarrow> 'w stopCommand \<Rightarrow> 'w command" where
  "stop_Run en s c random = do {
     (err, stoppedContainers) \<leftarrow> with_local []
       (RunOnContainers (lift_env en) c (lift_lister (ListContainers (s_client s)))
          (target_params (s_names s) (s_pattern s) (s_labels s)) (s_limit s) random False
          (stop_action s));
     if length stoppedContainers > 0 \<and> s_restart s then do {
       b \<leftarrow> select_branch en 2;
       restartErr \<leftarrow> (if b = 0 then startStoppedContainers s (cleanup_ctx c (s_duration s)) stoppedContainers
                      else startStoppedContainers s c stoppedContainers);
       State_Monad.return (errors_join [err, restartErr]) }
     else State_Monad.return err }"

section \<open>Facts: the calls of a serial command\<close>

text \<open>
  \<open>serial_calls limit random r l\<close>: the log \<open>l\<close> of a run with result \<open>r\<close> is one call per target, in
  order; every call but the last succeeded; the run fails when the last call fails, and a run
  without an error made no failing call. No more than \<open>limit\<close> targets, one if random.
\<close>

definition serial_calls ::
  "int \<Rightarrow> bool \<Rightarrow> error option \<Rightarrow> (container \<times> error option) list \<Rightarrow> bool" where
  "serial_calls limit random r tr \<longleftrightarrow>
     (\<forall>p \<in> set (butlast tr). snd p = None) \<and> (tr \<noteq> [] \<longrightarrow> (r = None \<longleftrightarrow> snd (last tr) = None)) \<and>
     (limit > 0 \<longrightarrow> int (length tr) \<le> limit) \<and> (random \<longrightarrow> length tr \<le> 1)"

lemma runOnContainers_calls:
  assumes lst: "quiet g (ListNContainersAll en c lst (GNames gp) (GPattern gp) (GLabels gp) limit all)"
    and step: "\<And>x s r s'. run_task (pick_branch en) (fn c x) s = (r, s') \<Longrightarrow> g s' = upd x r (g s)"
    and run: "run_state (runOnContainers en c lst gp limit all random False fn) s = (r, s')"
  shows "\<exists>tr. g s' = fold (\<lambda>(x, q). upd x q) tr (g s) \<and> serial_calls limit random r tr"
  using run
proof (cases rule: runOnContainers_serial)
  case (list_error err)
  with confinedD [OF lst list_error(1)] show ?thesis
    by (intro exI [of _ "[]"]) (simp add: serial_calls_def)
next
  case (actions cs ys tr s1)
  have "g s1 = g s" using lst actions(1) by (rule confinedD)
  moreover have "g s' = fold (\<lambda>(x, q). upd x q) tr (g s1)"
    using actions(5) by (rule serial_run_fold [rotated]) (simp add: step)
  moreover have "length tr \<le> length ys" using actions(6) by (metis length_map prefix_length_le)
  moreover have "length ys \<le> length cs" using actions(2) by (metis size_mset size_mset_mono)
  moreover have "limit > 0 \<Longrightarrow> int (length cs) \<le> limit" using ListNContainersAll_limit [OF actions(1)] .
  ultimately show ?thesis using actions(3,7,8)
    by (intro exI [of _ tr]) (auto simp: serial_calls_def split: if_splits)
qed

lemma lift_lift_quiet: "quiet (\<lambda>s. (snd (fst s), snd s)) (lift_state (lift_state m))"
  by (auto simp: confined_def split: prod.splits)

lemma lifted_list_quiet:
  "quiet (\<lambda>s. (snd (fst s), snd s))
     (ListNContainersAll en c (lift_lister (ListContainers (recorded cl))) names pattern labels limit all)"
  unfolding ListNContainersAll_def listContainers_def lift_lister_def
  by (intro quiet_intros) (simp add: lift_lift_quiet del: prod.inject)

lemma wrapped_calls:
  assumes cl: "lst = ListContainers (recorded cl)"
    and fn: "\<And>x. fn c x = perform (logged (K x) id (op x)) (\<lambda>err. Ret (wrapf msg [] err))"
    and run: "run_state (runOnContainers en c lst gp limit all random False fn) (w, []) = (r, (w', l))"
  shows "\<exists>tr. l = map (\<lambda>(x, res). (K x, unwrap1 res)) tr \<and> serial_calls limit random r tr"
proof -
  have "\<exists>tr. snd (w', l) = fold (\<lambda>(x, q) l. l @ [(K x, unwrap1 q)]) tr (snd (w, [])) \<and>
      serial_calls limit random r tr"
    by (rule runOnContainers_calls [where upd = "\<lambda>x q l. l @ [(K x, unwrap1 q)]",
          OF recorded_list_quiet _ run [unfolded cl]])
       (auto simp: fn split: prod.splits)
  then show ?thesis by (auto simp: fold_append_map)
qed

lemma kill_Run_calls:
  "k_client k = recorded cl \<Longrightarrow> run_state (kill_Run en k c random) (w, []) = (r, (w', l)) \<Longrightarrow>
    \<exists>tr. l = map (\<lambda>(x, res). (CKill c x (k_signal k) (k_dryRun k), unwrap1 res)) tr \<and>
      serial_calls (k_limit k) random r tr"
  unfolding kill_Run_def RunOnContainers_def
  by (rule wrapped_calls [where fn = "kill_action k"]) (auto simp: kill_action_def)

lemma exec_Run_calls:
  "e_client k = recorded cl \<Longrightarrow> run_state (exec_Run en k c random) (w, []) = (r, (w', l)) \<Longrightarrow>
    \<exists>tr. l = map (\<lambda>(x, res). (CExec c x (e_command k) (e_args k) (e_dryRun k), unwrap1 res)) tr \<and>
      serial_calls (e_limit k) random r tr"
  unfolding exec_Run_def RunOnContainers_def
  by (rule wrapped_calls [where fn = "exec_action k"]) (auto simp: exec_action_def)

lemma restart_Run_calls:
  "r_client k = recorded cl \<Longrightarrow> run_state (restart_Run en k c random) (w, []) = (r, (w', l)) \<Longrightarrow>
    \<exists>tr. l = map (\<lambda>(x, res). (CRestart c x (r_timeout k) (r_dryRun k), unwrap1 res)) tr \<and>
      serial_calls (r_limit k) random r tr"
  unfolding restart_Run_def RunOnContainers_def
  by (rule wrapped_calls [where fn = "restart_action k"]) (auto simp: restart_action_def)

lemma remove_Run_calls:
  "rm_client k = recorded cl \<Longrightarrow> run_state (remove_Run en k c random) (w, []) = (r, (w', l)) \<Longrightarrow>
    \<exists>tr. l = map (\<lambda>(x, res). (CRemove c x (rm_opts k), unwrap1 res)) tr \<and>
      serial_calls (rm_limit k) random r tr"
  unfolding remove_Run_def RunOnContainersAll_def
  by (rule wrapped_calls [where fn = "remove_action k"]) (auto simp: remove_action_def)

section \<open>Facts: signals\<close>

lemma NewKillCommand_Inr:
  "NewKillCommand cl params signal limit = Inr k \<longleftrightarrow>
    (let sig = if signal = '''' then ''SIGKILL'' else signal in
     sig \<in> dom linuxSignals \<and>
     k = \<lparr>k_client = cl, k_names = GNames params, k_pattern = GPattern params,
          k_labels = GLabels params, k_signal = sig, k_limit = limit, k_dryRun = DryRun params\<rparr>)"
  by (auto simp: NewKillCommand_def Let_def DefaultKillSignal_def)

lemma SIGKILL_known: "linuxSignals ''SIGKILL'' = Some 9"
  by (simp add: linuxSignals_def)

section \<open>Facts: pause and stop undo what they did\<close>

lemma with_local_Inr:
  "run_state (with_local l0 m) w = ((a, l), w') \<longleftrightarrow> run_state m (w, l0) = (a, (w', l))"
  by (auto split: prod.splits)

text \<open>
  A serial run of an action that logs a call and, when it succeeds, remembers the target: the list
  it leaves is the list of the targets whose call succeeded, in order.
\<close>

lemma remembering_calls:
  assumes fn: "\<And>x. fn c x = perform (lift_state (logged (K x) id (op x)))
       (\<lambda>r. case r of Some e \<Rightarrow> Ret (Some e) | None \<Rightarrow> perform (append_local x) (\<lambda>_. Ret None))"
    and run: "run_state (runOnContainers (lift_env en) c (lift_lister (ListContainers (recorded cl))) gp
      limit all random False fn) ((w, []), []) = (err, ((w', l), xs))"
  shows "\<exists>tr. l = map (\<lambda>(x, res). (K x, res)) tr \<and> xs = map fst (filter (\<lambda>p. snd p = None) tr) \<and>
    serial_calls limit random err tr"
proof -
  let ?upd = "\<lambda>x q p. (fst p @ [(K x, q)], snd p @ (if q = None then [x] else []))"
  let ?g = "\<lambda>s :: ('a \<times> call_log) \<times> container list. (snd (fst s), snd s)"
  have step: "?g s' = ?upd x r (?g s)" if "run_task (pick_branch (lift_env en)) (fn c x) s = (r, s')" for x s r s'
    using that by (cases s) (auto simp: fn split: prod.splits option.splits)
  obtain tr where "?g ((w', l), xs) = fold (\<lambda>(x, q). ?upd x q) tr (?g ((w, []), []))"
    "serial_calls limit random err tr"
    using runOnContainers_calls [where g = ?g and upd = ?upd, OF lifted_list_quiet step run] by blast
  moreover have "fold (\<lambda>(x, q). ?upd x q) tr (l0, xs0) =
      (l0 @ map (\<lambda>(x, res). (K x, res)) tr, xs0 @ map fst (filter (\<lambda>p. snd p = None) tr))"
    for tr :: "(container \<times> error option) list" and l0 xs0
    by (induction tr arbitrary: l0 xs0) auto
  ultimately have "l = map (\<lambda>(x, res). (K x, res)) tr" "xs = map fst (filter (\<lambda>p. snd p = None) tr)"
    by simp_all
  with \<open>serial_calls limit random err tr\<close> show ?thesis by blast
qed

text \<open>The whole run of such a command: the calls \<open>K\<close>, then one undoing call \<open>U\<close> per remembered target.\<close>

definition undoes ::
  "(container \<Rightarrow> client_call) \<Rightarrow> (container \<Rightarrow> client_call) \<Rightarrow> error option \<Rightarrow> call_log \<Rightarrow> bool" where
  "undoes K U r l \<longleftrightarrow> (\<exists>tr us.
     l = map (\<lambda>(x, res). (K x, res)) tr @ map (\<lambda>(x, res). (U x, res)) us \<and>
     map fst us = map fst (filter (\<lambda>p. snd p = None) tr) \<and>
     (r = None \<longrightarrow> (\<forall>p \<in> set l. snd p = None)))"

lemma undo_calls:
  assumes "map fst us = map fst (filter (\<lambda>p. snd p = None) tr)"
    and "serial_calls limit random err tr" and "r = None \<longrightarrow> err = None \<and> (\<forall>p \<in> set us. snd p = None)"
  shows "undoes K U r (map (\<lambda>(x, res). (K x, res)) tr @ map (\<lambda>(x, res). (U x, res)) us)"
proof -
  have "snd p = None" if "r = None" "p \<in> set tr" for p
  proof -
    from that assms have "snd (last tr) = None" "\<forall>p \<in> set (butlast tr). snd p = None" "tr \<noteq> []"
      by (auto simp: serial_calls_def)
    with that(2) show ?thesis by (metis append_butlast_last_id Un_iff set_append list.set(1,2) insertE empty_iff)
  qed
  with assms show ?thesis unfolding undoes_def
    by (intro exI [of _ tr] exI [of _ us]) auto
qed

lemma logged_join_loop:
  assumes "run_state (join_loop (\<lambda>x. do { e \<leftarrow> logged (K x) id (op x); State_Monad.return (wrapf msg [] e) })
      xs None) (w, l) = (r, (w', l'))"
  shows "\<exists>us. map fst us = xs \<and> l' = l @ map (\<lambda>(x, res). (K x, res)) us \<and>
    (r = None \<longleftrightarrow> (\<forall>u \<in> set us. snd u = None))"
proof -
  have "\<exists>es. map fst es = xs \<and> snd (w', l') = snd (w, l) @ map (\<lambda>(x, e). (K x, unwrap1 e)) es \<and>
      (r = None \<longleftrightarrow> (None :: error option) = None \<and> (\<forall>e \<in> set es. snd e = None))"
    using assms by (rule join_loop_run [rotated]) (auto split: prod.splits)
  then obtain es where es: "map fst es = xs" "l' = l @ map (\<lambda>(x, e). (K x, unwrap1 e)) es"
    "r = None \<longleftrightarrow> (\<forall>e \<in> set es. snd e = None)" by auto
  show ?thesis
    by (rule exI [of _ "map (\<lambda>(x, e). (x, unwrap1 e)) es"]) (use es in \<open>auto simp: comp_def split_def\<close>)
qed

lemma unpauseContainers_calls:
  assumes "p_client p = recorded cl" and "run_state (unpauseContainers p c xs) (w, l) = (r, (w', l'))"
  shows "\<exists>us. map fst us = xs \<and> l' = l @ map (\<lambda>(x, res). (CUnpause c x (p_dryRun p), res)) us \<and>
    (r = None \<longleftrightarrow> (\<forall>u \<in> set us. snd u = None))"
  using assms by (intro logged_join_loop) (simp add: unpauseContainers_def)

lemma startStoppedContainers_calls:
  assumes "s_client s = recorded cl" and "run_state (startStoppedContainers s c xs) (w, l) = (r, (w', l'))"
  shows "\<exists>us. map fst us = xs \<and> l' = l @ map (\<lambda>(x, res). (CStart c x (s_dryRun s), res)) us \<and>
    (r = None \<longleftrightarrow> (\<forall>u \<in> set us. snd u = None))"
  using assms by (intro logged_join_loop) (simp add: startStoppedContainers_def)

text \<open>The context of the undoing calls: the run's own, or a detached one when it was interrupted.\<close>

lemma pause_Run_undoes:
  assumes cl: "p_client p = recorded cl"
    and run: "run_state (pause_Run en p c random) (w, []) = (r, (w', l))"
  shows "\<exists>c' \<in> {c, cleanup_ctx c (p_duration p)}.
    undoes (\<lambda>x. CPause c x (p_dryRun p)) (\<lambda>x. CUnpause c' x (p_dryRun p)) r l"
proof -
  let ?gp = "target_params (p_names p) (p_pattern p) (p_labels p)"
  obtain err w1 l1 xs where 1: "run_state (runOnContainers (lift_env en) c (lift_lister (ListContainers (p_client p)))
      ?gp (p_limit p) False random False (pause_action p)) ((w, []), []) = (err, ((w1, l1), xs))"
    by (metis prod.collapse)
  have "pause_action p c x = perform (lift_state (logged (CPause c x (p_dryRun p)) id (PauseContainer cl c x (p_dryRun p))))
     (\<lambda>r. case r of Some e \<Rightarrow> Ret (Some e) | None \<Rightarrow> perform (append_local x) (\<lambda>_. Ret None))" for x
    by (simp add: pause_action_def cl)
  from remembering_calls [where fn = "pause_action p", OF this 1 [unfolded cl]]
  obtain tr where tr: "l1 = map (\<lambda>(x, res). (CPause c x (p_dryRun p), res)) tr"
    "xs = map fst (filter (\<lambda>q. snd q = None) tr)" "serial_calls (p_limit p) random err tr" by blast
  show ?thesis
  proof (cases "xs = []")
    case True
    with run 1 have "r = err" "l = l1" by (auto simp: pause_Run_def RunOnContainers_def split: prod.splits)
    with tr True undo_calls [of "[]" tr, OF _ tr(3)] show ?thesis by (intro bexI [of _ c]) simp_all
  next
    case False
    from run 1 False obtain c' r' where c': "c' \<in> {c, cleanup_ctx c (p_duration p)}"
      "run_state (unpauseContainers p c' xs) (w1, l1) = (r', (w', l))" "r = errors_join [err, r']"
      by (auto simp: pause_Run_def RunOnContainers_def select_branch_def split: prod.splits if_splits)
    from unpauseContainers_calls [OF cl c'(2)] obtain us where us: "map fst us = xs"
      "l = l1 @ map (\<lambda>(x, res). (CUnpause c' x (p_dryRun p), res)) us"
      "r' = None \<longleftrightarrow> (\<forall>u \<in> set us. snd u = None)" by blast
    have "r = None \<longrightarrow> err = None \<and> (\<forall>u \<in> set us. snd u = None)" using us(3) c'(3) by simp
    with undo_calls [OF _ tr(3)] us tr show ?thesis by (intro bexI [OF _ c'(1)]) simp
  qed
qed

lemma stop_Run_undoes:
  assumes cl: "s_client s = recorded cl" and restart: "s_restart s"
    and run: "run_state (stop_Run en s c random) (w, []) = (r, (w', l))"
  shows "\<exists>c' \<in> {c, cleanup_ctx c (s_duration s)}.
    undoes (\<lambda>x. CStop c x (s_waitTime s) (s_dryRun s)) (\<lambda>x. CStart c' x (s_dryRun s)) r l"
proof -
  let ?gp = "target_params (s_names s) (s_pattern s) (s_labels s)"
  obtain err w1 l1 xs where 1: "run_state (runOnContainers (lift_env en) c (lift_lister (ListContainers (s_client s)))
      ?gp (s_limit s) False random False (stop_action s)) ((w, []), []) = (err, ((w1, l1), xs))"
    by (metis prod.collapse)
  have "stop_action s c x = perform (lift_state (logged (CStop c x (s_waitTime s) (s_dryRun s)) id (StopContainer cl c x (s_waitTime s) (s_dryRun s))))
     (\<lambda>r. case r of Some e \<Rightarrow> Ret (Some e) | None \<Rightarrow> perform (append_local x) (\<lambda>_. Ret None))" for x
    by (simp add: stop_action_def cl)
  from remembering_calls [where fn = "stop_action s", OF this 1 [unfolded cl]]
  obtain tr where tr: "l1 = map (\<lambda>(x, res). (CStop c x (s_waitTime s) (s_dryRun s), res)) tr"
    "xs = map fst (filter (\<lambda>q. snd q = None) tr)" "serial_calls (s_limit s) random err tr" by blast
  show ?thesis
  proof (cases "xs = []")
    case True
    with run 1 have "r = err" "l = l1" by (auto simp: stop_Run_def RunOnContainers_def split: prod.splits)
    with tr True undo_calls [of "[]" tr, OF _ tr(3)] show ?thesis by (intro bexI [of _ c]) simp_all
  next
    case False
    from run 1 False restart obtain c' r' where c': "c' \<in> {c, cleanup_ctx c (s_duration s)}"
      "run_state (startStoppedContainers s c' xs) (w1, l1) = (r', (w', l))" "r = errors_join [err, r']"
      by (auto simp: stop_Run_def RunOnContainers_def select_branch_def split: prod.splits if_splits)
    from startStoppedContainers_calls [OF cl c'(2)] obtain us where us: "map fst us = xs"
      "l = l1 @ map (\<lambda>(x, res). (CStart c' x (s_dryRun s), res)) us"
      "r' = None \<longleftrightarrow> (\<forall>u \<in> set us. snd u = None)" by blast
    have "r = None \<longrightarrow> err = None \<and> (\<forall>u \<in> set us. snd u = None)" using us(3) c'(3) by simp
    with undo_calls [OF _ tr(3)] us tr show ?thesis by (intro bexI [OF _ c'(1)]) simp
  qed
qed

section \<open>Facts: what a run stays within\<close>

text \<open>
  A command stays within every preorder that the operations of its client stay within on the containers
  that its names and pattern accept. For the commands that remember containers, the list in the closure
  is part of the world: it only ever holds such containers.
\<close>

lemma lists_only_lift: "lists_only sel tgt lst \<Longrightarrow> lists_only sel (\<lambda>u. tgt (fst u)) (lift_lister lst)"
  unfolding lists_only_def lift_lister_def by (auto split: prod.splits)

lemma lift_env_MatchString [simp]: "regexp_MatchString (lift_env en) = regexp_MatchString en"
  by (simp add: lift_env_def)

definition remembering_order ::
  "('w \<Rightarrow> 'w \<Rightarrow> bool) \<Rightarrow> ('w \<Rightarrow> container \<Rightarrow> bool) \<Rightarrow> 'w \<times> container list \<Rightarrow> 'w \<times> container list \<Rightarrow> bool" where
  "remembering_order R tgt u v \<longleftrightarrow>
     R (fst u) (fst v) \<and> (list_all (tgt (fst u)) (snd u) \<longrightarrow> list_all (tgt (fst v)) (snd v))"

context effect_order
begin

lemma remembering: "effect_order (remembering_order R tgt)"
  by unfold_locales (auto simp: remembering_order_def intro: R_refl R_trans)

lemmas lifted_intros = effect_order.confined_intros [OF remembering]
lemmas lifted_tasks = effect_order.task_intros [OF remembering]
lemmas lifted_above = effect_order.above_intros [OF remembering]

lemma select_branch_confined: "confined R (select_branch en n)"
  unfolding select_branch_def by (intro confined_intros)

lemma with_local_confined:
  assumes "confined (remembering_order R tgt) m" and "run_state (with_local [] m) w = ((a, xs), w')"
  shows "R w w'" and "list_all (tgt w') xs"
proof -
  have "remembering_order R tgt (w, []) (w', xs)"
    using assms by (auto split: prod.splits dest: confinedD)
  then show "R w w'" "list_all (tgt w') xs" by (simp_all add: remembering_order_def)
qed

end

context targeted_client
begin

lemma targets_stable: "list_all (tgt w) xs \<Longrightarrow> R w w' \<Longrightarrow> list_all (tgt w') xs"
  by (auto simp: list_all_iff intro: tgt_stable)

lemma lift_state_above: "confined (above R (fst u)) m \<Longrightarrow> confined (above (remembering_order R tgt) u) (lift_state m)"
  by (rule confined_aboveI)
    (auto simp: remembering_order_def split: prod.splits intro: confined_aboveD elim!: targets_stable)

lemma lift_state_confined: "confined R m \<Longrightarrow> confined (remembering_order R tgt) (lift_state m)"
  by (rule confinedI) (auto simp: remembering_order_def split: prod.splits intro: confinedD elim!: targets_stable)

lemma append_local_above: "tgt (fst u) x \<Longrightarrow> confined (above (remembering_order R tgt) u) (append_local x)"
  by (rule confined_aboveI) (auto simp: remembering_order_def append_local_def R_refl intro: tgt_stable)

lemma lifted_list_confined:
  assumes "\<And>f os. confined R (lst c f os)"
  shows "confined (remembering_order R tgt) (ListNContainersAll en c (lift_lister lst) names pattern labels limit all)"
  unfolding ListNContainersAll_def listContainers_def lift_lister_def
  by (intro lifted_intros lift_state_confined assms)

end

lemma target_params_sel [simp]:
  "GNames (target_params names pattern labels) = names" "GPattern (target_params names pattern labels) = pattern"
  by (simp_all add: target_params_def)

context targeted_client
begin

lemma kill_Run_confined:
  assumes "k_client k = cl" and "ok (k_dryRun k)"
    and "\<And>x. accepts (regexp_MatchString en) (k_names k) (k_pattern k) x \<Longrightarrow> sel x"
  shows "confined R (kill_Run en k c random)"
  unfolding kill_Run_def RunOnContainers_def assms(1) kill_action_def
  by (intro run_targets_confined task_intros aim_ops assms(2)) (simp_all add: assms(3))

lemma exec_Run_confined:
  assumes "e_client k = cl" and "ok (e_dryRun k)"
    and "\<And>x. accepts (regexp_MatchString en) (e_names k) (e_pattern k) x \<Longrightarrow> sel x"
  shows "confined R (exec_Run en k c random)"
  unfolding exec_Run_def RunOnContainers_def assms(1) exec_action_def
  by (intro run_targets_confined task_intros aim_ops assms(2)) (simp_all add: assms(3))

lemma restart_Run_confined:
  assumes "r_client k = cl" and "ok (r_dryRun k)"
    and "\<And>x. accepts (regexp_MatchString en) (r_names k) (r_pattern k) x \<Longrightarrow> sel x"
  shows "confined R (restart_Run en k c random)"
  unfolding restart_Run_def RunOnContainers_def assms(1) restart_action_def
  by (intro run_targets_confined task_intros aim_ops assms(2)) (simp_all add: assms(3))

lemma remove_Run_confined:
  assumes "rm_client k = cl" and "ok (RDryRun (rm_opts k))"
    and "\<And>x. accepts (regexp_MatchString en) (rm_names k) (rm_pattern k) x \<Longrightarrow> sel x"
  shows "confined R (remove_Run en k c random)"
  unfolding remove_Run_def RunOnContainersAll_def assms(1) remove_action_def
  by (intro run_targets_confined task_intros aim_ops assms(2)) (simp_all add: assms(3))

text \<open>The run of a command that remembers: what it remembers are targets.\<close>

lemma remembering_run:
  assumes "\<And>x. accepts (regexp_MatchString en) (GNames gp) (GPattern gp) x \<Longrightarrow> sel x"
    and "\<And>u x. tgt (fst u) x \<Longrightarrow> task_from (remembering_order R tgt) (fn c x) u"
    and "run_state (with_local [] (runOnContainers (lift_env en) c (lift_lister (ListContainers cl)) gp limit all random False fn)) w =
      ((err, xs), w')"
  shows "R w w'" and "list_all (tgt w') xs"
proof -
  have "confined (remembering_order R tgt)
      (runOnContainers (lift_env en) c (lift_lister (ListContainers cl)) gp limit all random False fn)"
    by (rule effect_order.runOnContainers_on [OF remembering, where tgt = "\<lambda>u. tgt (fst u)"], rule lifted_list_confined,
        rule aim_List, rule lists_only_targets [OF lists_only_lift [OF list_only]]) (simp_all add: assms(1,2))
  from with_local_confined [OF this assms(3)] show "R w w'" "list_all (tgt w') xs" .
qed

lemma undo_above:
  assumes "list_all (tgt w) xs" and "\<And>x. tgt w x \<Longrightarrow> confined (above R w) (op x)"
  shows "confined (above R w) (join_loop (\<lambda>x. do { e \<leftarrow> op x; State_Monad.return (wrapf msg [] e) }) xs err)"
  using assms by (intro above_intros) (auto simp: list_all_iff)

lemma pause_Run_confined:
  assumes "p_client p = cl" and "ok (p_dryRun p)"
    and "\<And>x. accepts (regexp_MatchString en) (p_names p) (p_pattern p) x \<Longrightarrow> sel x"
  shows "confined R (pause_Run en p c random)"
proof (rule confinedI)
  fix w a w' assume run: "run_state (pause_Run en p c random) w = (a, w')"
  obtain err xs w1 where w1: "run_state (with_local [] (runOnContainers (lift_env en) c (lift_lister (ListContainers cl))
      (target_params (p_names p) (p_pattern p) (p_labels p)) (p_limit p) False random False (pause_action p))) w = ((err, xs), w1)"
    by (metis prod.collapse)
  have "task_from (remembering_order R tgt) (pause_action p c x) u" if "tgt (fst u) x" for u x
    unfolding pause_action_def assms(1)
    by (intro lifted_tasks lifted_above lift_state_above append_local_above aim_ops assms(2) that)
  from remembering_run [OF _ this w1] assms(3) have R: "R w w1" and xs: "list_all (tgt w1) xs" by simp_all
  have "confined (above R w1) (unpauseContainers p c' xs)" for c'
    unfolding unpauseContainers_def assms(1) by (intro undo_above [OF xs] aim_ops assms(2))
  then have "confined (above R w1) (if length xs > 0 then do {
       b \<leftarrow> select_branch en 2;
       unpauseErr \<leftarrow> (if b = 0 then unpauseContainers p (cleanup_ctx c (p_duration p)) xs else unpauseContainers p c xs);
       State_Monad.return (errors_join [err, unpauseErr]) } else State_Monad.return err)" (is "confined _ ?rest")
    by (intro above_intros confined_above [OF select_branch_confined])
  moreover have "run_state ?rest w1 = (a, w')" using run w1 by (simp add: pause_Run_def RunOnContainers_def assms(1) del: run_with_local)
  ultimately show "R w w'" using R by (blast intro: R_trans dest: confined_at)
qed

lemma stop_Run_confined:
  assumes "s_client s = cl" and "ok (s_dryRun s)"
    and "\<And>x. accepts (regexp_MatchString en) (s_names s) (s_pattern s) x \<Longrightarrow> sel x"
  shows "confined R (stop_Run en s c random)"
proof (rule confinedI)
  fix w a w' assume run: "run_state (stop_Run en s c random) w = (a, w')"
  obtain err xs w1 where w1: "run_state (with_local [] (runOnContainers (lift_env en) c (lift_lister (ListContainers cl))
      (target_params (s_names s) (s_pattern s) (s_labels s)) (s_limit s) False random False (stop_action s))) w = ((err, xs), w1)"
    by (metis prod.collapse)
  have "task_from (remembering_order R tgt) (stop_action s c x) u" if "tgt (fst u) x" for u x
    unfolding stop_action_def assms(1)
    by (intro lifted_tasks lifted_above lift_state_above append_local_above aim_ops assms(2) that)
  from remembering_run [OF _ this w1] assms(3) have R: "R w w1" and xs: "list_all (tgt w1) xs" by simp_all
  have "confined (above R w1) (startStoppedContainers s c' xs)" for c'
    unfolding startStoppedContainers_def assms(1) by (intro undo_above [OF xs] aim_ops assms(2))
  then have "confined (above R w1) (if length xs > 0 \<and> s_restart s then do {
       b \<leftarrow> select_branch en 2;
       restartErr \<leftarrow> (if b = 0 then startStoppedContainers s (cleanup_ctx c (s_duration s)) xs else startStoppedContainers s c xs);
       State_Monad.return (errors_join [err, restartErr]) } else State_Monad.return err)" (is "confined _ ?rest")
    by (intro above_intros confined_above [OF select_branch_confined])
  moreover have "run_state ?rest w1 = (a, w')" using run w1 by (simp add: stop_Run_def RunOnContainers_def assms(1) del: run_with_local)
  ultimately show "R w w'" using R by (blast intro: R_trans dest: confined_at)
qed

end

section \<open>Properties\<close>

text \<open>C9: A pause run over any runtime: it pauses targets one after the other up to the first
  failure, then makes exactly one unpause call for every target it did pause, in the same order and
  whatever failed, under the run's context or, when interrupted, under a detached one with the
  duration as deadline. A run that reports no error had no failing call at all.\<close>

theorem pause_Run_unpauses:
  assumes "p_client p = recorded cl"
    and "run_state (pause_Run en p c random) (w, []) = (r, (w', l))"
  shows "\<exists>c' \<in> {c, cleanup_ctx c (p_duration p)}.
    undoes (\<lambda>x. CPause c x (p_dryRun p)) (\<lambda>x. CUnpause c' x (p_dryRun p)) r l"
  using assms by (rule pause_Run_undoes)

text \<open>The runtime of the witnesses: three containers, the second of them fails.\<close>

definition abc :: "unit client" where
  "abc = still_client [named ''a'', named ''b'', named ''c'']
     (\<lambda>x. if ContainerName x = ''b'' then Some (ErrExt ''boom'') else None)"

definition all_params :: global_params where
  "all_params = \<lparr>Random = False, GLabels = [], GPattern = '''', GNames = [], Interval = 0,
     DryRun = False, SkipErrors = False\<rparr>"

theorem pause_Run_unpauses_witness:
  "run_state (pause_Run plain_env (NewPauseCommand (recorded abc) all_params 10 0) CtxTop False) ((), []) =
     (Some (ErrJoin [ErrExt ''boom'']), ((),
       [(CPause CtxTop (named ''a'') False, None), (CPause CtxTop (named ''b'') False, Some (ErrExt ''boom'')),
        (CUnpause (cleanup_ctx CtxTop 10) (named ''a'') False, None)])) \<and>
   (\<exists>c' \<in> {CtxTop, cleanup_ctx CtxTop 10}.
      undoes (\<lambda>x. CPause CtxTop x False) (\<lambda>x. CUnpause c' x False) (Some (ErrJoin [ErrExt ''boom'']))
       [(CPause CtxTop (named ''a'') False, None), (CPause CtxTop (named ''b'') False, Some (ErrExt ''boom'')),
        (CUnpause (cleanup_ctx CtxTop 10) (named ''a'') False, None)])"
proof -
  have run: "run_state (pause_Run plain_env (NewPauseCommand (recorded abc) all_params 10 0) CtxTop False) ((), []) =
     (Some (ErrJoin [ErrExt ''boom'']), ((),
       [(CPause CtxTop (named ''a'') False, None), (CPause CtxTop (named ''b'') False, Some (ErrExt ''boom'')),
        (CUnpause (cleanup_ctx CtxTop 10) (named ''a'') False, None)]))"
    by code_simp
  with pause_Run_unpauses [OF _ run, of abc] show ?thesis by (simp add: NewPauseCommand_def all_params_def)
qed

text \<open>C10: A stop run with \<open>--restart\<close> over any runtime: targets are stopped one after the other up to the
  first failure, then every target that did stop is started exactly once, in the same order and
  whatever failed; no error means no failing call.\<close>

theorem stop_Run_restarts:
  assumes "s_client s = recorded cl" and "s_restart s"
    and "run_state (stop_Run en s c random) (w, []) = (r, (w', l))"
  shows "\<exists>c' \<in> {c, cleanup_ctx c (s_duration s)}.
    undoes (\<lambda>x. CStop c x (s_waitTime s) (s_dryRun s)) (\<lambda>x. CStart c' x (s_dryRun s)) r l"
  using assms by (rule stop_Run_undoes)

theorem stop_Run_restarts_witness:
  "run_state (stop_Run plain_env (NewStopCommand (recorded abc) all_params True 10 0 0) CtxTop False) ((), []) =
     (Some (ErrJoin [ErrExt ''boom'']), ((),
       [(CStop CtxTop (named ''a'') 5 False, None), (CStop CtxTop (named ''b'') 5 False, Some (ErrExt ''boom'')),
        (CStart (cleanup_ctx CtxTop 10) (named ''a'') False, None)])) \<and>
   (\<exists>c' \<in> {CtxTop, cleanup_ctx CtxTop 10}.
      undoes (\<lambda>x. CStop CtxTop x 5 False) (\<lambda>x. CStart c' x False) (Some (ErrJoin [ErrExt ''boom'']))
       [(CStop CtxTop (named ''a'') 5 False, None), (CStop CtxTop (named ''b'') 5 False, Some (ErrExt ''boom'')),
        (CStart (cleanup_ctx CtxTop 10) (named ''a'') False, None)])"
proof -
  have run: "run_state (stop_Run plain_env (NewStopCommand (recorded abc) all_params True 10 0 0) CtxTop False) ((), []) =
     (Some (ErrJoin [ErrExt ''boom'']), ((),
       [(CStop CtxTop (named ''a'') 5 False, None), (CStop CtxTop (named ''b'') 5 False, Some (ErrExt ''boom'')),
        (CStart (cleanup_ctx CtxTop 10) (named ''a'') False, None)]))"
    by code_simp
  with stop_Run_restarts [OF _ _ run, of abc] show ?thesis
    by (simp add: NewStopCommand_def all_params_def DeafultWaitTime_def)
qed



text \<open>A kill command exists exactly for the signals of the table, the empty signal standing for
  SIGKILL; the targets, the limit and the dry-run flag are the ones given.\<close>

theorem NewKillCommand_signals:
  "NewKillCommand cl params signal limit =
    (let sig = if signal = '''' then ''SIGKILL'' else signal in
     if linuxSignals sig = None then Inl (ErrNew ''undefined Linux signal: %s'' [signal])
     else Inr \<lparr>k_client = cl, k_names = GNames params, k_pattern = GPattern params,
          k_labels = GLabels params, k_signal = sig, k_limit = limit, k_dryRun = DryRun params\<rparr>) \<and>
   linuxSignals ''SIGKILL'' = Some 9"
  by (simp add: NewKillCommand_def Let_def DefaultKillSignal_def SIGKILL_known)

end
