(* ===== verification/Netem.thy ===== *)
theory Netem
  imports Runner
begin

text \<open>
  \<open>pkg/chaos/netem\<close>: the seven network emulation commands: their parameters, the \<open>tc netem\<close> words they
  build, and the goroutine that starts the emulation on a target and stops it after the duration.
\<close>

section \<open>Running the emulation (\<open>netem.go\<close>)\<close>

definition cleanupTimeout :: duration where "cleanupTimeout = 30 * second"

text \<open>Both branches of the \<open>select\<close> stop the emulation under a detached context and drop its error.\<close>

definition runNetem :: "ctx \<Rightarrow> 'w client \<Rightarrow> netem_request \<Rightarrow> 'w task" where
  "runNetem c cl req = perform (NetemContainer cl c req) (\<lambda>err. case err of
     Some e \<Rightarrow> Ret (Some (ErrWrap ''netem failed: %w'' [] e))
   | None \<Rightarrow>
       Select
         (perform (StopNetemContainer cl (cleanup_ctx c cleanupTimeout) req) (\<lambda>_. Ret None))
         [perform (StopNetemContainer cl (cleanup_ctx c cleanupTimeout) req) (\<lambda>_. Ret None)])"

section \<open>The flags of all commands (\<open>parse.go\<close>)\<close>

fun parse_targets :: "string list \<Rightarrow> error + ip_net list" where
  "parse_targets [] = Inr []"
| "parse_targets (s # ss) =
     (case ParseCIDR s of
        Inl err \<Rightarrow> Inl (ErrWrap ''failed to parse ip: %w'' [] err)
      | Inr ip \<Rightarrow> (case parse_targets ss of Inl err \<Rightarrow> Inl err | Inr ips \<Rightarrow> Inr (ip # ips)))"

definition ParseRequestBase :: "flags \<Rightarrow> global_params \<Rightarrow> error + netem_request \<times> int" where
  "ParseRequestBase c gp =
     (let d = flag_Duration c ''duration''; iface = flag_String c ''interface'' in
      if d = 0 then Inl (errorf ''unset or invalid duration value'')
      else if Interval gp \<noteq> 0 \<and> d \<ge> Interval gp
      then Inl (errorf ''duration must be shorter than interval'')
      else case ValidateInterfaceName iface of Some err \<Rightarrow> Inl err
      | None \<Rightarrow>
      (case parse_targets (flag_StringSlice c ''target'') of Inl err \<Rightarrow> Inl err
      | Inr ips \<Rightarrow>
      (case GetPorts (flag_String c ''egress-port'') of
        Inl err \<Rightarrow> Inl (ErrWrap ''failed to get source ports: %w'' [] err)
      | Inr sports \<Rightarrow>
      (case GetPorts (flag_String c ''ingress-port'') of
        Inl err \<Rightarrow> Inl (ErrWrap ''failed to get destination ports: %w'' [] err)
      | Inr dports \<Rightarrow>
        Inr (\<lparr>NContainer = nil_container, NInterface = iface, NCommand = [], NIPs = ips,
              NSPorts = sports, NDPorts = dports, NDuration = d,
              NSidecar = \<lparr>SImage = flag_String c ''tc-image'', SPull = flag_Bool c ''pull-image''\<rparr>,
              NDryRun = DryRun gp\<rparr>, flag_Int c ''limit'')))))"

section \<open>Delay (\<open>delay.go\<close>)\<close>

definition delayDistribution :: "string list" where
  "delayDistribution = ['''', ''uniform'', ''normal'', ''pareto'', ''paretonormal'']"

record 'w delayCommand =
  dl_client :: "'w client"
  dl_gp :: global_params
  dl_req :: netem_request
  dl_limit :: int
  dl_time :: int
  dl_jitter :: int
  dl_correlation :: float64
  dl_distribution :: string

definition NewDelayCommand ::
  "'w client \<Rightarrow> global_params \<Rightarrow> netem_request \<Rightarrow> int \<Rightarrow> int \<Rightarrow> int \<Rightarrow> float64 \<Rightarrow> string \<Rightarrow>
     error + 'w delayCommand" where
  "NewDelayCommand cl gp req limit delay jitter correlation distribution =
     (if delay \<le> 0 then Inl (errorf ''non-positive delay time'')
      else if jitter < 0 \<or> jitter > delay
      then Inl (errorf ''invalid delay jitter: must be non-negative and smaller than delay time'')
      else if float_lt correlation 0 \<or> float_gt correlation 100
      then Inl (errorf ''invalid delay correlation: must be between 0.0 and 100.0'')
      else if distribution \<notin> set delayDistribution
      then Inl (errorf ''invalid delay distribution: must be one of {uniform | normal | pareto |  paretonormal}'')
      else Inr \<lparr>dl_client = cl, dl_gp = gp, dl_req = req, dl_limit = limit, dl_time = delay,
                dl_jitter = jitter, dl_correlation = correlation, dl_distribution = distribution\<rparr>)"

definition delay_buildNetemCmd :: "'w delayCommand \<Rightarrow> string list" where
  "delay_buildNetemCmd n =
     [''delay'', itoa (dl_time n) @ ''ms''] @
     (if dl_jitter n > 0 then [itoa (dl_jitter n) @ ''ms''] else []) @
     (if float_gt (dl_correlation n) 0 then [format_float2 (dl_correlation n)] else []) @
     (if dl_distribution n \<noteq> '''' then [''distribution'', dl_distribution n] else [])"

text \<open>Only this command leaves the netem context without a deadline.\<close>

definition delay_action :: "'w delayCommand \<Rightarrow> 'w action" where
  "delay_action n c x =
     map_result (wrapf ''failed to delay packets for one or more containers: %w'' [])
       (runNetem (CtxCancel c) (dl_client n)
          ((dl_req n)\<lparr>NContainer := x, NCommand := delay_buildNetemCmd n\<rparr>))"

definition delay_Run :: "'w env \<Rightarrow> 'w delayCommand \<Rightarrow> 'w command" where
  "delay_Run en n c random =
     RunOnContainers en c (ListContainers (dl_client n)) (dl_gp n) (dl_limit n) random True (delay_action n)"

section \<open>Loss (\<open>loss.go\<close>)\<close>

record 'w lossCommand =
  ls_client :: "'w client"
  ls_gp :: global_params
  ls_req :: netem_request
  ls_limit :: int
  ls_percent :: float64
  ls_correlation :: float64

definition NewLossCommand ::
  "'w client \<Rightarrow> global_params \<Rightarrow> netem_request \<Rightarrow> int \<Rightarrow> float64 \<Rightarrow> float64 \<Rightarrow> error + 'w lossCommand" where
  "NewLossCommand cl gp req limit percent correlation =
     (if float_lt percent 0 \<or> float_gt percent 100
      then Inl (errorf ''invalid loss percent: must be between 0.0 and 100.0'')
      else if float_lt correlation 0 \<or> float_gt correlation 100
      then Inl (errorf ''invalid loss correlation: must be between 0.0 and 100.0'')
      else Inr \<lparr>ls_client = cl, ls_gp = gp, ls_req = req, ls_limit = limit,
                ls_percent = percent, ls_correlation = correlation\<rparr>)"

definition loss_buildNetemCmd :: "'w lossCommand \<Rightarrow> string list" where
  "loss_buildNetemCmd n =
     [''loss'', format_float2 (ls_percent n)] @
     (if float_gt (ls_correlation n) 0 then [format_float2 (ls_correlation n)] else [])"

definition loss_action :: "'w lossCommand \<Rightarrow> 'w action" where
  "loss_action n c x =
     map_result (wrapf ''failed to add packet loss for one or more containers: %w'' [])
       (runNetem (CtxTimeout c (NDuration (ls_req n))) (ls_client n)
          ((ls_req n)\<lparr>NContainer := x, NCommand := loss_buildNetemCmd n\<rparr>))"

definition loss_Run :: "'w env \<Rightarrow> 'w lossCommand \<Rightarrow> 'w command" where
  "loss_Run en n c random =
     RunOnContainers en c (ListContainers (ls_client n)) (ls_gp n) (ls_limit n) random True (loss_action n)"

section \<open>Loss by a 4-state Markov model (\<open>loss_state.go\<close>)\<close>

record 'w lossStateCommand =
  lt_client :: "'w client"
  lt_gp :: global_params
  lt_req :: netem_request
  lt_limit :: int
  lt_p13 :: float64
  lt_p31 :: float64
  lt_p32 :: float64
  lt_p23 :: float64
  lt_p14 :: float64

definition NewLossStateCommand ::
  "'w client \<Rightarrow> global_params \<Rightarrow> netem_request \<Rightarrow> int \<Rightarrow> float64 \<Rightarrow> float64 \<Rightarrow> float64 \<Rightarrow> float64 \<Rightarrow>
     float64 \<Rightarrow> error + 'w lossStateCommand" where
  "NewLossStateCommand cl gp req limit p13 p31 p32 p23 p14 =
     (if float_lt p13 0 \<or> float_gt p13 100
      then Inl (errorf ''invalid p13 percentage: : must be between 0.0 and 100.0'')
      else if float_lt p31 0 \<or> float_gt p31 100
      then Inl (errorf ''invalid p31 percentage: : must be between 0.0 and 100.0'')
      else if float_lt p32 0 \<or> float_gt p32 100
      then Inl (errorf ''invalid p32 percentage: : must be between 0.0 and 100.0'')
      else if float_lt p23 0 \<or> float_gt p23 100
      then Inl (errorf ''invalid p23 percentage: : must be between 0.0 and 100.0'')
      else if float_lt p14 0 \<or> float_gt p14 100
      then Inl (errorf ''invalid p14 percentage: : must be between 0.0 and 100.0'')
      else Inr \<lparr>lt_client = cl, lt_gp = gp, lt_req = req, lt_limit = limit, lt_p13 = p13,
                lt_p31 = p31, lt_p32 = p32, lt_p23 = p23, lt_p14 = p14\<rparr>)"

definition lossState_buildNetemCmd :: "'w lossStateCommand \<Rightarrow> string list" where
  "lossState_buildNetemCmd n =
     [''loss'', ''state'', format_float2 (lt_p13 n)] @
     [format_float2 (lt_p31 n), format_float2 (lt_p32 n), format_float2 (lt_p23 n), format_float2 (lt_p14 n)]"

definition lossState_action :: "'w lossStateCommand \<Rightarrow> 'w action" where
  "lossState_action n c x =
     map_result (wrapf ''failed to add packet loss (4-state Markov model) for one or more containers: %w'' [])
       (runNetem (CtxTimeout c (NDuration (lt_req n))) (lt_client n)
          ((lt_req n)\<lparr>NContainer := x, NCommand := lossState_buildNetemCmd n\<rparr>))"

definition lossState_Run :: "'w env \<Rightarrow> 'w lossStateCommand \<Rightarrow> 'w command" where
  "lossState_Run en n c random =
     RunOnContainers en c (ListContainers (lt_client n)) (lt_gp n) (lt_limit n) random True (lossState_action n)"

section \<open>Loss by the Gilbert-Elliot model (\<open>loss_ge.go\<close>)\<close>

record 'w lossGECommand =
  ge_client :: "'w client"
  ge_gp :: global_params
  ge_req :: netem_request
  ge_limit :: int
  ge_pg :: float64
  ge_pb :: float64
  ge_oneH :: float64
  ge_oneK :: float64

definition NewLossGECommand ::
  "'w client \<Rightarrow> global_params \<Rightarrow> netem_request \<Rightarrow> int \<Rightarrow> float64 \<Rightarrow> float64 \<Rightarrow> float64 \<Rightarrow> float64 \<Rightarrow>
     error + 'w lossGECommand" where
  "NewLossGECommand cl gp req limit pg pb oneH oneK =
     (if float_lt pg 0 \<or> float_gt pg 100
      then Inl (errorf ''invalid pg (Good State) transition probability: must be between 0.0 and 100.0'')
      else if float_lt pb 0 \<or> float_gt pb 100
      then Inl (errorf ''invalid pb (Bad State) transition probability: must be between 0.0 and 100.0'')
      else if float_lt oneH 0 \<or> float_gt oneH 100
      then Inl (errorf ''invalid loss probability: must be between 0.0 and 100.0'')
      else if float_lt oneK 0 \<or> float_gt oneK 100
      then Inl (errorf ''invalid loss probability: must be between 0.0 and 100.0'')
      else Inr \<lparr>ge_client = cl, ge_gp = gp, ge_req = req, ge_limit = limit, ge_pg = pg,
                ge_pb = pb, ge_oneH = oneH, ge_oneK = oneK\<rparr>)"

definition lossGE_buildNetemCmd :: "'w lossGECommand \<Rightarrow> string list" where
  "lossGE_buildNetemCmd n =
     [''loss'', ''gemodel'', format_float2 (ge_pg n)] @
     [format_float2 (ge_pb n), format_float2 (ge_oneH n), format_float2 (ge_oneK n)]"

definition lossGE_action :: "'w lossGECommand \<Rightarrow> 'w action" where
  "lossGE_action n c x =
     map_result (wrapf ''failed to add packet loss (Gilbert-Elliot model) for one or more containers: %w'' [])
       (runNetem (CtxTimeout c (NDuration (ge_req n))) (ge_client n)
          ((ge_req n)\<lparr>NContainer := x, NCommand := lossGE_buildNetemCmd n\<rparr>))"

definition lossGE_Run :: "'w env \<Rightarrow> 'w lossGECommand \<Rightarrow> 'w command" where
  "lossGE_Run en n c random =
     RunOnContainers en c (ListContainers (ge_client n)) (ge_gp n) (ge_limit n) random True (lossGE_action n)"

section \<open>Rate (\<open>rate.go\<close>)\<close>

definition reRate :: re where
  "reRate = RCat (RPlus (RChr is_digit)) (RCat (ROpt (RChr (\<lambda>c. c \<in> set ''gmk''))) (RStr ''bit''))"

definition parseRate :: "string \<Rightarrow> error + string" where
  "parseRate rate =
     (let validRate = find_string reRate rate in
      if rate \<noteq> validRate then Inl (ErrNew (''invalid rate, must match '%s'' @ [CHR 0x27]) [CHR 0x5C # ''d+[gmk]?bit''])
      else Inr rate)"

record 'w rateCommand =
  rt_client :: "'w client"
  rt_gp :: global_params
  rt_req :: netem_request
  rt_limit :: int
  rt_rate :: string
  rt_packetOverhead :: int
  rt_cellSize :: int
  rt_cellOverhead :: int

definition NewRateCommand ::
  "'w client \<Rightarrow> global_params \<Rightarrow> netem_request \<Rightarrow> int \<Rightarrow> string \<Rightarrow> int \<Rightarrow> int \<Rightarrow> int \<Rightarrow>
     error + 'w rateCommand" where
  "NewRateCommand cl gp req limit rate packetOverhead cellSize cellOverhead =
     (if rate = '''' then Inl (errorf ''undefined rate limit'')
      else case parseRate rate of
        Inl err \<Rightarrow> Inl (ErrWrap ''invalid rate: %w'' [] err)
      | Inr rate \<Rightarrow>
          if cellSize < 0 then Inl (errorf ''invalid cell size: must be a non-negative integer'')
          else Inr \<lparr>rt_client = cl, rt_gp = gp, rt_req = req, rt_limit = limit, rt_rate = rate,
                    rt_packetOverhead = packetOverhead, rt_cellSize = cellSize,
                    rt_cellOverhead = cellOverhead\<rparr>)"

definition rate_buildNetemCmd :: "'w rateCommand \<Rightarrow> string list" where
  "rate_buildNetemCmd n =
     [''rate'', rt_rate n] @
     (if rt_packetOverhead n \<noteq> 0 then [itoa (rt_packetOverhead n)] else []) @
     (if rt_cellSize n > 0 then [itoa (rt_cellSize n)] else []) @
     (if rt_cellOverhead n \<noteq> 0 then [itoa (rt_cellOverhead n)] else [])"

definition rate_action :: "'w rateCommand \<Rightarrow> 'w action" where
  "rate_action n c x =
     map_result (wrapf ''failed to set network rate for one or more containers: %w'' [])
       (runNetem (CtxTimeout c (NDuration (rt_req n))) (rt_client n)
          ((rt_req n)\<lparr>NContainer := x, NCommand := rate_buildNetemCmd n\<rparr>))"

definition rate_Run :: "'w env \<Rightarrow> 'w rateCommand \<Rightarrow> 'w command" where
  "rate_Run en n c random =
     RunOnContainers en c (ListContainers (rt_client n)) (rt_gp n) (rt_limit n) random True (rate_action n)"

section \<open>Duplicate (\<open>duplicate.go\<close>)\<close>

definition duplicateCmd :: string where "duplicateCmd = ''duplicate''"

record 'w duplicateCommand =
  du_client :: "'w client"
  du_gp :: global_params
  du_req :: netem_request
  du_limit :: int
  du_percent :: float64
  du_correlation :: float64

definition NewDuplicateCommand ::
  "'w client \<Rightarrow> global_params \<Rightarrow> netem_request \<Rightarrow> int \<Rightarrow> float64 \<Rightarrow> float64 \<Rightarrow>
     error + 'w duplicateCommand" where
  "NewDuplicateCommand cl gp req limit percent correlation =
     (if float_lt percent 0 \<or> float_gt percent 100
      then Inl (errorf ''invalid duplicate percent: must be between 0.0 and 100.0'')
      else if float_lt correlation 0 \<or> float_gt correlation 100
      then Inl (errorf ''invalid duplicate correlation: must be between 0.0 and 100.0'')
      else Inr \<lparr>du_client = cl, du_gp = gp, du_req = req, du_limit = limit,
                du_percent = percent, du_correlation = correlation\<rparr>)"

definition duplicate_buildNetemCmd :: "'w duplicateCommand \<Rightarrow> string list" where
  "duplicate_buildNetemCmd n =
     [duplicateCmd, format_float2 (du_percent n)] @
     (if float_gt (du_correlation n) 0 then [format_float2 (du_correlation n)] else [])"

definition duplicate_action :: "'w duplicateCommand \<Rightarrow> 'w action" where
  "duplicate_action n c x =
     map_result (wrapf ''failed to set packet duplicates for one or more containers: %w'' [])
       (runNetem (CtxTimeout c (NDuration (du_req n))) (du_client n)
          ((du_req n)\<lparr>NContainer := x, NCommand := duplicate_buildNetemCmd n\<rparr>))"

definition duplicate_Run :: "'w env \<Rightarrow> 'w duplicateCommand \<Rightarrow> 'w command" where
  "duplicate_Run en n c random =
     RunOnContainers en c (ListContainers (du_client n)) (du_gp n) (du_limit n) random True (duplicate_action n)"

section \<open>Corrupt (\<open>corrupt.go\<close>)\<close>

record 'w corruptCommand =
  co_client :: "'w client"
  co_gp :: global_params
  co_req :: netem_request
  co_limit :: int
  co_percent :: float64
  co_correlation :: float64

definition NewCorruptCommand ::
  "'w client \<Rightarrow> global_params \<Rightarrow> netem_request \<Rightarrow> int \<Rightarrow> float64 \<Rightarrow> float64 \<Rightarrow>
     error + 'w corruptCommand" where
  "NewCorruptCommand cl gp req limit percent correlation =
     (if float_lt percent 0 \<or> float_gt percent 100
      then Inl (errorf ''invalid corrupt percent: must be between 0.0 and 100.0'')
      else if float_lt correlation 0 \<or> float_gt correlation 100
      then Inl (errorf ''invalid corrupt correlation: must be between 0.0 and 100.0'')
      else Inr \<lparr>co_client = cl, co_gp = gp, co_req = req, co_limit = limit,
                co_percent = percent, co_correlation = correlation\<rparr>)"

definition corrupt_buildNetemCmd :: "'w corruptCommand \<Rightarrow> string list" where
  "corrupt_buildNetemCmd n =
     [''corrupt'', format_float2 (co_percent n)] @
     (if float_gt (co_correlation n) 0 then [format_float2 (co_correlation n)] else [])"

definition corrupt_action :: "'w corruptCommand \<Rightarrow> 'w action" where
  "corrupt_action n c x =
     map_result (wrapf ''failed to corrupt packets for one or more containers: %w'' [])
       (runNetem (CtxTimeout c (NDuration (co_req n))) (co_client n)
          ((co_req n)\<lparr>NContainer := x, NCommand := corrupt_buildNetemCmd n\<rparr>))"

definition corrupt_Run :: "'w env \<Rightarrow> 'w corruptCommand \<Rightarrow> 'w command" where
  "corrupt_Run en n c random =
     RunOnContainers en c (ListContainers (co_client n)) (co_gp n) (co_limit n) random True (corrupt_action n)"

section \<open>The commands as one type\<close>

text \<open>The values behind the \<open>chaos.Command\<close> interface that the constructors return.\<close>

datatype (dead 'w) netem_command =
    NDelay "'w delayCommand" | NLoss "'w lossCommand" | NLossState "'w lossStateCommand"
  | NLossGE "'w lossGECommand" | NRate "'w rateCommand" | NDuplicate "'w duplicateCommand"
  | NCorrupt "'w corruptCommand"

fun netem_Run :: "'w env \<Rightarrow> 'w netem_command \<Rightarrow> 'w command" where
  "netem_Run en (NDelay n) = delay_Run en n"
| "netem_Run en (NLoss n) = loss_Run en n"
| "netem_Run en (NLossState n) = lossState_Run en n"
| "netem_Run en (NLossGE n) = lossGE_Run en n"
| "netem_Run en (NRate n) = rate_Run en n"
| "netem_Run en (NDuplicate n) = duplicate_Run en n"
| "netem_Run en (NCorrupt n) = corrupt_Run en n"

fun netem_client :: "'w netem_command \<Rightarrow> 'w client" where
  "netem_client (NDelay n) = dl_client n"
| "netem_client (NLoss n) = ls_client n"
| "netem_client (NLossState n) = lt_client n"
| "netem_client (NLossGE n) = ge_client n"
| "netem_client (NRate n) = rt_client n"
| "netem_client (NDuplicate n) = du_client n"
| "netem_client (NCorrupt n) = co_client n"

fun netem_gp :: "'w netem_command \<Rightarrow> global_params" where
  "netem_gp (NDelay n) = dl_gp n"
| "netem_gp (NLoss n) = ls_gp n"
| "netem_gp (NLossState n) = lt_gp n"
| "netem_gp (NLossGE n) = ge_gp n"
| "netem_gp (NRate n) = rt_gp n"
| "netem_gp (NDuplicate n) = du_gp n"
| "netem_gp (NCorrupt n) = co_gp n"

fun netem_limit :: "'w netem_command \<Rightarrow> int" where
  "netem_limit (NDelay n) = dl_limit n"
| "netem_limit (NLoss n) = ls_limit n"
| "netem_limit (NLossState n) = lt_limit n"
| "netem_limit (NLossGE n) = ge_limit n"
| "netem_limit (NRate n) = rt_limit n"
| "netem_limit (NDuplicate n) = du_limit n"
| "netem_limit (NCorrupt n) = co_limit n"

fun netem_base :: "'w netem_command \<Rightarrow> netem_request" where
  "netem_base (NDelay n) = dl_req n"
| "netem_base (NLoss n) = ls_req n"
| "netem_base (NLossState n) = lt_req n"
| "netem_base (NLossGE n) = ge_req n"
| "netem_base (NRate n) = rt_req n"
| "netem_base (NDuplicate n) = du_req n"
| "netem_base (NCorrupt n) = co_req n"

fun netem_words :: "'w netem_command \<Rightarrow> string list" where
  "netem_words (NDelay n) = delay_buildNetemCmd n"
| "netem_words (NLoss n) = loss_buildNetemCmd n"
| "netem_words (NLossState n) = lossState_buildNetemCmd n"
| "netem_words (NLossGE n) = lossGE_buildNetemCmd n"
| "netem_words (NRate n) = rate_buildNetemCmd n"
| "netem_words (NDuplicate n) = duplicate_buildNetemCmd n"
| "netem_words (NCorrupt n) = corrupt_buildNetemCmd n"

definition netem_ctx :: "'w netem_command \<Rightarrow> ctx \<Rightarrow> ctx" where
  "netem_ctx n c = (case n of NDelay _ \<Rightarrow> CtxCancel c | _ \<Rightarrow> CtxTimeout c (NDuration (netem_base n)))"

text \<open>The request that a command makes for the target \<open>x\<close>.\<close>

definition netem_target_request :: "'w netem_command \<Rightarrow> container \<Rightarrow> netem_request" where
  "netem_target_request n x = (netem_base n)\<lparr>NContainer := x, NCommand := netem_words n\<rparr>"

section \<open>Facts: what the constructors let through\<close>

text \<open>A percentage passes the check when it is in the range, or not a number at all.\<close>

definition percent_ok :: "float64 \<Rightarrow> bool" where
  "percent_ok x \<longleftrightarrow> x = NaN \<or> x = NegZero \<or> (\<exists>r. x = Fin r \<and> 0 \<le> r \<and> r \<le> 100)"

lemma percent_check: "float_lt x 0 \<or> float_gt x 100 \<longleftrightarrow> \<not> percent_ok x"
  using float_range_check [of x 100] by (auto simp: percent_ok_def)

definition rate_ok :: "string \<Rightarrow> bool" where
  "rate_ok rate \<longleftrightarrow> (\<exists>ds u. rate = ds @ u @ ''bit'' \<and> ds \<noteq> [] \<and> list_all is_digit ds \<and>
     u \<in> {'''', ''g'', ''m'', ''k''})"

fun netem_valid :: "'w netem_command \<Rightarrow> bool" where
  "netem_valid (NDelay n) \<longleftrightarrow> 0 < dl_time n \<and> 0 \<le> dl_jitter n \<and> dl_jitter n \<le> dl_time n \<and>
     percent_ok (dl_correlation n) \<and> dl_distribution n \<in> set delayDistribution"
| "netem_valid (NLoss n) \<longleftrightarrow> percent_ok (ls_percent n) \<and> percent_ok (ls_correlation n)"
| "netem_valid (NLossState n) \<longleftrightarrow> list_all percent_ok [lt_p13 n, lt_p31 n, lt_p32 n, lt_p23 n, lt_p14 n]"
| "netem_valid (NLossGE n) \<longleftrightarrow> list_all percent_ok [ge_pg n, ge_pb n, ge_oneH n, ge_oneK n]"
| "netem_valid (NRate n) \<longleftrightarrow> rate_ok (rt_rate n) \<and> 0 \<le> rt_cellSize n"
| "netem_valid (NDuplicate n) \<longleftrightarrow> percent_ok (du_percent n) \<and> percent_ok (du_correlation n)"
| "netem_valid (NCorrupt n) \<longleftrightarrow> percent_ok (co_percent n) \<and> percent_ok (co_correlation n)"

lemma in_lang_reRate: "in_lang reRate w \<longleftrightarrow> rate_ok w"
proof -
  have u: "in_lang (ROpt (RChr (\<lambda>c. c \<in> set ''gmk''))) u \<longleftrightarrow> u \<in> {'''', ''g'', ''m'', ''k''}" for u
    by (auto simp: in_lang_ROpt elim: in_lang.cases intro: in_lang.intros)
  show ?thesis
    unfolding reRate_def rate_ok_def
    by (subst in_lang_cat, subst in_lang_cat) (simp only: in_lang_plus_chr u in_lang_RStr, blast)
qed

lemma rate_ok_last: "rate_ok s \<Longrightarrow> s \<noteq> [] \<and> last s = CHR ''t'' \<and> CHR ''t'' \<notin> set (butlast s)"
proof -
  assume "rate_ok s"
  then obtain ds u where s: "s = (ds @ u @ ''bi'') @ ''t''" "list_all is_digit ds" "u \<in> {'''', ''g'', ''m'', ''k''}"
    by (auto simp: rate_ok_def)
  have "CHR ''t'' \<notin> set ds"
  proof
    assume "CHR ''t'' \<in> set ds"
    then have "is_digit CHR ''t''" using s(2) by (simp add: list_all_iff)
    then show False by (simp add: is_digit_def)
  qed
  with s(3) show ?thesis unfolding s(1) by (elim insertE) (simp_all add: butlast_append)
qed

lemma parseRate_Inr: "rate \<noteq> '''' \<Longrightarrow> parseRate rate = Inr r \<longleftrightarrow> r = rate \<and> rate_ok rate"
proof -
  assume ne: "rate \<noteq> ''''"
  have free: "\<not> in_lang reRate (take n rate)" if n: "n < length rate" and l: "in_lang reRate rate" for n
  proof
    assume "in_lang reRate (take n rate)"
    then have t: "take n rate \<noteq> []" "last (take n rate) = CHR ''t''"
      using rate_ok_last [of "take n rate"] unfolding in_lang_reRate by blast+
    have "take n rate = take n (butlast rate)" using n by (simp add: take_butlast)
    then have "last (take n rate) \<in> set (butlast rate)" using t(1) by (metis in_set_takeD last_in_set)
    then show False using t(2) l rate_ok_last by (auto simp: in_lang_reRate)
  qed
  have "find_string reRate rate = rate \<longleftrightarrow> rate_ok rate"
    using find_string_prefix_free [OF ne] free by (metis in_lang_reRate)
  then show ?thesis by (auto simp: parseRate_def Let_def)
qed

lemma New_delay_Inr: "NewDelayCommand cl gp req limit d j corr ds = Inr k \<longleftrightarrow>
    netem_valid (NDelay k) \<and> k = \<lparr>dl_client = cl, dl_gp = gp, dl_req = req, dl_limit = limit, dl_time = d,
      dl_jitter = j, dl_correlation = corr, dl_distribution = ds\<rparr>"
  unfolding NewDelayCommand_def percent_check by auto

lemma New_loss_Inr: "NewLossCommand cl gp req limit p corr = Inr k \<longleftrightarrow>
    netem_valid (NLoss k) \<and> k = \<lparr>ls_client = cl, ls_gp = gp, ls_req = req, ls_limit = limit,
      ls_percent = p, ls_correlation = corr\<rparr>"
  unfolding NewLossCommand_def percent_check by auto

lemma New_lossState_Inr: "NewLossStateCommand cl gp req limit p13 p31 p32 p23 p14 = Inr k \<longleftrightarrow>
    netem_valid (NLossState k) \<and> k = \<lparr>lt_client = cl, lt_gp = gp, lt_req = req, lt_limit = limit,
      lt_p13 = p13, lt_p31 = p31, lt_p32 = p32, lt_p23 = p23, lt_p14 = p14\<rparr>"
  unfolding NewLossStateCommand_def percent_check by auto

lemma New_lossGE_Inr: "NewLossGECommand cl gp req limit pg pb oneH oneK = Inr k \<longleftrightarrow>
    netem_valid (NLossGE k) \<and> k = \<lparr>ge_client = cl, ge_gp = gp, ge_req = req, ge_limit = limit,
      ge_pg = pg, ge_pb = pb, ge_oneH = oneH, ge_oneK = oneK\<rparr>"
  unfolding NewLossGECommand_def percent_check by auto

lemma rate_ok_nonempty: "\<not> rate_ok ''''"
  by (simp add: rate_ok_def)

lemma New_rate_Inr: "NewRateCommand cl gp req limit rate po cs co = Inr k \<longleftrightarrow>
    netem_valid (NRate k) \<and> k = \<lparr>rt_client = cl, rt_gp = gp, rt_req = req, rt_limit = limit,
      rt_rate = rate, rt_packetOverhead = po, rt_cellSize = cs, rt_cellOverhead = co\<rparr>"
proof (cases "rate = ''''")
  case True
  then show ?thesis by (auto simp: NewRateCommand_def rate_ok_nonempty)
next
  case False
  show ?thesis
  proof (cases "parseRate rate")
    case (Inl e)
    then have "\<not> rate_ok rate" using parseRate_Inr [OF False] by simp
    with Inl False show ?thesis by (auto simp: NewRateCommand_def)
  next
    case (Inr r)
    then have "r = rate" "rate_ok rate" using parseRate_Inr [OF False] by simp_all
    with Inr False show ?thesis by (auto simp: NewRateCommand_def)
  qed
qed

lemma New_duplicate_Inr: "NewDuplicateCommand cl gp req limit p corr = Inr k \<longleftrightarrow>
    netem_valid (NDuplicate k) \<and> k = \<lparr>du_client = cl, du_gp = gp, du_req = req, du_limit = limit,
      du_percent = p, du_correlation = corr\<rparr>"
  unfolding NewDuplicateCommand_def percent_check by auto

lemma New_corrupt_Inr: "NewCorruptCommand cl gp req limit p corr = Inr k \<longleftrightarrow>
    netem_valid (NCorrupt k) \<and> k = \<lparr>co_client = cl, co_gp = gp, co_req = req, co_limit = limit,
      co_percent = p, co_correlation = corr\<rparr>"
  unfolding NewCorruptCommand_def percent_check by auto

section \<open>Facts: the words of the tc command\<close>

definition tc_word :: "string \<Rightarrow> bool" where
  "tc_word w \<longleftrightarrow> w \<noteq> [] \<and> list_all (\<lambda>c. \<not> is_space c) w"

lemma tc_word_append [simp]: "u \<noteq> [] \<or> v \<noteq> [] \<Longrightarrow> list_all (\<lambda>c. \<not> is_space c) u \<Longrightarrow> list_all (\<lambda>c. \<not> is_space c) v \<Longrightarrow> tc_word (u @ v)"
  by (auto simp: tc_word_def)

lemma digit_not_space: "is_digit c \<Longrightarrow> \<not> is_space c"
  by (auto simp: is_digit_def is_space_def)

lemma digits_no_space: "list_all is_digit ds \<Longrightarrow> list_all (\<lambda>c. \<not> is_space c) ds"
  using digit_not_space by (auto simp: list_all_iff)

lemma nat_digits_no_space: "list_all (\<lambda>c. \<not> is_space c) (nat_digits n)"
  using nat_digits_correct by (blast intro: digits_no_space)

lemma itoa_no_space: "list_all (\<lambda>c. \<not> is_space c) (itoa i)"
  using nat_digits_no_space by (auto simp: itoa_def is_space_def)

lemma tc_word_itoa: "tc_word (itoa i)"
  using itoa_no_space nat_digits_correct by (auto simp: tc_word_def itoa_def)

lemma tc_word_float: "tc_word (format_float2 x)"
proof (cases x)
  case (Fin r)
  have "is_digit (digit_char (n mod 100 div 10))" "is_digit (digit_char (n mod 10))" for n
    by (rule digit_char_digit [THEN conjunct1], simp add: less_mult_imp_div_less)+
  then show ?thesis
    using nat_digits_no_space digit_not_space
    by (auto simp: Fin tc_word_def two_decimals_def is_space_def)
qed (simp_all add: tc_word_def is_space_def)

lemma tc_word_rate: "rate_ok r \<Longrightarrow> tc_word r"
proof -
  assume "rate_ok r"
  then obtain ds u where r: "r = ds @ u @ ''bit''" "list_all is_digit ds" "u \<in> {'''', ''g'', ''m'', ''k''}"
    by (auto simp: rate_ok_def)
  have "list_all (\<lambda>c. \<not> is_space c) (u @ ''bit'')"
    using r(3) by (elim insertE) (simp_all add: is_space_def)
  with r digits_no_space [OF r(2)] show ?thesis by simp
qed

lemma tc_word_keywords:
  "tc_word ''delay''" "tc_word ''loss''" "tc_word ''state''" "tc_word ''gemodel''" "tc_word ''rate''"
  "tc_word ''duplicate''" "tc_word ''corrupt''" "tc_word ''distribution''" "tc_word ''uniform''"
  "tc_word ''normal''" "tc_word ''pareto''" "tc_word ''paretonormal''"
  by (simp_all add: tc_word_def is_space_def)

lemma tc_word_ms: "tc_word (itoa i @ ''ms'')"
  using itoa_no_space [of i] by (intro tc_word_append) (simp_all add: is_space_def)

lemmas tc_word_rules = tc_word_keywords tc_word_ms tc_word_itoa tc_word_float tc_word_rate

lemma netem_words_ok: "netem_valid n \<Longrightarrow> list_all tc_word (netem_words n)"
proof (cases n)
  case (NDelay k)
  assume "netem_valid n"
  then have "dl_distribution k = '''' \<or> tc_word (dl_distribution k)"
    by (auto simp: NDelay delayDistribution_def tc_word_rules)
  then show ?thesis by (auto simp: NDelay delay_buildNetemCmd_def tc_word_rules)
qed (simp_all add: loss_buildNetemCmd_def lossState_buildNetemCmd_def lossGE_buildNetemCmd_def
      rate_buildNetemCmd_def duplicate_buildNetemCmd_def corrupt_buildNetemCmd_def duplicateCmd_def tc_word_rules)

section \<open>Facts: the emulation is stopped\<close>

lemma netem_Run_shape:
  "\<exists>msg. netem_Run en n c random = runOnContainers en c (ListContainers (netem_client n)) (netem_gp n) (netem_limit n)
     False random True (\<lambda>c x. map_result (wrapf msg [])
       (runNetem (netem_ctx n c) (netem_client n) (netem_target_request n x)))"
proof (cases n)
  case (NDelay k)
  then show ?thesis
    unfolding netem_ctx_def netem_target_request_def
    by (auto simp: delay_Run_def RunOnContainers_def delay_action_def [abs_def])
next
  case (NLoss k)
  then show ?thesis
    unfolding netem_ctx_def netem_target_request_def
    by (auto simp: loss_Run_def RunOnContainers_def loss_action_def [abs_def])
next
  case (NLossState k)
  then show ?thesis
    unfolding netem_ctx_def netem_target_request_def
    by (auto simp: lossState_Run_def RunOnContainers_def lossState_action_def [abs_def])
next
  case (NLossGE k)
  then show ?thesis
    unfolding netem_ctx_def netem_target_request_def
    by (auto simp: lossGE_Run_def RunOnContainers_def lossGE_action_def [abs_def])
next
  case (NRate k)
  then show ?thesis
    unfolding netem_ctx_def netem_target_request_def
    by (auto simp: rate_Run_def RunOnContainers_def rate_action_def [abs_def])
next
  case (NDuplicate k)
  then show ?thesis
    unfolding netem_ctx_def netem_target_request_def
    by (auto simp: duplicate_Run_def RunOnContainers_def duplicate_action_def [abs_def])
next
  case (NCorrupt k)
  then show ?thesis
    unfolding netem_ctx_def netem_target_request_def
    by (auto simp: corrupt_Run_def RunOnContainers_def corrupt_action_def [abs_def])
qed

lemma runNetem_guards:
  "behaves (map_result (wrapf msg []) (runNetem c (recorded cl) req)) snd
     (guarded_calls (CNetem c req) (CStopNetem (cleanup_ctx c cleanupTimeout) req)) (\<lambda>_. True) started"
proof -
  have "map_result (wrapf msg []) (runNetem c (recorded cl) req) =
      perform (logged (CNetem c req) id (NetemContainer cl c req)) (\<lambda>err. case err of
         Some e \<Rightarrow> Ret (Some (ErrWrap msg [] (ErrWrap ''netem failed: %w'' [] e)))
       | None \<Rightarrow> Select
           (perform (logged (CStopNetem (cleanup_ctx c cleanupTimeout) req) id
              (StopNetemContainer cl (cleanup_ctx c cleanupTimeout) req)) (\<lambda>_. Ret None))
           [perform (logged (CStopNetem (cleanup_ctx c cleanupTimeout) req) id
              (StopNetemContainer cl (cleanup_ctx c cleanupTimeout) req)) (\<lambda>_. Ret None)])"
    by (auto simp: runNetem_def intro!: arg_cong [of _ _ "perform _"] split: option.splits)
  then show ?thesis by (simp only: guards_task)
qed

lemma netem_Run_guarded:
  assumes "errgroup_ok (eg_wait en)" and cl: "netem_client n = recorded cl"
    and run: "run_state (netem_Run en n c random) (w, []) = (r, (w', l))"
  shows "guarded_run (\<lambda>x. CNetem (netem_ctx n c) (netem_target_request n x))
    (\<lambda>x. CStopNetem (cleanup_ctx (netem_ctx n c) cleanupTimeout) (netem_target_request n x))
    (netem_limit n) random r l"
proof -
  obtain msg where "netem_Run en n c random = runOnContainers en c (ListContainers (recorded cl)) (netem_gp n) (netem_limit n)
     False random True (\<lambda>c x. map_result (wrapf msg [])
       (runNetem (netem_ctx n c) (recorded cl) (netem_target_request n x)))"
    using netem_Run_shape [of en n c random] unfolding cl by blast
  with run assms(1) show ?thesis
    unfolding guarded_run_def
    by (intro parallel_logs [where fn = "\<lambda>c x. map_result (wrapf msg [])
          (runNetem (netem_ctx n c) (recorded cl) (netem_target_request n x))"])
       (auto intro: runNetem_guards)
qed

context targeted_client
begin

lemma netem_Run_confined:
  assumes "netem_client n = cl" and "ok (NDryRun (netem_base n))"
    and "\<And>x. accepts (regexp_MatchString en) (GNames (netem_gp n)) (GPattern (netem_gp n)) x \<Longrightarrow> sel x"
  shows "confined R (netem_Run en n c random)"
proof -
  have d: "ok (NDryRun (netem_target_request n x))" "NContainer (netem_target_request n x) = x" for x
    using assms(2) by (simp_all add: netem_target_request_def)
  have "task_from R (map_result (wrapf msg []) (runNetem c' cl (netem_target_request n x))) w"
    if "tgt w x" for c' msg w x
  proof -
    have x: "tgt w (NContainer (netem_target_request n x))" using that by (simp add: d)
    show ?thesis
      unfolding runNetem_def map_result_perform
      by (intro task_intros aim_ops d x) (auto split: option.splits intro!: task_intros aim_ops d x)
  qed
  then show ?thesis
    using netem_Run_shape [of en n c random] assms(3) unfolding assms(1)
    by (auto intro!: run_targets_confined)
qed

end

section \<open>Facts: the flags\<close>

lemma parse_targets_Inr:
  "parse_targets ss = Inr ips \<longleftrightarrow> list_all2 (\<lambda>s ip. ParseCIDR s = Inr ip) ss ips"
proof (induction ss arbitrary: ips)
  case (Cons s ss)
  show ?case by (auto simp: list_all2_Cons1 Cons [symmetric] split: sum.splits)
qed auto

lemma ParseRequestBase_iff:
  "ParseRequestBase c gp = Inr (req, limit) \<longleftrightarrow>
    NDuration req \<noteq> 0 \<and> (Interval gp = 0 \<or> NDuration req < Interval gp) \<and> iface_ok (NInterface req) \<and>
    list_all2 (\<lambda>s ip. ParseCIDR s = Inr ip) (flag_StringSlice c ''target'') (NIPs req) \<and>
    GetPorts (flag_String c ''egress-port'') = Inr (NSPorts req) \<and>
    GetPorts (flag_String c ''ingress-port'') = Inr (NDPorts req) \<and>
    NInterface req = flag_String c ''interface'' \<and> NDuration req = flag_Duration c ''duration'' \<and>
    NContainer req = nil_container \<and> NCommand req = [] \<and> NDryRun req = DryRun gp \<and>
    NSidecar req = \<lparr>SImage = flag_String c ''tc-image'', SPull = flag_Bool c ''pull-image''\<rparr> \<and>
    limit = flag_Int c ''limit''"
proof -
  have v: "ValidateInterfaceName s = None \<longleftrightarrow> iface_ok s" for s by (rule ValidateInterfaceName_iff)
  show ?thesis
    unfolding ParseRequestBase_def Let_def parse_targets_Inr [symmetric] v [symmetric]
    by (cases req) (auto split: option.splits sum.splits)
qed

section \<open>Properties\<close>

text \<open>C11: A network emulation run of any of the seven commands, over any runtime and under any schedule
  of its goroutines: its calls are, for each target, one start, and after each start that worked
  exactly one stop with the same request, later, under a context that no abort or deadline of the
  run reaches and that gives it 30 seconds. A failed start is not followed by a stop. The run fails
  exactly when some start failed; an error of a stop is dropped.\<close>

theorem netem_Run_stops:
  assumes "errgroup_ok (eg_wait en)" and "netem_client n = recorded cl"
    and "run_state (netem_Run en n c random) (w, []) = (r, (w', l))"
  shows "guarded_run (\<lambda>x. CNetem (netem_ctx n c) (netem_target_request n x))
    (\<lambda>x. CStopNetem (cleanup_ctx (netem_ctx n c) (30 * second)) (netem_target_request n x))
    (netem_limit n) random r l"
  using netem_Run_guarded [OF assms] by (simp add: cleanupTimeout_def)

definition abc_netem :: "unit client" where
  "abc_netem = still_client [named ''a'', named ''b'']
     (\<lambda>x. if ContainerName x = ''b'' then Some (ErrExt ''boom'') else None)"

definition plain_params :: global_params where
  "plain_params = \<lparr>Random = False, GLabels = [], GPattern = '''', GNames = [], Interval = 0,
     DryRun = False, SkipErrors = False\<rparr>"

definition plain_request :: netem_request where
  "plain_request = \<lparr>NContainer = nil_container, NInterface = ''eth0'', NCommand = [], NIPs = [],
     NSPorts = [], NDPorts = [], NDuration = 10, NSidecar = \<lparr>SImage = '''', SPull = False\<rparr>, NDryRun = False\<rparr>"

definition loss_a :: "(unit \<times> call_log) netem_command" where
  "loss_a = NLoss \<lparr>ls_client = recorded abc_netem, ls_gp = plain_params, ls_req = plain_request,
     ls_limit = 0, ls_percent = Fin 10, ls_correlation = Fin 0\<rparr>"

definition loss_a_log :: call_log where
  "loss_a_log =
    [(CNetem (netem_ctx loss_a CtxTop) (netem_target_request loss_a (named ''a'')), None),
     (CStopNetem (cleanup_ctx (netem_ctx loss_a CtxTop) (30 * second)) (netem_target_request loss_a (named ''a'')), None),
     (CNetem (netem_ctx loss_a CtxTop) (netem_target_request loss_a (named ''b'')), Some (ErrExt ''boom''))]"

theorem netem_Run_stops_witness:
  "\<exists>r. run_state (netem_Run plain_env loss_a CtxTop False) ((), []) = (Some r, ((), loss_a_log)) \<and>
    guarded_run (\<lambda>x. CNetem (netem_ctx loss_a CtxTop) (netem_target_request loss_a x))
      (\<lambda>x. CStopNetem (cleanup_ctx (netem_ctx loss_a CtxTop) (30 * second)) (netem_target_request loss_a x))
      (netem_limit loss_a) False (Some r) loss_a_log"
proof -
  have run: "run_state (netem_Run plain_env loss_a CtxTop False) ((), []) =
      (Some (ErrWrap ''failed to add packet loss for one or more containers: %w'' []
         (ErrWrap ''netem failed: %w'' [] (ErrExt ''boom''))), ((), loss_a_log))"
    by code_simp
  show ?thesis
    using netem_Run_stops [OF plain_env_ok _ run] run by (simp add: loss_a_def)
qed

text \<open>C37: The seven constructors accept exactly the parameters in range: percentages from 0 to 100 (and
  NaN, which passes every comparison), a positive delay with a jitter no larger than it (equal is
  accepted), a known distribution, a rate of digits, an optional unit g, m or k, and bit, a cell size
  that is not negative. What they return carries the parameters unchanged.\<close>

theorem netem_constructors_accept:
  "(NewDelayCommand cl gp req limit d j corr ds = Inr kd \<longleftrightarrow> netem_valid (NDelay kd) \<and>
     kd = \<lparr>dl_client = cl, dl_gp = gp, dl_req = req, dl_limit = limit, dl_time = d, dl_jitter = j,
           dl_correlation = corr, dl_distribution = ds\<rparr>) \<and>
   (NewLossCommand cl gp req limit p corr = Inr kl \<longleftrightarrow> netem_valid (NLoss kl) \<and>
     kl = \<lparr>ls_client = cl, ls_gp = gp, ls_req = req, ls_limit = limit, ls_percent = p, ls_correlation = corr\<rparr>) \<and>
   (NewLossStateCommand cl gp req limit p13 p31 p32 p23 p14 = Inr ks \<longleftrightarrow> netem_valid (NLossState ks) \<and>
     ks = \<lparr>lt_client = cl, lt_gp = gp, lt_req = req, lt_limit = limit, lt_p13 = p13, lt_p31 = p31,
           lt_p32 = p32, lt_p23 = p23, lt_p14 = p14\<rparr>) \<and>
   (NewLossGECommand cl gp req limit pg pb oneH oneK = Inr kg \<longleftrightarrow> netem_valid (NLossGE kg) \<and>
     kg = \<lparr>ge_client = cl, ge_gp = gp, ge_req = req, ge_limit = limit, ge_pg = pg, ge_pb = pb,
           ge_oneH = oneH, ge_oneK = oneK\<rparr>) \<and>
   (NewRateCommand cl gp req limit rate po cs co = Inr kr \<longleftrightarrow> netem_valid (NRate kr) \<and>
     kr = \<lparr>rt_client = cl, rt_gp = gp, rt_req = req, rt_limit = limit, rt_rate = rate,
           rt_packetOverhead = po, rt_cellSize = cs, rt_cellOverhead = co\<rparr>) \<and>
   (NewDuplicateCommand cl gp req limit p corr = Inr ku \<longleftrightarrow> netem_valid (NDuplicate ku) \<and>
     ku = \<lparr>du_client = cl, du_gp = gp, du_req = req, du_limit = limit, du_percent = p, du_correlation = corr\<rparr>) \<and>
   (NewCorruptCommand cl gp req limit p corr = Inr kc \<longleftrightarrow> netem_valid (NCorrupt kc) \<and>
     kc = \<lparr>co_client = cl, co_gp = gp, co_req = req, co_limit = limit, co_percent = p, co_correlation = corr\<rparr>)"
  by (intro conjI New_delay_Inr New_loss_Inr New_lossState_Inr New_lossGE_Inr New_rate_Inr
      New_duplicate_Inr New_corrupt_Inr)



text \<open>A rate is accepted exactly when it is one or more digits, at most one of the units g, m and k,
  and the word bit.\<close>

theorem parseRate_accepts:
  "parseRate rate = Inr r \<and> rate \<noteq> '''' \<longleftrightarrow>
    r = rate \<and> (\<exists>ds u. rate = ds @ u @ ''bit'' \<and> ds \<noteq> [] \<and> list_all is_digit ds \<and> u \<in> {'''', ''g'', ''m'', ''k''})"
  using parseRate_Inr [of rate r] by (cases "rate = ''''") (auto simp: rate_ok_def)

text \<open>C39: The common flags of the emulation commands make a request exactly when the duration is not zero
  and, with an interval, shorter than it, the interface name is valid, every target is an address or
  network and both port lists are valid; the request carries what was parsed. A negative duration
  passes.\<close>

theorem ParseRequestBase_accepts:
  "ParseRequestBase c gp = Inr (req, limit) \<longleftrightarrow>
    NDuration req \<noteq> 0 \<and> (Interval gp = 0 \<or> NDuration req < Interval gp) \<and> iface_ok (NInterface req) \<and>
    list_all2 (\<lambda>s ip. ParseCIDR s = Inr ip) (flag_StringSlice c ''target'') (NIPs req) \<and>
    GetPorts (flag_String c ''egress-port'') = Inr (NSPorts req) \<and>
    GetPorts (flag_String c ''ingress-port'') = Inr (NDPorts req) \<and>
    NInterface req = flag_String c ''interface'' \<and> NDuration req = flag_Duration c ''duration'' \<and>
    NContainer req = nil_container \<and> NCommand req = [] \<and> NDryRun req = DryRun gp \<and>
    NSidecar req = \<lparr>SImage = flag_String c ''tc-image'', SPull = flag_Bool c ''pull-image''\<rparr> \<and>
    limit = flag_Int c ''limit''"
  by (rule ParseRequestBase_iff)

end
