(* ===== verification/IPTables.thy ===== *)
theory IPTables
  imports Runner
begin

text \<open>
  \<open>pkg/chaos/iptables\<close>: packet loss by an iptables rule. The rule that is inserted and the rule that is
  deleted differ in nothing but the first word of the command.
\<close>

section \<open>Running the rule (\<open>iptables.go\<close>)\<close>

definition ProtocolAny :: string where "ProtocolAny = ''any''"
definition ProtocolTCP :: string where "ProtocolTCP = ''tcp''"
definition ProtocolUDP :: string where "ProtocolUDP = ''udp''"
definition ProtocolICMP :: string where "ProtocolICMP = ''icmp''"

definition ipt_cleanupTimeout :: duration where "ipt_cleanupTimeout = 30 * second"

definition runIPTables :: "ctx \<Rightarrow> 'w client \<Rightarrow> iptables_request \<Rightarrow> iptables_request \<Rightarrow> 'w task" where
  "runIPTables c cl addReq delReq = perform (IPTablesContainer cl c addReq) (\<lambda>err. case err of
     Some e \<Rightarrow> Ret (Some (ErrWrap ''iptables failed: %w'' [] e))
   | None \<Rightarrow>
       Select
         (perform (StopIPTablesContainer cl (cleanup_ctx c ipt_cleanupTimeout) delReq) (\<lambda>_. Ret None))
         [perform (StopIPTablesContainer cl (cleanup_ctx c ipt_cleanupTimeout) delReq) (\<lambda>_. Ret None)])"

section \<open>The flags (\<open>parse.go\<close>)\<close>

record request_base =
  Request :: iptables_request
  Iface :: string
  Protocol :: string
  Limit :: int

fun validateCIDRList :: "string list \<Rightarrow> error + ip_net list" where
  "validateCIDRList [] = Inr []"
| "validateCIDRList (s # ss) =
     (case ParseCIDR s of
        Inl err \<Rightarrow> Inl (ErrWrap ''failed to parse ip: %w'' [] err)
      | Inr ip \<Rightarrow> (case validateCIDRList ss of Inl err \<Rightarrow> Inl err | Inr ips \<Rightarrow> Inr (ip # ips)))"

definition ipt_ParseRequestBase :: "flags \<Rightarrow> global_params \<Rightarrow> error + request_base" where
  "ipt_ParseRequestBase c gp =
     (let d = flag_Duration c ''duration''; iface = flag_String c ''interface'';
          protocol = flag_String c ''protocol'' in
      if d = 0 then Inl (errorf ''unset or invalid duration value'')
      else if Interval gp \<noteq> 0 \<and> d \<ge> Interval gp
      then Inl (errorf ''duration must be shorter than interval'')
      else case ValidateInterfaceName iface of Some err \<Rightarrow> Inl err
      | None \<Rightarrow>
      if protocol \<notin> set [ProtocolAny, ProtocolTCP, ProtocolUDP, ProtocolICMP]
      then Inl (errorf ''bad protocol name: must be one of any, tcp, udp or icmp'')
      else
      (case validateCIDRList (flag_StringSlice c ''source'') of Inl err \<Rightarrow> Inl err
      | Inr srcIPs \<Rightarrow>
      (case validateCIDRList (flag_StringSlice c ''destination'') of Inl err \<Rightarrow> Inl err
      | Inr dstIPs \<Rightarrow>
      (case GetPorts (flag_String c ''src-port'') of
        Inl err \<Rightarrow> Inl (ErrWrap ''failed to get source ports: %w'' [] err)
      | Inr sports \<Rightarrow>
      (case GetPorts (flag_String c ''dst-port'') of
        Inl err \<Rightarrow> Inl (ErrWrap ''failed to get destination ports: %w'' [] err)
      | Inr dports \<Rightarrow>
        if protocol \<noteq> ProtocolUDP \<and> protocol \<noteq> ProtocolTCP \<and> length sports > 0
        then Inl (ErrNew ''using source port is only supported for %s and %s protocol'' [ProtocolTCP, ProtocolUDP])
        else if protocol \<noteq> ProtocolUDP \<and> protocol \<noteq> ProtocolTCP \<and> length dports > 0
        then Inl (ErrNew ''using destination port is only supported for %s and %s protocol'' [ProtocolTCP, ProtocolUDP])
        else Inr \<lparr>Request = \<lparr>IContainer = nil_container, CmdPrefix = [], CmdSuffix = [],
                    SrcIPs = srcIPs, DstIPs = dstIPs, ISPorts = sports, IDPorts = dports, IDuration = d,
                    ISidecar = \<lparr>SImage = flag_String c ''iptables-image'', SPull = flag_Bool c ''pull-image''\<rparr>,
                    IDryRun = DryRun gp\<rparr>,
                  Iface = iface, Protocol = protocol, Limit = flag_Int c ''limit''\<rparr>)))))"

section \<open>Loss (\<open>loss.go\<close>)\<close>

definition ModeRandom :: string where "ModeRandom = ''random''"
definition ModeNTH :: string where "ModeNTH = ''nth''"

record 'w iptLossCommand =
  il_client :: "'w client"
  il_gp :: global_params
  il_req :: iptables_request
  il_iface :: string
  il_protocol :: string
  il_limit :: int
  il_mode :: string
  il_probability :: float64
  il_every :: int
  il_packet :: int

definition ipt_NewLossCommand ::
  "'w client \<Rightarrow> global_params \<Rightarrow> request_base \<Rightarrow> string \<Rightarrow> float64 \<Rightarrow> int \<Rightarrow> int \<Rightarrow>
     error + 'w iptLossCommand" where
  "ipt_NewLossCommand cl gp base mode probability every packet =
     (let cmd = \<lparr>il_client = cl, il_gp = gp, il_req = Request base, il_iface = Iface base,
                 il_protocol = Protocol base, il_limit = Limit base, il_mode = mode,
                 il_probability = probability, il_every = every, il_packet = packet\<rparr> in
      if mode = ModeRandom then
        (if float_lt probability 0 \<or> float_gt probability 1
         then Inl (errorf ''invalid loss probability: must be between 0.0 and 1.0'') else Inr cmd)
      else if mode = ModeNTH then
        (if every \<le> 0 then Inl (errorf ''invalid loss every: must be > 0'')
         else if packet < 0 \<or> packet > every - 1
         then Inl (errorf ''invalid loss packet: must be 0 <= packet <= every-1'') else Inr cmd)
      else Inl (errorf ''invalid loss mode: must be either random or nth''))"

definition buildIPTablesCmd :: "'w iptLossCommand \<Rightarrow> string list \<times> string list \<times> string list" where
  "buildIPTablesCmd n =
     (let cmdPrefix = [''INPUT'', ''-i'', il_iface n] @
            (if il_protocol n \<noteq> ''any'' then [''-p'', il_protocol n] else []);
          cmdSuffix = [''-m'', ''statistic'', ''--mode'', il_mode n] @
            (if il_mode n = ModeRandom then [''--probability'', format_float2 (il_probability n)]
             else [''--every'', itoa (il_every n), ''--packet'', itoa (il_packet n)]) @
            [''-j'', ''DROP''] in
      ([''-I''] @ cmdPrefix, [''-D''] @ cmdPrefix, cmdSuffix))"

definition ipt_addReq :: "'w iptLossCommand \<Rightarrow> container \<Rightarrow> iptables_request" where
  "ipt_addReq n x = (case buildIPTablesCmd n of (addCmdPrefix, delCmdPrefix, cmdSuffix) \<Rightarrow>
     (il_req n)\<lparr>IContainer := x, CmdPrefix := addCmdPrefix, CmdSuffix := cmdSuffix\<rparr>)"

definition ipt_delReq :: "'w iptLossCommand \<Rightarrow> container \<Rightarrow> iptables_request" where
  "ipt_delReq n x = (case buildIPTablesCmd n of (addCmdPrefix, delCmdPrefix, cmdSuffix) \<Rightarrow>
     (ipt_addReq n x)\<lparr>CmdPrefix := delCmdPrefix\<rparr>)"

definition ipt_loss_action :: "'w iptLossCommand \<Rightarrow> 'w action" where
  "ipt_loss_action n c x =
     map_result (wrapf ''failed to add packet loss for one or more containers: %w'' [])
       (runIPTables (CtxTimeout c (IDuration (il_req n))) (il_client n) (ipt_addReq n x) (ipt_delReq n x))"

definition ipt_loss_Run :: "'w env \<Rightarrow> 'w iptLossCommand \<Rightarrow> 'w command" where
  "ipt_loss_Run en n c random =
     RunOnContainers en c (ListContainers (il_client n)) (il_gp n) (il_limit n) random True (ipt_loss_action n)"

section \<open>Facts\<close>

definition ipt_ctx :: "'w iptLossCommand \<Rightarrow> ctx \<Rightarrow> ctx" where
  "ipt_ctx n c = CtxTimeout c (IDuration (il_req n))"

lemma runIPTables_behaves:
  "behaves (map_result (wrapf msg []) (runIPTables c (recorded cl) req dreq)) snd
     (guarded_calls (CIPTables c req) (CStopIPTables (cleanup_ctx c ipt_cleanupTimeout) dreq)) (\<lambda>_. True) started"
proof -
  have "map_result (wrapf msg []) (runIPTables c (recorded cl) req dreq) =
      perform (logged (CIPTables c req) id (IPTablesContainer cl c req)) (\<lambda>err. case err of
         Some e \<Rightarrow> Ret (Some (ErrWrap msg [] (ErrWrap ''iptables failed: %w'' [] e)))
       | None \<Rightarrow> Select
           (perform (logged (CStopIPTables (cleanup_ctx c ipt_cleanupTimeout) dreq) id
              (StopIPTablesContainer cl (cleanup_ctx c ipt_cleanupTimeout) dreq)) (\<lambda>_. Ret None))
           [perform (logged (CStopIPTables (cleanup_ctx c ipt_cleanupTimeout) dreq) id
              (StopIPTablesContainer cl (cleanup_ctx c ipt_cleanupTimeout) dreq)) (\<lambda>_. Ret None)])"
    by (auto simp: runIPTables_def intro!: arg_cong [of _ _ "perform _"] split: option.splits)
  then show ?thesis by (simp only: guards_task)
qed

lemma ipt_loss_Run_guarded:
  assumes "errgroup_ok (eg_wait en)" and cl: "il_client n = recorded cl"
    and run: "run_state (ipt_loss_Run en n c random) (w, []) = (r, (w', l))"
  shows "guarded_run (\<lambda>x. CIPTables (ipt_ctx n c) (ipt_addReq n x))
    (\<lambda>x. CStopIPTables (cleanup_ctx (ipt_ctx n c) ipt_cleanupTimeout) (ipt_delReq n x)) (il_limit n) random r l"
  using run assms(1) unfolding guarded_run_def ipt_loss_Run_def RunOnContainers_def cl
  by (intro parallel_logs [where fn = "ipt_loss_action n"])
     (auto simp: ipt_loss_action_def ipt_ctx_def cl intro: runIPTables_behaves)

lemma ipt_delReq_mirror:
  "(ipt_addReq n x)\<lparr>CmdPrefix := ''-D'' # tl (CmdPrefix (ipt_addReq n x))\<rparr> = ipt_delReq n x"
  "hd (CmdPrefix (ipt_addReq n x)) = ''-I''"
  by (simp_all add: ipt_addReq_def ipt_delReq_def buildIPTablesCmd_def Let_def)

lemma validateCIDRList_Inr:
  "validateCIDRList ss = Inr ips \<longleftrightarrow> list_all2 (\<lambda>s ip. ParseCIDR s = Inr ip) ss ips"
proof (induction ss arbitrary: ips)
  case (Cons s ss)
  show ?case by (auto simp: list_all2_Cons1 Cons [symmetric] split: sum.splits)
qed auto

lemma ipt_NewLossCommand_Inr:
  "ipt_NewLossCommand cl gp base mode p every packet = Inr k \<longleftrightarrow>
    (mode = ''random'' \<and> (p = NaN \<or> p = NegZero \<or> (\<exists>r. p = Fin r \<and> 0 \<le> r \<and> r \<le> 1)) \<or>
     mode = ''nth'' \<and> 0 < every \<and> 0 \<le> packet \<and> packet < every) \<and>
    k = \<lparr>il_client = cl, il_gp = gp, il_req = Request base, il_iface = Iface base,
         il_protocol = Protocol base, il_limit = Limit base, il_mode = mode,
         il_probability = p, il_every = every, il_packet = packet\<rparr>"
proof -
  have p: "float_lt p 0 \<or> float_gt p 1 \<longleftrightarrow> \<not> (p = NaN \<or> p = NegZero \<or> (\<exists>r. p = Fin r \<and> 0 \<le> r \<and> r \<le> 1))"
    using float_range_check [of p 1] by auto
  have "ModeRandom \<noteq> ModeNTH" by (simp add: ModeRandom_def ModeNTH_def)
  then show ?thesis
    unfolding ipt_NewLossCommand_def Let_def p ModeRandom_def ModeNTH_def by auto
qed

context targeted_client
begin

lemma ipt_loss_Run_confined:
  assumes "il_client n = cl" and "ok (IDryRun (il_req n))"
    and "\<And>x. accepts (regexp_MatchString en) (GNames (il_gp n)) (GPattern (il_gp n)) x \<Longrightarrow> sel x"
  shows "confined R (ipt_loss_Run en n c random)"
proof -
  have d: "ok (IDryRun (ipt_addReq n x))" "ok (IDryRun (ipt_delReq n x))"
    "IContainer (ipt_addReq n x) = x" "IContainer (ipt_delReq n x) = x" for x
    using assms(2) by (simp_all add: ipt_addReq_def ipt_delReq_def buildIPTablesCmd_def Let_def)
  have "task_from R (ipt_loss_action n c' x) w" if "tgt w x" for c' w x
  proof -
    have x: "tgt w (IContainer (ipt_addReq n x))" "tgt w (IContainer (ipt_delReq n x))" using that by (simp_all add: d)
    show ?thesis
      unfolding ipt_loss_action_def runIPTables_def map_result_perform assms(1)
      by (intro task_intros aim_ops d x) (auto split: option.splits intro!: task_intros aim_ops d x)
  qed
  then show ?thesis
    using assms(3) unfolding ipt_loss_Run_def RunOnContainers_def assms(1)
    by (auto intro!: run_targets_confined)
qed

end

section \<open>Properties\<close>

text \<open>C12: A run of the iptables loss command, over any runtime and under any schedule of its goroutines:
  for each target one insertion, and after each one that worked exactly one deletion, later, under a
  context that no abort or deadline of the run reaches and that gives it 30 seconds. The deletion has
  the request of the insertion with -D in place of -I as the first word, and nothing else changed.
  The run fails exactly when some insertion failed.\<close>

theorem ipt_loss_Run_removes:
  assumes "errgroup_ok (eg_wait en)" and "il_client n = recorded cl"
    and "run_state (ipt_loss_Run en n c random) (w, []) = (r, (w', l))"
  shows "guarded_run (\<lambda>x. CIPTables (ipt_ctx n c) (ipt_addReq n x))
      (\<lambda>x. CStopIPTables (cleanup_ctx (ipt_ctx n c) (30 * second))
         ((ipt_addReq n x)\<lparr>CmdPrefix := ''-D'' # tl (CmdPrefix (ipt_addReq n x))\<rparr>)) (il_limit n) random r l \<and>
    hd (CmdPrefix (ipt_addReq n x)) = ''-I''"
  using ipt_loss_Run_guarded [OF assms] by (simp add: ipt_delReq_mirror ipt_cleanupTimeout_def)

definition ipt_a :: "(unit \<times> call_log) iptLossCommand" where
  "ipt_a = \<lparr>il_client = recorded (still_client [named ''a'', named ''b'']
        (\<lambda>x. if ContainerName x = ''b'' then Some (ErrExt ''boom'') else None)),
     il_gp = \<lparr>Random = False, GLabels = [], GPattern = '''', GNames = [], Interval = 0, DryRun = False, SkipErrors = False\<rparr>,
     il_req = \<lparr>IContainer = nil_container, CmdPrefix = [], CmdSuffix = [], SrcIPs = [], DstIPs = [], ISPorts = [],
       IDPorts = [], IDuration = 10, ISidecar = \<lparr>SImage = '''', SPull = False\<rparr>, IDryRun = False\<rparr>,
     il_iface = ''eth0'', il_protocol = ''tcp'', il_limit = 0, il_mode = ''nth'', il_probability = Fin 0,
     il_every = 5, il_packet = 0\<rparr>"

definition ipt_a_log :: call_log where
  "ipt_a_log =
    [(CIPTables (ipt_ctx ipt_a CtxTop) (ipt_addReq ipt_a (named ''a'')), None),
     (CStopIPTables (cleanup_ctx (ipt_ctx ipt_a CtxTop) (30 * second)) (ipt_delReq ipt_a (named ''a'')), None),
     (CIPTables (ipt_ctx ipt_a CtxTop) (ipt_addReq ipt_a (named ''b'')), Some (ErrExt ''boom''))]"

theorem ipt_loss_Run_removes_witness:
  "\<exists>r. run_state (ipt_loss_Run plain_env ipt_a CtxTop False) ((), []) = (Some r, ((), ipt_a_log)) \<and>
    guarded_run (\<lambda>x. CIPTables (ipt_ctx ipt_a CtxTop) (ipt_addReq ipt_a x))
      (\<lambda>x. CStopIPTables (cleanup_ctx (ipt_ctx ipt_a CtxTop) (30 * second))
         ((ipt_addReq ipt_a x)\<lparr>CmdPrefix := ''-D'' # tl (CmdPrefix (ipt_addReq ipt_a x))\<rparr>)) 0 False (Some r) ipt_a_log"
proof -
  have run: "run_state (ipt_loss_Run plain_env ipt_a CtxTop False) ((), []) =
      (Some (ErrWrap ''failed to add packet loss for one or more containers: %w'' []
         (ErrWrap ''iptables failed: %w'' [] (ErrExt ''boom''))), ((), ipt_a_log))"
    by code_simp
  show ?thesis
    using ipt_loss_Run_removes [OF plain_env_ok _ run] run by (simp add: ipt_a_def)
qed

text \<open>The loss command accepts the mode random with a probability from 0 to 1 (or NaN) and the mode nth
  with a positive period and a packet number within it; no other mode. It keeps what it was given.\<close>

theorem ipt_NewLossCommand_accepts:
  "ipt_NewLossCommand cl gp base mode p every packet = Inr k \<longleftrightarrow>
    (mode = ''random'' \<and> (p = NaN \<or> p = NegZero \<or> (\<exists>r. p = Fin r \<and> 0 \<le> r \<and> r \<le> 1)) \<or>
     mode = ''nth'' \<and> 0 < every \<and> 0 \<le> packet \<and> packet < every) \<and>
    k = \<lparr>il_client = cl, il_gp = gp, il_req = Request base, il_iface = Iface base,
         il_protocol = Protocol base, il_limit = Limit base, il_mode = mode,
         il_probability = p, il_every = every, il_packet = packet\<rparr>"
  by (rule ipt_NewLossCommand_Inr)

text \<open>The common flags of the iptables commands make a request exactly when the duration is not zero
  and, with an interval, shorter than it, the interface name is valid, the protocol is any, tcp, udp
  or icmp, all sources and destinations are addresses or networks, both port lists are valid, and
  there are no ports unless the protocol is tcp or udp.\<close>

theorem ipt_ParseRequestBase_accepts:
  "(\<exists>b. ipt_ParseRequestBase c gp = Inr b) \<longleftrightarrow>
    flag_Duration c ''duration'' \<noteq> 0 \<and> (Interval gp = 0 \<or> flag_Duration c ''duration'' < Interval gp) \<and>
    iface_ok (flag_String c ''interface'') \<and> flag_String c ''protocol'' \<in> {''any'', ''tcp'', ''udp'', ''icmp''} \<and>
    (\<exists>ips. list_all2 (\<lambda>s ip. ParseCIDR s = Inr ip) (flag_StringSlice c ''source'') ips) \<and>
    (\<exists>ips. list_all2 (\<lambda>s ip. ParseCIDR s = Inr ip) (flag_StringSlice c ''destination'') ips) \<and>
    (\<exists>sports dports. GetPorts (flag_String c ''src-port'') = Inr sports \<and>
       GetPorts (flag_String c ''dst-port'') = Inr dports \<and>
       (flag_String c ''protocol'' \<in> {''tcp'', ''udp''} \<or> sports = [] \<and> dports = []))"
proof -
  have v: "iface_ok s \<longleftrightarrow> ValidateInterfaceName s = None" for s by (simp add: ValidateInterfaceName_iff)
  show ?thesis
    unfolding ipt_ParseRequestBase_def Let_def v validateCIDRList_Inr [symmetric]
      ProtocolAny_def ProtocolTCP_def ProtocolUDP_def ProtocolICMP_def
    by (simp split: option.splits sum.splits del: split_paired_Ex)
qed

end
