(* ===== verification/Stress.thy ===== *)
theory Stress
  imports Runner
begin

text \<open>
  \<open>pkg/chaos/stress\<close>: run stress-ng against each target and stop it after the duration or on abort.
\<close>

section \<open>The command (\<open>stress.go\<close>)\<close>

definition defaultStopTimeout :: duration where "defaultStopTimeout = 5 * second"

record 'w stressCommand =
  st_client :: "'w client"
  st_names :: "string list"
  st_pattern :: string
  st_labels :: "string list"
  st_image :: string
  st_pull :: bool
  st_stressors :: "string list"
  st_duration :: duration
  st_limit :: int
  st_injectCgroup :: bool
  st_dryRun :: bool

definition NewStressCommand ::
  "'w client \<Rightarrow> global_params \<Rightarrow> string \<Rightarrow> bool \<Rightarrow> string \<Rightarrow> duration \<Rightarrow> int \<Rightarrow> bool \<Rightarrow> 'w stressCommand" where
  "NewStressCommand cl gp img pull stressors d limit inject =
     \<lparr>st_client = cl, st_names = GNames gp, st_pattern = GPattern gp, st_labels = GLabels gp,
      st_image = img, st_pull = pull, st_stressors = str_fields stressors, st_duration = d,
      st_limit = limit, st_injectCgroup = inject, st_dryRun = DryRun gp\<rparr>"

definition stress_target_request :: "'w stressCommand \<Rightarrow> container \<Rightarrow> stress_request" where
  "stress_target_request s x =
     \<lparr>StContainer = x, Stressors = st_stressors s, StDuration = st_duration s,
      StSidecar = \<lparr>SImage = st_image s, SPull = st_pull s\<rparr>, InjectCgroup = st_injectCgroup s,
      StDryRun = st_dryRun s\<rparr>"

text \<open>
  The four branches of the \<open>select\<close>: a value from \<open>Output\<close> or its closing; an error from \<open>Errors\<close>, or
  nil when it is already closed; the abort; the timer.
\<close>

definition stop_stress :: "'w stressCommand \<Rightarrow> ctx \<Rightarrow> stress_result \<Rightarrow> 'w task" where
  "stop_stress s c result =
     perform (StopContainerWithID (st_client s) (cleanup_ctx c defaultStopTimeout) (SidecarID result)
        defaultStopTimeout (st_dryRun s))
       (\<lambda>err. Ret (wrapf ''failed to stop stress-ng container: %w'' [] err))"

definition reported_error :: "error list \<Rightarrow> error" where
  "reported_error es = (case es of
     [] \<Rightarrow> ErrWrapNil ''stress-ng failed with error: %w''
   | e # _ \<Rightarrow> ErrWrap ''stress-ng failed with error: %w'' [] e)"

definition stressContainer :: "'w stressCommand \<Rightarrow> 'w action" where
  "stressContainer s c x =
     perform (StressContainer (st_client s) c (stress_target_request s x)) (\<lambda>r. case r of
       Inl err \<Rightarrow> Ret (Some (ErrWrap ''stress test failed: %w'' [] err))
     | Inr result \<Rightarrow>
         if st_dryRun s then Ret None
         else Select (Ret None)
           [Ret (Some (reported_error (Errors result))), stop_stress s c result, stop_stress s c result])"

definition stress_Run :: "'w env \<Rightarrow> 'w stressCommand \<Rightarrow> 'w command" where
  "stress_Run en s c random = do {
     err \<leftarrow> RunOnContainers en c (ListContainers (st_client s))
       \<lparr>Random = False, GLabels = st_labels s, GPattern = st_pattern s, GNames = st_names s,
        Interval = 0, DryRun = False, SkipErrors = False\<rparr> (st_limit s) random True (stressContainer s);
     State_Monad.return (wrapf ''one or more stress test failed: %w'' [] err) }"

section \<open>Facts\<close>

text \<open>How the goroutine of one target ends.\<close>

datatype stress_end =
    NotStarted error
  | Completed                     \<comment> \<open>the workload ended by itself, or the run is dry\<close>
  | Reported                      \<comment> \<open>the workload reported an error\<close>
  | Stopped string "error option" \<comment> \<open>stopped by the sidecar's ID, with the answer\<close>

fun stress_calls :: "client_call \<Rightarrow> (string \<Rightarrow> client_call) \<Rightarrow> stress_end \<Rightarrow> call_log" where
  "stress_calls start stop (NotStarted e) = [(start, Some e)]"
| "stress_calls start stop Completed = [(start, None)]"
| "stress_calls start stop Reported = [(start, None)]"
| "stress_calls start stop (Stopped i q) = [(start, None), (stop i, q)]"

fun stress_ok :: "stress_end \<Rightarrow> bool" where
  "stress_ok Completed = True"
| "stress_ok (Stopped i q) = (q = None)"
| "stress_ok _ = False"

text \<open>The ID is one that the runtime returned for this target; a dry run stops nothing.\<close>

definition stress_may :: "'w client \<Rightarrow> ctx \<Rightarrow> stress_request \<Rightarrow> stress_end \<Rightarrow> bool" where
  "stress_may cl c req se \<longleftrightarrow> (\<forall>i q. se = Stopped i q \<longrightarrow> \<not> StDryRun req \<and>
     (\<exists>w w' result. run_state (StressContainer cl c req) w = (Inr result, w') \<and> i = SidecarID result))"

lemma contr_logged_any:
  "contributes snd (perform (logged k oc m) K) L r \<longleftrightarrow>
    (\<exists>a L'. (\<exists>w w'. run_state m w = (a, w')) \<and> contributes snd (K a) L' r \<and> L = (k, oc a) # L')"
proof
  assume "contributes snd (perform (logged k oc m) K) L r"
  then show "\<exists>a L'. (\<exists>w w'. run_state m w = (a, w')) \<and> contributes snd (K a) L' r \<and> L = (k, oc a) # L'"
    unfolding perform_def
    by (elim contr_StepE) (auto split: prod.splits; metis)
next
  assume "\<exists>a L'. (\<exists>w w'. run_state m w = (a, w')) \<and> contributes snd (K a) L' r \<and> L = (k, oc a) # L'"
  then obtain w a w' L' where *: "run_state m w = (a, w')" "contributes snd (K a) L' r" "L = (k, oc a) # L'"
    by blast
  then have "contributes snd (perform (logged k oc m) K) ([(k, oc a)] @ L') r"
    unfolding perform_def by (intro contr_step [where w = "(w, [])" and w' = "(w', [] @ [(k, oc a)])"]) auto
  with * show "contributes snd (perform (logged k oc m) K) L r" by simp
qed

lemma logs_logged_any:
  "logs snd (perform (logged k oc m) K) \<longleftrightarrow> (\<forall>w a w'. run_state m w = (a, w') \<longrightarrow> logs snd (K a))"
  by (auto simp: perform_def split: prod.splits)

lemma contr_stop_stress:
  assumes "st_client s = recorded cl" and "contributes snd (stop_stress s c result) L r"
  shows "\<exists>q. (r = None \<longleftrightarrow> q = None) \<and>
    L = [(CStopID (cleanup_ctx c defaultStopTimeout) (SidecarID result) defaultStopTimeout (st_dryRun s), q)]"
  using assms(2) unfolding stop_stress_def assms(1) recorded_sel contr_logged_any contr_Ret
  by (elim exE conjE) (rule exI, simp)

lemma stressContainer_behaves:
  assumes cl: "st_client s = recorded cl"
  shows "behaves (stressContainer s c x) snd
    (stress_calls (CStress c (stress_target_request s x))
       (\<lambda>i. CStopID (cleanup_ctx c defaultStopTimeout) i defaultStopTimeout (st_dryRun s)))
    (stress_may cl c (stress_target_request s x)) stress_ok"
  unfolding behaves_def
proof (intro conjI allI impI)
  show "logs snd (stressContainer s c x)"
    unfolding stressContainer_def cl
    by (auto simp: logs_logged_any stop_stress_def cl split: sum.splits)
next
  fix L r assume "contributes snd (stressContainer s c x) L r"
  then obtain a L' w w' where a: "run_state (StressContainer cl c (stress_target_request s x)) w = (a, w')"
    "contributes snd (case a of
       Inl err \<Rightarrow> Ret (Some (ErrWrap ''stress test failed: %w'' [] err))
     | Inr result \<Rightarrow>
         if st_dryRun s then Ret None
         else Select (Ret None)
           [Ret (Some (reported_error (Errors result))), stop_stress s c result, stop_stress s c result]) L' r"
    "L = (CStress c (stress_target_request s x), outcome_of a) # L'"
    unfolding stressContainer_def cl recorded_sel contr_logged_any by blast
  have dry: "StDryRun (stress_target_request s x) = st_dryRun s" by (simp add: stress_target_request_def)
  let ?calls = "stress_calls (CStress c (stress_target_request s x))
       (\<lambda>i. CStopID (cleanup_ctx c defaultStopTimeout) i defaultStopTimeout (st_dryRun s))"
  show "\<exists>res. stress_may cl c (stress_target_request s x) res \<and> L = ?calls res \<and> (r = None \<longleftrightarrow> stress_ok res)"
  proof (cases a)
    case (Inl err)
    with a show ?thesis
      by (intro exI [of _ "NotStarted err"]) (simp add: contr_Ret outcome_of_def stress_may_def)
  next
    case (Inr result)
    show ?thesis
    proof (cases "st_dryRun s")
      case True
      with a Inr show ?thesis
        by (intro exI [of _ Completed]) (simp add: contr_Ret outcome_of_def stress_may_def)
    next
      case False
      with a(2) Inr consider (completed) "L' = []" "r = None"
        | (reported) "L' = []" "r \<noteq> None"
        | (halted) q where "r = None \<longleftrightarrow> q = None"
            "L' = [(CStopID (cleanup_ctx c defaultStopTimeout) (SidecarID result) defaultStopTimeout (st_dryRun s), q)]"
      proof -
        have "contributes snd (Select (Ret None)
           [Ret (Some (reported_error (Errors result))), stop_stress s c result, stop_stress s c result]) L' r"
          using a(2) Inr False by simp
        then obtain t where t: "contributes snd t L' r"
          "t = Ret None \<or> t = Ret (Some (reported_error (Errors result))) \<or> t = stop_stress s c result"
          unfolding contr_Select by auto
        from t(2) show thesis
        proof (elim disjE)
          assume "t = Ret None"
          with t(1) show thesis by (intro completed) (simp_all add: contr_Ret)
        next
          assume "t = Ret (Some (reported_error (Errors result)))"
          with t(1) show thesis by (intro reported) (simp_all add: contr_Ret)
        next
          assume "t = stop_stress s c result"
          with t(1) contr_stop_stress [OF cl, of c result L' r] show thesis
            by simp (elim exE conjE, rule halted)
        qed
      qed
      then show ?thesis
      proof cases
        case completed
        with a(3) Inr show ?thesis
          by (intro exI [of _ Completed]) (simp add: outcome_of_def stress_may_def)
      next
        case reported
        with a(3) Inr show ?thesis
          by (intro exI [of _ Reported]) (simp add: outcome_of_def stress_may_def)
      next
        case (halted q)
        have "stress_may cl c (stress_target_request s x) (Stopped (SidecarID result) q)"
          unfolding stress_may_def dry using a(1) Inr False by blast
        moreover have "L = ?calls (Stopped (SidecarID result) q)"
          using a(3) Inr halted(2) by (simp add: outcome_of_def)
        ultimately show ?thesis using halted(1) stress_ok.simps(2) by blast
      qed
    qed
  qed
qed

lemma stress_Run_log:
  assumes "errgroup_ok (eg_wait en)" and cl: "st_client s = recorded cl"
    and run: "run_state (stress_Run en s c random) (w, []) = (r, (w', l))"
  shows "parallel_log (\<lambda>x. stress_calls (CStress c (stress_target_request s x))
       (\<lambda>i. CStopID (cleanup_ctx c defaultStopTimeout) i defaultStopTimeout (st_dryRun s)))
    (\<lambda>x. stress_may cl c (stress_target_request s x)) stress_ok (st_limit s) random r l"
proof -
  let ?gp = "\<lparr>Random = False, GLabels = st_labels s, GPattern = st_pattern s, GNames = st_names s,
        Interval = 0, DryRun = False, SkipErrors = False\<rparr>"
  obtain err where err: "run_state (runOnContainers en c (ListContainers (recorded cl)) ?gp (st_limit s) False random True
      (stressContainer s)) (w, []) = (err, (w', l))" "r = wrapf ''one or more stress test failed: %w'' [] err"
    using run by (auto simp: stress_Run_def RunOnContainers_def cl split: prod.splits)
  from parallel_logs [OF assms(1) stressContainer_behaves [OF cl] err(1)] err(2) show ?thesis
    by (simp add: parallel_log_def)
qed

context targeted_client
begin

lemma stress_Run_confined:
  assumes "st_client s = cl" and "ok (st_dryRun s)"
    and "\<And>x. accepts (regexp_MatchString en) (st_names s) (st_pattern s) x \<Longrightarrow> sel x"
  shows "confined R (stress_Run en s c random)"
proof -
  have dry: "ok (StDryRun (stress_target_request s x))" "StDryRun (stress_target_request s x) = st_dryRun s"
    "StContainer (stress_target_request s x) = x" for x
    using assms(2) by (simp_all add: stress_target_request_def)
  have stop: "task_from R (stop_stress s c' res) w" if "own w (SidecarID res)" for c' res w
    unfolding stop_stress_def assms(1) by (intro task_intros aim_ops assms(2) that)
  have "task_from R (stressContainer s c' x) w" if "tgt w x" for c' x w
  proof -
    let ?req = "stress_target_request s x"
    have x: "tgt w (StContainer ?req)" using that by (simp add: dry)
    have "own v (SidecarID res)"
      if "R w u" "run_state (StressContainer cl c' ?req) u = (Inr res, v)" "\<not> st_dryRun s" for u v res
      by (rule own_Stress [OF _ x that(1,2)]) (simp add: dry that(3))
    then show ?thesis
      unfolding stressContainer_def assms(1)
      by (intro task_from_then aim_Stress dry(1) x) (auto intro: stop split: sum.split)
  qed
  then show ?thesis
    using assms(3) unfolding stress_Run_def RunOnContainers_def assms(1)
    by (intro confined_intros run_targets_confined) simp_all
qed

end

section \<open>Properties\<close>

text \<open>How a workload that ended is reported is left to the \<open>select\<close>, whatever it sent: both of its channels
  are closed, so that for every result one choice of the branches returns success and another an error,
  of a nil error when none was sent.\<close>

theorem stress_outcome_chosen:
  assumes "run_state (StressContainer (st_client s) c (stress_target_request s x)) w = (Inr result, w')"
    and "\<not> st_dryRun s"
  shows "run_task (\<lambda>_ _. 0) (stressContainer s c x) w = (None, w') \<and>
    run_task (\<lambda>_ _. 1) (stressContainer s c x) w = (Some (reported_error (Errors result)), w')"
  using assms by (simp add: stressContainer_def)

text \<open>C13: A stress run over any runtime and under any schedule: each target gets one stress call; when that
  works, the goroutine ends because the workload ended or reported an error, or it makes exactly one
  stop call with the ID that the runtime returned, under a detached context of 5 seconds. The run
  fails exactly when a stress call or a stop call failed or a workload reported an error.\<close>

theorem stress_Run_stops:
  assumes "errgroup_ok (eg_wait en)" and "st_client s = recorded cl"
    and "run_state (stress_Run en s c random) (w, []) = (r, (w', l))"
  shows "parallel_log (\<lambda>x. stress_calls (CStress c (stress_target_request s x))
       (\<lambda>i. CStopID (cleanup_ctx c (5 * second)) i (5 * second) (st_dryRun s)))
    (\<lambda>x. stress_may cl c (stress_target_request s x)) stress_ok (st_limit s) random r l"
  using stress_Run_log [OF assms] by (simp add: defaultStopTimeout_def)

definition stress_a :: "(unit \<times> call_log) stressCommand" where
  "stress_a = NewStressCommand (recorded (still_client [named ''a'', named ''b'']
        (\<lambda>x. if ContainerName x = ''b'' then Some (ErrExt ''boom'') else None)))
     \<lparr>Random = False, GLabels = [], GPattern = '''', GNames = [], Interval = 0, DryRun = False, SkipErrors = False\<rparr>
     ''stress-ng'' False ''--cpu 1'' 10 0 False"

definition stress_env :: "(unit \<times> call_log) env" where
  "stress_env = plain_env\<lparr>schedule := (\<lambda>_. (0, 3))\<rparr>"

definition stress_a_log :: call_log where
  "stress_a_log =
    [(CStress CtxTop (stress_target_request stress_a (named ''a'')), None),
     (CStopID (cleanup_ctx CtxTop (5 * second)) '''' (5 * second) False, None),
     (CStress CtxTop (stress_target_request stress_a (named ''b'')), Some (ErrExt ''boom''))]"

theorem stress_Run_stops_witness:
  "\<exists>r cl. st_client stress_a = recorded cl \<and>
    run_state (stress_Run stress_env stress_a CtxTop False) ((), []) = (Some r, ((), stress_a_log)) \<and>
    parallel_log (\<lambda>x. stress_calls (CStress CtxTop (stress_target_request stress_a x))
       (\<lambda>i. CStopID (cleanup_ctx CtxTop (5 * second)) i (5 * second) (st_dryRun stress_a)))
    (\<lambda>x. stress_may cl CtxTop (stress_target_request stress_a x)) stress_ok (st_limit stress_a) False (Some r) stress_a_log"
proof -
  have run: "run_state (stress_Run stress_env stress_a CtxTop False) ((), []) =
      (Some (ErrWrap ''one or more stress test failed: %w'' []
         (ErrWrap ''stress test failed: %w'' [] (ErrExt ''boom''))), ((), stress_a_log))"
    by code_simp
  have ok: "errgroup_ok (eg_wait stress_env)" by (simp add: stress_env_def plain_env_ok)
  have cl: "st_client stress_a = recorded (still_client [named ''a'', named ''b'']
        (\<lambda>x. if ContainerName x = ''b'' then Some (ErrExt ''boom'') else None))"
    by (simp add: stress_a_def NewStressCommand_def)
  show ?thesis using stress_Run_stops [OF ok cl run] run cl by blast
qed

end
