(* ===== verification/Cli.thy ===== *)
theory Cli
  imports Lifecycle Netem IPTables Stress
begin

text \<open>
  The command line: \<open>pkg/chaos/cmd/builder.go\<close> (the generic action), the \<open>cmd\<close> packages of the commands
  (declared flags, parser and builder of each) and \<open>cmd/commands.go\<close>, \<open>cmd/flags.go\<close> (the command tree).

  A declared flag is its kind, its names and its default; usage texts are left out.
\<close>

section \<open>Specifications and actions (\<open>builder.go\<close>)\<close>

datatype cli_flag =
    StringFlag "string list" string
  | BoolFlag "string list"
  | BoolTFlag "string list"
  | IntFlag "string list" int
  | DurationFlag "string list" duration
  | Float64Flag "string list" float64
  | StringSliceFlag "string list"

fun flag_names :: "cli_flag \<Rightarrow> string list" where
  "flag_names (StringFlag ns v) = ns"
| "flag_names (BoolFlag ns) = ns"
| "flag_names (BoolTFlag ns) = ns"
| "flag_names (IntFlag ns v) = ns"
| "flag_names (DurationFlag ns v) = ns"
| "flag_names (Float64Flag ns v) = ns"
| "flag_names (StringSliceFlag ns) = ns"

record ('w, 'p) spec =
  SName :: string
  SFlags :: "cli_flag list"
  RequireArgs :: bool
  Parse :: "flags \<Rightarrow> global_params \<Rightarrow> error + 'p"
  Build :: "'w client \<Rightarrow> global_params \<Rightarrow> 'p \<Rightarrow> error + 'w command"

definition ErrContainerArgRequired :: error where
  "ErrContainerArgRequired = errorf ''container name, list of names, or RE2 regex is required''"

text \<open>The \<open>Action\<close> closure that \<open>NewAction\<close> makes of a specification.\<close>

definition NewAction_Action ::
  "ctx \<Rightarrow> 'w client \<Rightarrow> ('w, 'p) spec \<Rightarrow> flags \<Rightarrow> wakeup list \<Rightarrow> ('w, loop_result) state" where
  "NewAction_Action tc runtime spec c wakeups =
     (if RequireArgs spec \<and> flag_Args c = [] then State_Monad.return (Returned (Some ErrContainerArgRequired))
      else let gp = ParseGlobalParams c in
      (case Parse spec c gp of
         Inl err \<Rightarrow> State_Monad.return (Returned (Some err))
       | Inr p \<Rightarrow>
      (case Build spec runtime gp p of
         Inl err \<Rightarrow> State_Monad.return (Returned (Some err))
       | Inr cmd \<Rightarrow> do {
           r \<leftarrow> RunChaosCommand tc cmd gp wakeups;
           State_Monad.return (case r of
               Returned err \<Rightarrow> Returned (wrapf ''running %s: %w'' [SName spec] err)
             | other \<Rightarrow> other) })))"

text \<open>A command of the application: a leaf with its action, or a group with subcommands.\<close>

datatype (dead 'w) cli_command =
    Leaf string "cli_flag list" "flags \<Rightarrow> wakeup list \<Rightarrow> ('w, loop_result) state"
  | Group string "cli_flag list" "'w cli_command list"

definition NewAction :: "ctx \<Rightarrow> 'w client \<Rightarrow> ('w, 'p) spec \<Rightarrow> 'w cli_command" where
  "NewAction tc runtime spec = Leaf (SName spec) (SFlags spec) (NewAction_Action tc runtime spec)"

section \<open>Lifecycle commands (\<open>lifecycle/cmd\<close>)\<close>

record killParams = KP_Signal :: string  KP_Limit :: int

definition parseKillParams :: "flags \<Rightarrow> global_params \<Rightarrow> error + killParams" where
  "parseKillParams c gp = Inr \<lparr>KP_Signal = flag_String c ''signal'', KP_Limit = flag_Int c ''limit''\<rparr>"

definition buildKillCommand :: "'w env \<Rightarrow> 'w client \<Rightarrow> global_params \<Rightarrow> killParams \<Rightarrow> error + 'w command" where
  "buildKillCommand en cl gp p = map_sum id (kill_Run en) (NewKillCommand cl gp (KP_Signal p) (KP_Limit p))"

definition kill_spec :: "'w env \<Rightarrow> ('w, killParams) spec" where
  "kill_spec en = \<lparr>SName = ''kill'',
     SFlags = [StringFlag [''signal'', ''s''] DefaultKillSignal, IntFlag [''limit'', ''l''] 0],
     RequireArgs = True, Parse = parseKillParams, Build = buildKillCommand en\<rparr>"

record execParams = EP_Command :: string  EP_Args :: "string list"  EP_Limit :: int

definition parseExecParams :: "flags \<Rightarrow> global_params \<Rightarrow> error + execParams" where
  "parseExecParams c gp = Inr \<lparr>EP_Command = flag_String c ''command'',
     EP_Args = flag_StringSlice c ''args'', EP_Limit = flag_Int c ''limit''\<rparr>"

definition buildExecCommand :: "'w env \<Rightarrow> 'w client \<Rightarrow> global_params \<Rightarrow> execParams \<Rightarrow> error + 'w command" where
  "buildExecCommand en cl gp p =
     Inr (exec_Run en (NewExecCommand cl gp (EP_Command p) (EP_Args p) (EP_Limit p)))"

definition exec_spec :: "'w env \<Rightarrow> ('w, execParams) spec" where
  "exec_spec en = \<lparr>SName = ''exec'',
     SFlags = [StringFlag [''command'', ''s''] ''kill 1'', StringSliceFlag [''args'', ''a''], IntFlag [''limit'', ''l''] 0],
     RequireArgs = False, Parse = parseExecParams, Build = buildExecCommand en\<rparr>"

record restartParams = RP_Timeout :: duration  RP_Limit :: int

definition parseRestartParams :: "flags \<Rightarrow> global_params \<Rightarrow> error + restartParams" where
  "parseRestartParams c gp = Inr \<lparr>RP_Timeout = flag_Duration c ''timeout'', RP_Limit = flag_Int c ''limit''\<rparr>"

definition buildRestartCommand :: "'w env \<Rightarrow> 'w client \<Rightarrow> global_params \<Rightarrow> restartParams \<Rightarrow> error + 'w command" where
  "buildRestartCommand en cl gp p =
     Inr (restart_Run en (NewRestartCommand cl gp (RP_Timeout p) (RP_Limit p)))"

definition restart_spec :: "'w env \<Rightarrow> ('w, restartParams) spec" where
  "restart_spec en = \<lparr>SName = ''restart'',
     SFlags = [DurationFlag [''timeout'', ''t''] (1 * second), IntFlag [''limit'', ''l''] 0],
     RequireArgs = False, Parse = parseRestartParams, Build = buildRestartCommand en\<rparr>"

record stopParams = SP_WaitTime :: int  SP_Limit :: int  SP_Restart :: bool  SP_Duration :: duration

definition parseStopParams :: "flags \<Rightarrow> global_params \<Rightarrow> error + stopParams" where
  "parseStopParams c gp =
     (let d = flag_Duration c ''duration'' in
      if d = 0 then Inl (errorf ''unset or invalid duration value'')
      else Inr \<lparr>SP_WaitTime = flag_Int c ''time'', SP_Limit = flag_Int c ''limit'',
                SP_Restart = flag_Bool c ''restart'', SP_Duration = d\<rparr>)"

definition buildStopCommand :: "'w env \<Rightarrow> 'w client \<Rightarrow> global_params \<Rightarrow> stopParams \<Rightarrow> error + 'w command" where
  "buildStopCommand en cl gp p =
     Inr (stop_Run en (NewStopCommand cl gp (SP_Restart p) (SP_Duration p) (SP_WaitTime p) (SP_Limit p)))"

definition stop_spec :: "'w env \<Rightarrow> ('w, stopParams) spec" where
  "stop_spec en = \<lparr>SName = ''stop'',
     SFlags = [IntFlag [''time'', ''t''] DeafultWaitTime, IntFlag [''limit'', ''l''] 0,
               BoolFlag [''restart'', ''r''], StringFlag [''duration'', ''d''] ''10s''],
     RequireArgs = True, Parse = parseStopParams, Build = buildStopCommand en\<rparr>"

record pauseParams = PP_Duration :: duration  PP_Limit :: int

definition parsePauseParams :: "flags \<Rightarrow> global_params \<Rightarrow> error + pauseParams" where
  "parsePauseParams c gp =
     (let d = flag_Duration c ''duration'' in
      if d = 0 then Inl (errorf ''unset or invalid duration value'')
      else Inr \<lparr>PP_Duration = d, PP_Limit = flag_Int c ''limit''\<rparr>)"

definition buildPauseCommand :: "'w env \<Rightarrow> 'w client \<Rightarrow> global_params \<Rightarrow> pauseParams \<Rightarrow> error + 'w command" where
  "buildPauseCommand en cl gp p =
     Inr (pause_Run en (NewPauseCommand cl gp (PP_Duration p) (PP_Limit p)))"

definition pause_spec :: "'w env \<Rightarrow> ('w, pauseParams) spec" where
  "pause_spec en = \<lparr>SName = ''pause'',
     SFlags = [StringFlag [''duration'', ''d''] '''', IntFlag [''limit'', ''l''] 0],
     RequireArgs = False, Parse = parsePauseParams, Build = buildPauseCommand en\<rparr>"

record removeParams = MP_Force :: bool  MP_Links :: bool  MP_Volumes :: bool  MP_Limit :: int

definition parseRemoveParams :: "flags \<Rightarrow> global_params \<Rightarrow> error + removeParams" where
  "parseRemoveParams c gp = Inr \<lparr>MP_Force = flag_BoolT c ''force'', MP_Links = flag_BoolT c ''links'',
     MP_Volumes = flag_BoolT c ''volumes'', MP_Limit = flag_Int c ''limit''\<rparr>"

definition buildRemoveCommand :: "'w env \<Rightarrow> 'w client \<Rightarrow> global_params \<Rightarrow> removeParams \<Rightarrow> error + 'w command" where
  "buildRemoveCommand en cl gp p =
     Inr (remove_Run en (NewRemoveCommand cl gp (MP_Force p) (MP_Links p) (MP_Volumes p) (MP_Limit p)))"

definition remove_spec :: "'w env \<Rightarrow> ('w, removeParams) spec" where
  "remove_spec en = \<lparr>SName = ''rm'',
     SFlags = [BoolTFlag [''force'', ''f''], BoolFlag [''links'', ''n''], BoolTFlag [''volumes'', ''v''],
               IntFlag [''limit'', ''l''] 0],
     RequireArgs = True, Parse = parseRemoveParams, Build = buildRemoveCommand en\<rparr>"

section \<open>Stress (\<open>stress/cmd\<close>)\<close>

record stressParams =
  TP_Image :: string
  TP_Pull :: bool
  TP_Stressors :: string
  TP_Duration :: duration
  TP_Limit :: int
  TP_InjectCgroup :: bool

definition parseStressParams :: "flags \<Rightarrow> global_params \<Rightarrow> error + stressParams" where
  "parseStressParams c gp =
     (let d = flag_Duration c ''duration'' in
      if d = 0 then Inl (errorf ''unset or invalid duration value'')
      else Inr \<lparr>TP_Image = flag_String c ''stress-image'', TP_Pull = flag_BoolT c ''pull-image'',
                TP_Stressors = flag_String c ''stressors'', TP_Duration = d,
                TP_Limit = flag_Int c ''limit'', TP_InjectCgroup = flag_Bool c ''inject-cgroup''\<rparr>)"

definition buildStressCommand :: "'w env \<Rightarrow> 'w client \<Rightarrow> global_params \<Rightarrow> stressParams \<Rightarrow> error + 'w command" where
  "buildStressCommand en cl gp p =
     Inr (stress_Run en (NewStressCommand cl gp (TP_Image p) (TP_Pull p) (TP_Stressors p) (TP_Duration p)
        (TP_Limit p) (TP_InjectCgroup p)))"

definition stress_spec :: "'w env \<Rightarrow> ('w, stressParams) spec" where
  "stress_spec en = \<lparr>SName = ''stress'',
     SFlags = [StringFlag [''duration'', ''d''] '''',
               StringFlag [''stress-image''] ''ghcr.io/alexei-led/stress-ng:latest'',
               BoolTFlag [''pull-image''], StringFlag [''stressors''] ''--cpu 4 --timeout 60s'',
               BoolFlag [''inject-cgroup'']],
     RequireArgs = False, Parse = parseStressParams, Build = buildStressCommand en\<rparr>"

section \<open>Network emulation (\<open>netem/cmd\<close>)\<close>

text \<open>A method called on the nil result of \<open>Parent()\<close> panics; the commands below always have a parent.\<close>

definition parent_request :: "flags \<Rightarrow> global_params \<Rightarrow> error + netem_request \<times> int" where
  "parent_request c gp = (case flag_Parent c of
     None \<Rightarrow> Inl nil_panic
   | Some p \<Rightarrow> map_sum (ErrWrap ''error parsing netem parameters: %w'' []) id (ParseRequestBase p gp))"

record delayParams =
  DP_Base :: netem_request  DP_Limit :: int  DP_Time :: int  DP_Jitter :: int
  DP_Correlation :: float64  DP_Distribution :: string

definition parseDelayParams :: "flags \<Rightarrow> global_params \<Rightarrow> error + delayParams" where
  "parseDelayParams c gp = map_sum id (\<lambda>(base, limit).
     \<lparr>DP_Base = base, DP_Limit = limit, DP_Time = flag_Int c ''time'', DP_Jitter = flag_Int c ''jitter'',
      DP_Correlation = flag_Float64 c ''correlation'', DP_Distribution = flag_String c ''distribution''\<rparr>)
     (parent_request c gp)"

definition buildDelayCommand :: "'w env \<Rightarrow> 'w client \<Rightarrow> global_params \<Rightarrow> delayParams \<Rightarrow> error + 'w command" where
  "buildDelayCommand en cl gp p = map_sum id (\<lambda>n. netem_Run en (NDelay n))
     (NewDelayCommand cl gp (DP_Base p) (DP_Limit p) (DP_Time p) (DP_Jitter p) (DP_Correlation p) (DP_Distribution p))"

definition delay_spec :: "'w env \<Rightarrow> ('w, delayParams) spec" where
  "delay_spec en = \<lparr>SName = ''delay'',
     SFlags = [IntFlag [''time'', ''t''] 100, IntFlag [''jitter'', ''j''] 10,
               Float64Flag [''correlation'', ''c''] (Fin 20), StringFlag [''distribution'', ''d''] ''''],
     RequireArgs = False, Parse = parseDelayParams, Build = buildDelayCommand en\<rparr>"

record lossParams = LP_Base :: netem_request  LP_Limit :: int  LP_Percent :: float64  LP_Correlation :: float64

definition parseLossParams :: "flags \<Rightarrow> global_params \<Rightarrow> error + lossParams" where
  "parseLossParams c gp = map_sum id (\<lambda>(base, limit).
     \<lparr>LP_Base = base, LP_Limit = limit, LP_Percent = flag_Float64 c ''percent'',
      LP_Correlation = flag_Float64 c ''correlation''\<rparr>) (parent_request c gp)"

definition buildLossCommand :: "'w env \<Rightarrow> 'w client \<Rightarrow> global_params \<Rightarrow> lossParams \<Rightarrow> error + 'w command" where
  "buildLossCommand en cl gp p = map_sum id (\<lambda>n. netem_Run en (NLoss n))
     (NewLossCommand cl gp (LP_Base p) (LP_Limit p) (LP_Percent p) (LP_Correlation p))"

definition loss_spec :: "'w env \<Rightarrow> ('w, lossParams) spec" where
  "loss_spec en = \<lparr>SName = ''loss'',
     SFlags = [Float64Flag [''percent'', ''p''] (Fin 0), Float64Flag [''correlation'', ''c''] (Fin 0)],
     RequireArgs = False, Parse = parseLossParams, Build = buildLossCommand en\<rparr>"

record lossStateParams =
  LS_Base :: netem_request  LS_Limit :: int
  LS_P13 :: float64  LS_P31 :: float64  LS_P32 :: float64  LS_P23 :: float64  LS_P14 :: float64

definition parseLossStateParams :: "flags \<Rightarrow> global_params \<Rightarrow> error + lossStateParams" where
  "parseLossStateParams c gp = map_sum id (\<lambda>(base, limit).
     \<lparr>LS_Base = base, LS_Limit = limit, LS_P13 = flag_Float64 c ''p13'', LS_P31 = flag_Float64 c ''p31'',
      LS_P32 = flag_Float64 c ''p32'', LS_P23 = flag_Float64 c ''p23'', LS_P14 = flag_Float64 c ''p14''\<rparr>)
     (parent_request c gp)"

definition buildLossStateCommand ::
  "'w env \<Rightarrow> 'w client \<Rightarrow> global_params \<Rightarrow> lossStateParams \<Rightarrow> error + 'w command" where
  "buildLossStateCommand en cl gp p = map_sum id (\<lambda>n. netem_Run en (NLossState n))
     (NewLossStateCommand cl gp (LS_Base p) (LS_Limit p) (LS_P13 p) (LS_P31 p) (LS_P32 p) (LS_P23 p) (LS_P14 p))"

definition lossState_spec :: "'w env \<Rightarrow> ('w, lossStateParams) spec" where
  "lossState_spec en = \<lparr>SName = ''loss-state'',
     SFlags = [Float64Flag [''p13''] (Fin 0), Float64Flag [''p31''] (Fin 100), Float64Flag [''p32''] (Fin 0),
               Float64Flag [''p23''] (Fin 100), Float64Flag [''p14''] (Fin 0)],
     RequireArgs = False, Parse = parseLossStateParams, Build = buildLossStateCommand en\<rparr>"

record lossGEParams =
  LG_Base :: netem_request  LG_Limit :: int
  LG_PG :: float64  LG_PB :: float64  LG_OneH :: float64  LG_OneK :: float64

definition parseLossGEParams :: "flags \<Rightarrow> global_params \<Rightarrow> error + lossGEParams" where
  "parseLossGEParams c gp = map_sum id (\<lambda>(base, limit).
     \<lparr>LG_Base = base, LG_Limit = limit, LG_PG = flag_Float64 c ''pg'', LG_PB = flag_Float64 c ''pb'',
      LG_OneH = flag_Float64 c ''one-h'', LG_OneK = flag_Float64 c ''one-k''\<rparr>) (parent_request c gp)"

definition buildLossGECommand ::
  "'w env \<Rightarrow> 'w client \<Rightarrow> global_params \<Rightarrow> lossGEParams \<Rightarrow> error + 'w command" where
  "buildLossGECommand en cl gp p = map_sum id (\<lambda>n. netem_Run en (NLossGE n))
     (NewLossGECommand cl gp (LG_Base p) (LG_Limit p) (LG_PG p) (LG_PB p) (LG_OneH p) (LG_OneK p))"

definition lossGE_spec :: "'w env \<Rightarrow> ('w, lossGEParams) spec" where
  "lossGE_spec en = \<lparr>SName = ''loss-gemodel'',
     SFlags = [Float64Flag [''pg'', ''p''] (Fin 0), Float64Flag [''pb'', ''r''] (Fin 100),
               Float64Flag [''one-h''] (Fin 100), Float64Flag [''one-k''] (Fin 0)],
     RequireArgs = False, Parse = parseLossGEParams, Build = buildLossGECommand en\<rparr>"

record rateParams =
  RA_Base :: netem_request  RA_Limit :: int
  RA_Rate :: string  RA_PacketOverhead :: int  RA_CellSize :: int  RA_CellOverhead :: int

definition parseRateParams :: "flags \<Rightarrow> global_params \<Rightarrow> error + rateParams" where
  "parseRateParams c gp = map_sum id (\<lambda>(base, limit).
     \<lparr>RA_Base = base, RA_Limit = limit, RA_Rate = flag_String c ''rate'',
      RA_PacketOverhead = flag_Int c ''packetoverhead'', RA_CellSize = flag_Int c ''cellsize'',
      RA_CellOverhead = flag_Int c ''celloverhead''\<rparr>) (parent_request c gp)"

definition buildRateCommand :: "'w env \<Rightarrow> 'w client \<Rightarrow> global_params \<Rightarrow> rateParams \<Rightarrow> error + 'w command" where
  "buildRateCommand en cl gp p = map_sum id (\<lambda>n. netem_Run en (NRate n))
     (NewRateCommand cl gp (RA_Base p) (RA_Limit p) (RA_Rate p) (RA_PacketOverhead p) (RA_CellSize p) (RA_CellOverhead p))"

definition rate_spec :: "'w env \<Rightarrow> ('w, rateParams) spec" where
  "rate_spec en = \<lparr>SName = ''rate'',
     SFlags = [StringFlag [''rate'', ''r''] ''100kbit'', IntFlag [''packetoverhead'', ''p''] 0,
               IntFlag [''cellsize'', ''s''] 0, IntFlag [''celloverhead'', ''c''] 0],
     RequireArgs = False, Parse = parseRateParams, Build = buildRateCommand en\<rparr>"

record duplicateParams = UP_Base :: netem_request  UP_Limit :: int  UP_Percent :: float64  UP_Correlation :: float64

definition parseDuplicateParams :: "flags \<Rightarrow> global_params \<Rightarrow> error + duplicateParams" where
  "parseDuplicateParams c gp = map_sum id (\<lambda>(base, limit).
     \<lparr>UP_Base = base, UP_Limit = limit, UP_Percent = flag_Float64 c ''percent'',
      UP_Correlation = flag_Float64 c ''correlation''\<rparr>) (parent_request c gp)"

definition buildDuplicateCommand ::
  "'w env \<Rightarrow> 'w client \<Rightarrow> global_params \<Rightarrow> duplicateParams \<Rightarrow> error + 'w command" where
  "buildDuplicateCommand en cl gp p = map_sum id (\<lambda>n. netem_Run en (NDuplicate n))
     (NewDuplicateCommand cl gp (UP_Base p) (UP_Limit p) (UP_Percent p) (UP_Correlation p))"

definition duplicate_spec :: "'w env \<Rightarrow> ('w, duplicateParams) spec" where
  "duplicate_spec en = \<lparr>SName = ''duplicate'',
     SFlags = [Float64Flag [''percent'', ''p''] (Fin 0), Float64Flag [''correlation'', ''c''] (Fin 0)],
     RequireArgs = False, Parse = parseDuplicateParams, Build = buildDuplicateCommand en\<rparr>"

record corruptParams = CP_Base :: netem_request  CP_Limit :: int  CP_Percent :: float64  CP_Correlation :: float64

definition parseCorruptParams :: "flags \<Rightarrow> global_params \<Rightarrow> error + corruptParams" where
  "parseCorruptParams c gp = map_sum id (\<lambda>(base, limit).
     \<lparr>CP_Base = base, CP_Limit = limit, CP_Percent = flag_Float64 c ''percent'',
      CP_Correlation = flag_Float64 c ''correlation''\<rparr>) (parent_request c gp)"

definition buildCorruptCommand ::
  "'w env \<Rightarrow> 'w client \<Rightarrow> global_params \<Rightarrow> corruptParams \<Rightarrow> error + 'w command" where
  "buildCorruptCommand en cl gp p = map_sum id (\<lambda>n. netem_Run en (NCorrupt n))
     (NewCorruptCommand cl gp (CP_Base p) (CP_Limit p) (CP_Percent p) (CP_Correlation p))"

definition corrupt_spec :: "'w env \<Rightarrow> ('w, corruptParams) spec" where
  "corrupt_spec en = \<lparr>SName = ''corrupt'',
     SFlags = [Float64Flag [''percent'', ''p''] (Fin 0), Float64Flag [''correlation'', ''c''] (Fin 0)],
     RequireArgs = False, Parse = parseCorruptParams, Build = buildCorruptCommand en\<rparr>"

section \<open>iptables (\<open>iptables/cmd\<close>)\<close>

record iptLossParams =
  IP_Base :: request_base  IP_Mode :: string  IP_Probability :: float64  IP_Every :: int  IP_Packet :: int

definition ipt_parseLossParams :: "flags \<Rightarrow> global_params \<Rightarrow> error + iptLossParams" where
  "ipt_parseLossParams c gp = (case flag_Parent c of
     None \<Rightarrow> Inl nil_panic
   | Some p \<Rightarrow> map_sum (ErrWrap ''error parsing iptables parameters: %w'' []) (\<lambda>base.
       \<lparr>IP_Base = base, IP_Mode = flag_String c ''mode'', IP_Probability = flag_Float64 c ''probability'',
        IP_Every = flag_Int c ''every'', IP_Packet = flag_Int c ''packet''\<rparr>) (ipt_ParseRequestBase p gp))"

definition ipt_buildLossCommand :: "'w env \<Rightarrow> 'w client \<Rightarrow> global_params \<Rightarrow> iptLossParams \<Rightarrow> error + 'w command" where
  "ipt_buildLossCommand en cl gp p = map_sum id (ipt_loss_Run en)
     (ipt_NewLossCommand cl gp (IP_Base p) (IP_Mode p) (IP_Probability p) (IP_Every p) (IP_Packet p))"

definition ipt_loss_spec :: "'w env \<Rightarrow> ('w, iptLossParams) spec" where
  "ipt_loss_spec en = \<lparr>SName = ''loss'',
     SFlags = [StringFlag [''mode''] ModeRandom, Float64Flag [''probability''] (Fin 0),
               IntFlag [''every''] 0, IntFlag [''packet''] 0],
     RequireArgs = False, Parse = ipt_parseLossParams, Build = ipt_buildLossCommand en\<rparr>"

section \<open>The command tree (\<open>cmd/commands.go\<close>, \<open>cmd/flags.go\<close>)\<close>

definition nettools_image :: string where
  "nettools_image = ''ghcr.io/alexei-led/pumba-alpine-nettools:latest''"

definition netem_flags :: "cli_flag list" where
  "netem_flags = [DurationFlag [''duration'', ''d''] 0, StringFlag [''interface'', ''i''] ''eth0'',
     StringSliceFlag [''target'', ''t''], StringFlag [''egress-port'', ''egressPort''] '''',
     StringFlag [''ingress-port'', ''ingressPort''] '''', StringFlag [''tc-image''] nettools_image,
     BoolTFlag [''pull-image''], IntFlag [''limit''] 0]"

definition iptables_flags :: "cli_flag list" where
  "iptables_flags = [DurationFlag [''duration'', ''d''] 0, StringFlag [''interface'', ''i''] ''eth0'',
     StringFlag [''protocol'', ''p''] ''any'', StringSliceFlag [''source'', ''src'', ''s''],
     StringSliceFlag [''destination'', ''dest''], StringFlag [''src-port'', ''sport''] '''',
     StringFlag [''dst-port'', ''dport''] '''', StringFlag [''iptables-image''] nettools_image,
     BoolTFlag [''pull-image''], IntFlag [''limit''] 0]"

definition initializeCLICommands :: "'w env \<Rightarrow> ctx \<Rightarrow> 'w client \<Rightarrow> 'w cli_command list" where
  "initializeCLICommands en tc runtime =
     [NewAction tc runtime (kill_spec en), NewAction tc runtime (exec_spec en),
      NewAction tc runtime (restart_spec en), NewAction tc runtime (stop_spec en),
      NewAction tc runtime (pause_spec en), NewAction tc runtime (remove_spec en),
      NewAction tc runtime (stress_spec en),
      Group ''netem'' netem_flags
        [NewAction tc runtime (delay_spec en), NewAction tc runtime (loss_spec en),
         NewAction tc runtime (lossState_spec en), NewAction tc runtime (lossGE_spec en),
         NewAction tc runtime (rate_spec en), NewAction tc runtime (duplicate_spec en),
         NewAction tc runtime (corrupt_spec en)],
      Group ''iptables'' iptables_flags [NewAction tc runtime (ipt_loss_spec en)]]"

text \<open>The global flags, each with the environment variable that may set it.\<close>

definition globalFlags :: "string \<Rightarrow> (cli_flag \<times> string) list" where
  "globalFlags rootCertPath =
     [(StringFlag [''host'', ''H''] ''unix:///var/run/docker.sock'', ''DOCKER_HOST''),
      (StringFlag [''runtime''] ''docker'', ''''),
      (StringFlag [''containerd-socket''] ''/run/containerd/containerd.sock'', ''''),
      (StringFlag [''containerd-namespace''] ''k8s.io'', ''''),
      (StringFlag [''podman-socket''] '''', ''''),
      (BoolFlag [''tls''], ''''), (BoolFlag [''tlsverify''], ''DOCKER_TLS_VERIFY''),
      (StringFlag [''tlscacert''] (rootCertPath @ ''/ca.pem''), ''''),
      (StringFlag [''tlscert''] (rootCertPath @ ''/cert.pem''), ''''),
      (StringFlag [''tlskey''] (rootCertPath @ ''/key.pem''), ''''),
      (StringFlag [''log-level'', ''l''] ''warning'', ''LOG_LEVEL''),
      (BoolFlag [''json'', ''j''], ''LOG_JSON''), (StringFlag [''slackhook''] '''', ''''),
      (StringFlag [''slackchannel''] ''#pumba'', ''''), (DurationFlag [''interval'', ''i''] 0, ''''),
      (StringSliceFlag [''label''], ''''), (BoolFlag [''random'', ''r''], ''''),
      (BoolFlag [''dry-run''], ''DRY-RUN''), (BoolFlag [''skip-error''], '''')]"

section \<open>Facts: dry runs\<close>

text \<open>The actions of a command and of its subcommands.\<close>

primrec actions_of :: "'w cli_command \<Rightarrow> (flags \<Rightarrow> wakeup list \<Rightarrow> ('w, loop_result) state) list" where
  "actions_of (Leaf n fs a) = [a]"
| "actions_of (Group n fs cs) = concat (map actions_of cs)"

context effect_order
begin

lemma chaos_loop_confined:
  "(\<And>c random. confined R (run c random)) \<Longrightarrow> confined R (chaos_loop run params c wakeups)"
proof (induction wakeups)
  case Nil
  then show ?case by (subst chaos_loop.simps) (auto intro!: confined_intros)
next
  case (Cons wk rest)
  then show ?case
    by (subst chaos_loop.simps) (auto intro!: confined_bind confined_return split: wakeup.splits)
qed

lemma RunChaosCommand_confined:
  "(\<And>c random. confined R (run c random)) \<Longrightarrow> confined R (RunChaosCommand tc run params wakeups)"
  unfolding RunChaosCommand_def by (intro confined_intros chaos_loop_confined)

lemma NewAction_confined:
  assumes "\<And>p cmd c random. Parse sp f (ParseGlobalParams f) = Inr p \<Longrightarrow>
    Build sp cl (ParseGlobalParams f) p = Inr cmd \<Longrightarrow> confined R (cmd c random)"
  shows "confined R (NewAction_Action tc cl sp f wakeups)"
  unfolding NewAction_Action_def Let_def
  by (intro confined_if confined_return confined_case_sum confined_bind RunChaosCommand_confined) (rule assms)

end

lemma parent_request_dry:
  "parent_request c gp = Inr (req, limit) \<Longrightarrow> NDryRun req = DryRun gp"
proof -
  assume "parent_request c gp = Inr (req, limit)"
  then obtain p where "ParseRequestBase p gp = Inr (req, limit)"
    by (cases "flag_Parent c"; cases "ParseRequestBase (the (flag_Parent c)) gp") (auto simp: parent_request_def)
  then show ?thesis by (simp add: ParseRequestBase_iff)
qed

lemma ipt_ParseRequestBase_dry: "ipt_ParseRequestBase c gp = Inr b \<Longrightarrow> IDryRun (Request b) = DryRun gp"
  by (auto simp: ipt_ParseRequestBase_def Let_def split: if_splits option.splits sum.splits)

context targeted_client
begin

lemma kill_spec_confined:
  "Build (kill_spec en) cl gp p = Inr cmd \<Longrightarrow> ok (DryRun gp) \<Longrightarrow>
    (\<And>x. accepts (regexp_MatchString en) (GNames gp) (GPattern gp) x \<Longrightarrow> sel x) \<Longrightarrow> confined R (cmd c random)"
  by (auto simp: kill_spec_def buildKillCommand_def map_sum_Inr NewKillCommand_def Let_def
      split: if_splits intro!: kill_Run_confined)

lemma exec_spec_confined:
  "Build (exec_spec en) cl gp p = Inr cmd \<Longrightarrow> ok (DryRun gp) \<Longrightarrow>
    (\<And>x. accepts (regexp_MatchString en) (GNames gp) (GPattern gp) x \<Longrightarrow> sel x) \<Longrightarrow> confined R (cmd c random)"
  by (auto simp: exec_spec_def buildExecCommand_def NewExecCommand_def intro!: exec_Run_confined)

lemma restart_spec_confined:
  "Build (restart_spec en) cl gp p = Inr cmd \<Longrightarrow> ok (DryRun gp) \<Longrightarrow>
    (\<And>x. accepts (regexp_MatchString en) (GNames gp) (GPattern gp) x \<Longrightarrow> sel x) \<Longrightarrow> confined R (cmd c random)"
  by (auto simp: restart_spec_def buildRestartCommand_def NewRestartCommand_def intro!: restart_Run_confined)

lemma stop_spec_confined:
  "Build (stop_spec en) cl gp p = Inr cmd \<Longrightarrow> ok (DryRun gp) \<Longrightarrow>
    (\<And>x. accepts (regexp_MatchString en) (GNames gp) (GPattern gp) x \<Longrightarrow> sel x) \<Longrightarrow> confined R (cmd c random)"
  by (auto simp: stop_spec_def buildStopCommand_def NewStopCommand_def Let_def intro!: stop_Run_confined)

lemma pause_spec_confined:
  "Build (pause_spec en) cl gp p = Inr cmd \<Longrightarrow> ok (DryRun gp) \<Longrightarrow>
    (\<And>x. accepts (regexp_MatchString en) (GNames gp) (GPattern gp) x \<Longrightarrow> sel x) \<Longrightarrow> confined R (cmd c random)"
  by (auto simp: pause_spec_def buildPauseCommand_def NewPauseCommand_def intro!: pause_Run_confined)

lemma remove_spec_confined:
  "Build (remove_spec en) cl gp p = Inr cmd \<Longrightarrow> ok (DryRun gp) \<Longrightarrow>
    (\<And>x. accepts (regexp_MatchString en) (GNames gp) (GPattern gp) x \<Longrightarrow> sel x) \<Longrightarrow> confined R (cmd c random)"
  by (auto simp: remove_spec_def buildRemoveCommand_def NewRemoveCommand_def intro!: remove_Run_confined)

lemma stress_spec_confined:
  "Build (stress_spec en) cl gp p = Inr cmd \<Longrightarrow> ok (DryRun gp) \<Longrightarrow>
    (\<And>x. accepts (regexp_MatchString en) (GNames gp) (GPattern gp) x \<Longrightarrow> sel x) \<Longrightarrow> confined R (cmd c random)"
  by (auto simp: stress_spec_def buildStressCommand_def NewStressCommand_def intro!: stress_Run_confined)

lemma delay_spec_confined:
  "Parse (delay_spec en) f gp = Inr p \<Longrightarrow> Build (delay_spec en) cl gp p = Inr cmd \<Longrightarrow> ok (DryRun gp) \<Longrightarrow>
    (\<And>x. accepts (regexp_MatchString en) (GNames gp) (GPattern gp) x \<Longrightarrow> sel x) \<Longrightarrow> confined R (cmd c random)"
  by (auto simp: delay_spec_def parseDelayParams_def buildDelayCommand_def map_sum_Inr New_delay_Inr
      intro!: netem_Run_confined [where n = "NDelay _", unfolded netem_Run.simps] dest!: parent_request_dry)

lemma loss_spec_confined:
  "Parse (loss_spec en) f gp = Inr p \<Longrightarrow> Build (loss_spec en) cl gp p = Inr cmd \<Longrightarrow> ok (DryRun gp) \<Longrightarrow>
    (\<And>x. accepts (regexp_MatchString en) (GNames gp) (GPattern gp) x \<Longrightarrow> sel x) \<Longrightarrow> confined R (cmd c random)"
  by (auto simp: loss_spec_def parseLossParams_def buildLossCommand_def map_sum_Inr New_loss_Inr
      intro!: netem_Run_confined [where n = "NLoss _", unfolded netem_Run.simps] dest!: parent_request_dry)

lemma lossState_spec_confined:
  "Parse (lossState_spec en) f gp = Inr p \<Longrightarrow> Build (lossState_spec en) cl gp p = Inr cmd \<Longrightarrow> ok (DryRun gp) \<Longrightarrow>
    (\<And>x. accepts (regexp_MatchString en) (GNames gp) (GPattern gp) x \<Longrightarrow> sel x) \<Longrightarrow> confined R (cmd c random)"
  by (auto simp: lossState_spec_def parseLossStateParams_def buildLossStateCommand_def map_sum_Inr New_lossState_Inr
      intro!: netem_Run_confined [where n = "NLossState _", unfolded netem_Run.simps] dest!: parent_request_dry)

lemma lossGE_spec_confined:
  "Parse (lossGE_spec en) f gp = Inr p \<Longrightarrow> Build (lossGE_spec en) cl gp p = Inr cmd \<Longrightarrow> ok (DryRun gp) \<Longrightarrow>
    (\<And>x. accepts (regexp_MatchString en) (GNames gp) (GPattern gp) x \<Longrightarrow> sel x) \<Longrightarrow> confined R (cmd c random)"
  by (auto simp: lossGE_spec_def parseLossGEParams_def buildLossGECommand_def map_sum_Inr New_lossGE_Inr
      intro!: netem_Run_confined [where n = "NLossGE _", unfolded netem_Run.simps] dest!: parent_request_dry)

lemma rate_spec_confined:
  "Parse (rate_spec en) f gp = Inr p \<Longrightarrow> Build (rate_spec en) cl gp p = Inr cmd \<Longrightarrow> ok (DryRun gp) \<Longrightarrow>
    (\<And>x. accepts (regexp_MatchString en) (GNames gp) (GPattern gp) x \<Longrightarrow> sel x) \<Longrightarrow> confined R (cmd c random)"
  by (auto simp: rate_spec_def parseRateParams_def buildRateCommand_def map_sum_Inr New_rate_Inr
      intro!: netem_Run_confined [where n = "NRate _", unfolded netem_Run.simps] dest!: parent_request_dry)

lemma duplicate_spec_confined:
  "Parse (duplicate_spec en) f gp = Inr p \<Longrightarrow> Build (duplicate_spec en) cl gp p = Inr cmd \<Longrightarrow> ok (DryRun gp) \<Longrightarrow>
    (\<And>x. accepts (regexp_MatchString en) (GNames gp) (GPattern gp) x \<Longrightarrow> sel x) \<Longrightarrow> confined R (cmd c random)"
  by (auto simp: duplicate_spec_def parseDuplicateParams_def buildDuplicateCommand_def map_sum_Inr New_duplicate_Inr
      intro!: netem_Run_confined [where n = "NDuplicate _", unfolded netem_Run.simps] dest!: parent_request_dry)

lemma corrupt_spec_confined:
  "Parse (corrupt_spec en) f gp = Inr p \<Longrightarrow> Build (corrupt_spec en) cl gp p = Inr cmd \<Longrightarrow> ok (DryRun gp) \<Longrightarrow>
    (\<And>x. accepts (regexp_MatchString en) (GNames gp) (GPattern gp) x \<Longrightarrow> sel x) \<Longrightarrow> confined R (cmd c random)"
  by (auto simp: corrupt_spec_def parseCorruptParams_def buildCorruptCommand_def map_sum_Inr New_corrupt_Inr
      intro!: netem_Run_confined [where n = "NCorrupt _", unfolded netem_Run.simps] dest!: parent_request_dry)

lemma ipt_loss_spec_confined:
  "Parse (ipt_loss_spec en) f gp = Inr p \<Longrightarrow> Build (ipt_loss_spec en) cl gp p = Inr cmd \<Longrightarrow> ok (DryRun gp) \<Longrightarrow>
    (\<And>x. accepts (regexp_MatchString en) (GNames gp) (GPattern gp) x \<Longrightarrow> sel x) \<Longrightarrow> confined R (cmd c random)"
  by (auto simp: ipt_loss_spec_def ipt_parseLossParams_def ipt_buildLossCommand_def map_sum_Inr
      ipt_NewLossCommand_Inr intro!: ipt_loss_Run_confined dest!: ipt_ParseRequestBase_dry split: option.splits)

lemma cli_confined:
  assumes "cmd \<in> set (initializeCLICommands en tc cl)" and "act \<in> set (actions_of cmd)"
    and "ok (flag_Bool (flag_Global f) ''dry-run'')"
    and sel: "\<And>x. accepts (regexp_MatchString en) (fst (getNamesOrPattern f)) (snd (getNamesOrPattern f)) x \<Longrightarrow> sel x"
  shows "confined R (act f wakeups)"
proof -
  have dry: "ok (DryRun (ParseGlobalParams f))"
    using assms(3) by (simp add: ParseGlobalParams_def Let_def split: prod.splits)
  have on: "accepts (regexp_MatchString en) (GNames (ParseGlobalParams f)) (GPattern (ParseGlobalParams f)) x \<Longrightarrow> sel x" for x
    using sel by (simp add: ParseGlobalParams_def Let_def split: prod.splits)
  from assms(1,2) show ?thesis
    unfolding initializeCLICommands_def NewAction_def
    by (auto intro!: NewAction_confined
        elim: kill_spec_confined [OF _ dry on] exec_spec_confined [OF _ dry on] restart_spec_confined [OF _ dry on]
          stop_spec_confined [OF _ dry on] pause_spec_confined [OF _ dry on] remove_spec_confined [OF _ dry on]
          stress_spec_confined [OF _ dry on] delay_spec_confined [OF _ _ dry on] loss_spec_confined [OF _ _ dry on]
          lossState_spec_confined [OF _ _ dry on] lossGE_spec_confined [OF _ _ dry on] rate_spec_confined [OF _ _ dry on]
          duplicate_spec_confined [OF _ _ dry on] corrupt_spec_confined [OF _ _ dry on] ipt_loss_spec_confined [OF _ _ dry on])
qed

end

context ordered_client
begin

lemma cli_confined:
  "cmd \<in> set (initializeCLICommands en tc cl) \<Longrightarrow> act \<in> set (actions_of cmd) \<Longrightarrow>
    ok (flag_Bool (flag_Global f) ''dry-run'') \<Longrightarrow> confined R (act f wakeups)"
  by (erule (2) aimed.cli_confined) simp

end

section \<open>Facts: declared flags\<close>

text \<open>Two contexts that answer alike for a name, whatever the method it is read with.\<close>

definition same_flag :: "flags \<Rightarrow> flags \<Rightarrow> string \<Rightarrow> bool" where
  "same_flag f g name \<longleftrightarrow> flag_String f name = flag_String g name \<and> flag_Bool f name = flag_Bool g name \<and>
     flag_BoolT f name = flag_BoolT g name \<and> flag_Duration f name = flag_Duration g name \<and>
     flag_Int f name = flag_Int g name \<and> flag_Float64 f name = flag_Float64 g name \<and>
     flag_StringSlice f name = flag_StringSlice g name"

definition same_flags :: "cli_flag list \<Rightarrow> flags \<Rightarrow> flags \<Rightarrow> bool" where
  "same_flags fs f g \<longleftrightarrow> list_all (same_flag f g) (concat (map flag_names fs))"

text \<open>
  \<open>reads_declared ps sp\<close>: what the parser of \<open>sp\<close> returns depends on nothing but the flags that the
  command declares, the flags \<open>ps\<close> that its parent command declares, and the global parameters.
\<close>

definition reads_declared :: "cli_flag list \<Rightarrow> ('w, 'p) spec \<Rightarrow> bool" where
  "reads_declared ps sp \<longleftrightarrow> (\<forall>f g pf pg gp. flag_Parent f = Some pf \<longrightarrow> flag_Parent g = Some pg \<longrightarrow>
     same_flags (SFlags sp) f g \<longrightarrow> same_flags ps pf pg \<longrightarrow> Parse sp f gp = Parse sp g gp)"

lemma same_flagsE:
  assumes "same_flags fs f g" and "name \<in> set (concat (map flag_names fs))"
  shows "flag_String f name = flag_String g name" "flag_Bool f name = flag_Bool g name"
    "flag_BoolT f name = flag_BoolT g name" "flag_Duration f name = flag_Duration g name"
    "flag_Int f name = flag_Int g name" "flag_Float64 f name = flag_Float64 g name"
    "flag_StringSlice f name = flag_StringSlice g name"
proof -
  have "same_flag f g name" using assms unfolding same_flags_def list_all_iff by blast
  then show "flag_String f name = flag_String g name" "flag_Bool f name = flag_Bool g name"
    "flag_BoolT f name = flag_BoolT g name" "flag_Duration f name = flag_Duration g name"
    "flag_Int f name = flag_Int g name" "flag_Float64 f name = flag_Float64 g name"
    "flag_StringSlice f name = flag_StringSlice g name" by (simp_all add: same_flag_def)
qed

lemma reads_declaredI:
  assumes "\<And>f g pf pg gp. flag_Parent f = Some pf \<Longrightarrow> flag_Parent g = Some pg \<Longrightarrow> same_flags ps pf pg \<Longrightarrow>
     (\<And>name. name \<in> set (concat (map flag_names (SFlags sp))) \<Longrightarrow>
        flag_String f name = flag_String g name \<and> flag_Bool f name = flag_Bool g name \<and>
        flag_BoolT f name = flag_BoolT g name \<and> flag_Duration f name = flag_Duration g name \<and>
        flag_Int f name = flag_Int g name \<and> flag_Float64 f name = flag_Float64 g name \<and>
        flag_StringSlice f name = flag_StringSlice g name) \<Longrightarrow> Parse sp f gp = Parse sp g gp"
  shows "reads_declared ps sp"
  unfolding reads_declared_def by (intro allI impI assms) (simp_all add: same_flagsE)

lemma ParseRequestBase_declared:
  "same_flags netem_flags pf pg \<Longrightarrow> ParseRequestBase pf gp = ParseRequestBase pg gp"
proof -
  assume s: "same_flags netem_flags pf pg"
  have eqs: "flag_Duration pf ''duration'' = flag_Duration pg ''duration''"
    "flag_String pf ''interface'' = flag_String pg ''interface''"
    "flag_StringSlice pf ''target'' = flag_StringSlice pg ''target''"
    "flag_String pf ''egress-port'' = flag_String pg ''egress-port''"
    "flag_String pf ''ingress-port'' = flag_String pg ''ingress-port''"
    "flag_String pf ''tc-image'' = flag_String pg ''tc-image''"
    "flag_Bool pf ''pull-image'' = flag_Bool pg ''pull-image''"
    "flag_Int pf ''limit'' = flag_Int pg ''limit''"
    by (rule same_flagsE [OF s], simp add: netem_flags_def)+
  show ?thesis by (simp only: ParseRequestBase_def eqs)
qed

lemma parent_request_declared:
  "flag_Parent f = Some pf \<Longrightarrow> flag_Parent g = Some pg \<Longrightarrow> same_flags netem_flags pf pg \<Longrightarrow>
    parent_request f = parent_request g"
  by (simp add: fun_eq_iff parent_request_def ParseRequestBase_declared)

lemma ipt_ParseRequestBase_declared:
  "same_flags iptables_flags pf pg \<Longrightarrow> ipt_ParseRequestBase pf = ipt_ParseRequestBase pg"
proof -
  assume s: "same_flags iptables_flags pf pg"
  have eqs: "flag_Duration pf ''duration'' = flag_Duration pg ''duration''"
    "flag_String pf ''interface'' = flag_String pg ''interface''"
    "flag_String pf ''protocol'' = flag_String pg ''protocol''"
    "flag_StringSlice pf ''source'' = flag_StringSlice pg ''source''"
    "flag_StringSlice pf ''destination'' = flag_StringSlice pg ''destination''"
    "flag_String pf ''src-port'' = flag_String pg ''src-port''"
    "flag_String pf ''dst-port'' = flag_String pg ''dst-port''"
    "flag_String pf ''iptables-image'' = flag_String pg ''iptables-image''"
    "flag_Bool pf ''pull-image'' = flag_Bool pg ''pull-image''"
    "flag_Int pf ''limit'' = flag_Int pg ''limit''"
    by (rule same_flagsE [OF s], simp add: iptables_flags_def)+
  show ?thesis by (simp only: fun_eq_iff ipt_ParseRequestBase_def eqs) simp
qed

lemma lifecycle_reads_declared:
  "reads_declared ps (kill_spec en)" "reads_declared ps (exec_spec en)" "reads_declared ps (restart_spec en)"
  "reads_declared ps (stop_spec en)" "reads_declared ps (pause_spec en)" "reads_declared ps (remove_spec en)"
  by (rule reads_declaredI, simp add: Let_def kill_spec_def parseKillParams_def
      exec_spec_def parseExecParams_def restart_spec_def parseRestartParams_def stop_spec_def parseStopParams_def
      pause_spec_def parsePauseParams_def remove_spec_def parseRemoveParams_def cong: if_cong)+

lemma netem_reads_declared:
  "reads_declared netem_flags (delay_spec en)" "reads_declared netem_flags (loss_spec en)"
  "reads_declared netem_flags (lossState_spec en)" "reads_declared netem_flags (lossGE_spec en)"
  "reads_declared netem_flags (rate_spec en)" "reads_declared netem_flags (duplicate_spec en)"
  "reads_declared netem_flags (corrupt_spec en)"
  by (rule reads_declaredI, drule (2) parent_request_declared, simp add: delay_spec_def parseDelayParams_def loss_spec_def parseLossParams_def
      lossState_spec_def parseLossStateParams_def lossGE_spec_def parseLossGEParams_def rate_spec_def parseRateParams_def
      duplicate_spec_def parseDuplicateParams_def corrupt_spec_def parseCorruptParams_def)+

lemma iptables_reads_declared: "reads_declared iptables_flags (ipt_loss_spec en)"
  by (rule reads_declaredI, drule ipt_ParseRequestBase_declared,
      simp add: ipt_loss_spec_def ipt_parseLossParams_def)

text \<open>A context that answers one integer for every name.\<close>

definition int_context :: "int \<Rightarrow> flags" where
  "int_context n = CliCtx \<lparr>val_String = (\<lambda>_. ''''), val_Bool = (\<lambda>_. False), val_BoolT = (\<lambda>_. False),
     val_Duration = (\<lambda>_. 1), val_Int = (\<lambda>name. if name = ''limit'' then n else 0), val_Float64 = (\<lambda>_. Fin 0),
     val_StringSlice = (\<lambda>_. [])\<rparr> []
     (Some (CliCtx \<lparr>val_String = (\<lambda>_. ''''), val_Bool = (\<lambda>_. False), val_BoolT = (\<lambda>_. False),
       val_Duration = (\<lambda>_. 1), val_Int = (\<lambda>_. 0), val_Float64 = (\<lambda>_. Fin 0), val_StringSlice = (\<lambda>_. [])\<rparr> [] None))"

lemma stress_reads_undeclared: "\<not> reads_declared ps (stress_spec en)"
proof
  assume "reads_declared ps (stress_spec en)"
  moreover have "same_flags (SFlags (stress_spec en)) (int_context 1) (int_context 2)"
    by (simp add: same_flags_def same_flag_def stress_spec_def int_context_def flag_String_def flag_Bool_def
        flag_BoolT_def flag_Duration_def flag_Int_def flag_Float64_def flag_StringSlice_def)
  moreover obtain pf where "flag_Parent (int_context n) = Some pf" for n
    by (simp add: int_context_def flag_Parent_def)
  moreover have "same_flags ps pf pf" for pf
    by (simp add: same_flags_def same_flag_def list_all_iff)
  ultimately have "Parse (stress_spec en) (int_context 1) gp = Parse (stress_spec en) (int_context 2) gp" for gp
    unfolding reads_declared_def by blast
  then show False
    by (simp add: stress_spec_def parseStressParams_def int_context_def flag_Int_def flag_Duration_def
        flag_String_def flag_Bool_def flag_BoolT_def)
qed

section \<open>Properties\<close>

text \<open>C40: The parser of every command depends only on flags that the command or its parent command
  declares, with one exception: the stress command reads \<open>limit\<close>, which nobody declares for it, so
  that \<open>--limit\<close> cannot be given and every matching container is stressed.\<close>

theorem parsers_read_declared_flags:
  "reads_declared [] (kill_spec en) \<and> reads_declared [] (exec_spec en) \<and> reads_declared [] (restart_spec en) \<and>
   reads_declared [] (stop_spec en) \<and> reads_declared [] (pause_spec en) \<and> reads_declared [] (remove_spec en) \<and>
   reads_declared netem_flags (delay_spec en) \<and> reads_declared netem_flags (loss_spec en) \<and>
   reads_declared netem_flags (lossState_spec en) \<and> reads_declared netem_flags (lossGE_spec en) \<and>
   reads_declared netem_flags (rate_spec en) \<and> reads_declared netem_flags (duplicate_spec en) \<and>
   reads_declared netem_flags (corrupt_spec en) \<and> reads_declared iptables_flags (ipt_loss_spec en) \<and>
   \<not> reads_declared [] (stress_spec en)"
  by (simp add: lifecycle_reads_declared netem_reads_declared iptables_reads_declared stress_reads_undeclared)

end
