(* ===== verification/GoTime.thy ===== *)
theory GoTime
  imports GoStrings "HOL-Library.Log_Nat"
begin

text \<open>
  \<open>time.Duration.Seconds\<close> and the conversions the runtimes make of its \<open>float64\<close> result, with the
  rounding of IEEE 754 double precision written out: \<open>fl\<close> rounds a rational to 53 significant bits,
  ties to even.
\<close>

definition exponent2 :: "rat \<Rightarrow> int" where
  "exponent2 x =
     (if 1 \<le> \<bar>x\<bar> then int (floorlog 2 (nat \<lfloor>\<bar>x\<bar>\<rfloor>)) - 1
      else let k = int (floorlog 2 (nat \<lfloor>1 / \<bar>x\<bar>\<rfloor>)) - 1 in
        if \<bar>x\<bar> * 2 ^ nat k = 1 then - k else - (k + 1))"

definition scale2 :: "int \<Rightarrow> rat \<Rightarrow> rat" where
  "scale2 s x = (if 0 \<le> s then x * 2 ^ nat s else x / 2 ^ nat (- s))"

definition fl :: "rat \<Rightarrow> rat" where
  "fl x = (if x = 0 then 0 else let s = 52 - exponent2 x in
     scale2 (- s) (of_int (round_half_even (scale2 s x))))"

text \<open>Go's \<open>%\<close> has the sign of the dividend.\<close>

definition remainder :: "int \<Rightarrow> int \<Rightarrow> int" where
  "remainder a b = a - quot a b * b"

definition Seconds :: "duration \<Rightarrow> rat" where
  "Seconds d = fl (of_int (quot d second) + fl (of_int (remainder d second) / 1000000000))"

text \<open>\<open>int(d.Seconds())\<close> truncates towards zero.\<close>

definition truncate :: "rat \<Rightarrow> int" where
  "truncate x = (if x < 0 then - \<lfloor>- x\<rfloor> else \<lfloor>x\<rfloor>)"

definition int_Seconds :: "duration \<Rightarrow> int" where
  "int_Seconds d = truncate (Seconds d)"

definition ceil_Seconds :: "duration \<Rightarrow> int" where
  "ceil_Seconds d = \<lceil>Seconds d\<rceil>"

lemma round_half_even_of_int [simp]: "round_half_even (of_int n) = n"
  by (simp add: round_half_even_def)

lemma scale2_inverse [simp]: "scale2 (- s) (scale2 s x) = x"
  by (auto simp: scale2_def)

text \<open>Every integer below \<open>2 ^ 53\<close> is a \<open>float64\<close>.\<close>

lemma fl_of_int:
  assumes "\<bar>n\<bar> < 2 ^ 53" shows "fl (of_int n) = of_int n"
proof (cases "n = 0")
  case False
  then have "1 \<le> \<bar>n\<bar>" by simp
  then have "exponent2 (of_int n) = int (floorlog 2 (nat \<bar>n\<bar>)) - 1"
    by (simp add: exponent2_def flip: of_int_abs)
  moreover have "floorlog 2 (nat \<bar>n\<bar>) \<le> 53" using assms by (intro floorlog_leI) (simp_all add: nat_less_iff)
  ultimately have s: "0 \<le> 52 - exponent2 (of_int n)" by simp
  then have "scale2 (52 - exponent2 (of_int n)) (of_int n) = of_int (n * 2 ^ nat (52 - exponent2 (of_int n)))"
    by (simp add: scale2_def)
  then have "of_int (round_half_even (scale2 (52 - exponent2 (of_int n)) (of_int n))) =
      scale2 (52 - exponent2 (of_int n)) (of_int n)" by (simp only: round_half_even_of_int)
  with False show ?thesis unfolding fl_def Let_def by (simp only: scale2_inverse) simp
qed (simp add: fl_def)

lemma quot_mult [simp]: "b > 0 \<Longrightarrow> quot (n * b) b = n"
  by (simp add: quot_def abs_mult sgn_mult sgn_mult_abs)

lemma Seconds_whole:
  assumes "\<bar>n\<bar> < 2 ^ 53" shows "Seconds (n * second) = of_int n"
proof -
  have q: "quot (n * second) second = n" by (simp add: second_def)
  have "fl (of_int (remainder (n * second) second) / 1000000000) = 0"
    unfolding remainder_def q by (simp add: fl_def)
  then show ?thesis unfolding Seconds_def q by (simp add: fl_of_int [OF assms] del: numeral_power_eq_of_int_cancel_iff)
qed

lemma int_Seconds_whole [simp]: "\<bar>n\<bar> < 2 ^ 53 \<Longrightarrow> int_Seconds (n * second) = n"
  by (simp add: int_Seconds_def Seconds_whole truncate_def)

lemma ceil_Seconds_whole [simp]: "\<bar>n\<bar> < 2 ^ 53 \<Longrightarrow> ceil_Seconds (n * second) = n"
  by (simp add: ceil_Seconds_def Seconds_whole)

end
