(* ===== verification/DockerApi.thy ===== *)
theory DockerApi
  imports Client GoTime
begin

text \<open>
  The Docker SDK as \<open>pkg/runtime/docker\<close> (and through it \<open>pkg/runtime/podman\<close>) calls it. The SDK and
  the daemon are not part of the repository: \<open>docker_api\<close> is a parameter of the model, one oracle per
  method, which reads the calls made before. The world of a Docker client is the list of the calls
  made so far; \<open>docker_effect\<close> marks the calls that change something on the host.
\<close>

section \<open>Calls and answers of the SDK\<close>

record exec_options =
  XUser :: string
  XPrivileged :: bool
  XCmd :: "string list"

text \<open>What the code sets of \<open>container.Config\<close> and \<open>container.HostConfig\<close>; the other fields are zero.\<close>

record container_config =
  CfgLabels :: "(string \<times> string) list"
  CfgImage :: string
  CfgEntrypoint :: "string list"
  CfgCmd :: "string list"
  CfgStopSignal :: string

record host_config =
  AutoRemove :: bool
  CapAdd :: "string list"
  NetworkMode :: string
  CgroupnsMode :: string
  Binds :: "string list"
  CgroupParent :: string
  SecurityOpt :: "string list"

datatype docker_call =
    DList ctx bool "string list"
  | DInspect ctx string
  | DImageInspect ctx string
  | DKill ctx string string
  | DRestart ctx string int
  | DStop ctx string int
  | DStart ctx string
  | DRemove ctx string bool bool bool \<comment> \<open>force, links, volumes\<close>
  | DPause ctx string
  | DUnpause ctx string
  | DExecCreate ctx string exec_options
  | DExecAttach ctx string
  | DExecRead string
  | DExecInspect ctx string
  | DCreate ctx container_config host_config
  | DAttach ctx string
  | DAttachRead string
  | DPull ctx string
  | DInfo ctx
  | DClose

fun docker_effect :: "docker_call \<Rightarrow> bool" where
  "docker_effect (DList c a ls) = False"
| "docker_effect (DInspect c i) = False"
| "docker_effect (DImageInspect c i) = False"
| "docker_effect (DExecRead i) = False"
| "docker_effect (DExecInspect c i) = False"
| "docker_effect (DAttachRead i) = False"
| "docker_effect (DInfo c) = False"
| "docker_effect DClose = False"
| "docker_effect _ = True"

text \<open>
  The parts of an inspect response that the code reads. \<open>None\<close> is a nil pointer (\<open>ContainerJSONBase\<close>,
  \<open>State\<close>, \<open>HostConfig\<close>, \<open>Config\<close>, \<open>NetworkSettings\<close>) or a nil map (\<open>Labels\<close>).
\<close>

record inspect_state =
  Running :: bool
  Pid :: int
  Status :: string
  Dead :: bool
  ExitCode :: int

record inspect_base =
  BaseID :: string
  BaseName :: string
  BaseImage :: string
  BaseState :: "inspect_state option"
  BaseCgroupParent :: "string option"

record inspect_response =
  Base :: "inspect_base option"
  ConfigLabels :: "(string \<times> string) list option option"
  NetworkLinks :: "(string \<times> string list) list option"

text \<open>The parts of the daemon's \<open>/info\<close> that the code reads.\<close>

record system_info =
  CgroupDriver :: string
  SecurityOptions :: "string list"

text \<open>The progress stream of an image pull: what \<open>Decode\<close> reads, and how the stream ends.\<close>

record pull_message =
  PullStatus :: string
  PullError :: string

record pull_stream =
  Messages :: "pull_message list"
  StreamEnd :: error \<comment> \<open>the error of the \<open>Decode\<close> that ends the stream, \<open>io.EOF\<close> at its end\<close>

text \<open>Which branch the \<open>select\<close> of \<open>waitForStop\<close> takes.\<close>

datatype wait_event = WaitTimeout | WaitDone | WaitPoll

record docker_api =
  ContainerList :: "docker_call list \<Rightarrow> ctx \<Rightarrow> bool \<Rightarrow> string list \<Rightarrow> error + string list"
  ContainerInspect :: "docker_call list \<Rightarrow> ctx \<Rightarrow> string \<Rightarrow> error + inspect_response"
  ImageInspect :: "docker_call list \<Rightarrow> ctx \<Rightarrow> string \<Rightarrow> string \<times> error option"
  ContainerAct :: "docker_call list \<Rightarrow> docker_call \<Rightarrow> error option"
  ContainerExecCreate :: "docker_call list \<Rightarrow> ctx \<Rightarrow> string \<Rightarrow> exec_options \<Rightarrow> error + string"
  ContainerExecAttach :: "docker_call list \<Rightarrow> ctx \<Rightarrow> string \<Rightarrow> error option"
  ReadAttached :: "docker_call list \<Rightarrow> string \<Rightarrow> error + string"
  ContainerExecInspect :: "docker_call list \<Rightarrow> ctx \<Rightarrow> string \<Rightarrow> error + int"
  ContainerCreate :: "docker_call list \<Rightarrow> ctx \<Rightarrow> container_config \<Rightarrow> host_config \<Rightarrow> error + string"
  ImagePull :: "docker_call list \<Rightarrow> ctx \<Rightarrow> string \<Rightarrow> error + pull_stream"
  Info :: "docker_call list \<Rightarrow> ctx \<Rightarrow> error + system_info"
  wait_select :: "docker_call list \<Rightarrow> ctx \<Rightarrow> wait_event"
  cerrdefs_IsNotFound :: "error \<Rightarrow> bool"
  cerrdefs_IsDeadlineExceeded :: "error \<Rightarrow> bool"

text \<open>The methods that answer only an error share one oracle and are told apart by the call.\<close>

definition docker_act :: "docker_api \<Rightarrow> docker_call \<Rightarrow> (docker_call list, error option) state" where
  "docker_act api k = sdk_call k (\<lambda>tr. ContainerAct api tr k)"

lemma run_docker_act [simp]: "run_state (docker_act api k) tr = (ContainerAct api tr k, tr @ [k])"
  by (simp add: docker_act_def)

lemma emits_docker_act: "P k \<Longrightarrow> emits P (docker_act api k)"
  by (simp add: docker_act_def emits_sdk_call)

definition inspect_container ::
  "docker_api \<Rightarrow> ctx \<Rightarrow> string \<Rightarrow> (docker_call list, error + inspect_response) state" where
  "inspect_container api c i = sdk_call (DInspect c i) (\<lambda>tr. ContainerInspect api tr c i)"

lemma run_inspect_container [simp]:
  "run_state (inspect_container api c i) tr = (ContainerInspect api tr c i, tr @ [DInspect c i])"
  by (simp add: inspect_container_def)

lemma emits_inspect_container: "P (DInspect c i) \<Longrightarrow> emits P (inspect_container api c i)"
  by (simp add: inspect_container_def emits_sdk_call)

lemmas docker_intros = emits_intros emits_docker_act emits_inspect_container

section \<open>The HTTP client (\<open>http_client.go\<close>, \<open>client.go\<close>)\<close>

text \<open>
  \<open>net/url\<close> and \<open>crypto/tls\<close> are parameters. \<open>http.Client\<close> is what its transport dials: the address
  that a request names, or always the same Unix socket.
\<close>

record url =
  Scheme :: string
  Host :: string
  UrlPath :: string

datatype dial_target = DialAddress | DialUnix string

record 'tls http_client =
  TLSClientConfig :: "'tls option"
  Dial :: dial_target
  DialTimeout :: duration

definition defaultTimeout :: duration where "defaultTimeout = 30 * second"

definition newHTTPClient :: "url \<Rightarrow> 'tls option \<Rightarrow> duration \<Rightarrow> 'tls http_client" where
  "newHTTPClient address tlsConfig timeout =
     \<lparr>TLSClientConfig = tlsConfig,
      Dial = (if Scheme address = ''unix'' then DialUnix (UrlPath address) else DialAddress),
      DialTimeout = timeout\<rparr>"

definition HTTPClient :: "(string \<Rightarrow> error + url) \<Rightarrow> string \<Rightarrow> 'tls option \<Rightarrow> error + 'tls http_client" where
  "HTTPClient url_Parse daemonURL tlsConfig =
     (case url_Parse daemonURL of
        Inl err \<Rightarrow> Inl (ErrWrap ''failed to parse docker daemon url: %w'' [] err)
      | Inr u \<Rightarrow>
          let u = (if Scheme u = '''' \<or> Scheme u = ''tcp''
                   then u\<lparr>Scheme := (if tlsConfig = None then ''http'' else ''https'')\<rparr> else u)
          in Inr (newHTTPClient u tlsConfig defaultTimeout))"

definition NewAPIClient ::
  "(string \<Rightarrow> error + url) \<Rightarrow> (string \<Rightarrow> 'tls http_client \<Rightarrow> error + docker_api) \<Rightarrow>
     string \<Rightarrow> 'tls option \<Rightarrow> error + docker_api" where
  "NewAPIClient url_Parse NewClientWithOpts dockerHost tlsConfig =
     (case HTTPClient url_Parse dockerHost tlsConfig of
        Inl err \<Rightarrow> Inl err
      | Inr httpClient \<Rightarrow>
      (case NewClientWithOpts dockerHost httpClient of
        Inl err \<Rightarrow> Inl (ErrWrap ''failed to create docker client: %w'' [] err)
      | Inr apiClient \<Rightarrow> Inr apiClient))"

lemma HTTPClient_Inr:
  "HTTPClient url_Parse u tls = Inr h \<longleftrightarrow>
    (\<exists>a. url_Parse u = Inr a \<and> h = \<lparr>TLSClientConfig = tls,
       Dial = (if Scheme a = ''unix'' then DialUnix (UrlPath a) else DialAddress), DialTimeout = defaultTimeout\<rparr>)"
  by (auto simp: HTTPClient_def newHTTPClient_def Let_def split: sum.splits)

end
