(* ===== verification/DockerLifecycle.thy ===== *)
theory DockerLifecycle
  imports DockerApi
begin

text \<open>
  \<open>pkg/runtime/docker\<close>: listing (\<open>inspect.go\<close>), the lifecycle operations (\<open>lifecycle.go\<close>) and
  running commands inside containers (\<open>exec.go\<close>) of the Docker client.

  Closing an attached stream is not a call of the model. A command or signal is passed on as it is.
\<close>

section \<open>Listing (\<open>inspect.go\<close>)\<close>

definition dockerInspectToContainer :: "inspect_response \<Rightarrow> string \<Rightarrow> container" where
  "dockerInspectToContainer info img_ID =
     \<lparr>ContainerID = (case Base info of Some b \<Rightarrow> BaseID b | None \<Rightarrow> ''''),
      ContainerName = (case Base info of Some b \<Rightarrow> BaseName b | None \<Rightarrow> ''''),
      Image = (case Base info of Some b \<Rightarrow> BaseImage b | None \<Rightarrow> ''''),
      ImageID = img_ID,
      RunState = (case Base info of None \<Rightarrow> ''''
        | Some b \<Rightarrow> (case BaseState b of None \<Rightarrow> ''''
            | Some s \<Rightarrow> if Running s then StateRunning else StateExited)),
      CLabels = (case ConfigLabels info of Some (Some ls) \<Rightarrow> ls | _ \<Rightarrow> []),
      Networks = (case NetworkLinks info of Some ns \<Rightarrow> ns | None \<Rightarrow> [])\<rparr>"

text \<open>The loop over the listed IDs; \<open>containerInfo.Name\<close> panics when the response has no base part.\<close>

primrec inspect_all ::
  "docker_api \<Rightarrow> ctx \<Rightarrow> filter_func \<Rightarrow> string list \<Rightarrow> (docker_call list, error + container list) state" where
  "inspect_all api c fn [] = State_Monad.return (Inr [])"
| "inspect_all api c fn (i # is) = do {
     r \<leftarrow> inspect_container api c i;
     case r of
       Inl err \<Rightarrow> State_Monad.return (Inl (ErrWrap ''failed to inspect container: %w'' [] err))
     | Inr info \<Rightarrow>
       (case Base info of None \<Rightarrow> State_Monad.return (Inl nil_panic) | Some b \<Rightarrow> do {
          img \<leftarrow> sdk_call (DImageInspect c (BaseImage b)) (\<lambda>tr. ImageInspect api tr c (BaseImage b));
          let x = dockerInspectToContainer info (fst img);
          rest \<leftarrow> inspect_all api c fn is;
          State_Monad.return (map_sum id (\<lambda>cs. if fn x then x # cs else cs) rest) }) }"

definition docker_listContainers ::
  "docker_api \<Rightarrow> ctx \<Rightarrow> filter_func \<Rightarrow> list_opts \<Rightarrow> (docker_call list, error + container list) state" where
  "docker_listContainers api c fn os = do {
     r \<leftarrow> sdk_call (DList c (All os) (LLabels os)) (\<lambda>tr. ContainerList api tr c (All os) (LLabels os));
     case r of
       Inl err \<Rightarrow> State_Monad.return (Inl (ErrWrap ''failed to list containers: %w'' [] err))
     | Inr ids \<Rightarrow> inspect_all api c fn ids }"

definition docker_ListContainers ::
  "docker_api \<Rightarrow> ctx \<Rightarrow> filter_func \<Rightarrow> list_opts \<Rightarrow> (docker_call list, error + container list) state" where
  "docker_ListContainers api c fn opts =
     docker_listContainers api c fn \<lparr>All = All opts, LLabels = LLabels opts\<rparr>"

section \<open>Lifecycle operations (\<open>lifecycle.go\<close>)\<close>

definition defaultStopSignal :: string where "defaultStopSignal = ''SIGTERM''"
definition docker_KillSignal :: string where "docker_KillSignal = ''SIGKILL''"

definition docker_KillContainer ::
  "docker_api \<Rightarrow> ctx \<Rightarrow> container \<Rightarrow> string \<Rightarrow> bool \<Rightarrow> (docker_call list, error option) state" where
  "docker_KillContainer api c x signal dryrun =
     (if dryrun then State_Monad.return None
      else do {
        err \<leftarrow> docker_act api (DKill c (ContainerID x) signal);
        State_Monad.return (wrapf ''failed to kill container: %w'' [] err) })"

definition docker_RestartContainer ::
  "docker_api \<Rightarrow> ctx \<Rightarrow> container \<Rightarrow> duration \<Rightarrow> bool \<Rightarrow> (docker_call list, error option) state" where
  "docker_RestartContainer api c x timeout dryrun =
     (if dryrun then State_Monad.return None
      else do {
        err \<leftarrow> docker_act api (DRestart c (ContainerID x) (int_Seconds timeout));
        State_Monad.return (wrapf ''failed to restart container: %w'' [] err) })"

text \<open>
  \<open>waitForStop\<close>. Every turn of its loop sleeps for \<open>checkInterval\<close>, so that at turn \<open>k\<close> at least
  \<open>k * checkInterval\<close> have passed: the timer leaves room for \<open>wait_polls\<close> turns, and then it has fired.
\<close>

definition checkInterval :: duration where "checkInterval = 100 * millisecond"

definition wait_polls :: "int \<Rightarrow> nat" where
  "wait_polls waitTime = nat (int64 (waitTime * second) div checkInterval) + 1"

fun wait_loop :: "docker_api \<Rightarrow> ctx \<Rightarrow> string \<Rightarrow> nat \<Rightarrow> (docker_call list, error option) state" where
  "wait_loop api c i n = do {
     tr \<leftarrow> State_Monad.get;
     (case wait_select api tr c of
        WaitTimeout \<Rightarrow> State_Monad.return (Some (errorf ''timeout on waiting to stop''))
      | WaitDone \<Rightarrow> State_Monad.return (Some (errorf ''aborted waiting to stop''))
      | WaitPoll \<Rightarrow>
        (case n of
           0 \<Rightarrow> State_Monad.return (Some (errorf ''timeout on waiting to stop''))
         | Suc m \<Rightarrow> do {
             r \<leftarrow> inspect_container api c i;
             (case r of
                Inl err \<Rightarrow> State_Monad.return
                  (Some (ErrWrap ''failed to inspect container, while waiting to stop: %w'' [] err))
              | Inr ci \<Rightarrow>
                (case Option.bind (Base ci) BaseState of
                   None \<Rightarrow> State_Monad.return (Some nil_panic)
                 | Some st \<Rightarrow>
                     if \<not> Running st then State_Monad.return None else wait_loop api c i m)) })) }"

declare wait_loop.simps [simp del]

definition waitForStop :: "docker_api \<Rightarrow> ctx \<Rightarrow> container \<Rightarrow> int \<Rightarrow> (docker_call list, error option) state" where
  "waitForStop api c x waitTime = wait_loop api c (ContainerID x) (wait_polls waitTime)"

text \<open>A panic of the wait ends the operation.\<close>

definition docker_StopContainer ::
  "docker_api \<Rightarrow> ctx \<Rightarrow> container \<Rightarrow> int \<Rightarrow> bool \<Rightarrow> (docker_call list, error option) state" where
  "docker_StopContainer api c x timeout dryrun =
     (let signal = (if StopSignal x = '''' then defaultStopSignal else StopSignal x) in
      if dryrun then State_Monad.return None
      else do {
        err \<leftarrow> docker_act api (DKill c (ContainerID x) signal);
        case err of
          Some e \<Rightarrow> State_Monad.return (Some (ErrWrap ''failed to kill container: %w'' [] e))
        | None \<Rightarrow> do {
            werr \<leftarrow> waitForStop api c x timeout;
            if werr = None \<or> werr = Some nil_panic then State_Monad.return werr
            else do {
              err \<leftarrow> docker_act api (DKill c (ContainerID x) docker_KillSignal);
              case err of
                Some e \<Rightarrow> State_Monad.return (Some (ErrWrap ''failed to kill container: %w'' [] e))
              | None \<Rightarrow> do {
                  werr \<leftarrow> waitForStop api c x timeout;
                  if werr = None \<or> werr = Some nil_panic then State_Monad.return werr
                  else State_Monad.return (Some (errorf ''failed waiting for container to stop'')) } } } })"

definition docker_StopContainerWithID ::
  "docker_api \<Rightarrow> ctx \<Rightarrow> string \<Rightarrow> duration \<Rightarrow> bool \<Rightarrow> (docker_call list, error option) state" where
  "docker_StopContainerWithID api c containerID timeout dryrun =
     (if dryrun then State_Monad.return None
      else do {
        err \<leftarrow> docker_act api (DStop c containerID (int_Seconds timeout));
        State_Monad.return (wrapf ''failed to stop container: %w'' [] err) })"

definition docker_StartContainer ::
  "docker_api \<Rightarrow> ctx \<Rightarrow> container \<Rightarrow> bool \<Rightarrow> (docker_call list, error option) state" where
  "docker_StartContainer api c x dryrun =
     (if dryrun then State_Monad.return None
      else do {
        err \<leftarrow> docker_act api (DStart c (ContainerID x));
        State_Monad.return (wrapf ''failed to start container: %w'' [] err) })"

definition docker_RemoveContainer ::
  "docker_api \<Rightarrow> ctx \<Rightarrow> container \<Rightarrow> remove_opts \<Rightarrow> (docker_call list, error option) state" where
  "docker_RemoveContainer api c x opts =
     (if RDryRun opts then State_Monad.return None
      else do {
        err \<leftarrow> docker_act api (DRemove c (ContainerID x) (Force opts) (RLinks opts) (RVolumes opts));
        State_Monad.return (wrapf ''failed to remove container: %w'' [] err) })"

definition docker_PauseContainer ::
  "docker_api \<Rightarrow> ctx \<Rightarrow> container \<Rightarrow> bool \<Rightarrow> (docker_call list, error option) state" where
  "docker_PauseContainer api c x dryrun =
     (if dryrun then State_Monad.return None
      else do {
        err \<leftarrow> docker_act api (DPause c (ContainerID x));
        State_Monad.return (wrapf ''failed to pause container: %w'' [] err) })"

definition docker_UnpauseContainer ::
  "docker_api \<Rightarrow> ctx \<Rightarrow> container \<Rightarrow> bool \<Rightarrow> (docker_call list, error option) state" where
  "docker_UnpauseContainer api c x dryrun =
     (if dryrun then State_Monad.return None
      else do {
        err \<leftarrow> docker_act api (DUnpause c (ContainerID x));
        State_Monad.return (wrapf ''failed to unpause container: %w'' [] err) })"

section \<open>Commands inside containers (\<open>exec.go\<close>)\<close>

definition exec_create ::
  "docker_api \<Rightarrow> ctx \<Rightarrow> string \<Rightarrow> exec_options \<Rightarrow> (docker_call list, error + string) state" where
  "exec_create api c i opts = sdk_call (DExecCreate c i opts) (\<lambda>tr. ContainerExecCreate api tr c i opts)"

definition exec_attach :: "docker_api \<Rightarrow> ctx \<Rightarrow> string \<Rightarrow> (docker_call list, error option) state" where
  "exec_attach api c eid = sdk_call (DExecAttach c eid) (\<lambda>tr. ContainerExecAttach api tr c eid)"

definition exec_read :: "docker_api \<Rightarrow> string \<Rightarrow> (docker_call list, error + string) state" where
  "exec_read api eid = sdk_call (DExecRead eid) (\<lambda>tr. ReadAttached api tr eid)"

definition exec_inspect :: "docker_api \<Rightarrow> ctx \<Rightarrow> string \<Rightarrow> (docker_call list, error + int) state" where
  "exec_inspect api c eid = sdk_call (DExecInspect c eid) (\<lambda>tr. ContainerExecInspect api tr c eid)"

definition docker_ExecContainer ::
  "docker_api \<Rightarrow> ctx \<Rightarrow> container \<Rightarrow> string \<Rightarrow> string list \<Rightarrow> bool \<Rightarrow> (docker_call list, error option) state" where
  "docker_ExecContainer api c x command args dryrun =
     (if dryrun then State_Monad.return None
      else do {
        createRes \<leftarrow> exec_create api c (ContainerID x)
          \<lparr>XUser = ''root'', XPrivileged = False, XCmd = command # args\<rparr>;
        case createRes of
          Inl err \<Rightarrow> State_Monad.return (Some (ErrWrap ''exec create failed: %w'' [] err))
        | Inr eid \<Rightarrow> do {
            attachErr \<leftarrow> exec_attach api c eid;
            case attachErr of
              Some err \<Rightarrow> State_Monad.return (Some (ErrWrap ''exec attach failed: %w'' [] err))
            | None \<Rightarrow> do {
                output \<leftarrow> exec_read api eid;
                case output of
                  Inl err \<Rightarrow> State_Monad.return
                    (Some (ErrWrap ''reading output from exec reader failed: %w'' [] err))
                | Inr out \<Rightarrow> do {
                    res \<leftarrow> exec_inspect api c eid;
                    case res of
                      Inl err \<Rightarrow> State_Monad.return (Some (ErrWrap ''exec inspect failed: %w'' [] err))
                    | Inr code \<Rightarrow>
                        if code \<noteq> 0
                        then State_Monad.return
                          (Some (ErrNew ''exec failed %s: exit code %d'' [command, itoa code]))
                        else State_Monad.return None } } } })"

definition runExecAttached :: "docker_api \<Rightarrow> ctx \<Rightarrow> string \<Rightarrow> (docker_call list, error option) state" where
  "runExecAttached api c execID = do {
     err \<leftarrow> exec_attach api c execID;
     case err of
       Some e \<Rightarrow> State_Monad.return (Some e)
     | None \<Rightarrow> do {
         r \<leftarrow> exec_read api execID;
         case r of
           Inl e \<Rightarrow> State_Monad.return (Some (ErrWrap ''drain exec %s output: %w'' [execID] e))
         | Inr out \<Rightarrow> State_Monad.return None } }"

definition execOnContainer ::
  "docker_api \<Rightarrow> ctx \<Rightarrow> container \<Rightarrow> string \<Rightarrow> string list \<Rightarrow> bool \<Rightarrow> (docker_call list, error option) state" where
  "execOnContainer api c x execCmd execArgs privileged = (
     let execCmd = filter (\<lambda>ch. ch \<noteq> CHR '' '') execCmd in do {
     exec \<leftarrow> exec_create api c (ContainerID x) \<lparr>XUser = '''', XPrivileged = False, XCmd = [''which'', execCmd]\<rparr>;
     case exec of
       Inl err \<Rightarrow> State_Monad.return
         (Some (ErrWrap ''failed to create exec configuration to check if command exists: %w'' [] err))
     | Inr eid \<Rightarrow> do {
     err \<leftarrow> runExecAttached api c eid;
     case err of
       Some e \<Rightarrow> State_Monad.return (Some (ErrWrap ''failed to check if command exists in a container: %w'' [] e))
     | None \<Rightarrow> do {
     checkInspect \<leftarrow> exec_inspect api c eid;
     case checkInspect of
       Inl err \<Rightarrow> State_Monad.return (Some (ErrWrap ''failed to inspect check execution: %w'' [] err))
     | Inr code \<Rightarrow>
     if code \<noteq> 0
     then State_Monad.return
       (Some (ErrNew ''command '%s' not found inside the %s container'' [execCmd, ContainerID x]))
     else do {
     exec \<leftarrow> exec_create api c (ContainerID x)
       \<lparr>XUser = '''', XPrivileged = privileged, XCmd = execCmd # execArgs\<rparr>;
     case exec of
       Inl err \<Rightarrow> State_Monad.return
         (Some (ErrWrap ''failed to create exec configuration for a command: %w'' [] err))
     | Inr eid \<Rightarrow> do {
     err \<leftarrow> runExecAttached api c eid;
     case err of
       Some e \<Rightarrow> State_Monad.return (Some (ErrWrap ''failed to start command execution: %w'' [] e))
     | None \<Rightarrow> do {
     exitInspect \<leftarrow> exec_inspect api c eid;
     case exitInspect of
       Inl err \<Rightarrow> State_Monad.return (Some (ErrWrap ''failed to inspect command execution: %w'' [] err))
     | Inr code \<Rightarrow>
     if code \<noteq> 0
     then State_Monad.return
       (Some (ErrNew ''command '%s' failed in %s container; run it in manually to debug'' [execCmd, ContainerID x]))
     else State_Monad.return None }}}}}})"

section \<open>Facts: effects\<close>

lemma emits_exec_calls:
  "P (DExecCreate c i opts) \<Longrightarrow> emits P (exec_create api c i opts)"
  "P (DExecAttach c i) \<Longrightarrow> emits P (exec_attach api c i)"
  "P (DExecRead i) \<Longrightarrow> emits P (exec_read api i)"
  "P (DExecInspect c i) \<Longrightarrow> emits P (exec_inspect api c i)"
  by (simp_all add: exec_create_def exec_attach_def exec_read_def exec_inspect_def emits_sdk_call)

lemmas exec_intros = docker_intros emits_exec_calls

lemma emits_wait_loop: "(\<And>c i. P (DInspect c i)) \<Longrightarrow> emits P (wait_loop api c i n)"
proof (induction n)
  case 0
  then show ?case by (subst wait_loop.simps) (auto intro!: emission.confined_intros split: wait_event.splits)
next
  case (Suc n)
  then show ?case
    by (subst wait_loop.simps) (auto intro!: docker_intros split: wait_event.splits)
qed

lemma emits_inspect_all:
  "(\<And>c i. P (DInspect c i)) \<Longrightarrow> (\<And>c i. P (DImageInspect c i)) \<Longrightarrow> emits P (inspect_all api c f is)"
  by (induction "is") (auto intro!: docker_intros)

lemma emits_docker_ListContainers:
  "(\<And>k. \<not> docker_effect k \<Longrightarrow> P k) \<Longrightarrow> emits P (docker_ListContainers api c f os)"
  unfolding docker_ListContainers_def docker_listContainers_def
  by (intro docker_intros emits_inspect_all) simp_all

lemma emits_runExecAttached:
  "(\<And>c. P (DExecAttach c i)) \<Longrightarrow> P (DExecRead i) \<Longrightarrow> emits P (runExecAttached api c i)"
  unfolding runExecAttached_def by (intro exec_intros)

section \<open>Facts: listing\<close>

lemma inspect_all_filter:
  "run_state (inspect_all api c f is) tr = (Inr cs, tr') \<Longrightarrow> x \<in> set cs \<Longrightarrow> f x"
proof (induction "is" arbitrary: cs tr tr')
  case (Cons i "is")
  then show ?case
    by (auto simp: Let_def map_sum_Inr split: sum.splits option.splits prod.splits if_splits)
qed simp

interpretation docker: lister "docker_ListContainers api" "filter docker_effect" for api
proof unfold_locales
  show "f x" if "run_state (docker_ListContainers api c f os) w = (Inr cs, w')" and "x \<in> set cs"
    for c f os w cs w' x
    using that by (auto simp: docker_ListContainers_def docker_listContainers_def
        split: sum.splits elim: inspect_all_filter)
  show "quiet (filter docker_effect) (docker_ListContainers api c f os)" for c f os
    by (rule emits_quiet) (rule emits_docker_ListContainers)
qed

section \<open>Facts: stopping\<close>

text \<open>The last call is an inspection whose answer says that the container does not run.\<close>

definition seen_stopped :: "docker_api \<Rightarrow> ctx \<Rightarrow> string \<Rightarrow> docker_call list \<Rightarrow> docker_call list \<Rightarrow> bool" where
  "seen_stopped api c i tr evs \<longleftrightarrow> evs \<noteq> [] \<and> last evs = DInspect c i \<and>
     (case ContainerInspect api (tr @ butlast evs) c i of
        Inl e \<Rightarrow> False
      | Inr ci \<Rightarrow> (case Option.bind (Base ci) BaseState of None \<Rightarrow> False | Some st \<Rightarrow> \<not> Running st))"

lemma seen_stopped_append:
  "ys \<noteq> [] \<Longrightarrow> seen_stopped api c i tr (xs @ ys) \<longleftrightarrow> seen_stopped api c i (tr @ xs) ys"
  by (auto simp: seen_stopped_def butlast_append)

lemma seen_stopped_Cons:
  "k \<noteq> DInspect c i \<Longrightarrow> seen_stopped api c i tr (k # ys) \<longleftrightarrow> seen_stopped api c i (tr @ [k]) ys"
  using seen_stopped_append [of ys api c i tr "[k]"] by (cases ys) (simp_all add: seen_stopped_def)

lemma not_seen_stopped_Nil [simp]: "\<not> seen_stopped api c i tr []"
  by (simp add: seen_stopped_def)

lemma wait_loop_ensures:
  "ensures (wait_loop api c i n) (\<lambda>tr r evs. length evs \<le> n \<and>
     list_all (\<lambda>k. k = DInspect c i) evs \<and> (r = None \<longleftrightarrow> seen_stopped api c i tr evs))"
  (is "ensures _ (?Q n)")
proof (induction n)
  case 0
  show ?case
    by (subst wait_loop.simps, rule ensures_get_bind) (auto intro!: ensures_return split: wait_event.splits)
next
  case (Suc n)
  have first: "seen_stopped api c i tr (DInspect c i # ys) \<longleftrightarrow>
      (if ys = [] then seen_stopped api c i tr [DInspect c i] else seen_stopped api c i (tr @ [DInspect c i]) ys)"
    for tr ys using seen_stopped_append [of ys api c i tr "[DInspect c i]"] by simp
  have step: "ensures (case r of
        Inl err \<Rightarrow> State_Monad.return (Some (ErrWrap ''failed to inspect container, while waiting to stop: %w'' [] err))
      | Inr ci \<Rightarrow> (case Option.bind (Base ci) BaseState of
           None \<Rightarrow> State_Monad.return (Some nil_panic)
         | Some st \<Rightarrow> if \<not> Running st then State_Monad.return None else wait_loop api c i n))
      (\<lambda>tr a evs. if (\<exists>ci st. r = Inr ci \<and> Option.bind (Base ci) BaseState = Some st \<and> \<not> Running st)
         then evs = [] \<and> a = None else ?Q n tr a evs)" for r
    by (auto intro!: ensures_return ensures_mono [OF Suc] split: sum.splits option.splits)
  have "ensures (inspect_container api c i)
      (\<lambda>tr a evs. evs = [DInspect c i] \<and> a = ContainerInspect api tr c i)"
    unfolding inspect_container_def by (rule ensures_sdk_call) simp
  note turn = ensures_bind [OF this step]
  show ?case
    by (subst wait_loop.simps, rule ensures_get_bind, auto intro!: ensures_return turn split: wait_event.splits)
      (auto simp: first seen_stopped_def [of _ _ _ _ "[_]"] split: if_splits sum.splits option.splits)
qed

lemma waitForStop_ensures:
  "ensures (waitForStop api c x n) (\<lambda>tr r evs. length evs \<le> wait_polls n \<and>
     list_all (\<lambda>k. k = DInspect c (ContainerID x)) evs \<and>
     (r = None \<longleftrightarrow> seen_stopped api c (ContainerID x) tr evs))"
  unfolding waitForStop_def by (rule wait_loop_ensures)

lemma ensures_docker_act: "(\<And>tr. Q tr (ContainerAct api tr k) [k]) \<Longrightarrow> ensures (docker_act api k) Q"
  unfolding docker_act_def by (rule ensures_sdk_call)

definition stop_signal :: "container \<Rightarrow> string" where
  "stop_signal x = (if StopSignal x = '''' then defaultStopSignal else StopSignal x)"

definition polls_of :: "ctx \<Rightarrow> container \<Rightarrow> int \<Rightarrow> docker_call list \<Rightarrow> bool" where
  "polls_of c x n evs \<longleftrightarrow> list_all (\<lambda>k. k = DInspect c (ContainerID x)) evs \<and> length evs \<le> wait_polls n"

lemma wait_run:
  "run_state (waitForStop api c x n) tr = (r, tr') \<Longrightarrow>
    \<exists>evs. tr' = tr @ evs \<and> polls_of c x n evs \<and> (r = None \<longleftrightarrow> seen_stopped api c (ContainerID x) tr evs)"
  using ensuresE [OF waitForStop_ensures] unfolding polls_of_def by metis

text \<open>The second half of \<open>StopContainer\<close>.\<close>

definition force_stop :: "docker_api \<Rightarrow> ctx \<Rightarrow> container \<Rightarrow> int \<Rightarrow> (docker_call list, error option) state" where
  "force_stop api c x timeout = do {
     err \<leftarrow> docker_act api (DKill c (ContainerID x) docker_KillSignal);
     case err of
       Some e \<Rightarrow> State_Monad.return (Some (ErrWrap ''failed to kill container: %w'' [] e))
     | None \<Rightarrow> do {
         werr \<leftarrow> waitForStop api c x timeout;
         if werr = None \<or> werr = Some nil_panic then State_Monad.return werr
         else State_Monad.return (Some (errorf ''failed waiting for container to stop'')) } }"

lemma force_stop_run:
  assumes "run_state (force_stop api c x n) tr = (r, tr')"
  obtains ws where "tr' = tr @ DKill c (ContainerID x) docker_KillSignal # ws" "polls_of c x n ws"
    "r = None \<longleftrightarrow> seen_stopped api c (ContainerID x) tr (DKill c (ContainerID x) docker_KillSignal # ws)"
proof (cases "ContainerAct api tr (DKill c (ContainerID x) docker_KillSignal)")
  case None
  obtain w t where w: "run_state (waitForStop api c x n) (tr @ [DKill c (ContainerID x) docker_KillSignal]) = (w, t)"
    by fastforce
  with assms None have "t = tr'" "r = None \<longleftrightarrow> w = None"
    by (auto simp: force_stop_def split: if_splits)
  then show ?thesis using wait_run [OF w] that by (auto simp: seen_stopped_Cons)
next
  case (Some e)
  with assms have "tr' = tr @ [DKill c (ContainerID x) docker_KillSignal]" "r \<noteq> None"
    by (auto simp: force_stop_def)
  then show ?thesis using that [of "[]"] by (auto simp: polls_of_def seen_stopped_def)
qed

section \<open>Properties\<close>


end
