(* ===== verification/DockerSidecar.thy ===== *)
theory DockerSidecar
  imports DockerLifecycle
begin

text \<open>
  \<open>pkg/runtime/docker\<close>: pulling images (\<open>pull.go\<close>), the ephemeral sidecar containers (\<open>sidecar.go\<close>),
  the \<open>tc\<close> commands (\<open>netem.go\<close>) and the \<open>iptables\<close> commands (\<open>iptables.go\<close>) that run in them.
\<close>

section \<open>Pulling an image (\<open>pull.go\<close>, \<open>sidecar.go\<close>)\<close>

definition io_EOF :: error where "io_EOF = ErrExt ''EOF''"

text \<open>The loop over the progress stream; the messages are only logged.\<close>

primrec decode_loop :: "string \<Rightarrow> string list \<Rightarrow> pull_message list \<Rightarrow> error \<Rightarrow> error option" where
  "decode_loop f args [] err = (if errors_Is err io_EOF then None else Some (ErrWrap f args err))"
| "decode_loop f args (m # ms) err = decode_loop f args ms err"

definition pullSidecarImage ::
  "docker_api \<Rightarrow> ctx \<Rightarrow> string \<Rightarrow> string \<Rightarrow> (docker_call list, error option) state" where
  "pullSidecarImage api c img tool = do {
     r \<leftarrow> sdk_call (DPull c img) (\<lambda>tr. ImagePull api tr c img);
     case r of
       Inl err \<Rightarrow> State_Monad.return (Some (ErrWrap ''failed to pull %s-img: %w'' [tool] err))
     | Inr events \<Rightarrow> State_Monad.return
         (decode_loop ''failed to decode docker pull response for %s-img: %w'' [tool]
            (Messages events) (StreamEnd events)) }"

definition pullImage :: "docker_api \<Rightarrow> ctx \<Rightarrow> string \<Rightarrow> (docker_call list, error option) state" where
  "pullImage api c img = do {
     r \<leftarrow> sdk_call (DPull c img) (\<lambda>tr. ImagePull api tr c img);
     case r of
       Inl err \<Rightarrow> State_Monad.return (Some (ErrWrap ''failed to pull stress-ng img: %w'' [] err))
     | Inr events \<Rightarrow> State_Monad.return
         (decode_loop ''failed to decode docker pull result: %w'' [] (Messages events) (StreamEnd events)) }"

section \<open>Sidecars (\<open>sidecar.go\<close>)\<close>

definition sidecarRemoveTimeout :: duration where "sidecarRemoveTimeout = 15 * second"
definition sidecarInspectTimeout :: duration where "sidecarInspectTimeout = 2 * second"

definition sidecarRemovalComplete ::
  "docker_api \<Rightarrow> ctx \<Rightarrow> string \<Rightarrow> error \<Rightarrow> (docker_call list, error + bool) state" where
  "sidecarRemovalComplete api c i removeErr =
     (if cerrdefs_IsNotFound api removeErr then State_Monad.return (Inr True)
      else
        let deadlineErr = cerrdefs_IsDeadlineExceeded api removeErr \<or>
              errors_Is removeErr DeadlineExceeded \<or>
              strings_contains (error_text removeErr) ''context deadline exceeded'' in
        if \<not> deadlineErr then State_Monad.return (Inr False)
        else do {
          r \<leftarrow> inspect_container api (cleanup_ctx c sidecarInspectTimeout) i;
          case r of
            Inl err \<Rightarrow> State_Monad.return (Inr (cerrdefs_IsNotFound api err))
          | Inr insp \<Rightarrow>
              (case Base insp of
                 None \<Rightarrow> State_Monad.return (Inl nil_panic)
               | Some b \<Rightarrow>
                 (case BaseState b of
                    None \<Rightarrow> State_Monad.return (Inr False)
                  | Some s \<Rightarrow> State_Monad.return
                      (Inr (Status s = ''removing'' \<or> Status s = ''dead'' \<or> Dead s)))) })"

definition removeSidecar :: "docker_api \<Rightarrow> ctx \<Rightarrow> string \<Rightarrow> (docker_call list, error option) state" where
  "removeSidecar api c i = do {
     r \<leftarrow> docker_act api (DRemove (cleanup_ctx c sidecarRemoveTimeout) i True False False);
     case r of
       None \<Rightarrow> State_Monad.return None
     | Some err \<Rightarrow> do {
         complete \<leftarrow> sidecarRemovalComplete api c i err;
         State_Monad.return (case complete of
             Inl panic \<Rightarrow> Some panic
           | Inr done' \<Rightarrow> if done' then None else Some err) } }"

definition runSidecarExec ::
  "docker_api \<Rightarrow> ctx \<Rightarrow> string \<Rightarrow> string \<Rightarrow> string list \<Rightarrow> (docker_call list, error option) state" where
  "runSidecarExec api c sidecarID tool args = do {
     r \<leftarrow> exec_create api c sidecarID \<lparr>XUser = '''', XPrivileged = False, XCmd = tool # args\<rparr>;
     case r of
       Inl err \<Rightarrow> State_Monad.return (Some (ErrWrap ''failed to create %s-container exec: %w'' [tool] err))
     | Inr eid \<Rightarrow> do {
         err \<leftarrow> runExecAttached api c eid;
         case err of
           Some e \<Rightarrow> State_Monad.return (Some (ErrWrap ''failed to start %s-container exec: %w'' [tool] e))
         | None \<Rightarrow> do {
             insp \<leftarrow> exec_inspect api c eid;
             case insp of
               Inl e \<Rightarrow> State_Monad.return (Some (ErrWrap ''failed to inspect %s-container exec: %w'' [tool] e))
             | Inr code \<Rightarrow>
                 if code \<noteq> 0
                 then State_Monad.return
                   (Some (ErrNew ''%s %s failed with exit code %d'' [tool, join_with '' '' args, itoa code]))
                 else State_Monad.return None } } }"

text \<open>The loop over the commands, with the removal that ends it on every path.\<close>

primrec run_sidecar_execs ::
  "docker_api \<Rightarrow> ctx \<Rightarrow> string \<Rightarrow> string \<Rightarrow> string list list \<Rightarrow> (docker_call list, error option) state" where
  "run_sidecar_execs api c i tool [] = do {
     err \<leftarrow> removeSidecar api c i;
     State_Monad.return (wrapf ''failed to remove %s-container: %w'' [tool] err) }"
| "run_sidecar_execs api c i tool (args # argsList) = do {
     err \<leftarrow> runSidecarExec api c i tool args;
     case err of
       Some e \<Rightarrow> do {
         _ \<leftarrow> removeSidecar api c i;
         State_Monad.return
           (Some (ErrWrap ''error running %s command on container: %v: %w'' [tool, join_with '' '' args] e)) }
     | None \<Rightarrow> run_sidecar_execs api c i tool argsList }"

definition sidecar_config :: "string \<Rightarrow> container_config" where
  "sidecar_config img =
     \<lparr>CfgLabels = [(''com.gaiaadm.pumba.skip'', ''true'')], CfgImage = img, CfgEntrypoint = [''tail''],
      CfgCmd = [''-f'', ''/dev/null''], CfgStopSignal = ''SIGKILL''\<rparr>"

definition sidecar_hconfig :: "container \<Rightarrow> host_config" where
  "sidecar_hconfig target =
     \<lparr>AutoRemove = False, CapAdd = [''NET_ADMIN''], NetworkMode = ''container:'' @ ContainerID target,
      CgroupnsMode = '''', Binds = [], CgroupParent = '''', SecurityOpt = []\<rparr>"

text \<open>From the start of the created sidecar on.\<close>

definition use_sidecar ::
  "docker_api \<Rightarrow> ctx \<Rightarrow> string \<Rightarrow> string \<Rightarrow> string list list \<Rightarrow> (docker_call list, error option) state" where
  "use_sidecar api c i tool argsList = do {
     err \<leftarrow> docker_act api (DStart c i);
     case err of
       Some e \<Rightarrow> do {
         _ \<leftarrow> removeSidecar api c i;
         State_Monad.return (Some (ErrWrap ''failed to start %s-container: %w'' [tool] e)) }
     | None \<Rightarrow> run_sidecar_execs api c i tool argsList }"

definition runSidecar ::
  "docker_api \<Rightarrow> ctx \<Rightarrow> container \<Rightarrow> string list list \<Rightarrow> string \<Rightarrow> string \<Rightarrow> bool \<Rightarrow>
     (docker_call list, error option) state" where
  "runSidecar api c target argsList img tool pull = do {
     err \<leftarrow> (if pull then pullSidecarImage api c img tool else State_Monad.return None);
     if err \<noteq> None then State_Monad.return err
     else do {
       r \<leftarrow> sdk_call (DCreate c (sidecar_config img) (sidecar_hconfig target))
              (\<lambda>tr. ContainerCreate api tr c (sidecar_config img) (sidecar_hconfig target));
       case r of
         Inl err \<Rightarrow> State_Monad.return
           (Some (ErrWrap ''failed to create %s-container from image %q: %w'' [tool, img] err))
       | Inr i \<Rightarrow> use_sidecar api c i tool argsList } }"

section \<open>Traffic control (\<open>netem.go\<close>)\<close>

text \<open>
  The image decides how a list of commands runs: without one, by exec in the target itself, stopping
  at the first failure; otherwise in a sidecar that shares the target's network namespace.
\<close>

definition exec_commands ::
  "docker_api \<Rightarrow> ctx \<Rightarrow> container \<Rightarrow> string \<Rightarrow> string \<Rightarrow> string list list \<Rightarrow> (docker_call list, error option) state" where
  "exec_commands api c x tool f argsList = for_err (\<lambda>args. do {
     err \<leftarrow> execOnContainer api c x tool args True;
     State_Monad.return (wrapf f [join_with '' '' args] err) }) argsList"

definition tcCommands ::
  "docker_api \<Rightarrow> ctx \<Rightarrow> container \<Rightarrow> string list list \<Rightarrow> string \<Rightarrow> bool \<Rightarrow> (docker_call list, error option) state" where
  "tcCommands api c x argsList tcimg pull =
     (if tcimg = '''' then exec_commands api c x ''tc'' ''error running tc command on container: %v: %w'' argsList
      else runSidecar api c x argsList tcimg ''tc'' pull)"

definition netem_start_commands :: "netem_request \<Rightarrow> string list list" where
  "netem_start_commands req = [[''qdisc'', ''add'', ''dev'', NInterface req, ''root'', ''netem''] @ NCommand req]"

definition startNetemContainer ::
  "docker_api \<Rightarrow> ctx \<Rightarrow> netem_request \<Rightarrow> (docker_call list, error option) state" where
  "startNetemContainer api c req =
     (if \<not> NDryRun req
      then tcCommands api c (NContainer req) (netem_start_commands req) (SImage (NSidecar req)) (SPull (NSidecar req))
      else State_Monad.return None)"

definition tc_filter :: "string \<Rightarrow> string list \<Rightarrow> string list" where
  "tc_filter dev match =
     [''filter'', ''add'', ''dev'', dev, ''protocol'', ''ip'', ''parent'', ''1:0'', ''prio'', ''1'',
      ''u32'', ''match'', ''ip''] @ match @ [''flowid'', ''1:3'']"

definition netem_filter_commands :: "netem_request \<Rightarrow> string list list" where
  "netem_filter_commands req = (let dev = NInterface req in
     [[''qdisc'', ''add'', ''dev'', dev, ''root'', ''handle'', ''1:'', ''prio''],
      [''qdisc'', ''add'', ''dev'', dev, ''parent'', ''1:1'', ''handle'', ''10:'', ''sfq''],
      [''qdisc'', ''add'', ''dev'', dev, ''parent'', ''1:2'', ''handle'', ''20:'', ''sfq''],
      [''qdisc'', ''add'', ''dev'', dev, ''parent'', ''1:3'', ''handle'', ''30:'', ''netem''] @ NCommand req] @
     map (\<lambda>ip. tc_filter dev [''dst'', ipnet_string ip]) (NIPs req) @
     map (\<lambda>sport. tc_filter dev [''sport'', sport, ''0xffff'']) (NSPorts req) @
     map (\<lambda>dport. tc_filter dev [''dport'', dport, ''0xffff'']) (NDPorts req))"

definition startNetemContainerIPFilter ::
  "docker_api \<Rightarrow> ctx \<Rightarrow> netem_request \<Rightarrow> (docker_call list, error option) state" where
  "startNetemContainerIPFilter api c req =
     (if \<not> NDryRun req then do {
        err \<leftarrow> tcCommands api c (NContainer req) (netem_filter_commands req)
          (SImage (NSidecar req)) (SPull (NSidecar req));
        State_Monad.return (wrapf ''failed to run tc commands: %w'' [] err) }
      else State_Monad.return None)"

definition netem_unfiltered :: "netem_request \<Rightarrow> bool" where
  "netem_unfiltered req \<longleftrightarrow> length (NIPs req) = 0 \<and> length (NSPorts req) = 0 \<and> length (NDPorts req) = 0"

definition docker_NetemContainer ::
  "docker_api \<Rightarrow> ctx \<Rightarrow> netem_request \<Rightarrow> (docker_call list, error option) state" where
  "docker_NetemContainer api c req =
     (if netem_unfiltered req then startNetemContainer api c req
      else startNetemContainerIPFilter api c req)"

definition netem_stop_commands :: "netem_request \<Rightarrow> string list list" where
  "netem_stop_commands req = (let dev = NInterface req in
     if \<not> netem_unfiltered req then
       [[''qdisc'', ''del'', ''dev'', dev, ''parent'', ''1:1'', ''handle'', ''10:''],
        [''qdisc'', ''del'', ''dev'', dev, ''parent'', ''1:2'', ''handle'', ''20:''],
        [''qdisc'', ''del'', ''dev'', dev, ''parent'', ''1:3'', ''handle'', ''30:''],
        [''qdisc'', ''del'', ''dev'', dev, ''root'', ''handle'', ''1:'', ''prio'']]
     else [[''qdisc'', ''del'', ''dev'', dev, ''root'', ''netem'']])"

definition stopNetemContainer ::
  "docker_api \<Rightarrow> ctx \<Rightarrow> netem_request \<Rightarrow> (docker_call list, error option) state" where
  "stopNetemContainer api c req =
     (if \<not> NDryRun req then do {
        err \<leftarrow> tcCommands api c (NContainer req) (netem_stop_commands req)
          (SImage (NSidecar req)) (SPull (NSidecar req));
        State_Monad.return (wrapf ''failed to run netem tc commands: %w'' [] err) }
      else State_Monad.return None)"

definition docker_StopNetemContainer ::
  "docker_api \<Rightarrow> ctx \<Rightarrow> netem_request \<Rightarrow> (docker_call list, error option) state" where
  "docker_StopNetemContainer api c req = stopNetemContainer api c req"

section \<open>Packet filters (\<open>iptables.go\<close>)\<close>

definition ipTablesCommands ::
  "docker_api \<Rightarrow> ctx \<Rightarrow> container \<Rightarrow> string list list \<Rightarrow> string \<Rightarrow> bool \<Rightarrow> (docker_call list, error option) state" where
  "ipTablesCommands api c x argsList tcimg pull =
     (if tcimg = ''''
      then exec_commands api c x ''iptables'' ''error running iptables command on container: %v: %w'' argsList
      else runSidecar api c x argsList tcimg ''iptables'' pull)"

definition ipTablesContainer ::
  "docker_api \<Rightarrow> ctx \<Rightarrow> iptables_request \<Rightarrow> (docker_call list, error option) state" where
  "ipTablesContainer api c req =
     (if \<not> IDryRun req
      then ipTablesCommands api c (IContainer req) [CmdPrefix req @ CmdSuffix req]
             (SImage (ISidecar req)) (SPull (ISidecar req))
      else State_Monad.return None)"

definition iptables_filter_commands :: "iptables_request \<Rightarrow> string list list" where
  "iptables_filter_commands req =
     map (\<lambda>ip. CmdPrefix req @ [''-s'', ipnet_string ip] @ CmdSuffix req) (SrcIPs req) @
     map (\<lambda>ip. CmdPrefix req @ [''-d'', ipnet_string ip] @ CmdSuffix req) (DstIPs req) @
     map (\<lambda>sport. CmdPrefix req @ [''--sport'', sport] @ CmdSuffix req) (ISPorts req) @
     map (\<lambda>dport. CmdPrefix req @ [''--dport'', dport] @ CmdSuffix req) (IDPorts req)"

definition ipTablesContainerWithIPFilter ::
  "docker_api \<Rightarrow> ctx \<Rightarrow> iptables_request \<Rightarrow> (docker_call list, error option) state" where
  "ipTablesContainerWithIPFilter api c req =
     (if \<not> IDryRun req then do {
        err \<leftarrow> ipTablesCommands api c (IContainer req) (iptables_filter_commands req)
          (SImage (ISidecar req)) (SPull (ISidecar req));
        State_Monad.return (wrapf ''failed to run iptables commands: %w'' [] err) }
      else State_Monad.return None)"

definition iptables_unfiltered :: "iptables_request \<Rightarrow> bool" where
  "iptables_unfiltered req \<longleftrightarrow> length (SrcIPs req) = 0 \<and> length (DstIPs req) = 0 \<and>
     length (ISPorts req) = 0 \<and> length (IDPorts req) = 0"

definition docker_IPTablesContainer ::
  "docker_api \<Rightarrow> ctx \<Rightarrow> iptables_request \<Rightarrow> (docker_call list, error option) state" where
  "docker_IPTablesContainer api c req =
     (if iptables_unfiltered req then ipTablesContainer api c req
      else ipTablesContainerWithIPFilter api c req)"

definition docker_StopIPTablesContainer ::
  "docker_api \<Rightarrow> ctx \<Rightarrow> iptables_request \<Rightarrow> (docker_call list, error option) state" where
  "docker_StopIPTablesContainer api c req =
     (if iptables_unfiltered req then ipTablesContainer api c req
      else ipTablesContainerWithIPFilter api c req)"

section \<open>Facts: sidecars\<close>

text \<open>The calls inside a sidecar, the commands they run, and the calls that remove it.\<close>

fun sidecar_call :: "ctx \<Rightarrow> string \<Rightarrow> docker_call \<Rightarrow> bool" where
  "sidecar_call c i (DStart c' i') = (c' = c \<and> i' = i)"
| "sidecar_call c i (DExecCreate c' i' opts) = (c' = c \<and> i' = i)"
| "sidecar_call c i (DExecAttach c' e) = (c' = c)"
| "sidecar_call c i (DExecRead e) = True"
| "sidecar_call c i (DExecInspect c' e) = (c' = c)"
| "sidecar_call c i k = False"

fun exec_words :: "docker_call list \<Rightarrow> string list list" where
  "exec_words [] = []"
| "exec_words (DExecCreate c i opts # evs) = XCmd opts # exec_words evs"
| "exec_words (k # evs) = exec_words evs"

lemma exec_words_append [simp]: "exec_words (xs @ ys) = exec_words xs @ exec_words ys"
  by (induction xs rule: exec_words.induct) simp_all

definition removal :: "ctx \<Rightarrow> string \<Rightarrow> docker_call list \<Rightarrow> bool" where
  "removal c i evs \<longleftrightarrow>
     evs = [DRemove (cleanup_ctx c sidecarRemoveTimeout) i True False False] \<or>
     evs = [DRemove (cleanup_ctx c sidecarRemoveTimeout) i True False False,
            DInspect (cleanup_ctx c sidecarInspectTimeout) i]"

lemma removeSidecar_ensures: "ensures (removeSidecar api c i) (\<lambda>tr r evs. removal c i evs)"
  by (rule ensuresI)
    (auto simp: removeSidecar_def sidecarRemovalComplete_def Let_def removal_def
      split: option.splits if_splits sum.splits)

lemma exec_run [simp]:
  "run_state (exec_create api c i opts) tr = (ContainerExecCreate api tr c i opts, tr @ [DExecCreate c i opts])"
  "run_state (exec_attach api c e) tr = (ContainerExecAttach api tr c e, tr @ [DExecAttach c e])"
  "run_state (exec_read api e) tr = (ReadAttached api tr e, tr @ [DExecRead e])"
  "run_state (exec_inspect api c e) tr = (ContainerExecInspect api tr c e, tr @ [DExecInspect c e])"
  by (simp_all add: exec_create_def exec_attach_def exec_read_def exec_inspect_def)

lemma runSidecarExec_ensures:
  "ensures (runSidecarExec api c i tool args)
     (\<lambda>tr r evs. list_all (sidecar_call c i) evs \<and> exec_words evs = [tool # args])"
  by (rule ensuresI)
    (auto simp: runSidecarExec_def runExecAttached_def split: option.splits if_splits sum.splits)

definition sidecar_run :: "ctx \<Rightarrow> string \<Rightarrow> string list list \<Rightarrow> error option \<Rightarrow> docker_call list \<Rightarrow> bool" where
  "sidecar_run c i cmds r evs \<longleftrightarrow> (\<exists>mid rest. evs = mid @ rest \<and> list_all (sidecar_call c i) mid \<and>
     removal c i rest \<and> (if r = None then exec_words mid = cmds else prefix (exec_words mid) cmds))"

lemma removal_run: "removal c i evs \<Longrightarrow> r \<noteq> None \<or> cmds = [] \<Longrightarrow> sidecar_run c i cmds r evs"
  unfolding sidecar_run_def by (rule exI [of _ "[]"]) auto

lemma remove_then:
  "ensures (do { _ \<leftarrow> removeSidecar api c i; State_Monad.return r }) (\<lambda>tr r' evs. r' = r \<and> removal c i evs)"
  by (rule ensures_bind_return [OF removeSidecar_ensures]) simp

lemma sidecar_run_step:
  "list_all (sidecar_call c i) evs \<Longrightarrow> exec_words evs = w \<Longrightarrow> sidecar_run c i cmds r evs' \<Longrightarrow>
    sidecar_run c i (w @ cmds) r (evs @ evs')"
  unfolding sidecar_run_def
  by (elim exE conjE, rename_tac mid rest, rule_tac x = "evs @ mid" in exI, rule_tac x = rest in exI) auto

lemma sidecar_run_fail:
  "list_all (sidecar_call c i) evs \<Longrightarrow> exec_words evs = [w] \<Longrightarrow> removal c i evs' \<Longrightarrow> r \<noteq> None \<Longrightarrow>
    sidecar_run c i (w # cmds) r (evs @ evs')"
  unfolding sidecar_run_def by (rule exI [of _ evs], rule exI [of _ evs']) auto

lemma run_sidecar_execs_ensures:
  "ensures (run_sidecar_execs api c i tool argsList)
     (\<lambda>tr r evs. sidecar_run c i (map ((#) tool) argsList) r evs)"
proof (induction argsList)
  case Nil
  show ?case
    by (simp, rule ensures_bind_return [OF removeSidecar_ensures]) (simp add: removal_run)
next
  case (Cons args argsList)
  show ?case
    unfolding run_sidecar_execs.simps
  proof (rule ensures_bind [OF runSidecarExec_ensures])
    fix err :: "error option"
    show "ensures (case err of
          Some e \<Rightarrow> do {
            _ \<leftarrow> removeSidecar api c i;
            State_Monad.return
              (Some (ErrWrap ''error running %s command on container: %v: %w'' [tool, join_with '' '' args] e)) }
        | None \<Rightarrow> run_sidecar_execs api c i tool argsList)
      (\<lambda>tr r evs. if err = None then sidecar_run c i (map ((#) tool) argsList) r evs
         else r \<noteq> None \<and> removal c i evs)"
      by (cases err) (use Cons in \<open>auto intro: ensures_mono [OF remove_then]\<close>)
  next
    fix tr r evs r' evs' assume "list_all (sidecar_call c i) evs \<and> exec_words evs = [tool # args]"
      and "if r = None then sidecar_run c i (map ((#) tool) argsList) r' evs'
         else r' \<noteq> None \<and> removal c i evs'"
    then show "sidecar_run c i (map ((#) tool) (args # argsList)) r' (evs @ evs')"
      using sidecar_run_step [of c i evs "[tool # args]"]
      by (cases r) (auto intro: sidecar_run_fail)
  qed
qed


lemma use_sidecar_ensures:
  "ensures (use_sidecar api c i tool argsList) (\<lambda>tr r evs. sidecar_run c i (map ((#) tool) argsList) r evs)"
  unfolding use_sidecar_def
proof (rule ensures_bind [OF ensures_docker_act [of "\<lambda>tr r evs. evs = [DStart c i]"]])
  fix err :: "error option"
  show "ensures (case err of
         Some e \<Rightarrow> do {
           _ \<leftarrow> removeSidecar api c i;
           State_Monad.return (Some (ErrWrap ''failed to start %s-container: %w'' [tool] e)) }
       | None \<Rightarrow> run_sidecar_execs api c i tool argsList)
     (\<lambda>tr r evs. sidecar_run c i (map ((#) tool) argsList) r evs)"
    by (cases err) (auto intro: run_sidecar_execs_ensures ensures_mono [OF remove_then] removal_run)
qed (use sidecar_run_step [of c i "[DStart c i]" "[]"] in simp_all)

lemma runSidecar_run:
  "run_state (runSidecar api c x argsList img tool pull) tr =
    (case (if pull then run_state (pullSidecarImage api c img tool) tr else (None, tr)) of (err, t) \<Rightarrow>
       if err \<noteq> None then (err, t)
       else (case ContainerCreate api t c (sidecar_config img) (sidecar_hconfig x) of
           Inl e \<Rightarrow> (Some (ErrWrap ''failed to create %s-container from image %q: %w'' [tool, img] e),
                     t @ [DCreate c (sidecar_config img) (sidecar_hconfig x)])
         | Inr i \<Rightarrow> run_state (use_sidecar api c i tool argsList)
             (t @ [DCreate c (sidecar_config img) (sidecar_hconfig x)])))"
  by (cases "ContainerCreate api (snd (run_state (pullSidecarImage api c img tool) tr)) c (sidecar_config img) (sidecar_hconfig x)";
      cases "ContainerCreate api tr c (sidecar_config img) (sidecar_hconfig x)")
    (auto simp: runSidecar_def split: prod.splits)

lemma pullSidecarImage_trace: "run_state (pullSidecarImage api c img tool) tr = (r, tr') \<Longrightarrow> tr' = tr @ [DPull c img]"
  by (auto simp: pullSidecarImage_def split: sum.splits)

section \<open>Facts: the commands that run\<close>

text \<open>
  The commands that are executed for a request, in a sidecar or in the target: every exec but the probes
  with \<open>which\<close>.
\<close>

definition tool_words :: "docker_call list \<Rightarrow> string list list" where
  "tool_words evs = filter (\<lambda>w. w = [] \<or> hd w \<noteq> ''which'') (exec_words evs)"

lemma tool_words_simps [simp]:
  "tool_words [] = []" "tool_words (xs @ ys) = tool_words xs @ tool_words ys"
  by (simp_all add: tool_words_def)

definition runs_commands :: "('e list \<Rightarrow> string list list) \<Rightarrow> ('e list, error option) state \<Rightarrow> string list list \<Rightarrow> bool" where
  "runs_commands vectors m cmds \<longleftrightarrow>
     ensures m (\<lambda>tr r evs. if r = None then vectors evs = cmds else prefix (vectors evs) cmds)"

lemma runs_commands_wrapf:
  "runs_commands v m cmds \<Longrightarrow> runs_commands v (do { err \<leftarrow> m; State_Monad.return (wrapf f args err) }) cmds"
  unfolding runs_commands_def by (erule ensures_bind_return) simp

lemma runs_commands_return:
  "runs_commands v (State_Monad.return r) cmds" if "v [] = []" "r \<noteq> None \<or> cmds = []"
  using that unfolding runs_commands_def by (intro ensures_return) auto

lemma runSidecar_words:
  "ensures (runSidecar api c x argsList img tool pull) (\<lambda>tr r evs.
     if r = None then exec_words evs = map ((#) tool) argsList else prefix (exec_words evs) (map ((#) tool) argsList))"
  (is "ensures _ ?Q")
proof -
  have removal: "removal c' i evs \<Longrightarrow> exec_words evs = []" for c' i evs
    by (auto simp: removal_def)
  have use: "ensures (use_sidecar api c i tool argsList) ?Q" for i
    by (rule ensures_mono [OF use_sidecar_ensures]) (auto simp: sidecar_run_def removal split: if_splits)
  have err: "ensures (State_Monad.return (Some e)) ?Q" for e by (rule ensures_return) simp
  have silent: "ensures m (\<lambda>tr a evs. exec_words evs = []) \<Longrightarrow> (\<And>a. ensures (f a) ?Q) \<Longrightarrow>
      ensures (State_Monad.bind m f) ?Q" for m :: "(docker_call list, 'a) state" and f
    by (erule ensures_bind, assumption) auto
  have pull: "ensures (if pull then pullSidecarImage api c img tool else State_Monad.return None)
      (\<lambda>tr a evs. exec_words evs = [])"
    by (rule ensuresI) (auto dest: pullSidecarImage_trace split: if_splits)
  show ?thesis
    unfolding runSidecar_def
    by (intro silent pull ensures_cases err use; (rule ensures_sdk_call)?, (rule ensures_return)?) auto
qed

fun exec_silent :: "docker_call \<Rightarrow> bool" where
  "exec_silent (DExecCreate c i opts) = False"
| "exec_silent k = True"

lemma exec_silent_words: "list_all exec_silent evs \<Longrightarrow> exec_words evs = []"
  by (induction evs rule: exec_words.induct) simp_all

lemma execOnContainer_words:
  assumes "filter (\<lambda>x. x \<noteq> CHR '' '') tool = tool" and "tool \<noteq> ''which''"
  shows "ensures (execOnContainer api c x tool args priv) (\<lambda>tr r evs. list_all (\<lambda>_. True) evs \<and>
    (if r = None then tool_words evs = [tool # args] else prefix (tool_words evs) [tool # args]))"
    (is "ensures _ ?Q")
proof -
  have err: "ensures (State_Monad.return (Some e)) ?Q" for e by (rule ensures_return) (simp add: list_all_iff)
  have silent: "ensures m (\<lambda>tr a evs. tool_words evs = []) \<Longrightarrow> (\<And>a. ensures (f a) ?Q) \<Longrightarrow>
      ensures (State_Monad.bind m f) ?Q" for m :: "(docker_call list, 'a) state" and f
    by (erule ensures_bind, assumption) (auto simp: list_all_iff)
  have quiet: "emits exec_silent m \<Longrightarrow> ensures m (\<lambda>tr a evs. tool_words evs = [])"
    for m :: "(docker_call list, 'a) state"
    by (rule ensures_mono [OF ensures_emits], assumption, drule exec_silent_words) (simp add: tool_words_def)
  have attached: "emits exec_silent (runExecAttached api c e)" "emits exec_silent (exec_inspect api c e)" for e
    by (auto intro!: emits_runExecAttached emits_exec_calls)
  note after = silent [OF quiet [OF attached(1)]] silent [OF quiet [OF attached(2)]]
  have probe: "ensures (exec_create api c i \<lparr>XUser = '''', XPrivileged = False, XCmd = [''which'', tool]\<rparr>)
      (\<lambda>tr a evs. tool_words evs = [])" for i
    unfolding exec_create_def by (rule ensures_sdk_call) (simp add: tool_words_def)
  have create: "ensures (exec_create api c i \<lparr>XUser = '''', XPrivileged = priv, XCmd = tool # args\<rparr>)
      (\<lambda>tr a evs. tool_words evs = [tool # args])" for i
    unfolding exec_create_def by (rule ensures_sdk_call) (simp add: tool_words_def assms(2))
  have run: "(\<And>a. emits exec_silent (f a)) \<Longrightarrow>
      ensures (do { a \<leftarrow> exec_create api c i \<lparr>XUser = '''', XPrivileged = priv, XCmd = tool # args\<rparr>; f a }) ?Q"
    for i and f :: "error + string \<Rightarrow> (docker_call list, error option) state"
    by (rule ensures_bind [OF create quiet]) (auto simp: list_all_iff)
  show ?thesis
    unfolding execOnContainer_def Let_def assms(1)
    by (rule silent [OF probe], intro ensures_cases after err run exec_intros attached)
qed

lemma exec_commands_words:
  assumes "filter (\<lambda>x. x \<noteq> CHR '' '') tool = tool" and "tool \<noteq> ''which''"
  shows "runs_commands tool_words (exec_commands api c x tool f argsList) (map ((#) tool) argsList)"
proof -
  have "ensures (do { err \<leftarrow> execOnContainer api c x tool args True;
       State_Monad.return (wrapf f [join_with '' '' args] err) }) (\<lambda>tr r evs. list_all (\<lambda>_. True) evs \<and>
      (if r = None then tool_words evs = [tool # args] else prefix (tool_words evs) [tool # args]))" for args
    by (rule ensures_bind_return [OF execOnContainer_words [OF assms]]) simp
  from ensures_for_err [OF this tool_words_simps] show ?thesis
    unfolding runs_commands_def exec_commands_def by (rule ensures_mono) simp
qed

lemma runSidecar_tool_words:
  assumes "tool \<noteq> ''which''"
  shows "runs_commands tool_words (runSidecar api c x argsList img tool pull) (map ((#) tool) argsList)"
proof -
  have keep: "prefix xs (map ((#) tool) argsList) \<Longrightarrow> filter (\<lambda>w. w = [] \<or> hd w \<noteq> ''which'') xs = xs" for xs
    using assms by (fastforce simp: filter_id_conv dest!: set_mono_prefix)
  show ?thesis unfolding runs_commands_def
    by (rule ensures_mono [OF runSidecar_words]) (auto simp: tool_words_def keep split: if_splits)
qed

lemma tool_commands_words:
  "runs_commands tool_words (tcCommands api c x argsList img pull) (map ((#) ''tc'') argsList)"
  "runs_commands tool_words (ipTablesCommands api c x argsList img pull) (map ((#) ''iptables'') argsList)"
  by (auto simp: tcCommands_def ipTablesCommands_def intro!: exec_commands_words runSidecar_tool_words)

text \<open>What the requests ask for, whatever the runtime.\<close>

definition netem_commands :: "netem_request \<Rightarrow> string list list" where
  "netem_commands req = (if netem_unfiltered req then netem_start_commands req else netem_filter_commands req)"

definition netem_vectors :: "netem_request \<Rightarrow> string list list" where
  "netem_vectors req = (if NDryRun req then [] else map ((#) ''tc'') (netem_commands req))"

definition iptables_vectors :: "iptables_request \<Rightarrow> string list list" where
  "iptables_vectors req =
     (if IDryRun req then []
      else map ((#) ''iptables'')
        (if iptables_unfiltered req then [CmdPrefix req @ CmdSuffix req] else iptables_filter_commands req))"

lemma docker_runs:
  "runs_commands tool_words (docker_NetemContainer api c nr) (netem_vectors nr)"
  "runs_commands tool_words (docker_IPTablesContainer api c ir) (iptables_vectors ir)"
  "runs_commands tool_words (docker_StopIPTablesContainer api c ir) (iptables_vectors ir)"
  by (auto simp: docker_NetemContainer_def startNetemContainer_def startNetemContainerIPFilter_def netem_vectors_def
      netem_commands_def docker_IPTablesContainer_def docker_StopIPTablesContainer_def ipTablesContainer_def
      ipTablesContainerWithIPFilter_def iptables_vectors_def
      intro!: runs_commands_wrapf tool_commands_words runs_commands_return
        tool_commands_words(2) [of _ _ _ "[_]", simplified])

definition docker_stop_vectors :: "netem_request \<Rightarrow> string list list" where
  "docker_stop_vectors req = (if NDryRun req then [] else map ((#) ''tc'') (netem_stop_commands req))"

lemma docker_stop_runs:
  "runs_commands tool_words (docker_StopNetemContainer api c nr) (docker_stop_vectors nr)"
  by (auto simp: docker_StopNetemContainer_def stopNetemContainer_def docker_stop_vectors_def
      intro!: runs_commands_wrapf tool_commands_words runs_commands_return)

section \<open>Properties\<close>

text \<open>C20: Once the sidecar has been created, every path ends with its forced removal under a context that
  the cancellation of the caller's context does not reach (an inspection may follow a removal that timed
  out): when the start fails, when a command fails and after the last command. Between the two only
  calls on the sidecar are made; the commands that run in it are the given ones in order, all of
  them when nil is returned and a prefix of them otherwise. Without a sidecar an error is returned.\<close>

theorem runSidecar_removes:
  "ensures (runSidecar api c x argsList img tool pull) (\<lambda>tr r evs.
     let pre = (if pull then [DPull c img] else []);
         create = DCreate c (sidecar_config img) (sidecar_hconfig x) in
     (pull \<and> evs = pre \<and> r \<noteq> None) \<or>
     (case ContainerCreate api (tr @ pre) c (sidecar_config img) (sidecar_hconfig x) of
        Inl e \<Rightarrow> evs = pre @ [create] \<and> r \<noteq> None
      | Inr i \<Rightarrow> \<exists>mid rest. evs = pre @ create # mid @ rest \<and> list_all (sidecar_call c i) mid \<and>
          removal c i rest \<and> ctx_detached (cleanup_ctx c sidecarRemoveTimeout) \<and>
          (if r = None then exec_words mid = map ((#) tool) argsList
           else prefix (exec_words mid) (map ((#) tool) argsList))))"
proof (rule ensuresI)
  let ?create = "DCreate c (sidecar_config img) (sidecar_hconfig x)"
  fix tr r tr' assume run: "run_state (runSidecar api c x argsList img tool pull) tr = (r, tr')"
  define pre where "pre = (if pull then [DPull c img] else [])"
  obtain err t where p: "(if pull then run_state (pullSidecarImage api c img tool) tr else (None, tr)) = (err, t)"
    by fastforce
  then have t: "t = tr @ pre" "err \<noteq> None \<Longrightarrow> pull"
    using pullSidecarImage_trace by (fastforce simp: pre_def split: if_splits)+
  show "\<exists>evs. tr' = tr @ evs \<and> (let pre = (if pull then [DPull c img] else []); create = ?create in
     (pull \<and> evs = pre \<and> r \<noteq> None) \<or>
     (case ContainerCreate api (tr @ pre) c (sidecar_config img) (sidecar_hconfig x) of
        Inl e \<Rightarrow> evs = pre @ [create] \<and> r \<noteq> None
      | Inr i \<Rightarrow> \<exists>mid rest. evs = pre @ create # mid @ rest \<and> list_all (sidecar_call c i) mid \<and>
          removal c i rest \<and> ctx_detached (cleanup_ctx c sidecarRemoveTimeout) \<and>
          (if r = None then exec_words mid = map ((#) tool) argsList
           else prefix (exec_words mid) (map ((#) tool) argsList))))"
  proof (cases "err = None \<and> (\<exists>i. ContainerCreate api t c (sidecar_config img) (sidecar_hconfig x) = Inr i)")
    case False
    then show ?thesis using run t unfolding runSidecar_run p pre_def [symmetric] Let_def
      by (cases err; cases "ContainerCreate api t c (sidecar_config img) (sidecar_hconfig x)") auto
  next
    case True
    then obtain i where i: "err = None" "ContainerCreate api t c (sidecar_config img) (sidecar_hconfig x) = Inr i"
      by blast
    from run obtain evs where "tr' = (t @ [?create]) @ evs" "sidecar_run c i (map ((#) tool) argsList) r evs"
      unfolding runSidecar_run p using i by (auto elim: ensuresE [OF use_sidecar_ensures])
    then show ?thesis using i t unfolding pre_def [symmetric] Let_def
      by (auto simp: sidecar_run_def)
  qed
qed

text \<open>
  What a \<open>tc qdisc\<close> command names: the device, and the position of the queueing discipline (its parent
  and handle, or the root).
\<close>

definition qdisc_place :: "string list \<Rightarrow> (string \<times> string list) option" where
  "qdisc_place cmd =
     (if length cmd > 5 \<and> cmd ! 0 = ''qdisc'' \<and> cmd ! 2 = ''dev'' then
        Some (cmd ! 3, (if cmd ! 4 = ''parent'' then take 4 (drop 4 cmd)
          else if cmd ! 5 = ''handle'' then take 3 (drop 4 cmd) else take 1 (drop 4 cmd)))
      else None)"

definition tc_verb :: "string list \<Rightarrow> string" where
  "tc_verb cmd = (if length cmd > 1 then cmd ! 1 else '''')"

lemma qdisc_place_filter: "qdisc_place (tc_filter dev m) = None"
  by (simp add: tc_filter_def qdisc_place_def)

lemma qdisc_filters:
  "List.map_filter qdisc_place (map (\<lambda>x. tc_filter dev (g x)) xs @ ys) = List.map_filter qdisc_place ys"
  "List.map_filter qdisc_place (map (\<lambda>x. tc_filter dev (g x)) xs) = []"
  by (induction xs) (simp_all add: List.map_filter_simps qdisc_place_filter)

lemma tc_verb_filter: "tc_verb (tc_filter dev m) = ''add''"
  by (simp add: tc_filter_def tc_verb_def)

text \<open>C21: Stopping an emulation deletes exactly the queueing disciplines that starting it created, each once
  and on the same device, the root one last: the filters go with it. Every command of the start is
  an addition and every command of the stop a deletion.\<close>

theorem netem_stop_mirrors_start:
  "List.map_filter qdisc_place (netem_stop_commands req) = rotate1 (List.map_filter qdisc_place (netem_commands req)) \<and>
   list_all (\<lambda>cmd. tc_verb cmd = ''add'') (netem_commands req) \<and>
   list_all (\<lambda>cmd. tc_verb cmd = ''del'') (netem_stop_commands req)"
proof -
  have verbs: "list_all (\<lambda>cmd. tc_verb cmd = ''add'') (netem_commands req)"
    by (auto simp: netem_commands_def netem_start_commands_def netem_filter_commands_def Let_def list_all_iff
        tc_verb_filter) (simp_all add: tc_verb_def)
  have "list_all (\<lambda>cmd. tc_verb cmd = ''del'') (netem_stop_commands req)"
    by (simp add: netem_stop_commands_def Let_def tc_verb_def)
  with verbs show ?thesis
    by (simp add: netem_commands_def netem_stop_commands_def netem_start_commands_def netem_filter_commands_def
        Let_def List.map_filter_simps qdisc_place_def qdisc_filters)
qed

end
