(* ===== verification/DockerStress.thy ===== *)
theory DockerStress
  imports DockerSidecar
begin

text \<open>
  \<open>pkg/runtime/docker\<close>: the cgroup of a target (\<open>cgroup.go\<close>) and the stress-ng sidecar that is placed
  in it (\<open>stress.go\<close>).
\<close>

section \<open>Cgroups (\<open>cgroup.go\<close>)\<close>

definition cgroupDriverSystemd :: string where "cgroupDriverSystemd = ''systemd''"
definition cgroupDriverCgroupfs :: string where "cgroupDriverCgroupfs = ''cgroupfs''"

definition cgroupDriver :: "docker_api \<Rightarrow> ctx \<Rightarrow> (docker_call list, error + string) state" where
  "cgroupDriver api c = sdk_call (DInfo c) (\<lambda>tr. map_sum id CgroupDriver (Info api tr c))"

definition containerLeafCgroup :: "string \<Rightarrow> string \<Rightarrow> string" where
  "containerLeafCgroup targetID driver =
     (if driver = cgroupDriverSystemd then ''docker-'' @ targetID @ ''.scope'' else targetID)"

text \<open>\<open>inspect.HostConfig\<close> is a field of the base part: without a base part its use panics.\<close>

definition inspectCgroupParent :: "docker_api \<Rightarrow> ctx \<Rightarrow> string \<Rightarrow> (docker_call list, error + string) state" where
  "inspectCgroupParent api c targetID = do {
     r \<leftarrow> inspect_container api c targetID;
     State_Monad.return (case r of
         Inl err \<Rightarrow> Inr ''''
       | Inr insp \<Rightarrow>
           (case Base insp of
              None \<Rightarrow> Inl nil_panic
            | Some b \<Rightarrow>
                (case BaseCgroupParent b of
                   None \<Rightarrow> Inr ''''
                 | Some p \<Rightarrow> if p \<noteq> '''' then Inr p else Inr ''''))) }"

definition defaultCgroupParent :: "string \<Rightarrow> string \<Rightarrow> string" where
  "defaultCgroupParent targetID driver =
     (if driver = cgroupDriverSystemd then ''system.slice'' else ''/docker/'' @ targetID)"

text \<open>The last part of \<open>stressResolveDriver\<close>, on the driver and the path that were found.\<close>

definition resolve_parent :: "string \<Rightarrow> bool \<Rightarrow> string \<Rightarrow> string \<Rightarrow> string \<times> string \<times> string" where
  "resolve_parent targetID injectCgroup driver cgroupPath =
     (if injectCgroup then (driver, '''', cgroupPath)
      else if cgroupPath = '''' then (driver, defaultCgroupParent targetID driver, cgroupPath)
      else if driver = cgroupDriverSystemd
      then (driver, (case last_index (CHR ''/'') cgroupPath of Some n \<Rightarrow> take n cgroupPath | None \<Rightarrow> ''''), cgroupPath)
      else (driver, cgroupPath, cgroupPath))"

definition stressResolveDriver ::
  "docker_api \<Rightarrow> ctx \<Rightarrow> string \<Rightarrow> bool \<Rightarrow> (docker_call list, error + string \<times> string \<times> string) state" where
  "stressResolveDriver api c targetID injectCgroup = do {
     d \<leftarrow> cgroupDriver api c;
     p \<leftarrow> inspectCgroupParent api c targetID;
     State_Monad.return (case p of
         Inl panic \<Rightarrow> Inl panic
       | Inr inspectParent \<Rightarrow>
       (case d of
          Inl err \<Rightarrow>
            if inspectParent = '''' then Inl (ErrWrap ''failed to get docker info: %w'' [] err)
            else
              let driver = (if suffix ''.slice'' inspectParent then cgroupDriverSystemd else cgroupDriverCgroupfs) in
              Inr (resolve_parent targetID injectCgroup driver
                (inspectParent @ ''/'' @ containerLeafCgroup targetID driver))
        | Inr driver \<Rightarrow>
            let driver = (if driver = '''' then cgroupDriverCgroupfs else driver);
                cgroupPath = (if inspectParent \<noteq> '''' then inspectParent @ ''/'' @ containerLeafCgroup targetID driver
                              else '''') in
            Inr (resolve_parent targetID injectCgroup driver cgroupPath))) }"

section \<open>Stress-ng sidecars (\<open>stress.go\<close>)\<close>

definition stressContainerConfig ::
  "string \<Rightarrow> string list \<Rightarrow> string \<Rightarrow> string \<Rightarrow> string \<Rightarrow> string \<Rightarrow> bool \<Rightarrow> container_config \<times> host_config" where
  "stressContainerConfig targetID stressors img driver cgroupParent cgroupPath injectCgroup =
     (if injectCgroup then
        (\<lparr>CfgLabels = [(''com.gaiaadm.pumba.skip'', ''true'')], CfgImage = img, CfgEntrypoint = [''/cg-inject''],
          CfgCmd = (if cgroupPath \<noteq> '''' then [''--cgroup-path'', cgroupPath, ''--'', ''/stress-ng''] @ stressors
            else [''--target-id'', targetID, ''--cgroup-driver'', driver, ''--'', ''/stress-ng''] @ stressors),
          CfgStopSignal = ''''\<rparr>,
         \<lparr>AutoRemove = True, CapAdd = [], NetworkMode = '''', CgroupnsMode = ''host'',
          Binds = [''/sys/fs/cgroup:/sys/fs/cgroup:rw''], CgroupParent = '''', SecurityOpt = []\<rparr>)
      else
        (\<lparr>CfgLabels = [(''com.gaiaadm.pumba.skip'', ''true'')], CfgImage = img, CfgEntrypoint = [''/stress-ng''],
          CfgCmd = stressors, CfgStopSignal = ''''\<rparr>,
         \<lparr>AutoRemove = True, CapAdd = [], NetworkMode = '''', CgroupnsMode = '''', Binds = [],
          CgroupParent = cgroupParent, SecurityOpt = []\<rparr>))"

text \<open>
  The goroutine that reads the attached stream to its end and then inspects the sidecar. It makes no
  call that changes anything; the model runs it when the sidecar has started, before the caller
  goes on, and the \<open>select\<close> of the stress command decides whether its result is awaited.
  After a failed start the source drops the channels with the error, so the model leaves its reads out.
\<close>

definition collect_output ::
  "docker_api \<Rightarrow> ctx \<Rightarrow> string \<Rightarrow> (docker_call list, string list \<times> error list) state" where
  "collect_output api c i = do {
     r \<leftarrow> sdk_call (DAttachRead i) (\<lambda>tr. ReadAttached api tr i);
     case r of
       Inl e \<Rightarrow> State_Monad.return ([], [e])
     | Inr stdout \<Rightarrow> do {
         insp \<leftarrow> inspect_container api c i;
         State_Monad.return (case insp of
             Inl e \<Rightarrow> ([], [ErrWrap ''failed to inspect stress-ng container: %w'' [] e])
           | Inr info \<Rightarrow>
               (case Option.bind (Base info) BaseState of
                  None \<Rightarrow> ([], [nil_panic])
                | Some s \<Rightarrow>
                    if ExitCode s \<noteq> 0 then ([], [ErrNew ''stress-ng exited with error: %v'' [stdout]])
                    else ([stdout], []))) } }"

text \<open>From the creation of the sidecar on: attach, start, and the cleanup when either fails.\<close>

definition run_stress_sidecar ::
  "docker_api \<Rightarrow> ctx \<Rightarrow> string \<Rightarrow> (docker_call list, error + stress_result) state" where
  "run_stress_sidecar api c i = do {
     attachErr \<leftarrow> docker_act api (DAttach c i);
     case attachErr of
       Some err \<Rightarrow> do {
         _ \<leftarrow> removeSidecar api c i;
         State_Monad.return (Inl (ErrWrap ''failed to attach to stress-ng container: %w'' [] err)) }
     | None \<Rightarrow> do {
         startErr \<leftarrow> docker_act api (DStart c i);
         case startErr of
           Some err \<Rightarrow> do {
             _ \<leftarrow> removeSidecar api c i;
             State_Monad.return (Inl (ErrWrap ''failed to start stress-ng container: %w'' [] err)) }
         | None \<Rightarrow> do {
             out \<leftarrow> collect_output api c i;
             State_Monad.return (Inr \<lparr>SidecarID = i, Output = fst out, Errors = snd out\<rparr>) } } }"

definition create_stress_sidecar ::
  "docker_api \<Rightarrow> ctx \<Rightarrow> container_config \<Rightarrow> host_config \<Rightarrow> bool \<Rightarrow> (docker_call list, error + stress_result) state" where
  "create_stress_sidecar api c config hconfig pull = do {
     perr \<leftarrow> (if pull then pullImage api c (CfgImage config) else State_Monad.return None);
     case perr of
       Some err \<Rightarrow> State_Monad.return (Inl err)
     | None \<Rightarrow> do {
         r \<leftarrow> sdk_call (DCreate c config hconfig) (\<lambda>tr. ContainerCreate api tr c config hconfig);
         case r of
           Inl err \<Rightarrow> State_Monad.return (Inl (ErrWrap ''failed to create stress-ng container: %w'' [] err))
         | Inr i \<Rightarrow> run_stress_sidecar api c i } }"

definition stressContainerCommand ::
  "docker_api \<Rightarrow> ctx \<Rightarrow> string \<Rightarrow> string list \<Rightarrow> string \<Rightarrow> bool \<Rightarrow> bool \<Rightarrow>
     (docker_call list, error + stress_result) state" where
  "stressContainerCommand api c targetID stressors img pull injectCgroup = do {
     d \<leftarrow> stressResolveDriver api c targetID injectCgroup;
     case d of
       Inl err \<Rightarrow> State_Monad.return (Inl err)
     | Inr (driver, cgroupParent, cgroupPath) \<Rightarrow>
       (case stressContainerConfig targetID stressors img driver cgroupParent cgroupPath injectCgroup of
          (config, hconfig) \<Rightarrow> create_stress_sidecar api c config hconfig pull) }"

definition docker_StressContainer ::
  "docker_api \<Rightarrow> ctx \<Rightarrow> stress_request \<Rightarrow> (docker_call list, error + stress_result) state" where
  "docker_StressContainer api c req =
     (if StDryRun req then State_Monad.return (Inr \<lparr>SidecarID = '''', Output = [], Errors = []\<rparr>)
      else stressContainerCommand api c (ContainerID (StContainer req)) (Stressors req)
             (SImage (StSidecar req)) (SPull (StSidecar req)) (InjectCgroup req))"

section \<open>Facts\<close>

text \<open>What the cgroup of a sidecar should be, from the daemon's driver and the target's parent.\<close>

definition cgroup_driver :: "error + string \<Rightarrow> string \<Rightarrow> string" where
  "cgroup_driver info parent = (case info of
     Inl e \<Rightarrow> if suffix ''.slice'' parent then ''systemd'' else ''cgroupfs''
   | Inr d \<Rightarrow> if d = '''' then ''cgroupfs'' else d)"

definition cgroup_path :: "string \<Rightarrow> string \<Rightarrow> string \<Rightarrow> string" where
  "cgroup_path targetID driver parent =
     (if parent = '''' then ''''
      else parent @ ''/'' @ (if driver = ''systemd'' then ''docker-'' @ targetID @ ''.scope'' else targetID))"

definition cgroup_parent :: "string \<Rightarrow> bool \<Rightarrow> string \<Rightarrow> string \<Rightarrow> string" where
  "cgroup_parent targetID inject driver parent =
     (if inject then ''''
      else if parent = '''' then (if driver = ''systemd'' then ''system.slice'' else ''/docker/'' @ targetID)
      else if driver = ''systemd'' then parent
      else parent @ ''/'' @ targetID)"

lemma resolve_parent_eq:
  assumes "CHR ''/'' \<notin> set targetID"
  shows "resolve_parent targetID inject driver (cgroup_path targetID driver parent) =
    (driver, cgroup_parent targetID inject driver parent, cgroup_path targetID driver parent)"
proof -
  have "last_index (CHR ''/'') (parent @ ''/docker-'' @ targetID @ ''.scope'') = Some (length parent)"
    using last_index_append_sep [of "CHR ''/''" "''docker-'' @ targetID @ ''.scope''" parent] assms by simp
  then show ?thesis
    by (simp add: resolve_parent_def cgroup_path_def cgroup_parent_def defaultCgroupParent_def cgroupDriverSystemd_def)
qed

lemma stressResolveDriver_run:
  assumes "CHR ''/'' \<notin> set targetID"
  shows "run_state (stressResolveDriver api c targetID inject) tr =
    (case fst (run_state (inspectCgroupParent api c targetID) (tr @ [DInfo c])) of
       Inl panic \<Rightarrow> Inl panic
     | Inr parent \<Rightarrow>
       (case map_sum id CgroupDriver (Info api tr c) of
          Inl err \<Rightarrow> if parent = '''' then Inl (ErrWrap ''failed to get docker info: %w'' [] err)
            else Inr (cgroup_driver (Inl err) parent,
              cgroup_parent targetID inject (cgroup_driver (Inl err) parent) parent,
              cgroup_path targetID (cgroup_driver (Inl err) parent) parent)
        | Inr d \<Rightarrow> Inr (cgroup_driver (Inr d) parent,
              cgroup_parent targetID inject (cgroup_driver (Inr d) parent) parent,
              cgroup_path targetID (cgroup_driver (Inr d) parent) parent)),
     tr @ [DInfo c, DInspect c targetID])"
proof -
  have path: "parent \<noteq> '''' \<Longrightarrow> parent @ CHR ''/'' # containerLeafCgroup targetID driver = cgroup_path targetID driver parent"
    for parent driver by (simp add: cgroup_path_def containerLeafCgroup_def cgroupDriverSystemd_def)
  have none: "cgroup_path targetID driver '''' = ''''" for driver by (simp add: cgroup_path_def)
  show ?thesis
    by (auto simp: stressResolveDriver_def cgroupDriver_def inspectCgroupParent_def Let_def path
        resolve_parent_eq [OF assms] cgroup_driver_def cgroupDriverSystemd_def cgroupDriverCgroupfs_def none
        resolve_parent_eq [OF assms, of _ _ "''''", unfolded none] split: sum.splits option.splits)
qed

text \<open>The calls on a stress sidecar once it has been created.\<close>

definition stress_started :: "ctx \<Rightarrow> string \<Rightarrow> docker_call list \<Rightarrow> bool" where
  "stress_started c i evs \<longleftrightarrow>
     evs = [DAttach c i, DStart c i, DAttachRead i] \<or> evs = [DAttach c i, DStart c i, DAttachRead i, DInspect c i]"

definition stress_cleaned :: "ctx \<Rightarrow> string \<Rightarrow> docker_call list \<Rightarrow> bool" where
  "stress_cleaned c i evs \<longleftrightarrow>
     (\<exists>rest. removal c i rest \<and> (evs = DAttach c i # rest \<or> evs = DAttach c i # DStart c i # rest))"

lemma collect_output_run:
  "run_state (collect_output api c i) tr = (out, tr') \<Longrightarrow>
    tr' = tr @ [DAttachRead i] \<or> tr' = tr @ [DAttachRead i, DInspect c i]"
  by (auto simp: collect_output_def split: sum.splits)

lemma removeSidecar_run:
  "run_state (removeSidecar api c i) tr = (r, tr') \<Longrightarrow> \<exists>rest. tr' = tr @ rest \<and> removal c i rest"
  using ensuresE [OF removeSidecar_ensures] by metis

lemma run_stress_sidecar_ensures:
  "ensures (run_stress_sidecar api c i) (\<lambda>tr r evs. case r of
     Inl e \<Rightarrow> stress_cleaned c i evs
   | Inr res \<Rightarrow> SidecarID res = i \<and> stress_started c i evs)"
proof (rule ensuresI)
  fix tr r tr' assume "run_state (run_stress_sidecar api c i) tr = (r, tr')"
  then show "\<exists>evs. tr' = tr @ evs \<and> (case r of Inl e \<Rightarrow> stress_cleaned c i evs
     | Inr res \<Rightarrow> SidecarID res = i \<and> stress_started c i evs)"
    by (auto simp: run_stress_sidecar_def stress_cleaned_def stress_started_def
        split: option.splits prod.splits dest!: removeSidecar_run collect_output_run)
qed

lemma stressResolveDriver_trace:
  "run_state (stressResolveDriver api c targetID inject) tr = (d, tr') \<Longrightarrow> tr' = tr @ [DInfo c, DInspect c targetID]"
  by (auto simp: stressResolveDriver_def cgroupDriver_def inspectCgroupParent_def)

lemma pullImage_trace: "run_state (pullImage api c img) tr = (r, tr') \<Longrightarrow> tr' = tr @ [DPull c img]"
  by (auto simp: pullImage_def split: sum.splits)

text \<open>The sidecars that the program starts carry the skip label and are removed when they exit.\<close>

definition stress_config_ok :: "container_config \<Rightarrow> host_config \<Rightarrow> bool" where
  "stress_config_ok config hconfig \<longleftrightarrow> AutoRemove hconfig \<and> CfgLabels config = [(pumbaSkipLabel, ''true'')]"

lemma stressContainerConfig_ok:
  "stressContainerConfig t s img d cp path inject = (config, hconfig) \<Longrightarrow> stress_config_ok config hconfig"
  by (auto simp: stressContainerConfig_def stress_config_ok_def pumbaSkipLabel_def split: if_splits)

lemma stressContainerConfig_image:
  "stressContainerConfig t s img d cp path inject = (config, hconfig) \<Longrightarrow> CfgImage config = img"
  by (auto simp: stressContainerConfig_def split: if_splits)

text \<open>What happens from the pull on, with the given configuration.\<close>

definition stress_sidecar_calls ::
  "docker_api \<Rightarrow> ctx \<Rightarrow> bool \<Rightarrow> string \<Rightarrow> container_config \<Rightarrow> host_config \<Rightarrow> docker_call list \<Rightarrow>
     error + stress_result \<Rightarrow> docker_call list \<Rightarrow> bool" where
  "stress_sidecar_calls api c pull img config hconfig tr r evs \<longleftrightarrow>
     (let pulled = (if pull then [DPull c img] else []) in
      (isl r \<and> pull \<and> evs = pulled) \<or>
      (\<exists>rest. evs = pulled @ DCreate c config hconfig # rest \<and>
         (case ContainerCreate api (tr @ pulled) c config hconfig of
            Inl e \<Rightarrow> isl r \<and> rest = []
          | Inr i \<Rightarrow> (case r of
              Inl e \<Rightarrow> stress_cleaned c i rest
            | Inr res \<Rightarrow> SidecarID res = i \<and> stress_started c i rest))))"

lemma create_stress_sidecar_ensures:
  "ensures (create_stress_sidecar api c config hconfig pull)
     (stress_sidecar_calls api c pull (CfgImage config) config hconfig)"
proof (rule ensuresI)
  let ?img = "CfgImage config"
  fix tr r tr' assume run: "run_state (create_stress_sidecar api c config hconfig pull) tr = (r, tr')"
  define pulled where "pulled = (if pull then [DPull c ?img] else [])"
  obtain perr u where u: "(if pull then run_state (pullImage api c ?img) tr else (None, tr)) = (perr, u)" by fastforce
  have u': "u = tr @ pulled" "perr \<noteq> None \<Longrightarrow> pull"
    using u by (auto simp: pulled_def split: if_splits dest: pullImage_trace)
  show "\<exists>evs. tr' = tr @ evs \<and> stress_sidecar_calls api c pull ?img config hconfig tr r evs"
  proof (cases "perr = None")
    case False
    with run u have "tr' = u" "isl r" by (auto simp: create_stress_sidecar_def split: if_splits)
    with u' False show ?thesis by (auto simp: stress_sidecar_calls_def pulled_def Let_def)
  next
    case True
    then have run': "(case ContainerCreate api u c config hconfig of
        Inl err \<Rightarrow> (Inl (ErrWrap ''failed to create stress-ng container: %w'' [] err), u @ [DCreate c config hconfig])
      | Inr i \<Rightarrow> run_state (run_stress_sidecar api c i) (u @ [DCreate c config hconfig])) = (r, tr')"
      using run u by (auto simp: create_stress_sidecar_def split: if_splits sum.splits)
    then have "\<exists>rest. tr' = u @ DCreate c config hconfig # rest \<and>
      (case ContainerCreate api u c config hconfig of Inl e \<Rightarrow> isl r \<and> rest = []
        | Inr i \<Rightarrow> (case r of Inl e \<Rightarrow> stress_cleaned c i rest
            | Inr res \<Rightarrow> SidecarID res = i \<and> stress_started c i rest))"
      by (cases "ContainerCreate api u c config hconfig") (auto elim: ensuresE [OF run_stress_sidecar_ensures])
    then show ?thesis unfolding u' stress_sidecar_calls_def pulled_def [symmetric] Let_def by auto
  qed
qed

section \<open>Properties\<close>

text \<open>C23: For a target whose ID has no slash, and whose cgroup parent (empty when unknown) the inspection gives,
  the stress sidecar is placed as follows. The driver is the daemon's, cgroupfs when it does not name
  one; when the daemon does not answer it is inferred from the parent, and without a parent the call
  fails. The target's own cgroup is its leaf (the ID, under systemd docker-ID.scope) below the parent.
  The sidecar's parent is, under systemd, the target's parent slice, otherwise the target's cgroup
  itself, and the driver's default when the parent is unknown; nothing when the process is injected.\<close>

theorem stressResolveDriver_resolves:
  assumes "CHR ''/'' \<notin> set targetID"
    and "fst (run_state (inspectCgroupParent api c targetID) (tr @ [DInfo c])) = Inr parent"
  shows "run_state (stressResolveDriver api c targetID inject) tr =
    (let driver = cgroup_driver (map_sum id CgroupDriver (Info api tr c)) parent in
     case map_sum id CgroupDriver (Info api tr c) of
       Inl err \<Rightarrow> if parent = '''' then Inl (ErrWrap ''failed to get docker info: %w'' [] err)
         else Inr (driver, cgroup_parent targetID inject driver parent, cgroup_path targetID driver parent)
     | Inr d \<Rightarrow> Inr (driver, cgroup_parent targetID inject driver parent, cgroup_path targetID driver parent),
     tr @ [DInfo c, DInspect c targetID])"
  unfolding stressResolveDriver_run [OF assms(1)] assms(2) Let_def by (simp split: sum.splits)

text \<open>C22: A stress sidecar that was created but could not be attached to or started is removed, by force and
  under a detached context, before the error is returned. Otherwise the result names the sidecar that
  was created, which has been attached to, then started, and was created to be removed by the
  daemon when it exits. Every sidecar carries the label that keeps it from being a target.\<close>

theorem stressContainerCommand_cleans:
  "ensures (stressContainerCommand api c targetID stressors img pull inject) (\<lambda>tr r evs.
     let pre = [DInfo c, DInspect c targetID] in
     (isl r \<and> evs = pre) \<or>
     (\<exists>config hconfig evs'. evs = pre @ evs' \<and> stress_config_ok config hconfig \<and>
        stress_sidecar_calls api c pull img config hconfig (tr @ pre) r evs'))"
proof (rule ensuresI)
  let ?pre = "[DInfo c, DInspect c targetID]"
  fix tr r tr' assume run: "run_state (stressContainerCommand api c targetID stressors img pull inject) tr = (r, tr')"
  obtain d t where d: "run_state (stressResolveDriver api c targetID inject) tr = (d, t)" by fastforce
  have t: "t = tr @ ?pre" using stressResolveDriver_trace [OF d] .
  show "\<exists>evs. tr' = tr @ evs \<and> (let pre = ?pre in (isl r \<and> evs = pre) \<or>
     (\<exists>config hconfig evs'. evs = pre @ evs' \<and> stress_config_ok config hconfig \<and>
        stress_sidecar_calls api c pull img config hconfig (tr @ pre) r evs'))"
  proof (cases d)
    case (Inl e)
    with run d t show ?thesis by (auto simp: stressContainerCommand_def)
  next
    case (Inr p)
    obtain driver cp path where p: "p = (driver, cp, path)" by (cases p)
    obtain config hconfig where cfg: "stressContainerConfig targetID stressors img driver cp path inject = (config, hconfig)"
      by fastforce
    with run d Inr p have "run_state (create_stress_sidecar api c config hconfig pull) t = (r, tr')"
      by (auto simp: stressContainerCommand_def)
    then obtain evs where "tr' = t @ evs" "stress_sidecar_calls api c pull (CfgImage config) config hconfig t r evs"
      by (rule ensuresE [OF create_stress_sidecar_ensures])
    then show ?thesis
      using stressContainerConfig_ok [OF cfg] stressContainerConfig_image [OF cfg] t
      by (intro exI [of _ "?pre @ evs"]) auto
  qed
qed

end
