(* ===== verification/Emulation.thy ===== *)
theory Emulation
  imports Netem IPTables DockerSidecar
begin

text \<open>
  What the network commands promise of a container runtime, down to the argument vectors that run. The
  locale \<open>command_runtime\<close> is the contract between \<open>pkg/chaos/netem\<close>, \<open>pkg/chaos/iptables\<close> and an
  implementation of \<open>container.Client\<close>: a request runs exactly the vectors it stands for, in order, and
  stops at the first failure. The runtimes interpret it on their own operations.
\<close>

locale command_runtime =
  fixes cl :: "'e list client"
    and vectors :: "'e list \<Rightarrow> string list list"
    and stop_vectors :: "netem_request \<Rightarrow> string list list"
  assumes vectors_Nil: "vectors [] = []"
    and vectors_append: "vectors (xs @ ys) = vectors xs @ vectors ys"
    and Netem_runs: "runs_commands vectors (NetemContainer cl c nr) (netem_vectors nr)"
    and StopNetem_runs: "runs_commands vectors (StopNetemContainer cl c nr) (stop_vectors nr)"
    and IPTables_runs: "runs_commands vectors (IPTablesContainer cl c ir) (iptables_vectors ir)"
    and StopIPTables_runs: "runs_commands vectors (StopIPTablesContainer cl c ir) (iptables_vectors ir)"

text \<open>
  The trace of an emulation: the vectors that start it and, when it started, the call that stops it with
  the vectors of the stop. The error of the stop is dropped by the code.
\<close>

definition undone_run ::
  "('e list \<Rightarrow> string list list) \<Rightarrow> string list list \<Rightarrow> string list list \<Rightarrow> ('e list, error option) state \<Rightarrow>
     'e list \<Rightarrow> error option \<Rightarrow> 'e list \<Rightarrow> bool" where
  "undone_run vectors start stop stopping tr r evs \<longleftrightarrow>
     (case r of
        Some _ \<Rightarrow> prefix (vectors evs) start
      | None \<Rightarrow> \<exists>a b e. evs = a @ b \<and> vectors a = start \<and> run_state stopping (tr @ a) = (e, tr @ evs) \<and>
          (if e = None then vectors b = stop else prefix (vectors b) stop))"

text \<open>Both closures of the commands have the shape of \<open>guarded_task\<close>.\<close>

definition guarded_task :: "string \<Rightarrow> ('w, error option) state \<Rightarrow> ('w, error option) state \<Rightarrow> 'w task" where
  "guarded_task f start stop = perform start (\<lambda>err. case err of
     Some e \<Rightarrow> Ret (Some (ErrWrap f [] e))
   | None \<Rightarrow> Select (perform stop (\<lambda>_. Ret None)) [perform stop (\<lambda>_. Ret None)])"

lemma run_stop: "run_task ch (perform stop (\<lambda>_. Ret None)) w = (None, snd (run_state stop w))"
  by (simp split: prod.splits)

lemma run_same_branches: "run_task ch (Select t [t]) w = run_task ch t w"
  using nth_mem [of "ch w 2 mod 2" "[t, t]"] by (simp add: numeral_2_eq_2)

lemma run_guarded_task:
  "run_task ch (guarded_task f start stop) w = (case run_state start w of
     (Some e, w') \<Rightarrow> (Some (ErrWrap f [] e), w')
   | (None, w') \<Rightarrow> (None, snd (run_state stop w')))"
  unfolding guarded_task_def run_task_perform [of _ start]
  by (simp only: run_same_branches run_stop run_task.simps(1) split: prod.splits option.splits) simp

lemma guarded_task_undone:
  assumes "runs_commands vectors start v" and "runs_commands vectors stop u"
  shows "ensures (exec_task ch (guarded_task f start stop)) (undone_run vectors v u stop)"
proof (rule ensuresI)
  fix tr r tr' assume run: "run_state (exec_task ch (guarded_task f start stop)) tr = (r, tr')"
  obtain q t where q: "run_state start tr = (q, t)" by fastforce
  obtain a where a: "t = tr @ a" "if q = None then vectors a = v else prefix (vectors a) v"
    using assms(1) q unfolding runs_commands_def by (rule ensuresE)
  obtain e t' where e: "run_state stop t = (e, t')" by fastforce
  obtain b where b: "t' = t @ b" "if e = None then vectors b = u else prefix (vectors b) u"
    using assms(2) e unfolding runs_commands_def by (rule ensuresE)
  show "\<exists>evs. tr' = tr @ evs \<and> undone_run vectors v u stop tr r evs"
  proof (cases q)
    case None
    then have "r = None \<and> tr' = tr @ a @ b" "vectors a = v" using run q a b e by (simp_all add: run_guarded_task)
    moreover have "undone_run vectors v u stop tr None (a @ b)"
      unfolding undone_run_def using e b a None
      by (simp only: option.case, intro exI [of _ a] exI [of _ b] exI [of _ e]) simp
    ultimately show ?thesis by blast
  next
    case (Some x)
    then have "r = Some (ErrWrap f [] x) \<and> tr' = tr @ a" "prefix (vectors a) v"
      using run q a by (simp_all add: run_guarded_task)
    then show ?thesis by (intro exI [of _ a]) (simp add: undone_run_def)
  qed
qed

context command_runtime
begin

lemma runNetem_undone:
  "ensures (exec_task ch (runNetem c cl req))
     (undone_run vectors (netem_vectors req) (stop_vectors req) (StopNetemContainer cl (cleanup_ctx c cleanupTimeout) req))"
  using guarded_task_undone [OF Netem_runs StopNetem_runs]
  unfolding runNetem_def guarded_task_def .

lemma runIPTables_undone:
  "ensures (exec_task ch (runIPTables c cl add del))
     (undone_run vectors (iptables_vectors add) (iptables_vectors del)
        (StopIPTablesContainer cl (cleanup_ctx c ipt_cleanupTimeout) del))"
  using guarded_task_undone [OF IPTables_runs StopIPTables_runs]
  unfolding runIPTables_def guarded_task_def .

end

end
