(* ===== verification/Docker.thy ===== *)
theory Docker
  imports Cli DockerStress Emulation
begin

text \<open>
  The Docker runtime as one client (\<open>pkg/runtime/docker/client.go\<close>): the record of its operations, the
  proof that it meets the contract \<open>runtime_client\<close> of the chaos commands, and what follows for the
  command line run against a Docker daemon.
\<close>

section \<open>The client (\<open>client.go\<close>)\<close>

definition docker_Close :: "(docker_call list, error option) state" where
  "docker_Close = State_Monad.return None"

definition docker_client :: "docker_api \<Rightarrow> docker_call list client" where
  "docker_client api = \<lparr>
     ListContainers = docker_ListContainers api,
     StopContainer = docker_StopContainer api,
     KillContainer = docker_KillContainer api,
     StartContainer = docker_StartContainer api,
     RestartContainer = docker_RestartContainer api,
     RemoveContainer = docker_RemoveContainer api,
     PauseContainer = docker_PauseContainer api,
     UnpauseContainer = docker_UnpauseContainer api,
     StopContainerWithID = docker_StopContainerWithID api,
     ExecContainer = docker_ExecContainer api,
     NetemContainer = docker_NetemContainer api,
     StopNetemContainer = docker_StopNetemContainer api,
     IPTablesContainer = docker_IPTablesContainer api,
     StopIPTablesContainer = docker_StopIPTablesContainer api,
     StressContainer = docker_StressContainer api,
     CloseClient = docker_Close\<rparr>"

definition NewFromAPI :: "docker_api option \<Rightarrow> error + docker_call list client" where
  "NewFromAPI api = (case api of
     None \<Rightarrow> Inl (errorf ''docker: api client must not be nil'')
   | Some a \<Rightarrow> Inr (docker_client a))"

definition NewClient ::
  "(string \<Rightarrow> error + url) \<Rightarrow> (string \<Rightarrow> 'tls http_client \<Rightarrow> error + docker_api) \<Rightarrow>
     string \<Rightarrow> 'tls option \<Rightarrow> error + docker_call list client" where
  "NewClient url_Parse NewClientWithOpts dockerHost tlsConfig =
     (case NewAPIClient url_Parse NewClientWithOpts dockerHost tlsConfig of
        Inl err \<Rightarrow> Inl err
      | Inr apiClient \<Rightarrow> NewFromAPI (Some apiClient))"

section \<open>The contract\<close>

lemma docker_client_sel [simp]:
  "ListContainers (docker_client api) = docker_ListContainers api"
  "StopContainer (docker_client api) = docker_StopContainer api"
  "KillContainer (docker_client api) = docker_KillContainer api"
  "StartContainer (docker_client api) = docker_StartContainer api"
  "RestartContainer (docker_client api) = docker_RestartContainer api"
  "RemoveContainer (docker_client api) = docker_RemoveContainer api"
  "PauseContainer (docker_client api) = docker_PauseContainer api"
  "UnpauseContainer (docker_client api) = docker_UnpauseContainer api"
  "StopContainerWithID (docker_client api) = docker_StopContainerWithID api"
  "ExecContainer (docker_client api) = docker_ExecContainer api"
  "NetemContainer (docker_client api) = docker_NetemContainer api"
  "StopNetemContainer (docker_client api) = docker_StopNetemContainer api"
  "IPTablesContainer (docker_client api) = docker_IPTablesContainer api"
  "StopIPTablesContainer (docker_client api) = docker_StopIPTablesContainer api"
  "StressContainer (docker_client api) = docker_StressContainer api"
  by (simp_all add: docker_client_def)

lemmas docker_dry_defs = docker_StopContainer_def docker_KillContainer_def docker_StartContainer_def
  docker_RestartContainer_def docker_RemoveContainer_def docker_PauseContainer_def
  docker_UnpauseContainer_def docker_StopContainerWithID_def docker_ExecContainer_def
  docker_NetemContainer_def startNetemContainer_def startNetemContainerIPFilter_def
  docker_StopNetemContainer_def stopNetemContainer_def docker_IPTablesContainer_def
  docker_StopIPTablesContainer_def ipTablesContainer_def ipTablesContainerWithIPFilter_def
  docker_StressContainer_def

interpretation docker_runtime: runtime_client "docker_client api" "filter docker_effect" for api
  by (rule runtime_client.intro, simp add: docker.lister_axioms, unfold_locales)
    (simp_all add: docker_dry_defs Let_def view.confined_return)

interpretation docker_emulation: command_runtime "docker_client api" tool_words docker_stop_vectors for api
  by unfold_locales (simp_all add: docker_runs docker_stop_runs)

text \<open>A daemon to evaluate on: one running container, every call answers without an error.\<close>

definition sample_docker :: docker_api where
  "sample_docker = \<lparr>
     ContainerList = (\<lambda>tr c a ls. Inr [''c1'']),
     ContainerInspect = (\<lambda>tr c i. Inr \<lparr>Base = Some \<lparr>BaseID = i, BaseName = ''/web'', BaseImage = ''img'',
        BaseState = Some \<lparr>Running = True, Pid = 7, Status = ''running'', Dead = False, ExitCode = 0\<rparr>,
        BaseCgroupParent = Some ''pods.slice''\<rparr>, ConfigLabels = Some None, NetworkLinks = None\<rparr>),
     ImageInspect = (\<lambda>tr c i. (''sha'', None)),
     ContainerAct = (\<lambda>tr k. None),
     ContainerExecCreate = (\<lambda>tr c i opts. Inr ''e''),
     ContainerExecAttach = (\<lambda>tr c e. None),
     ReadAttached = (\<lambda>tr i. Inr ''''),
     ContainerExecInspect = (\<lambda>tr c e. Inr 0),
     ContainerCreate = (\<lambda>tr c cfg h. Inr ''s''),
     ImagePull = (\<lambda>tr c i. Inr \<lparr>Messages = [], StreamEnd = io_EOF\<rparr>),
     Info = (\<lambda>tr c. Inr \<lparr>CgroupDriver = ''systemd'', SecurityOptions = []\<rparr>),
     wait_select = (\<lambda>tr c. WaitPoll),
     cerrdefs_IsNotFound = (\<lambda>e. False),
     cerrdefs_IsDeadlineExceeded = (\<lambda>e. False)\<rparr>"

text \<open>A command line: every boolean is set, every other flag is zero.\<close>

definition dry_flags :: flags where
  "dry_flags = CliCtx \<lparr>val_String = (\<lambda>_. ''''), val_Bool = (\<lambda>_. True), val_BoolT = (\<lambda>_. True),
     val_Duration = (\<lambda>_. 0), val_Int = (\<lambda>_. 0), val_Float64 = (\<lambda>_. Fin 0), val_StringSlice = (\<lambda>_. [])\<rparr> [''web''] None"

theorem stressResolveDriver_resolves_witness:
  "run_state (stressResolveDriver sample_docker CtxTop ''abc'' False) [] =
    (Inr (''systemd'', ''pods.slice'', ''pods.slice/docker-abc.scope''), [DInfo CtxTop, DInspect CtxTop ''abc''])"
proof -
  have "fst (run_state (inspectCgroupParent sample_docker CtxTop ''abc'') ([] @ [DInfo CtxTop])) = Inr ''pods.slice''"
    by (simp add: inspectCgroupParent_def sample_docker_def)
  from stressResolveDriver_resolves [OF _ this, of False] show ?thesis
    by (simp add: sample_docker_def cgroup_driver_def cgroup_parent_def cgroup_path_def)
qed

section \<open>Properties\<close>

text \<open>With --dry-run, no command of the command line changes anything on a Docker host: whatever the
  daemon answers, whatever the other flags and however often the command repeats, the calls that
  it makes only list, inspect and ask for information.\<close>

theorem docker_dry_run_no_effect:
  assumes "cmd \<in> set (initializeCLICommands en tc (docker_client api))" and "act \<in> set (actions_of cmd)"
    and "flag_Bool (flag_Global f) ''dry-run''" and "run_state (act f wakeups) tr = (r, tr')"
  shows "filter docker_effect tr' = filter docker_effect tr"
  by (rule confinedD [OF docker_runtime.dry.cli_confined [OF assms(1-3)] assms(4)])

theorem docker_dry_run_no_effect_witness:
  "\<exists>r tr'. run_state (NewAction_Action CtxTop (docker_client sample_docker) (kill_spec plain_env) dry_flags [Tick]) [] = (r, tr') \<and>
     filter docker_effect tr' = []"
proof -
  let ?act = "NewAction_Action CtxTop (docker_client sample_docker) (kill_spec plain_env)"
  obtain r tr' where run: "run_state (?act dry_flags [Tick]) [] = (r, tr')" by fastforce
  have cmd: "NewAction CtxTop (docker_client sample_docker) (kill_spec plain_env)
      \<in> set (initializeCLICommands plain_env CtxTop (docker_client sample_docker))"
    by (simp add: initializeCLICommands_def)
  have act: "?act \<in> set (actions_of (NewAction CtxTop (docker_client sample_docker) (kill_spec plain_env)))"
    by (simp add: NewAction_def)
  have dry: "flag_Bool (flag_Global dry_flags) ''dry-run''" by (simp add: dry_flags_def flag_Bool_def)
  have "filter docker_effect tr' = filter docker_effect []"
    by (rule docker_dry_run_no_effect [OF cmd act dry run])
  with run show ?thesis by auto
qed

end
