(* ===== verification/GoPath.thy ===== *)
theory GoPath
  imports GoStrings
begin

text \<open>
  The functions of Go's \<open>path\<close> and \<open>path/filepath\<close> (on Unix, where they agree) that the runtimes use.
  \<open>Clean\<close> works on the elements between the slashes: empty elements and \<open>.\<close> are dropped, \<open>..\<close> removes
  the element before it, and a \<open>..\<close> that begins a rooted path is dropped.
\<close>

definition slash :: char where "slash = CHR ''/''"

fun clean_elems :: "bool \<Rightarrow> string list \<Rightarrow> string list \<Rightarrow> string list" where
  "clean_elems rooted out [] = rev out"
| "clean_elems rooted out (e # es) =
     (if e = '''' \<or> e = ''.'' then clean_elems rooted out es
      else if e = ''..'' then
        (case out of
           [] \<Rightarrow> if rooted then clean_elems rooted [] es else clean_elems rooted [''..''] es
         | o' # out' \<Rightarrow> if o' = ''..'' then clean_elems rooted (''..'' # out) es else clean_elems rooted out' es)
      else clean_elems rooted (e # out) es)"

definition path_Clean :: "string \<Rightarrow> string" where
  "path_Clean p =
     (let rooted = prefix [slash] p; es = clean_elems rooted [] (split_on slash p) in
      if rooted then slash # join_with [slash] es
      else if es = [] then ''.'' else join_with [slash] es)"

definition path_Base :: "string \<Rightarrow> string" where
  "path_Base p =
     (if p = '''' then ''.''
      else
        let q = trim_right slash p;
            b = (case last_index slash q of Some i \<Rightarrow> drop (Suc i) q | None \<Rightarrow> q)
        in if b = '''' then [slash] else b)"

definition path_Join :: "string list \<Rightarrow> string" where
  "path_Join elems = (case dropWhile (\<lambda>e. e = '''') elems of
     [] \<Rightarrow> ''''
   | es \<Rightarrow> path_Clean (join_with [slash] es))"

definition path_IsAbs :: "string \<Rightarrow> bool" where
  "path_IsAbs p \<longleftrightarrow> prefix [slash] p"

section \<open>Facts\<close>

text \<open>An ordinary element is neither empty nor a reference to a directory, and has no slash.\<close>

definition plain_elem :: "string \<Rightarrow> bool" where
  "plain_elem e \<longleftrightarrow> e \<noteq> '''' \<and> e \<noteq> ''.'' \<and> e \<noteq> ''..'' \<and> slash \<notin> set e"

lemma clean_elems_plain: "list_all plain_elem es \<Longrightarrow> clean_elems rooted out es = rev out @ es"
  by (induction es arbitrary: out) (simp_all add: plain_elem_def)

definition abs_path :: "string list \<Rightarrow> string" where
  "abs_path es = concat (map (\<lambda>e. slash # e) es)"

lemma abs_path_simps [simp]:
  "abs_path [] = ''''" "abs_path (e # es) = slash # e @ abs_path es"
  "abs_path (es @ es') = abs_path es @ abs_path es'"
  by (simp_all add: abs_path_def)

lemma abs_path_join: "es \<noteq> [] \<Longrightarrow> slash # join_with [slash] es = abs_path es"
proof (induction es)
  case (Cons e es)
  then show ?case by (cases es) simp_all
qed simp

lemma split_abs_path: "list_all plain_elem es \<Longrightarrow> split_on slash (abs_path es) = '''' # es"
proof (cases "es = []")
  case False
  moreover assume "list_all plain_elem es"
  ultimately have "split_on slash (join_with [slash] es) = es"
    by (intro split_join_on) (auto simp: plain_elem_def list_all_iff)
  then show ?thesis using False by (simp flip: abs_path_join)
qed simp

lemma path_Clean_abs:
  assumes "list_all plain_elem es" and "es \<noteq> []"
  shows "path_Clean (abs_path es) = abs_path es"
proof -
  have "prefix [slash] (abs_path es)" using assms(2) by (cases es) simp_all
  moreover have "clean_elems True [] (split_on slash (abs_path es)) = es"
    using assms(1) by (simp add: split_abs_path clean_elems_plain)
  ultimately show ?thesis using assms(2) by (simp add: path_Clean_def abs_path_join)
qed

lemma path_Join_abs:
  assumes "list_all plain_elem (es @ [e])" and "es \<noteq> []"
  shows "path_Join [abs_path es, e] = abs_path (es @ [e])"
proof -
  have "abs_path es \<noteq> ''''" using assms(2) by (cases es) simp_all
  then show ?thesis using path_Clean_abs [OF assms(1)] by (simp add: path_Join_def)
qed

lemma path_Base_abs:
  assumes "plain_elem e"
  shows "path_Base (abs_path (es @ [e])) = e"
proof -
  have e: "e \<noteq> ''''" "slash \<notin> set e" using assms by (simp_all add: plain_elem_def)
  let ?p = "abs_path es @ slash # e"
  have "last e \<noteq> slash" using e by (metis last_in_set)
  then have "trim_right slash ?p = ?p"
    using e by (cases e rule: rev_cases) (simp_all add: trim_right_def)
  moreover have "last_index slash ?p = Some (length (abs_path es))" using e(2) by (rule last_index_append_sep)
  ultimately show ?thesis using e(1) by (simp add: path_Base_def Let_def)
qed

text \<open>An element of a cgroup path: plain, and without white space.\<close>

definition cgroup_elem :: "string \<Rightarrow> bool" where
  "cgroup_elem e \<longleftrightarrow> plain_elem e \<and> no_space e"

lemma abs_path_chars: "x \<in> set (abs_path es) \<Longrightarrow> x = slash \<or> (\<exists>e \<in> set es. x \<in> set e)"
  by (auto simp: abs_path_def split: if_splits)

lemma cgroup_path_no_space: "list_all cgroup_elem es \<Longrightarrow> no_space (abs_path es)"
proof (induction es)
  case (Cons e es)
  have sep: "no_space (a @ slash # b) \<longleftrightarrow> no_space a \<and> no_space b" for a b
    by (rule no_space_sep) (simp add: white_space_def slash_def)
  have "no_space (e @ abs_path es)"
    using Cons sep [of "[]"] sep [of e] by (cases es) (simp_all add: cgroup_elem_def)
  then show ?case using sep [of "[]"] by simp
qed simp

lemma cgroup_line_no_space: "no_space p \<Longrightarrow> no_space (''0::'' @ p)"
proof -
  have "no_space (c # b) \<longleftrightarrow> no_space b" if "c \<in> set ''0:''" for c b
    using no_space_sep [of c "[]" b] that by (auto simp: white_space_def)
  then show "no_space p \<Longrightarrow> no_space (''0::'' @ p)" by simp
qed

end
