(* ===== verification/PodmanCgroup.thy ===== *)
theory PodmanCgroup
  imports GoPath
begin

text \<open>
  \<open>pkg/runtime/podman/cgroup.go\<close>: the cgroup of a target from the contents of \<open>/proc/<pid>/cgroup\<close>.
\<close>

section \<open>Definitions (\<open>cgroup.go\<close>)\<close>

definition driverSystemd :: string where "driverSystemd = ''systemd''"
definition driverCgroupfs :: string where "driverCgroupfs = ''cgroupfs''"
definition initScopeSegment :: string where "initScopeSegment = ''init.scope''"
definition containerSegment :: string where "containerSegment = ''container''"

definition errEmptyCgroup :: error where
  "errEmptyCgroup = errorf ''podman cgroup: empty contents''"
definition errMalformedCgroup :: error where
  "errMalformedCgroup = errorf ''podman cgroup: malformed contents''"
definition errNoCgroupLine :: error where
  "errNoCgroupLine = errorf ''podman cgroup: no v2 unified or v1 systemd line''"
definition errPrivateCgroupnsView :: error where
  "errPrivateCgroupnsView = errorf
     ''podman cgroup: private-cgroupns view (caller must read /proc/<pid>/cgroup from the host)''"

definition hasSubsystem :: "string \<Rightarrow> string \<Rightarrow> bool" where
  "hasSubsystem subsystems name \<longleftrightarrow> name \<in> set (split_on (CHR '','') subsystems)"

text \<open>The loop over the lines: \<open>v2Path\<close>, \<open>v1SystemdPath\<close> and \<open>sawStructuredLine\<close> after it.\<close>

fun select_lines :: "string list \<Rightarrow> string \<Rightarrow> string \<Rightarrow> bool \<Rightarrow> string \<times> string \<times> bool" where
  "select_lines [] v2 v1 saw = (v2, v1, saw)"
| "select_lines (l # ls) v2 v1 saw =
     (let line = trim_space l in
      if line = '''' then select_lines ls v2 v1 saw
      else (case split_n (CHR '':'') 3 line of
          [p0, p1, p2] \<Rightarrow>
            if p0 = ''0'' \<and> p1 = '''' then select_lines ls (if v2 = '''' then p2 else v2) v1 True
            else if v1 = '''' \<and> hasSubsystem p1 ''name=systemd'' then select_lines ls v2 p2 True
            else select_lines ls v2 v1 True
        | _ \<Rightarrow> select_lines ls v2 v1 saw))"

definition selectCgroupPath :: "string \<Rightarrow> error + string" where
  "selectCgroupPath contents =
     (case select_lines (split_on (CHR 0x0A) contents) '''' '''' False of (v2, v1, saw) \<Rightarrow>
        if \<not> saw then Inl errMalformedCgroup
        else if v2 \<noteq> '''' then Inr v2
        else if v1 \<noteq> '''' then Inr v1
        else Inl errNoCgroupLine)"

definition normaliseCgroupPath :: "string \<Rightarrow> string" where
  "normaliseCgroupPath p = (if p = ''/'' then p else trim_right (CHR ''/'') p)"

text \<open>The rightmost segment that qualifies; -1 is \<open>None\<close>.\<close>

fun lastIndexEndingIn :: "string list \<Rightarrow> string \<Rightarrow> bool \<Rightarrow> nat option" where
  "lastIndexEndingIn [] suf skipInitScope = None"
| "lastIndexEndingIn (seg # segments) suf skipInitScope =
     (case lastIndexEndingIn segments suf skipInitScope of
        Some i \<Rightarrow> Some (Suc i)
      | None \<Rightarrow>
          if seg = '''' then None
          else if skipInitScope \<and> seg = initScopeSegment then None
          else if suffix suf seg then Some 0 else None)"

definition truncateToContainerScope :: "string \<Rightarrow> string" where
  "truncateToContainerScope p =
     (let segments = split_on (CHR ''/'') p in
      case lastIndexEndingIn segments ''.scope'' True of
        Some idx \<Rightarrow> join_with ''/'' (take (Suc idx) segments)
      | None \<Rightarrow>
      (case lastIndexEndingIn segments ''.slice'' False of
        Some idx \<Rightarrow> join_with ''/'' (take (Suc idx) segments)
      | None \<Rightarrow> p))"

definition driverForPath :: "string \<Rightarrow> string" where
  "driverForPath p =
     (if strings_contains p ''.slice'' \<or> strings_contains p ''.scope'' then driverSystemd else driverCgroupfs)"

definition splitParentLeaf :: "string \<Rightarrow> string \<times> string" where
  "splitParentLeaf p = (case last_index (CHR ''/'') p of
     None \<Rightarrow> (''/'', p)
   | Some i \<Rightarrow> if i = 0 then (''/'', drop 1 p) else (take i p, drop (Suc i) p))"

definition RawCgroupPath :: "string \<Rightarrow> error + string" where
  "RawCgroupPath contents =
     (let trimmed = trim_space contents in
      if trimmed = '''' then Inl errEmptyCgroup
      else (case selectCgroupPath trimmed of
          Inl err \<Rightarrow> Inl err
        | Inr selected \<Rightarrow>
            let rawPath = normaliseCgroupPath selected in
            if rawPath = ''/'' \<or> rawPath = ''/'' @ containerSegment
            then Inl (ErrWrap ''%w (saw %q)'' [rawPath] errPrivateCgroupnsView)
            else Inr rawPath))"

text \<open>The result \<open>(driver, fullPath, parent, leaf, nil)\<close>.\<close>

definition ParseProc1Cgroup :: "string \<Rightarrow> error + string \<times> string \<times> string \<times> string" where
  "ParseProc1Cgroup contents =
     (let trimmed = trim_space contents in
      if trimmed = '''' then Inl errEmptyCgroup
      else (case selectCgroupPath trimmed of
          Inl selectErr \<Rightarrow> Inl selectErr
        | Inr selected \<Rightarrow>
            let rawPath = normaliseCgroupPath selected in
            if rawPath = ''/'' \<or> rawPath = ''/'' @ containerSegment
            then Inl (ErrWrap ''%w (saw %q)'' [rawPath] errPrivateCgroupnsView)
            else
              let fullPath = truncateToContainerScope rawPath;
                  driver = driverForPath fullPath;
                  (parent, leaf) = splitParentLeaf fullPath in
              Inr (driver, fullPath, parent, leaf)))"

section \<open>Facts\<close>

lemma slash_char [simp]: "slash = CHR ''/''"
  by (simp add: slash_def)

lemma trim_right_id: "s \<noteq> '''' \<Longrightarrow> last s \<noteq> c \<Longrightarrow> trim_right c s = s"
  by (cases s rule: rev_cases) (simp_all add: trim_right_def)

lemma join_take_prefix: "prefix (join_with [c] (take n ws)) (join_with [c] ws)"
proof (induction ws arbitrary: n)
  case (Cons w ws)
  show ?case
  proof (cases n)
    case (Suc m)
    then show ?thesis using Cons.IH [of m] by (cases ws; cases m) simp_all
  qed simp
qed simp

lemma truncate_prefix: "prefix (truncateToContainerScope p) p"
  using join_take_prefix [of "CHR ''/''" _ "split_on (CHR ''/'') p"]
  by (simp add: truncateToContainerScope_def Let_def join_split_on split: option.split)

lemma splitParentLeaf_join:
  assumes "splitParentLeaf p = (parent, leaf)"
  shows "CHR ''/'' \<notin> set leaf \<and> p \<in> {parent @ ''/'' @ leaf, ''/'' @ leaf, leaf} \<and> parent \<noteq> ''''"
proof (cases "last_index (CHR ''/'') p")
  case None
  with assms show ?thesis by (auto simp: splitParentLeaf_def last_index_None)
next
  case (Some i)
  then obtain u v where "p = u @ CHR ''/'' # v" "length u = i" "CHR ''/'' \<notin> set v"
    using last_index_SomeD by blast
  with assms Some show ?thesis by (cases u) (auto simp: splitParentLeaf_def)
qed

lemma lastIndexEndingIn_append:
  "lastIndexEndingIn (xs @ ys) suf sk =
    (case lastIndexEndingIn ys suf sk of Some i \<Rightarrow> Some (length xs + i) | None \<Rightarrow> lastIndexEndingIn xs suf sk)"
  by (induction xs) (simp_all split: option.split)

lemma lastIndexEndingIn_None:
  "lastIndexEndingIn xs suf sk = None \<longleftrightarrow>
    (\<forall>x \<in> set xs. suffix suf x \<longrightarrow> x = '''' \<or> (sk \<and> x = initScopeSegment))"
  by (induction xs) (auto split: option.splits)

text \<open>The path of a container's scope, whatever sub-cgroups follow it.\<close>

lemma truncate_scope:
  assumes "list_all plain_elem (ps @ scope # subs)" and "suffix ''.scope'' scope" and "scope \<noteq> initScopeSegment"
    and "\<forall>s \<in> set subs. suffix ''.scope'' s \<longrightarrow> s = initScopeSegment"
  shows "truncateToContainerScope (abs_path (ps @ scope # subs)) = abs_path (ps @ [scope])"
proof -
  have segs: "split_on (CHR ''/'') (abs_path (ps @ scope # subs)) = '''' # ps @ scope # subs"
    using split_abs_path [OF assms(1)] by simp
  have "scope \<noteq> ''''" using assms(1) by (simp add: plain_elem_def)
  then have "lastIndexEndingIn (('''' # ps) @ scope # subs) ''.scope'' True = Some (length ('''' # ps))"
    using assms(2-4) lastIndexEndingIn_None [of subs "''.scope''" True] unfolding lastIndexEndingIn_append by simp
  then have idx: "lastIndexEndingIn ('''' # ps @ scope # subs) ''.scope'' True = Some (Suc (length ps))" by simp
  have "take (Suc (Suc (length ps))) ('''' # ps @ scope # subs) = '''' # ps @ [scope]" by simp
  moreover have "join_with ''/'' ('''' # ps @ [scope]) = ''/'' @ join_with ''/'' (ps @ [scope])"
    by (subst join_with_Cons) simp_all
  ultimately show ?thesis
    using abs_path_join [of "ps @ [scope]"]
    unfolding truncateToContainerScope_def segs Let_def idx option.case by simp
qed

lemma ParseProc1Cgroup_Inr:
  assumes "ParseProc1Cgroup contents = Inr (driver, fullPath, parent, leaf)"
  shows "\<exists>rawPath. RawCgroupPath contents = Inr rawPath \<and> prefix fullPath rawPath \<and>
    fullPath \<in> {parent @ ''/'' @ leaf, ''/'' @ leaf, leaf}"
  using assms splitParentLeaf_join truncate_prefix
  by (auto simp: ParseProc1Cgroup_def RawCgroupPath_def Let_def split: sum.splits prod.splits if_splits)

section \<open>Properties\<close>

text \<open>The canonical cgroup of a target and the raw one come from the same line: either both functions
  fail with the same error, or the canonical path is a prefix of the raw one, it consists of the
  returned parent and leaf, the leaf has no slash and the driver is the one that its name implies.\<close>

theorem ParseProc1Cgroup_raw:
  "case ParseProc1Cgroup contents of
     Inl err \<Rightarrow> RawCgroupPath contents = Inl err
   | Inr (driver, fullPath, parent, leaf) \<Rightarrow>
       (case RawCgroupPath contents of Inl _ \<Rightarrow> False | Inr rawPath \<Rightarrow> prefix fullPath rawPath \<and> rawPath \<noteq> ''/'') \<and>
       CHR ''/'' \<notin> set leaf \<and> fullPath \<in> {parent @ ''/'' @ leaf, ''/'' @ leaf, leaf} \<and> parent \<noteq> '''' \<and>
       driver = driverForPath fullPath"
  using splitParentLeaf_join truncate_prefix
  by (auto simp: ParseProc1Cgroup_def RawCgroupPath_def Let_def split: sum.splits prod.splits)

text \<open>C32: For a container in the scope \<open>ps/scope\<close> the canonical location is that scope with its parent, also
  when the process is in a sub-cgroup of it (Podman's \<open>container\<close>, a nested \<open>init.scope\<close>).\<close>

theorem ParseProc1Cgroup_scope:
  assumes "list_all cgroup_elem (ps @ scope # subs)" and "suffix ''.scope'' scope" and "scope \<noteq> initScopeSegment"
    and "\<forall>s \<in> set subs. suffix ''.scope'' s \<longrightarrow> s = initScopeSegment" and "ps \<noteq> []"
  shows "ParseProc1Cgroup (''0::'' @ abs_path (ps @ scope # subs) @ [CHR 0x0A]) =
    Inr (driverSystemd, abs_path (ps @ [scope]), abs_path ps, scope)"
proof -
  let ?p = "abs_path (ps @ scope # subs)" let ?l = "''0::'' @ ?p"
  have plain: "list_all plain_elem (ps @ scope # subs)" using assms(1) by (auto simp: cgroup_elem_def list_all_iff)
  have ns: "no_space ?l" using cgroup_path_no_space [OF assms(1)] by (rule cgroup_line_no_space)
  then have nl: "CHR 0x0A \<notin> set ?l" by (rule no_space_newline)
  have trim: "trim_space (?l @ [CHR 0x0A]) = ?l" by (rule trim_space_line [OF ns])
  have trim': "trim_space ?l = ?l" by (rule trim_space_id [OF ns])
  have "split_on (CHR 0x0A) ?l = [?l]" using nl by (rule split_on_no_sep_id)
  moreover have "split_n (CHR '':'') 3 ?l = [''0'', '''', ?p]" by (simp add: numeral_3_eq_3)
  moreover have "?p \<noteq> ''''" by (simp add: abs_path_def)
  ultimately have select: "selectCgroupPath ?l = Inr ?p"
    using trim' by (simp add: selectCgroupPath_def del: split_on.simps)
  obtain es e where last: "ps @ scope # subs = es @ [e]" by (metis append_butlast_last_id append_is_Nil_conv list.distinct(1))
  then have e: "e \<noteq> ''''" "CHR ''/'' \<notin> set e" using plain by (simp_all add: plain_elem_def)
  then have "last ?p \<noteq> CHR ''/''" unfolding last by simp (metis last_in_set)
  then have "trim_right (CHR ''/'') ?p = ?p" by (intro trim_right_id) (simp_all add: abs_path_def)
  then have norm: "normaliseCgroupPath ?p = ?p" by (simp only: normaliseCgroupPath_def) simp
  obtain a qs where a: "ps = a # qs" using assms(5) by (cases ps) auto
  have two: "?p = CHR ''/'' # a @ CHR ''/'' # (case qs @ scope # subs of x # xs \<Rightarrow> x @ abs_path xs)"
    unfolding a by (cases qs) simp_all
  have ne: "?p \<noteq> ''/''" "?p \<noteq> ''/container''" unfolding two
    by (auto simp: append_eq_Cons_conv Cons_eq_append_conv)
  have trunc: "truncateToContainerScope ?p = abs_path (ps @ [scope])" by (rule truncate_scope [OF plain assms(2-4)])
  have "sublist ''.scope'' (abs_path (ps @ [scope]))"
    using suffix_imp_sublist [OF assms(2)] by (simp add: sublist_append sublist_Cons_right)
  then have driver: "driverForPath (abs_path (ps @ [scope])) = driverSystemd"
    by (simp add: driverForPath_def strings_contains_sublist)
  have "CHR ''/'' \<notin> set scope" using plain by (simp add: plain_elem_def)
  then have "last_index (CHR ''/'') (abs_path (ps @ [scope])) = Some (length (abs_path ps))"
    using last_index_append_sep [of "CHR ''/''" scope "abs_path ps"] by simp
  then have split: "splitParentLeaf (abs_path (ps @ [scope])) = (abs_path ps, scope)"
    using a by (simp add: splitParentLeaf_def)
  show ?thesis
    using trim select norm ne trunc driver split
    by (simp add: ParseProc1Cgroup_def containerSegment_def Let_def)
qed

theorem ParseProc1Cgroup_scope_witness:
  "ParseProc1Cgroup (''0::/machine.slice/libpod-a1.scope/container'' @ [CHR 0x0A]) =
    Inr (''systemd'', ''/machine.slice/libpod-a1.scope'', ''/machine.slice'', ''libpod-a1.scope'')"
  using ParseProc1Cgroup_scope [of "[''machine.slice'']" "''libpod-a1.scope''" "[''container'']"]
  by (simp add: cgroup_elem_def no_space_bytes plain_elem_def is_space_def suffix_def initScopeSegment_def driverSystemd_def)

end
