(* ===== verification/PodmanSocket.thy ===== *)
theory PodmanSocket
  imports DockerApi GoPath
begin

text \<open>
  \<open>pkg/runtime/podman/socket.go\<close>: which Podman socket the client connects to. The environment, the
  file system, the network, the \<open>podman\<close> program and \<open>url.Parse\<close> are parameters (\<open>socket_env\<close>); they
  do not change while the socket is resolved.
\<close>

section \<open>Definitions (\<open>socket.go\<close>)\<close>

record socket_env =
  os_Getenv :: "string \<Rightarrow> string"
  execLookPath :: "string \<Rightarrow> error option"
  execCommand :: "ctx \<Rightarrow> string list \<Rightarrow> error + string"
  os_Stat :: "string \<Rightarrow> error option"
  tcp_Dial :: "duration \<Rightarrow> string \<Rightarrow> error option"
  url_Parse :: "string \<Rightarrow> error + url"

definition defaultSystemSocket :: string where "defaultSystemSocket = ''/run/podman/podman.sock''"
definition probeTimeout :: duration where "probeTimeout = second"
definition machineInspectTimeout :: duration where "machineInspectTimeout = 3 * second"

definition sshUnsupportedHint :: string where
  "sshUnsupportedHint =
     ''ssh:// podman endpoints are not supported; run pumba on the podman host or expose tcp:// instead''"

text \<open>A candidate is a pair of a raw URI and a source label, empty when it is to be skipped.\<close>

definition envCandidate :: "socket_env \<Rightarrow> string \<Rightarrow> string \<times> string" where
  "envCandidate env name =
     (let v = trim_space (os_Getenv env name) in if v = '''' then ('''', '''') else (v, ''env:'' @ name))"

definition staticCandidate :: "string \<Rightarrow> string \<Rightarrow> string \<times> string" where
  "staticCandidate value source = (value, source)"

definition xdgRuntimeCandidate :: "socket_env \<Rightarrow> string \<times> string" where
  "xdgRuntimeCandidate env =
     (let dir = trim_space (os_Getenv env ''XDG_RUNTIME_DIR'') in
      if dir = '''' then ('''', '''')
      else (path_Join [dir, ''podman'', ''podman.sock''], ''env:XDG_RUNTIME_DIR/podman/podman.sock''))"

fun first_line :: "string list \<Rightarrow> string \<times> string" where
  "first_line [] = ('''', '''')"
| "first_line (l # ls) =
     (let path = trim_space l in if path \<noteq> '''' then (path, ''podman machine inspect'') else first_line ls)"

definition machineInspectCandidate :: "socket_env \<Rightarrow> string \<times> string" where
  "machineInspectCandidate env =
     (if execLookPath env ''podman'' \<noteq> None then ('''', '''')
      else (case execCommand env (CtxTimeout CtxBackground machineInspectTimeout)
            [''podman'', ''machine'', ''inspect'', ''--format'', ''{{.ConnectionInfo.PodmanSocket.Path}}''] of
          Inl err \<Rightarrow> ('''', '''')
        | Inr out \<Rightarrow> first_line (split_on (CHR 0x0A) out)))"

definition candidates :: "socket_env \<Rightarrow> (string \<times> string) list" where
  "candidates env =
     [envCandidate env ''CONTAINER_HOST'', envCandidate env ''PODMAN_SOCK'', machineInspectCandidate env,
      staticCandidate defaultSystemSocket (''default:'' @ defaultSystemSocket), xdgRuntimeCandidate env]"

definition normalise :: "string \<Rightarrow> error + string" where
  "normalise raw =
     (if strings_contains raw ''://'' then Inr raw
      else if \<not> path_IsAbs raw then Inl (ErrNew ''podman socket %q must be absolute or a URI'' [raw])
      else Inr (''unix://'' @ raw))"

definition splitScheme :: "socket_env \<Rightarrow> string \<Rightarrow> string \<times> string" where
  "splitScheme env uri =
     (case url_Parse env uri of
        Inl err \<Rightarrow> ('''', uri)
      | Inr u \<Rightarrow>
          if Scheme u = ''unix'' then (''unix'', UrlPath u)
          else if Scheme u = ''tcp'' then (''tcp'', Host u)
          else (Scheme u, uri))"

definition probeCandidate :: "socket_env \<Rightarrow> string \<Rightarrow> error + string" where
  "probeCandidate env raw =
     (case normalise raw of
        Inl err \<Rightarrow> Inl err
      | Inr uri \<Rightarrow>
          (let (scheme, rest) = splitScheme env uri in
           if scheme = ''unix'' then (case os_Stat env rest of Some statErr \<Rightarrow> Inl statErr | None \<Rightarrow> Inr uri)
           else if scheme = ''tcp'' then
             (if rest = '''' then Inl (ErrNew ''malformed tcp URI %q: missing host:port'' [uri])
              else (case tcp_Dial env probeTimeout rest of Some dialErr \<Rightarrow> Inl dialErr | None \<Rightarrow> Inr uri))
           else if scheme = ''ssh'' then Inl (errorf sshUnsupportedHint)
           else Inl (ErrNew ''unsupported socket scheme %q'' [scheme])))"

text \<open>The loop over the candidates; \<open>tried\<close> collects the failures.\<close>

fun try_candidates :: "socket_env \<Rightarrow> (string \<times> string) list \<Rightarrow> string list \<Rightarrow> error + string \<times> string" where
  "try_candidates env [] tried =
     (if length tried = 0
      then Inl (errorf ''podman runtime: no reachable socket found (no candidates produced a value)'')
      else Inl (ErrNew ''podman runtime: no reachable socket found (tried: %s)'' [join_with ''; '' tried]))"
| "try_candidates env ((raw, src) # fns) tried =
     (if raw = '''' then try_candidates env fns tried
      else (case probeCandidate env raw of
          Inr uri \<Rightarrow> Inr (uri, src)
        | Inl err \<Rightarrow> try_candidates env fns (tried @ [src @ ''='' @ raw @ '' ('' @ error_text err @ '')'']))) "

definition resolveSocket :: "socket_env \<Rightarrow> string \<Rightarrow> error + string \<times> string" where
  "resolveSocket env explicit =
     (if explicit \<noteq> '''' then
        (case probeCandidate env explicit of
           Inl err \<Rightarrow> Inl (ErrWrap ''podman runtime: explicit socket %q unreachable: %w'' [explicit] err)
         | Inr uri \<Rightarrow> Inr (uri, ''flag:--podman-socket''))
      else try_candidates env (candidates env) [])"

section \<open>Facts\<close>

definition reachable :: "socket_env \<Rightarrow> string \<Rightarrow> bool" where
  "reachable env raw \<longleftrightarrow> raw \<noteq> '''' \<and> (\<exists>uri. probeCandidate env raw = Inr uri)"

lemma try_candidates_Inr:
  "try_candidates env cs tried = Inr (uri, src) \<longleftrightarrow>
    (\<exists>raw. find (\<lambda>c. reachable env (fst c)) cs = Some (raw, src) \<and> probeCandidate env raw = Inr uri)"
proof (induction cs arbitrary: tried)
  case (Cons c cs)
  show ?case
    by (cases c; cases "fst c = ''''"; cases "probeCandidate env (fst c)")
      (auto simp: reachable_def Cons.IH [unfolded reachable_def])
qed simp

lemma try_candidates_Inl:
  "(\<exists>e. try_candidates env cs tried = Inl e) \<longleftrightarrow> (\<forall>c \<in> set cs. \<not> reachable env (fst c))"
proof (induction cs arbitrary: tried)
  case (Cons c cs)
  show ?case
    by (cases c; cases "fst c = ''''"; cases "probeCandidate env (fst c)")
      (auto simp: reachable_def Cons.IH [unfolded reachable_def])
qed simp

text \<open>What a successful probe says of its socket.\<close>

lemma probeCandidate_Inr:
  "probeCandidate env raw = Inr uri \<Longrightarrow>
    normalise raw = Inr uri \<and> (\<exists>u. url_Parse env uri = Inr u \<and>
      (Scheme u = ''unix'' \<and> os_Stat env (UrlPath u) = None \<or>
       Scheme u = ''tcp'' \<and> Host u \<noteq> '''' \<and> tcp_Dial env probeTimeout (Host u) = None))"
  by (auto simp: probeCandidate_def splitScheme_def split: sum.splits if_splits option.splits)

section \<open>Properties\<close>

text \<open>C33: An explicit socket wins: it is used when it can be reached and is an error otherwise, without a
  fallback. Without one, the first candidate with a value that can be reached is used, in the
  order of the list, and it is an error exactly when there is none.\<close>

theorem resolveSocket_first:
  "(if explicit \<noteq> ''''
    then (case probeCandidate env explicit of
        Inr uri \<Rightarrow> resolveSocket env explicit = Inr (uri, ''flag:--podman-socket'')
      | Inl e \<Rightarrow> resolveSocket env explicit =
          Inl (ErrWrap ''podman runtime: explicit socket %q unreachable: %w'' [explicit] e))
    else (case find (\<lambda>c. reachable env (fst c)) (candidates env) of
        Some (raw, src) \<Rightarrow> (\<exists>uri. probeCandidate env raw = Inr uri \<and> resolveSocket env explicit = Inr (uri, src))
      | None \<Rightarrow> (\<exists>e. resolveSocket env explicit = Inl e)))"
proof (cases "explicit = ''''")
  case True
  show ?thesis
  proof (cases "find (\<lambda>c. reachable env (fst c)) (candidates env)")
    case None
    then have "\<forall>c \<in> set (candidates env). \<not> reachable env (fst c)" by (auto simp: find_None_iff)
    then show ?thesis using True None try_candidates_Inl [of env "candidates env" "[]"]
      by (simp add: resolveSocket_def)
  next
    case (Some c)
    obtain raw src where c: "c = (raw, src)" by fastforce
    from Some have "reachable env (fst c)" by (auto simp: find_Some_iff)
    then obtain uri where "probeCandidate env raw = Inr uri" by (auto simp: reachable_def c)
    then show ?thesis using True Some c try_candidates_Inr [of env "candidates env" "[]" uri src]
      by (simp add: resolveSocket_def)
  qed
qed (simp add: resolveSocket_def split: sum.split)

text \<open>A socket that is resolved is a Unix socket whose path exists or a TCP address that accepted a
  connection; an \<open>ssh\<close> endpoint or any other scheme is never returned.\<close>

theorem resolveSocket_reachable:
  "case resolveSocket env explicit of
     Inl e \<Rightarrow> True
   | Inr (uri, src) \<Rightarrow> \<exists>u. url_Parse env uri = Inr u \<and>
       (Scheme u = ''unix'' \<and> os_Stat env (UrlPath u) = None \<or>
        Scheme u = ''tcp'' \<and> Host u \<noteq> '''' \<and> tcp_Dial env probeTimeout (Host u) = None)"
proof (cases "resolveSocket env explicit")
  case (Inr r)
  obtain uri src where r: "r = (uri, src)" by fastforce
  have "\<exists>raw. probeCandidate env raw = Inr uri"
    using Inr r by (auto simp: resolveSocket_def try_candidates_Inr split: if_splits sum.splits)
  then show ?thesis using Inr r probeCandidate_Inr by fastforce
qed simp

end
