(* ===== verification/Podman.thy ===== *)
theory Podman
  imports Docker PodmanCgroup PodmanSocket
begin

text \<open>
  \<open>pkg/runtime/podman\<close>: the client over the Docker-compatible socket (\<open>client.go\<close>, \<open>rootless.go\<close>) and
  its stress-ng sidecars (\<open>stress.go\<close>). It embeds a Docker client and overrides six operations. What
  \<open>stress.go\<close> reads of the host's file system is a parameter, \<open>podman_host\<close>.
\<close>

section \<open>Rootless sockets (\<open>rootless.go\<close>)\<close>

definition rootlessMarker :: string where "rootlessMarker = ''name=rootless''"

definition detectRootless :: "system_info option \<Rightarrow> bool" where
  "detectRootless sysinfo = (case sysinfo of
     None \<Rightarrow> False
   | Some i \<Rightarrow> list_ex (\<lambda>opt. strings_contains opt rootlessMarker) (SecurityOptions i))"

definition rootlessError :: "string \<Rightarrow> string \<Rightarrow> error" where
  "rootlessError cmd socketURI = ErrNew
     (''podman runtime: %s requires rootful podman (detected rootless socket at %s). '' @
      ''On macOS: podman machine stop && podman machine set --rootful && podman machine start. '' @
      ''On Linux: run as root with /run/podman/podman.sock or configure rootful service'')
     [cmd, socketURI]"

section \<open>The client (\<open>client.go\<close>)\<close>

record podmanClient =
  p_Client :: "docker_call list client"
  p_api :: "docker_api option"
  p_rootless :: bool
  p_socketURI :: string

definition bootstrapTimeout :: duration where "bootstrapTimeout = 10 * second"

definition podman_NewClient ::
  "socket_env \<Rightarrow> (string \<Rightarrow> unit http_client \<Rightarrow> error + docker_api) \<Rightarrow> string \<Rightarrow>
     (docker_call list, error + podmanClient) state" where
  "podman_NewClient env NewClientWithOpts explicitSocket =
     (case resolveSocket env explicitSocket of
        Inl err \<Rightarrow> State_Monad.return (Inl err)
      | Inr (uri, source) \<Rightarrow>
      (case NewAPIClient (url_Parse env) NewClientWithOpts uri None of
        Inl err \<Rightarrow> State_Monad.return
          (Inl (ErrWrap ''podman runtime: create api client for %s: %w'' [uri] err))
      | Inr api \<Rightarrow>
      (case NewFromAPI (Some api) of
        Inl err \<Rightarrow> do {
          _ \<leftarrow> docker_act api DClose;
          State_Monad.return (Inl (ErrWrap ''podman runtime: wrap docker delegate: %w'' [] err)) }
      | Inr delegate \<Rightarrow> do {
          let c = CtxTimeout CtxBackground bootstrapTimeout;
          r \<leftarrow> sdk_call (DInfo c) (\<lambda>tr. Info api tr c);
          case r of
            Inl err \<Rightarrow> do {
              _ \<leftarrow> docker_act api DClose;
              State_Monad.return (Inl (ErrWrap ''podman runtime: query /info on %s: %w'' [uri] err)) }
          | Inr sysinfo \<Rightarrow> State_Monad.return (Inr
              \<lparr>p_Client = delegate, p_api = Some api, p_rootless = detectRootless (Some sysinfo), p_socketURI = uri\<rparr>) })))"

definition podman_Close :: "podmanClient \<Rightarrow> (docker_call list, error option) state" where
  "podman_Close p = (case p_api p of None \<Rightarrow> State_Monad.return None | Some api \<Rightarrow> docker_act api DClose)"

definition podman_NetemContainer ::
  "podmanClient \<Rightarrow> ctx \<Rightarrow> netem_request \<Rightarrow> (docker_call list, error option) state" where
  "podman_NetemContainer p c req =
     (if p_rootless p then State_Monad.return (Some (rootlessError ''netem'' (p_socketURI p)))
      else NetemContainer (p_Client p) c req)"

definition podman_StopNetemContainer ::
  "podmanClient \<Rightarrow> ctx \<Rightarrow> netem_request \<Rightarrow> (docker_call list, error option) state" where
  "podman_StopNetemContainer p c req =
     (if p_rootless p then State_Monad.return (Some (rootlessError ''netem'' (p_socketURI p)))
      else StopNetemContainer (p_Client p) c req)"

definition podman_IPTablesContainer ::
  "podmanClient \<Rightarrow> ctx \<Rightarrow> iptables_request \<Rightarrow> (docker_call list, error option) state" where
  "podman_IPTablesContainer p c req =
     (if p_rootless p then State_Monad.return (Some (rootlessError ''iptables'' (p_socketURI p)))
      else IPTablesContainer (p_Client p) c req)"

definition podman_StopIPTablesContainer ::
  "podmanClient \<Rightarrow> ctx \<Rightarrow> iptables_request \<Rightarrow> (docker_call list, error option) state" where
  "podman_StopIPTablesContainer p c req =
     (if p_rootless p then State_Monad.return (Some (rootlessError ''iptables'' (p_socketURI p)))
      else StopIPTablesContainer (p_Client p) c req)"

section \<open>Stress (\<open>stress.go\<close>)\<close>

text \<open>Reads of the host: the answers may depend on the calls made before.\<close>

record podman_host =
  cgroupReader :: "docker_call list \<Rightarrow> int \<Rightarrow> error + string"
  host_Stat :: "docker_call list \<Rightarrow> string \<Rightarrow> error option"
  is_NotExist :: "error \<Rightarrow> bool" \<comment> \<open>\<open>errors.Is(err, os.ErrNotExist)\<close>\<close>

definition host_read :: "(docker_call list \<Rightarrow> 'a) \<Rightarrow> (docker_call list, 'a) state" where
  "host_read f = do { tr \<leftarrow> State_Monad.get; State_Monad.return (f tr) }"

definition podman_sidecarRemoveTimeout :: duration where "podman_sidecarRemoveTimeout = 10 * second"
definition cgroupFSRoot :: string where "cgroupFSRoot = ''/sys/fs/cgroup''"
definition skipLabelKey :: string where "skipLabelKey = ''com.gaiaadm.pumba.skip''"

definition removeOnError :: "docker_api \<Rightarrow> ctx \<Rightarrow> string \<Rightarrow> error \<Rightarrow> (docker_call list, error) state" where
  "removeOnError api c i cause = do {
     _ \<leftarrow> docker_act api (DRemove (cleanup_ctx c podman_sidecarRemoveTimeout) i True False False);
     State_Monad.return cause }"

record cgroupLocation =
  cg_driver :: string
  cg_fullPath :: string
  cg_parent :: string
  cg_leaf :: string
  cg_procsPath :: string

text \<open>\<open>info.State\<close> is a field of the base part of the response.\<close>

definition resolveCgroup ::
  "podman_host \<Rightarrow> docker_api \<Rightarrow> ctx \<Rightarrow> string \<Rightarrow> (docker_call list, error + cgroupLocation) state" where
  "resolveCgroup h api c targetID = do {
     r \<leftarrow> inspect_container api c targetID;
     case r of
       Inl err \<Rightarrow> State_Monad.return (Inl (ErrWrap ''podman runtime: inspect target %s: %w'' [targetID] err))
     | Inr info \<Rightarrow>
       (case Base info of
          None \<Rightarrow> State_Monad.return (Inl nil_panic)
        | Some b \<Rightarrow>
          let pid = (case BaseState b of None \<Rightarrow> 0 | Some s \<Rightarrow> Pid s) in
          if BaseState b = None \<or> pid = 0
          then State_Monad.return (Inl (ErrNew ''podman runtime: target %s is not running (no pid)'' [targetID]))
          else do {
            f \<leftarrow> host_read (\<lambda>tr. cgroupReader h tr pid);
            case f of
              Inl err \<Rightarrow> State_Monad.return (Inl (ErrWrap ''podman runtime: read /proc/%d/cgroup: %w'' [itoa pid] err))
            | Inr raw \<Rightarrow>
              (case ParseProc1Cgroup raw of
                 Inl err \<Rightarrow> State_Monad.return (Inl (ErrWrap ''podman runtime: parse target cgroup: %w'' [] err))
               | Inr (driver, fullPath, parent, leaf) \<Rightarrow>
               (case RawCgroupPath raw of
                 Inl err \<Rightarrow> State_Monad.return (Inl (ErrWrap ''podman runtime: raw target cgroup: %w'' [] err))
               | Inr rawPath \<Rightarrow> do {
                   st \<leftarrow> host_read (\<lambda>tr. host_Stat h tr (cgroupFSRoot @ rawPath));
                   let gone = (case st of None \<Rightarrow> False | Some e \<Rightarrow> is_NotExist h e);
                   State_Monad.return (Inr \<lparr>cg_driver = driver, cg_fullPath = fullPath, cg_parent = parent,
                     cg_leaf = leaf, cg_procsPath = (if gone then fullPath else rawPath)\<rparr>) })) }) }"

definition buildStressConfig ::
  "string \<Rightarrow> string list \<Rightarrow> string \<Rightarrow> string \<Rightarrow> string \<Rightarrow> string \<Rightarrow> bool \<Rightarrow> container_config \<times> host_config" where
  "buildStressConfig img stressors driver fullPath parent procsPath injectCgroup =
     (let labels = [(skipLabelKey, ''true'')] in
      if injectCgroup then
        (\<lparr>CfgLabels = labels, CfgImage = img, CfgEntrypoint = [''/cg-inject''],
          CfgCmd = [''--cgroup-path'', procsPath, ''--'', ''/stress-ng''] @ stressors, CfgStopSignal = ''''\<rparr>,
         \<lparr>AutoRemove = True, CapAdd = [''SYS_ADMIN''], NetworkMode = '''', CgroupnsMode = ''host'',
          Binds = [''/sys/fs/cgroup:/sys/fs/cgroup:rw''], CgroupParent = '''', SecurityOpt = [''label=disable'']\<rparr>)
      else
        let cgroupParent = (if driver = driverCgroupfs then fullPath else parent) in
        (\<lparr>CfgLabels = labels, CfgImage = img, CfgEntrypoint = [''/stress-ng''], CfgCmd = stressors, CfgStopSignal = ''''\<rparr>,
         \<lparr>AutoRemove = True, CapAdd = [], NetworkMode = '''', CgroupnsMode = '''', Binds = [],
          CgroupParent = cgroupParent, SecurityOpt = []\<rparr>))"

definition pullStressImage :: "docker_api \<Rightarrow> ctx \<Rightarrow> string \<Rightarrow> (docker_call list, error option) state" where
  "pullStressImage api c img = do {
     r \<leftarrow> sdk_call (DPull c img) (\<lambda>tr. ImagePull api tr c img);
     State_Monad.return (case r of
         Inl err \<Rightarrow> Some (ErrWrap ''podman runtime: pull stress-ng image %s: %w'' [img] err)
       | Inr events \<Rightarrow>
           decode_loop ''podman runtime: decode pull stream: %w'' [] (Messages events) (StreamEnd events)) }"

text \<open>The goroutine that reads the attached stream; the model runs it when the sidecar has started.\<close>

definition drainStressOutput ::
  "docker_api \<Rightarrow> ctx \<Rightarrow> string \<Rightarrow> (docker_call list, string list \<times> error list) state" where
  "drainStressOutput api c i = do {
     r \<leftarrow> sdk_call (DAttachRead i) (\<lambda>tr. ReadAttached api tr i);
     case r of
       Inl e \<Rightarrow> State_Monad.return ([], [ErrWrap ''podman runtime: drain stress-ng stdout: %w'' [] e])
     | Inr buf \<Rightarrow> do {
         insp \<leftarrow> inspect_container api c i;
         State_Monad.return (case insp of
             Inl e \<Rightarrow> ([], [ErrWrap ''podman runtime: inspect stress-ng after exit: %w'' [] e])
           | Inr info \<Rightarrow>
               (case Base info of
                  None \<Rightarrow> ([], [nil_panic])
                | Some b \<Rightarrow>
                    (case BaseState b of
                       None \<Rightarrow> ([buf], [])
                     | Some s \<Rightarrow>
                         if ExitCode s \<noteq> 0
                         then ([], [ErrNew ''podman runtime: stress-ng exited with code %d: %s'' [itoa (ExitCode s), buf]])
                         else ([buf], [])))) } }"

text \<open>\<open>StressContainer\<close> from the created sidecar on.\<close>

definition run_podman_stress ::
  "docker_api \<Rightarrow> ctx \<Rightarrow> string \<Rightarrow> (docker_call list, error + stress_result) state" where
  "run_podman_stress api c i = do {
     aerr \<leftarrow> docker_act api (DAttach c i);
     case aerr of
       Some err \<Rightarrow> do {
         e \<leftarrow> removeOnError api c i (ErrWrap ''podman runtime: attach stress-ng container: %w'' [] err);
         State_Monad.return (Inl e) }
     | None \<Rightarrow> do {
         serr \<leftarrow> docker_act api (DStart c i);
         case serr of
           Some err \<Rightarrow> do {
             e \<leftarrow> removeOnError api c i (ErrWrap ''podman runtime: start stress-ng container: %w'' [] err);
             State_Monad.return (Inl e) }
         | None \<Rightarrow> do {
             out \<leftarrow> drainStressOutput api c i;
             State_Monad.return (Inr \<lparr>SidecarID = i, Output = fst out, Errors = snd out\<rparr>) } } }"

definition create_podman_stress ::
  "docker_api \<Rightarrow> ctx \<Rightarrow> container_config \<Rightarrow> host_config \<Rightarrow> bool \<Rightarrow> (docker_call list, error + stress_result) state" where
  "create_podman_stress api c config hconfig pull = do {
     perr \<leftarrow> (if pull then pullStressImage api c (CfgImage config) else State_Monad.return None);
     case perr of
       Some err \<Rightarrow> State_Monad.return (Inl err)
     | None \<Rightarrow> do {
         r \<leftarrow> sdk_call (DCreate c config hconfig) (\<lambda>tr. ContainerCreate api tr c config hconfig);
         case r of
           Inl err \<Rightarrow> State_Monad.return (Inl (ErrWrap ''podman runtime: create stress-ng container: %w'' [] err))
         | Inr i \<Rightarrow> run_podman_stress api c i } }"

definition podman_StressContainer ::
  "podman_host \<Rightarrow> podmanClient \<Rightarrow> ctx \<Rightarrow> stress_request \<Rightarrow> (docker_call list, error + stress_result) state" where
  "podman_StressContainer h p c req =
     (if StDryRun req then State_Monad.return (Inr \<lparr>SidecarID = '''', Output = [], Errors = []\<rparr>)
      else if p_rootless p then State_Monad.return (Inl (rootlessError ''stress'' (p_socketURI p)))
      else (case p_api p of
          None \<Rightarrow> State_Monad.return (Inl nil_panic)
        | Some api \<Rightarrow> do {
            r \<leftarrow> resolveCgroup h api c (ContainerID (StContainer req));
            case r of
              Inl err \<Rightarrow> State_Monad.return (Inl err)
            | Inr cg \<Rightarrow>
              (case buildStressConfig (SImage (StSidecar req)) (Stressors req) (cg_driver cg) (cg_fullPath cg)
                  (cg_parent cg) (cg_procsPath cg) (InjectCgroup req) of
                 (config, hconfig) \<Rightarrow> create_podman_stress api c config hconfig (SPull (StSidecar req))) }))"

section \<open>The operations as one client\<close>

definition podman_client :: "podman_host \<Rightarrow> podmanClient \<Rightarrow> docker_call list client" where
  "podman_client h p = (p_Client p)\<lparr>
     NetemContainer := podman_NetemContainer p,
     StopNetemContainer := podman_StopNetemContainer p,
     IPTablesContainer := podman_IPTablesContainer p,
     StopIPTablesContainer := podman_StopIPTablesContainer p,
     StressContainer := podman_StressContainer h p,
     CloseClient := podman_Close p\<rparr>"

section \<open>The contract\<close>

text \<open>The client that \<open>NewClient\<close> builds embeds the Docker client on the same API.\<close>

definition podman_of :: "docker_api \<Rightarrow> bool \<Rightarrow> string \<Rightarrow> podmanClient" where
  "podman_of api rootless uri =
     \<lparr>p_Client = docker_client api, p_api = Some api, p_rootless = rootless, p_socketURI = uri\<rparr>"

lemma podman_client_sel [simp]:
  "ListContainers (podman_client h p) = ListContainers (p_Client p)"
  "StopContainer (podman_client h p) = StopContainer (p_Client p)"
  "KillContainer (podman_client h p) = KillContainer (p_Client p)"
  "StartContainer (podman_client h p) = StartContainer (p_Client p)"
  "RestartContainer (podman_client h p) = RestartContainer (p_Client p)"
  "RemoveContainer (podman_client h p) = RemoveContainer (p_Client p)"
  "PauseContainer (podman_client h p) = PauseContainer (p_Client p)"
  "UnpauseContainer (podman_client h p) = UnpauseContainer (p_Client p)"
  "StopContainerWithID (podman_client h p) = StopContainerWithID (p_Client p)"
  "ExecContainer (podman_client h p) = ExecContainer (p_Client p)"
  "NetemContainer (podman_client h p) = podman_NetemContainer p"
  "StopNetemContainer (podman_client h p) = podman_StopNetemContainer p"
  "IPTablesContainer (podman_client h p) = podman_IPTablesContainer p"
  "StopIPTablesContainer (podman_client h p) = podman_StopIPTablesContainer p"
  "StressContainer (podman_client h p) = podman_StressContainer h p"
  by (simp_all add: podman_client_def)

lemma podman_of_sel [simp]:
  "p_Client (podman_of api rl uri) = docker_client api" "p_api (podman_of api rl uri) = Some api"
  "p_rootless (podman_of api rl uri) = rl" "p_socketURI (podman_of api rl uri) = uri"
  by (simp_all add: podman_of_def)

lemmas podman_overrides = podman_NetemContainer_def podman_StopNetemContainer_def podman_IPTablesContainer_def
  podman_StopIPTablesContainer_def podman_StressContainer_def

interpretation podman_runtime: runtime_client "podman_client h (podman_of api rl uri)" "filter docker_effect"
  for h api rl uri
  by (rule runtime_client.intro, simp add: docker.lister_axioms, unfold_locales)
    (simp_all add: podman_overrides docker_dry_defs Let_def view.confined_return)

text \<open>A rootless Podman runs no command and returns an error, which the contract allows.\<close>

interpretation podman_emulation: command_runtime "podman_client h (podman_of api rl uri)" tool_words docker_stop_vectors
  for h api rl uri
  by unfold_locales (simp_all add: podman_overrides docker_runs docker_stop_runs runs_commands_return)

section \<open>Facts\<close>

lemma NewFromAPI_Some [simp]: "NewFromAPI (Some api) = Inr (docker_client api)"
  by (simp add: NewFromAPI_def)

lemma podman_NewClient_run:
  "run_state (podman_NewClient env mk explicit) tr =
    (case resolveSocket env explicit of
       Inl err \<Rightarrow> (Inl err, tr)
     | Inr (uri, source) \<Rightarrow>
       (case NewAPIClient (url_Parse env) mk uri None of
          Inl err \<Rightarrow> (Inl (ErrWrap ''podman runtime: create api client for %s: %w'' [uri] err), tr)
        | Inr api \<Rightarrow>
          let k = DInfo (CtxTimeout CtxBackground bootstrapTimeout) in
          (case Info api tr (CtxTimeout CtxBackground bootstrapTimeout) of
             Inl err \<Rightarrow> (Inl (ErrWrap ''podman runtime: query /info on %s: %w'' [uri] err), tr @ [k, DClose])
           | Inr sysinfo \<Rightarrow> (Inr (podman_of api (detectRootless (Some sysinfo)) uri), tr @ [k]))))"
  by (auto simp: podman_NewClient_def podman_of_def Let_def split: sum.split prod.split)

lemma drainStressOutput_run:
  "run_state (drainStressOutput api c i) tr = (out, tr') \<Longrightarrow>
    tr' = tr @ [DAttachRead i] \<or> tr' = tr @ [DAttachRead i, DInspect c i]"
  by (auto simp: drainStressOutput_def split: sum.splits)

lemma run_removeOnError [simp]:
  "run_state (removeOnError api c i e) tr =
    (e, tr @ [DRemove (cleanup_ctx c podman_sidecarRemoveTimeout) i True False False])"
  by (simp add: removeOnError_def)

lemma host_read_run [simp]: "run_state (host_read f) tr = (f tr, tr)"
  by (simp add: host_read_def)

section \<open>Properties\<close>

text \<open>Connecting to Podman asks the daemon for its information exactly once, under a deadline of ten seconds
  and after a socket was resolved; the client remembers whether the daemon is rootless, and the
  connection is closed when the question fails. Nothing on the host is changed.\<close>

theorem podman_NewClient_bootstraps:
  "ensures (podman_NewClient env mk explicit) (\<lambda>tr r evs.
     let c = CtxTimeout CtxBackground bootstrapTimeout in
     filter docker_effect evs = [] \<and>
     (case r of
        Inl e \<Rightarrow> evs = [] \<or> evs = [DInfo c, DClose]
      | Inr p \<Rightarrow> evs = [DInfo c] \<and> (\<exists>uri src api inf0. resolveSocket env explicit = Inr (uri, src) \<and>
          NewAPIClient (url_Parse env) mk uri None = Inr api \<and> Info api tr c = Inr inf0 \<and>
          p = podman_of api (list_ex (\<lambda>opt. strings_contains opt rootlessMarker) (SecurityOptions inf0)) uri)))"
  by (rule ensuresI) (auto simp: podman_NewClient_run Let_def detectRootless_def split: sum.splits)

text \<open>On a rootless socket the network and stress operations make no call at all and fail with the
  message that names the command; a dry stress run succeeds. On a rootful socket the network
  operations, and on any socket the lifecycle operations, are those of the Docker client.\<close>

theorem podman_rootless_guard:
  "if p_rootless p then
     NetemContainer (podman_client h p) c nr = State_Monad.return (Some (rootlessError ''netem'' (p_socketURI p))) \<and>
     StopNetemContainer (podman_client h p) c nr = State_Monad.return (Some (rootlessError ''netem'' (p_socketURI p))) \<and>
     IPTablesContainer (podman_client h p) c ir = State_Monad.return (Some (rootlessError ''iptables'' (p_socketURI p))) \<and>
     StopIPTablesContainer (podman_client h p) c ir = State_Monad.return (Some (rootlessError ''iptables'' (p_socketURI p))) \<and>
     StressContainer (podman_client h p) c sr =
       State_Monad.return (if StDryRun sr then Inr \<lparr>SidecarID = '''', Output = [], Errors = []\<rparr>
         else Inl (rootlessError ''stress'' (p_socketURI p)))
   else
     NetemContainer (podman_client h p) c nr = NetemContainer (p_Client p) c nr \<and>
     StopNetemContainer (podman_client h p) c nr = StopNetemContainer (p_Client p) c nr \<and>
     IPTablesContainer (podman_client h p) c ir = IPTablesContainer (p_Client p) c ir \<and>
     StopIPTablesContainer (podman_client h p) c ir = StopIPTablesContainer (p_Client p) c ir"
  by (simp add: podman_overrides)

text \<open>A stress sidecar of Podman that was created but not attached or not started is removed by force
  under a detached context of ten seconds, and the error is returned; otherwise it was attached
  and then started, its ID is returned, and no call that changes anything follows.\<close>

theorem run_podman_stress_cleans:
  "ensures (run_podman_stress api c i) (\<lambda>tr r evs.
     let remove = DRemove (cleanup_ctx c podman_sidecarRemoveTimeout) i True False False in
     case r of
       Inl e \<Rightarrow> (evs = [DAttach c i, remove] \<or> evs = [DAttach c i, DStart c i, remove]) \<and>
         ctx_detached (cleanup_ctx c podman_sidecarRemoveTimeout)
     | Inr res \<Rightarrow> SidecarID res = i \<and> filter docker_effect evs = [DAttach c i, DStart c i])"
proof (rule ensuresI)
  fix tr r tr' assume "run_state (run_podman_stress api c i) tr = (r, tr')"
  then show "\<exists>evs. tr' = tr @ evs \<and> (let remove = DRemove (cleanup_ctx c podman_sidecarRemoveTimeout) i True False False in
     case r of
       Inl e \<Rightarrow> (evs = [DAttach c i, remove] \<or> evs = [DAttach c i, DStart c i, remove]) \<and>
         ctx_detached (cleanup_ctx c podman_sidecarRemoveTimeout)
     | Inr res \<Rightarrow> SidecarID res = i \<and> filter docker_effect evs = [DAttach c i, DStart c i])"
    by (auto simp: run_podman_stress_def Let_def split: option.splits prod.splits dest!: drainStressOutput_run)
qed

text \<open>The cgroup of a stress sidecar: in the default mode it goes beside the target under systemd, into the
  target's own cgroup under cgroupfs; to inject it, it is given the cgroup that accepts processes, the
  one the target was seen in unless this has vanished, and then the target's scope.\<close>

theorem podman_stress_cgroup:
  "ensures (resolveCgroup h api c targetID) (\<lambda>tr r evs. evs = [DInspect c targetID] \<and>
     (case r of Inl e \<Rightarrow> True | Inr cg \<Rightarrow>
        prefix (cg_fullPath cg) (cg_procsPath cg) \<and>
        cg_fullPath cg \<in> {cg_parent cg @ ''/'' @ cg_leaf cg, ''/'' @ cg_leaf cg, cg_leaf cg} \<and>
        (case buildStressConfig img stressors (cg_driver cg) (cg_fullPath cg) (cg_parent cg) (cg_procsPath cg) inject of
           (config, hconfig) \<Rightarrow>
             CgroupParent hconfig = (if inject then ''''
               else if cg_driver cg = ''cgroupfs'' then cg_fullPath cg else cg_parent cg) \<and>
             CfgCmd config = (if inject then [''--cgroup-path'', cg_procsPath cg, ''--'', ''/stress-ng''] else []) @ stressors)))"
  by (rule ensuresI)
    (auto simp: resolveCgroup_def buildStressConfig_def driverCgroupfs_def Let_def
      split: sum.splits option.splits if_splits prod.splits dest!: ParseProc1Cgroup_Inr)

text \<open>With --dry-run, no command of the command line changes anything on a Podman host, rootless or not.\<close>

theorem podman_dry_run_no_effect:
  assumes "cmd \<in> set (initializeCLICommands en tc (podman_client h (podman_of api rl uri)))"
    and "act \<in> set (actions_of cmd)"
    and "flag_Bool (flag_Global f) ''dry-run''" and "run_state (act f wakeups) tr = (r, tr')"
  shows "filter docker_effect tr' = filter docker_effect tr"
  by (rule confinedD [OF podman_runtime.dry.cli_confined [OF assms(1-3)] assms(4)])

theorem podman_dry_run_no_effect_witness:
  "\<exists>r tr'. run_state (NewAction_Action CtxTop
       (podman_client \<lparr>cgroupReader = (\<lambda>tr p. Inr ''''), host_Stat = (\<lambda>tr p. None), is_NotExist = (\<lambda>e. False)\<rparr>
         (podman_of sample_docker True ''unix:///run/podman/podman.sock''))
       (kill_spec plain_env) dry_flags [Tick]) [] = (r, tr') \<and>
     filter docker_effect tr' = []"
proof -
  let ?h = "\<lparr>cgroupReader = (\<lambda>tr p. Inr ''''), host_Stat = (\<lambda>tr p. None), is_NotExist = (\<lambda>e. False)\<rparr>"
  let ?cl = "podman_client ?h (podman_of sample_docker True ''unix:///run/podman/podman.sock'')"
  let ?act = "NewAction_Action CtxTop ?cl (kill_spec plain_env)"
  obtain r tr' where run: "run_state (?act dry_flags [Tick]) [] = (r, tr')" by fastforce
  have cmd: "NewAction CtxTop ?cl (kill_spec plain_env) \<in> set (initializeCLICommands plain_env CtxTop ?cl)"
    by (simp add: initializeCLICommands_def)
  have act: "?act \<in> set (actions_of (NewAction CtxTop ?cl (kill_spec plain_env)))"
    by (simp add: NewAction_def)
  have dry: "flag_Bool (flag_Global dry_flags) ''dry-run''" by (simp add: dry_flags_def flag_Bool_def)
  have "filter docker_effect tr' = filter docker_effect []"
    by (rule podman_dry_run_no_effect [OF cmd act dry run])
  with run show ?thesis by auto
qed

end
