(* ===== verification/DockerAuthority.thy ===== *)
theory DockerAuthority
  imports Authority Podman
begin

text \<open>
  The Docker and Podman clients act only on containers that an inspection has described to them and that
  the filter accepts, on the containers that they created, and on the execs that they created.
\<close>

section \<open>Handles of the Docker SDK\<close>

text \<open>
  The calls that change something on the host need the container or the exec that they name. A created
  container that joins the network of another one needs that one too; a pull touches no container.
\<close>

fun docker_needs :: "docker_call \<Rightarrow> handle set" where
  "docker_needs (DKill c i s) = {ContainerHandle i}"
| "docker_needs (DRestart c i t) = {ContainerHandle i}"
| "docker_needs (DStop c i t) = {ContainerHandle i}"
| "docker_needs (DStart c i) = {ContainerHandle i}"
| "docker_needs (DRemove c i force links volumes) = {ContainerHandle i}"
| "docker_needs (DPause c i) = {ContainerHandle i}"
| "docker_needs (DUnpause c i) = {ContainerHandle i}"
| "docker_needs (DExecCreate c i opts) = {ContainerHandle i}"
| "docker_needs (DExecAttach c e) = {ExecHandle e}"
| "docker_needs (DCreate c config hconfig) =
     (if prefix ''container:'' (NetworkMode hconfig) then {ContainerHandle (drop 10 (NetworkMode hconfig))} else {})"
| "docker_needs (DAttach c i) = {ContainerHandle i}"
| "docker_needs k = {}"

text \<open>Every effect of the Docker SDK but a pull and a plain creation needs a handle.\<close>

lemma docker_effect_needs: "docker_effect k \<Longrightarrow> docker_needs k = {} \<Longrightarrow>
    (\<exists>c i. k = DPull c i) \<or> (\<exists>c config hconfig. k = DCreate c config hconfig)"
  by (cases k) simp_all

text \<open>
  An inspection gives the container that it describes when \<open>sel\<close> accepts it; the creations give what they
  return. The image of a description is looked up by a call of its own and has no part in the filter.
\<close>

definition docker_gives :: "docker_api \<Rightarrow> filter_func \<Rightarrow> docker_call list \<Rightarrow> docker_call \<Rightarrow> handle set" where
  "docker_gives api sel tr k = (case k of
     DInspect c i \<Rightarrow>
       (case ContainerInspect api tr c i of
          Inl err \<Rightarrow> {}
        | Inr info \<Rightarrow>
            let x = dockerInspectToContainer info '''' in
            if Base info \<noteq> None \<and> sel x then {ContainerHandle (ContainerID x)} else {})
   | DCreate c config hconfig \<Rightarrow> returned ContainerHandle (ContainerCreate api tr c config hconfig)
   | DExecCreate c i opts \<Rightarrow> returned ExecHandle (ContainerExecCreate api tr c i opts)
   | _ \<Rightarrow> {})"

abbreviation docker_acts :: "docker_api \<Rightarrow> filter_func \<Rightarrow> docker_call list \<Rightarrow> (docker_call list, 'a) state \<Rightarrow> bool" where
  "docker_acts api sel \<equiv> acts docker_needs (docker_gives api sel)"

lemma docker_gives_creations:
  "docker_gives api sel tr (DCreate c config h) = returned ContainerHandle (ContainerCreate api tr c config h)"
  "docker_gives api sel tr (DExecCreate c i opts) = returned ExecHandle (ContainerExecCreate api tr c i opts)"
  by (simp_all add: docker_gives_def)

text \<open>A filter that does not look at the image.\<close>

definition image_blind :: "filter_func \<Rightarrow> bool" where
  "image_blind sel \<longleftrightarrow> (\<forall>x i. sel (x\<lparr>ImageID := i\<rparr>) = sel x)"

lemma image_blind_accepts: "image_blind (accepts M names pattern)"
  by (simp add: image_blind_def accepts_def applyContainerFilter_iff IsPumba_def IsPumbaSkip_def)

section \<open>Listing\<close>

lemma docker_list_authority: "confined (authority docker_needs (docker_gives api sel)) (docker_ListContainers api c f os)"
  by (rule acts_free) (rule emits_docker_ListContainers, case_tac k, simp_all)

lemma inspect_all_owned:
  assumes "image_blind sel" and "\<And>y. f y \<Longrightarrow> sel y"
  shows "run_state (inspect_all api c f is) tr = (Inr cs, tr') \<Longrightarrow> x \<in> set cs \<Longrightarrow>
    owned_target sel (docker_gives api sel) tr' x"
proof (induction "is" arbitrary: cs tr tr')
  case (Cons i "is")
  from Cons.prems(1) obtain info b where info: "ContainerInspect api tr c i = Inr info" "Base info = Some b"
    by (auto simp: Let_def split: sum.splits option.splits)
  let ?k = "DImageInspect c (BaseImage b)"
  define x0 where "x0 = dockerInspectToContainer info (fst (ImageInspect api (tr @ [DInspect c i]) c (BaseImage b)))"
  obtain rest where rest: "run_state (inspect_all api c f is) (tr @ [DInspect c i, ?k]) = (Inr rest, tr')"
    "cs = (if f x0 then x0 # rest else rest)"
    using Cons.prems(1) info by (auto simp: x0_def Let_def map_sum_Inr split: prod.splits)
  show ?case
  proof (cases "x \<in> set rest")
    case True
    with Cons.IH [OF rest(1)] show ?thesis by blast
  next
    case False
    then have x: "x = x0" "sel x0" using rest(2) Cons.prems(2) assms(2) by (auto split: if_splits)
    have x0: "dockerInspectToContainer info '''' = x0\<lparr>ImageID := ''''\<rparr>"
      by (simp add: x0_def dockerInspectToContainer_def)
    with x(2) have "ContainerHandle (ContainerID x0) \<in> docker_gives api sel tr (DInspect c i)"
      using info assms(1) by (simp add: docker_gives_def image_blind_def)
    then have "ContainerHandle (ContainerID x0) \<in> owned (docker_gives api sel) (tr @ [DInspect c i, ?k])"
      using owned_snoc [of "docker_gives api sel" tr "DInspect c i"]
        owned_append [of "docker_gives api sel" "tr @ [DInspect c i]" "[?k]"] by auto
    moreover have "emits (\<lambda>k. docker_needs k = {}) (inspect_all api c f is)" by (rule emits_inspect_all) simp_all
    then have "authority docker_needs (docker_gives api sel) (tr @ [DInspect c i, ?k]) tr'"
      using acts_free confinedD rest(1) by metis
    ultimately show ?thesis using x unfolding owned_target_def by (blast dest: authority_owned [THEN subsetD])
  qed
qed simp

lemma docker_lists_owned:
  assumes "image_blind sel"
  shows "lists_only sel (owned_target sel (docker_gives api sel)) (docker_ListContainers api)"
  unfolding lists_only_def docker_ListContainers_def docker_listContainers_def
  by (auto split: sum.splits elim!: inspect_all_owned [OF assms, rotated])

section \<open>Lifecycle operations\<close>

lemma docker_wait_acts: "docker_acts api sel w (waitForStop api c x n)"
  unfolding waitForStop_def by (intro confined_above acts_free emits_wait_loop) simp

lemmas acts_intros = authority.above_intros acts_call

lemma docker_lifecycle_acts:
  assumes "ContainerHandle (ContainerID x) \<in> owned (docker_gives api sel) w"
  shows "docker_acts api sel w (docker_StopContainer api c x n d)"
    "docker_acts api sel w (docker_KillContainer api c x s d)"
    "docker_acts api sel w (docker_StartContainer api c x d)"
    "docker_acts api sel w (docker_RestartContainer api c x t d)"
    "docker_acts api sel w (docker_RemoveContainer api c x ro)"
    "docker_acts api sel w (docker_PauseContainer api c x d)"
    "docker_acts api sel w (docker_UnpauseContainer api c x d)"
  unfolding docker_dry_defs docker_act_def
  by (intro acts_intros docker_wait_acts; simp add: assms)+

lemma docker_StopID_acts:
  "ContainerHandle i \<in> owned (docker_gives api sel) w \<Longrightarrow> docker_acts api sel w (docker_StopContainerWithID api c i t d)"
  unfolding docker_StopContainerWithID_def docker_act_def by (intro acts_intros) simp_all

section \<open>Commands inside containers\<close>

text \<open>An exec is created in a container that is owned, and only the exec that was returned is used.\<close>

lemma exec_given:
  assumes "ContainerHandle i \<in> owned (docker_gives api sel) w"
    and "\<And>v e. owned (docker_gives api sel) w \<subseteq> owned (docker_gives api sel) v \<Longrightarrow> docker_acts api sel v (g (Inl e))"
    and "\<And>v eid. owned (docker_gives api sel) w \<subseteq> owned (docker_gives api sel) v \<Longrightarrow>
      ExecHandle eid \<in> owned (docker_gives api sel) v \<Longrightarrow> docker_acts api sel v (g (Inr eid))"
  shows "docker_acts api sel w (State_Monad.bind (exec_create api c i opts) g)"
  unfolding exec_create_def
proof (rule acts_given [where G = "returned ExecHandle"])
  show "docker_acts api sel v (g a)"
    if "owned (docker_gives api sel) w \<subseteq> owned (docker_gives api sel) v"
      "returned ExecHandle a \<subseteq> owned (docker_gives api sel) v" for v a
    using that assms(2,3) by (cases a) auto
qed (use assms(1) in \<open>simp_all add: docker_gives_creations\<close>)

lemma exec_calls_act:
  "ExecHandle e \<in> owned (docker_gives api sel) w \<Longrightarrow> docker_acts api sel w (exec_attach api c e)"
  "docker_acts api sel w (exec_read api e)"
  "docker_acts api sel w (exec_inspect api c e)"
  "ExecHandle e \<in> owned (docker_gives api sel) w \<Longrightarrow> docker_acts api sel w (runExecAttached api c e)"
  unfolding runExecAttached_def exec_attach_def exec_read_def exec_inspect_def
  by (intro acts_intros; simp)+

lemma docker_exec_acts:
  assumes "ContainerHandle (ContainerID x) \<in> owned (docker_gives api sel) w"
  shows "docker_acts api sel w (docker_ExecContainer api c x s args d)"
    and "docker_acts api sel w (execOnContainer api c x tool args priv)"
proof -
  show "docker_acts api sel w (docker_ExecContainer api c x s args d)"
    unfolding docker_ExecContainer_def
    by (rule authority.above_intros, rule authority.above_intros, rule exec_given [OF assms])
      (simp_all, (intro authority.above_intros exec_calls_act; assumption)+)
  have run: "docker_acts api sel w (State_Monad.bind (exec_create api c (ContainerID x) opts)
      (\<lambda>r. case r of Inl e \<Rightarrow> State_Monad.return (f e)
        | Inr eid \<Rightarrow> do {
            err \<leftarrow> runExecAttached api c eid;
            case err of Some e \<Rightarrow> State_Monad.return (g e)
            | None \<Rightarrow> do {
                insp \<leftarrow> exec_inspect api c eid;
                case insp of Inl e \<Rightarrow> State_Monad.return (h e)
                | Inr code \<Rightarrow> if code \<noteq> 0 then State_Monad.return q else m } }))"
    if "ContainerHandle (ContainerID x) \<in> owned (docker_gives api sel) w"
      "\<And>v. owned (docker_gives api sel) w \<subseteq> owned (docker_gives api sel) v \<Longrightarrow> docker_acts api sel v m"
    for w opts f g h q and m :: "(docker_call list, 'b) state"
    by (rule exec_given [OF that(1)]) (simp_all, (intro authority.above_intros exec_calls_act that(2); assumption)+)
  show "docker_acts api sel w (execOnContainer api c x tool args priv)"
    unfolding execOnContainer_def Let_def
    by (rule run [OF assms], rule run, use assms in blast, intro authority.above_intros)
qed

section \<open>Sidecars\<close>

lemma create_given:
  assumes "docker_needs (DCreate c config hconfig) \<subseteq> owned (docker_gives api sel) w"
    and "\<And>v e. docker_acts api sel v (g (Inl e))"
    and "\<And>v i. ContainerHandle i \<in> owned (docker_gives api sel) v \<Longrightarrow> docker_acts api sel v (g (Inr i))"
  shows "docker_acts api sel w (do {
    r \<leftarrow> sdk_call (DCreate c config hconfig) (\<lambda>tr. ContainerCreate api tr c config hconfig); g r })"
proof (rule acts_given [where G = "returned ContainerHandle"])
  show "docker_acts api sel v (g a)" if "returned ContainerHandle a \<subseteq> owned (docker_gives api sel) v" for v a
    using that assms(2,3) by (cases a) auto
qed (use assms(1) in \<open>simp_all add: docker_gives_creations\<close>)

lemma removeSidecar_acts:
  "ContainerHandle i \<in> owned (docker_gives api sel) w \<Longrightarrow> docker_acts api sel w (removeSidecar api c i)"
  unfolding removeSidecar_def sidecarRemovalComplete_def docker_act_def inspect_container_def Let_def
  by (intro acts_intros) simp_all

lemma sidecar_execs_act:
  "ContainerHandle i \<in> owned (docker_gives api sel) w \<Longrightarrow> docker_acts api sel w (run_sidecar_execs api c i tool argsList)"
proof (induction argsList)
  case Nil
  then show ?case by (simp, intro acts_intros removeSidecar_acts)
next
  case (Cons args argsList)
  have "docker_acts api sel w (runSidecarExec api c i tool args)"
    unfolding runSidecarExec_def
    by (rule exec_given [OF Cons.prems]) (simp_all, (intro authority.above_intros exec_calls_act; assumption)+)
  with Cons show ?case by (simp, intro authority.above_intros removeSidecar_acts)
qed

lemma docker_sidecar_acts:
  assumes "ContainerHandle (ContainerID x) \<in> owned (docker_gives api sel) w"
  shows "docker_acts api sel w (runSidecar api c x argsList img tool pull)"
proof -
  have use: "docker_acts api sel v (use_sidecar api c i tool argsList)"
    if "ContainerHandle i \<in> owned (docker_gives api sel) v" for v i
    unfolding use_sidecar_def docker_act_def
    by (intro acts_intros removeSidecar_acts sidecar_execs_act) (simp_all add: that)
  have create: "docker_acts api sel w (do {
      r \<leftarrow> sdk_call (DCreate c (sidecar_config img) (sidecar_hconfig x))
        (\<lambda>tr. ContainerCreate api tr c (sidecar_config img) (sidecar_hconfig x));
      case r of Inl err \<Rightarrow> State_Monad.return (f err) | Inr i \<Rightarrow> use_sidecar api c i tool argsList })" for f
    by (rule create_given)
      (simp_all add: sidecar_hconfig_def assms use authority.above_intros)
  have pulling: "docker_acts api sel w (pullSidecarImage api c img tool)"
    unfolding pullSidecarImage_def by (intro acts_intros) simp_all
  show ?thesis
    unfolding runSidecar_def by (intro authority.above_intros pulling create)
qed

lemma docker_network_acts:
  "ContainerHandle (ContainerID (NContainer nr)) \<in> owned (docker_gives api sel) w \<Longrightarrow>
    docker_acts api sel w (docker_NetemContainer api c nr)"
  "ContainerHandle (ContainerID (NContainer nr)) \<in> owned (docker_gives api sel) w \<Longrightarrow>
    docker_acts api sel w (docker_StopNetemContainer api c nr)"
  "ContainerHandle (ContainerID (IContainer ir)) \<in> owned (docker_gives api sel) w \<Longrightarrow>
    docker_acts api sel w (docker_IPTablesContainer api c ir)"
  "ContainerHandle (ContainerID (IContainer ir)) \<in> owned (docker_gives api sel) w \<Longrightarrow>
    docker_acts api sel w (docker_StopIPTablesContainer api c ir)"
  unfolding docker_dry_defs tcCommands_def ipTablesCommands_def exec_commands_def
  by (intro authority.above_intros docker_sidecar_acts docker_exec_acts; assumption)+

section \<open>Stress workloads\<close>

lemma stress_config_needs:
  "stressContainerConfig t s img d cp path inject = (config, hconfig) \<Longrightarrow> docker_needs (DCreate c config hconfig) = {}"
  "buildStressConfig img s d fp parent pp inject = (config, hconfig) \<Longrightarrow> docker_needs (DCreate c config hconfig) = {}"
  by (auto simp: stressContainerConfig_def buildStressConfig_def Let_def split: if_splits)

lemma docker_stress_acts: "docker_acts api sel w (docker_StressContainer api c sr)"
proof -
  have run: "docker_acts api sel v (run_stress_sidecar api c i)"
    if "ContainerHandle i \<in> owned (docker_gives api sel) v" for v i
    unfolding run_stress_sidecar_def collect_output_def docker_act_def inspect_container_def
    by (intro acts_intros removeSidecar_acts) (simp_all add: that)
  have pulling: "docker_acts api sel v (pullImage api c img)" for v img
    unfolding pullImage_def by (intro acts_intros) simp_all
  have create: "docker_acts api sel w (create_stress_sidecar api c config hconfig pull)"
    if "docker_needs (DCreate c config hconfig) = {}" for config hconfig pull
  proof -
    have created: "docker_acts api sel w (do {
      r \<leftarrow> sdk_call (DCreate c config hconfig) (\<lambda>tr. ContainerCreate api tr c config hconfig);
      case r of Inl err \<Rightarrow> State_Monad.return (Inl (f err)) | Inr i \<Rightarrow> run_stress_sidecar api c i })" for f
      by (rule create_given) (simp_all add: that run authority.above_intros del: docker_needs.simps)
    show ?thesis
      unfolding create_stress_sidecar_def by (intro authority.above_intros pulling created)
  qed
  have resolve: "docker_acts api sel w (stressResolveDriver api c t inject)" for t inject
    unfolding stressResolveDriver_def cgroupDriver_def inspectCgroupParent_def inspect_container_def
    by (intro acts_intros) simp_all
  show ?thesis
    unfolding docker_StressContainer_def stressContainerCommand_def
    by (intro authority.above_intros resolve create stress_config_needs(1))
qed

text \<open>The ID that a stress operation returns is that of a container that it created.\<close>

lemma created_owned:
  assumes "tr' = tr @ pre @ DCreate c config hconfig # rest"
    and "ContainerCreate api (tr @ pre) c config hconfig = Inr i"
  shows "ContainerHandle i \<in> owned (docker_gives api sel) tr'"
  unfolding owned_iff using assms by (intro exI [of _ "tr @ pre"]) (auto simp: docker_gives_creations)

lemma docker_stress_owned:
  assumes "run_state (docker_StressContainer api c sr) tr = (Inr res, tr')" and "\<not> StDryRun sr"
  shows "ContainerHandle (SidecarID res) \<in> owned (docker_gives api sel) tr'"
proof -
  let ?t = "ContainerID (StContainer sr)"
  from assms obtain d t where d: "run_state (stressResolveDriver api c ?t (InjectCgroup sr)) tr = (Inr d, t)"
    and run: "run_state (case d of (driver, parent, path) \<Rightarrow>
      (case stressContainerConfig ?t (Stressors sr) (SImage (StSidecar sr)) driver parent path (InjectCgroup sr) of
         (config, hconfig) \<Rightarrow> create_stress_sidecar api c config hconfig (SPull (StSidecar sr)))) t = (Inr res, tr')"
    by (auto simp: docker_StressContainer_def stressContainerCommand_def split: prod.splits sum.splits)
  obtain config hconfig where "run_state (create_stress_sidecar api c config hconfig (SPull (StSidecar sr))) t = (Inr res, tr')"
    using run by (auto split: prod.splits)
  then obtain evs where evs: "tr' = t @ evs"
    "stress_sidecar_calls api c (SPull (StSidecar sr)) (CfgImage config) config hconfig t (Inr res) evs"
    by (rule ensuresE [OF create_stress_sidecar_ensures])
  from evs(2) obtain pre rest where "evs = pre @ DCreate c config hconfig # rest"
    "ContainerCreate api (t @ pre) c config hconfig = Inr (SidecarID res)"
    unfolding stress_sidecar_calls_def Let_def
    by (cases "ContainerCreate api (t @ (if SPull (StSidecar sr) then [DPull c (CfgImage config)] else [])) c config hconfig")
      auto
  with evs(1) show ?thesis by (intro created_owned) simp_all
qed

section \<open>Podman\<close>

lemma run_podman_stress_acts:
  "ContainerHandle i \<in> owned (docker_gives api sel) w \<Longrightarrow> docker_acts api sel w (run_podman_stress api c i)"
  unfolding run_podman_stress_def removeOnError_def drainStressOutput_def docker_act_def inspect_container_def
  by (intro acts_intros) simp_all

lemma podman_stress_acts: "docker_acts api sel w (podman_StressContainer h (podman_of api rl uri) c sr)"
proof -
  have pulling: "docker_acts api sel v (pullStressImage api c img)" for v img
    unfolding pullStressImage_def by (intro acts_intros) simp_all
  have create: "docker_acts api sel w (create_podman_stress api c config hconfig pull)"
    if "docker_needs (DCreate c config hconfig) = {}" for config hconfig pull
  proof -
    have created: "docker_acts api sel w (do {
      r \<leftarrow> sdk_call (DCreate c config hconfig) (\<lambda>tr. ContainerCreate api tr c config hconfig);
      case r of Inl err \<Rightarrow> State_Monad.return (Inl (f err)) | Inr i \<Rightarrow> run_podman_stress api c i })" for f
      by (rule create_given) (simp_all add: that run_podman_stress_acts authority.above_intros del: docker_needs.simps)
    show ?thesis
      unfolding create_podman_stress_def by (intro authority.above_intros pulling created)
  qed
  have resolve: "docker_acts api sel w (resolveCgroup h api c t)" for t
    unfolding resolveCgroup_def host_read_def inspect_container_def by (intro acts_intros) simp_all
  show ?thesis
    unfolding podman_StressContainer_def podman_of_sel option.case
    by (intro authority.above_intros resolve create stress_config_needs(2))
qed

lemma podman_stress_owned:
  assumes "run_state (podman_StressContainer h (podman_of api rl uri) c sr) tr = (Inr res, tr')" and "\<not> StDryRun sr"
  shows "ContainerHandle (SidecarID res) \<in> owned (docker_gives api sel) tr'"
proof -
  from assms obtain config hconfig t where
    "run_state (create_podman_stress api c config hconfig (SPull (StSidecar sr))) t = (Inr res, tr')"
    by (auto simp: podman_StressContainer_def split: if_splits prod.splits sum.splits)
  then obtain u i where u: "ContainerCreate api u c config hconfig = Inr i"
    "run_state (run_podman_stress api c i) (u @ [DCreate c config hconfig]) = (Inr res, tr')"
    by (auto simp: create_podman_stress_def split: if_splits prod.splits option.splits sum.splits)
  have i: "ContainerHandle i \<in> owned (docker_gives api sel) (u @ [DCreate c config hconfig])"
    using u(1) by (simp add: docker_gives_creations)
  have "SidecarID res = i"
    using u(2) by (auto simp: run_podman_stress_def split: option.splits prod.splits)
  moreover have "authority docker_needs (docker_gives api sel) (u @ [DCreate c config hconfig]) tr'"
    by (rule authority.confined_at [OF run_podman_stress_acts [OF i] u(2)])
  ultimately show ?thesis using i authority_owned by blast
qed

lemma podman_network_acts:
  "ContainerHandle (ContainerID (NContainer nr)) \<in> owned (docker_gives api sel) w \<Longrightarrow>
    docker_acts api sel w (podman_NetemContainer (podman_of api rl uri) c nr)"
  "ContainerHandle (ContainerID (NContainer nr)) \<in> owned (docker_gives api sel) w \<Longrightarrow>
    docker_acts api sel w (podman_StopNetemContainer (podman_of api rl uri) c nr)"
  "ContainerHandle (ContainerID (IContainer ir)) \<in> owned (docker_gives api sel) w \<Longrightarrow>
    docker_acts api sel w (podman_IPTablesContainer (podman_of api rl uri) c ir)"
  "ContainerHandle (ContainerID (IContainer ir)) \<in> owned (docker_gives api sel) w \<Longrightarrow>
    docker_acts api sel w (podman_StopIPTablesContainer (podman_of api rl uri) c ir)"
  unfolding podman_overrides podman_of_sel docker_client_sel
  by (intro authority.above_intros docker_network_acts; assumption)+

section \<open>The contract\<close>

interpretation docker_authority: targeted_client "authority docker_needs (docker_gives api (accepts M names pattern))"
  "docker_client api" "\<lambda>_. True" "accepts M names pattern"
  "owned_target (accepts M names pattern) (docker_gives api (accepts M names pattern))"
  "\<lambda>w i. ContainerHandle i \<in> owned (docker_gives api (accepts M names pattern)) w" for api M names pattern
  by unfold_locales
    (simp_all add: docker_lists_owned image_blind_accepts docker_list_authority docker_lifecycle_acts docker_StopID_acts
      docker_exec_acts docker_network_acts docker_stress_acts owned_target_def authority_owned [THEN subsetD] docker_stress_owned)

interpretation podman_authority: targeted_client "authority docker_needs (docker_gives api (accepts M names pattern))"
  "podman_client h (podman_of api rl uri)" "\<lambda>_. True" "accepts M names pattern"
  "owned_target (accepts M names pattern) (docker_gives api (accepts M names pattern))"
  "\<lambda>w i. ContainerHandle i \<in> owned (docker_gives api (accepts M names pattern)) w" for h api rl uri M names pattern
  by unfold_locales
    (simp_all add: docker_lists_owned image_blind_accepts docker_list_authority docker_lifecycle_acts docker_StopID_acts
      docker_exec_acts podman_network_acts podman_stress_acts owned_target_def authority_owned [THEN subsetD] podman_stress_owned)

end
