(* ===== verification/ContainerdApi.thy ===== *)
theory ContainerdApi
  imports Client GoTime
begin

text \<open>
  The containerd client library as \<open>pkg/runtime/containerd\<close> calls it (\<open>api.go\<close> and the methods of
  \<open>containerd.Container\<close>, \<open>containerd.Task\<close> and \<open>containerd.Process\<close>). The library and the daemon are
  not part of the repository: \<open>containerd_api\<close> is a parameter of the model, one oracle per kind of
  answer, which reads the calls made before. A container, its task and a process of it are known by
  their IDs. The world is the list of the calls made so far.
\<close>

section \<open>Options and calls\<close>

text \<open>The options for \<open>NewContainer\<close> and for its OCI specification, as the code lists them.\<close>

datatype spec_opt =
    WithImageConfig string
  | WithProcessArgs "string list"
  | WithLinuxNamespace string string \<comment> \<open>type, path\<close>
  | WithCapabilities "string list"
  | WithMount string string string "string list" \<comment> \<open>type, source, destination, options\<close>
  | WithCgroup string

datatype container_opt =
    WithImage string
  | WithNewSnapshot string string
  | WithNewSpec "spec_opt list"
  | WithContainerLabels "(string \<times> string) list"

text \<open>What the code sets of \<open>specs.Process\<close>; the capabilities are the same in each of its sets.\<close>

record process_spec =
  ProcArgs :: "string list"
  ProcCwd :: string
  ProcEnv :: "string list"
  ProcUID :: int
  ProcGID :: int
  ProcCapabilities :: "string list"

text \<open>A \<open>syscall.Signal\<close> is its number.\<close>

type_synonym signal = int

definition SIGKILL :: signal where "SIGKILL = 9"
definition SIGTERM :: signal where "SIGTERM = 15"

datatype containerd_call =
    KContainers ctx
  | KLoadContainer ctx string
  | KInfo ctx string
  | KTask ctx string
  | KStatus ctx string
  | KWait ctx string
  | KKill ctx string signal
  | KTaskDelete ctx string
  | KNewTask ctx string
  | KStart ctx string
  | KPause ctx string
  | KResume ctx string
  | KExec ctx string string process_spec \<comment> \<open>container, ID of the exec, process\<close>
  | KExecWait ctx string
  | KExecStart ctx string
  | KExecDelete ctx string
  | KDelete ctx string bool              \<comment> \<open>with or without the clean-up of its snapshot\<close>
  | KPull ctx string
  | KGetImage ctx string
  | KNewContainer ctx string "container_opt list"
  | KReadCgroup int
  | KCounter                             \<comment> \<open>\<open>execCounter.Add(1)\<close>\<close>
  | KClose

fun containerd_effect :: "containerd_call \<Rightarrow> bool" where
  "containerd_effect (KContainers c) = False"
| "containerd_effect (KLoadContainer c i) = False"
| "containerd_effect (KInfo c i) = False"
| "containerd_effect (KTask c i) = False"
| "containerd_effect (KStatus c i) = False"
| "containerd_effect (KWait c i) = False"
| "containerd_effect (KExecWait c e) = False"
| "containerd_effect (KGetImage c r) = False"
| "containerd_effect (KReadCgroup p) = False"
| "containerd_effect KCounter = False"
| "containerd_effect KClose = False"
| "containerd_effect _ = True"

section \<open>Answers\<close>

record container_info =
  InfoImage :: string
  InfoLabels :: "(string \<times> string) list"
  SnapshotKey :: string

text \<open>
  Which branch a \<open>select\<close> takes: the channel that \<open>Wait\<close> returned (with an exit status, or closed),
  the end of the context, or the timer.
\<close>

datatype exit_status = ExitStatus int | ExitError error

datatype wait_branch = ExitCh "exit_status option" | CtxDone | TimerFired

record containerd_api =
  Containers :: "containerd_call list \<Rightarrow> ctx \<Rightarrow> error + string list"
  ContainerInfo :: "containerd_call list \<Rightarrow> ctx \<Rightarrow> string \<Rightarrow> error + container_info"
  ContainerTask :: "containerd_call list \<Rightarrow> ctx \<Rightarrow> string \<Rightarrow> error + int" \<comment> \<open>the task by its PID\<close>
  TaskRunning :: "containerd_call list \<Rightarrow> ctx \<Rightarrow> string \<Rightarrow> error + bool"
  GetImage :: "containerd_call list \<Rightarrow> ctx \<Rightarrow> string \<Rightarrow> error + string"
  ReadCgroup :: "containerd_call list \<Rightarrow> int \<Rightarrow> error + string"
  CallResult :: "containerd_call list \<Rightarrow> containerd_call \<Rightarrow> error option"
  selected :: "containerd_call list \<Rightarrow> ctx option \<Rightarrow> duration option \<Rightarrow> wait_branch"
  ExecStderr :: "containerd_call list \<Rightarrow> string \<Rightarrow> string"
  CtxErr :: "ctx \<Rightarrow> error"
  errdefs_IsNotFound :: "error \<Rightarrow> bool"

text \<open>The calls that answer only an error share one oracle and are told apart by the call.\<close>

definition ctrd :: "containerd_api \<Rightarrow> containerd_call \<Rightarrow> (containerd_call list, error option) state" where
  "ctrd api k = sdk_call k (\<lambda>tr. CallResult api tr k)"

definition ctrd_task :: "containerd_api \<Rightarrow> ctx \<Rightarrow> string \<Rightarrow> (containerd_call list, error + int) state" where
  "ctrd_task api c i = sdk_call (KTask c i) (\<lambda>tr. ContainerTask api tr c i)"

text \<open>
  A \<open>select\<close> on the channel of \<open>Wait\<close>, on \<open>ctx.Done()\<close> when a context is given, and on a timer when a
  duration is given. Where the code has only one other branch, an answer that is not \<open>ExitCh\<close>
  stands for that branch.
\<close>

definition ctrd_select ::
  "containerd_api \<Rightarrow> ctx option \<Rightarrow> duration option \<Rightarrow> (containerd_call list, wait_branch) state" where
  "ctrd_select api c d = do { tr \<leftarrow> State_Monad.get; State_Monad.return (selected api tr c d) }"

text \<open>\<open>execCounter.Add(1)\<close>: the global counter is the number of increments made so far, modulo \<open>2 ^ 64\<close>.\<close>

definition execCounter :: "containerd_call list \<Rightarrow> int" where
  "execCounter tr = int (length (filter (\<lambda>k. k = KCounter) tr)) mod 2 ^ 64"

definition next_counter :: "(containerd_call list, int) state" where
  "next_counter = sdk_call KCounter (\<lambda>tr. execCounter (tr @ [KCounter]))"

lemma run_ctrd [simp]: "run_state (ctrd api k) tr = (CallResult api tr k, tr @ [k])"
  by (simp add: ctrd_def)

lemma run_ctrd_task [simp]: "run_state (ctrd_task api c i) tr = (ContainerTask api tr c i, tr @ [KTask c i])"
  by (simp add: ctrd_task_def)

lemma run_ctrd_select [simp]: "run_state (ctrd_select api co d) tr = (selected api tr co d, tr)"
  by (simp add: ctrd_select_def)

lemma run_next_counter [simp]:
  "run_state next_counter tr = (execCounter (tr @ [KCounter]), tr @ [KCounter])"
  by (simp add: next_counter_def)

lemma emits_ctrd:
  "P k \<Longrightarrow> emits P (ctrd api k)"
  "P (KTask c i) \<Longrightarrow> emits P (ctrd_task api c i)"
  "emits P (ctrd_select api co d)"
  "P KCounter \<Longrightarrow> emits P next_counter"
  unfolding ctrd_def ctrd_task_def ctrd_select_def next_counter_def
  by (intro emits_intros; assumption)+

lemmas ctrd_intros = emits_intros emits_ctrd

text \<open>Two increments never give the same number as long as there are fewer than \<open>2 ^ 64\<close> of them.\<close>

lemma execCounter_grows:
  assumes "length (filter (\<lambda>k. k = KCounter) (tr @ evs)) < 2 ^ 64" and "KCounter \<in> set evs"
  shows "execCounter tr < execCounter (tr @ evs)"
proof -
  let ?n = "\<lambda>xs. length (filter (\<lambda>k. k = KCounter) xs)"
  have "0 < ?n evs" using assms(2) by (simp add: filter_empty_conv)
  moreover have "int (?n tr) < 2 ^ 64" "int (?n (tr @ evs)) < 2 ^ 64" using assms(1) by simp_all
  ultimately show ?thesis by (simp add: execCounter_def)
qed

end
