(* ===== verification/ContainerdTask.thy ===== *)
theory ContainerdTask
  imports ContainerdApi Lifecycle
begin

text \<open>
  \<open>pkg/runtime/containerd\<close>: listing (\<open>container.go\<close>), the operations on a container's task
  (\<open>task.go\<close>) and the lifecycle operations of the client (\<open>client.go\<close>). The first section has the
  models, the next ones their facts.
\<close>

section \<open>The client (\<open>client.go\<close>)\<close>

record containerdClient =
  client_api :: containerd_api
  client_ns :: string

definition defaultSocket :: string where "defaultSocket = ''/run/containerd/containerd.sock''"
definition defaultNamespace :: string where "defaultNamespace = ''k8s.io''"

text \<open>\<open>containerd.New\<close> is a parameter.\<close>

definition containerd_NewClient ::
  "(string \<Rightarrow> error + containerd_api) \<Rightarrow> string \<Rightarrow> string \<Rightarrow> error + containerdClient" where
  "containerd_NewClient containerd_New socket ns =
     (let socket = (if socket = '''' then defaultSocket else socket);
          ns = (if ns = '''' then defaultNamespace else ns)
      in case containerd_New socket of
           Inl err \<Rightarrow> Inl (ErrWrap ''failed to create containerd client: %w'' [] err)
         | Inr c \<Rightarrow> Inr \<lparr>client_api = c, client_ns = ns\<rparr>)"

definition containerd_Close :: "containerdClient \<Rightarrow> (containerd_call list, error option) state" where
  "containerd_Close cl = ctrd (client_api cl) KClose"

definition nsCtx :: "containerdClient \<Rightarrow> ctx \<Rightarrow> ctx" where
  "nsCtx cl c = CtxNamespace c (client_ns cl)"

section \<open>Signals (\<open>task.go\<close>)\<close>

text \<open>\<open>syscall.Signal.String\<close>, for the error messages.\<close>

definition signal_String :: "signal \<Rightarrow> string" where
  "signal_String s = (case map_of
     [(1, ''hangup''), (2, ''interrupt''), (3, ''quit''), (4, ''illegal instruction''),
      (5, ''trace/breakpoint trap''), (6, ''aborted''), (7, ''bus error''),
      (8, ''floating point exception''), (9, ''killed''), (10, ''user defined signal 1''),
      (11, ''segmentation fault''), (12, ''user defined signal 2''), (13, ''broken pipe''),
      (14, ''alarm clock''), (15, ''terminated'')] s of
     Some t \<Rightarrow> t | None \<Rightarrow> ''signal '' @ itoa s)"

definition signalMap :: "string \<rightharpoonup> signal" where
  "signalMap = map_of
     [(''SIGABRT'', 6), (''SIGALRM'', 14), (''SIGCONT'', 18), (''SIGHUP'', 1), (''SIGINT'', 2),
      (''SIGKILL'', 9), (''SIGPIPE'', 13), (''SIGQUIT'', 3), (''SIGSTOP'', 19), (''SIGTERM'', 15),
      (''SIGTRAP'', 5), (''SIGUSR1'', 10), (''SIGUSR2'', 12)]"

definition parseSignal :: "string \<Rightarrow> error + signal" where
  "parseSignal sig =
     (case parse_int sig of
        Inr num \<Rightarrow> if num < 1 then Inl (ErrNew ''invalid signal number: %d'' [itoa num]) else Inr num
      | Inl _ \<Rightarrow>
          let sig = to_upper sig;
              sig = (if \<not> prefix ''SIG'' sig then ''SIG'' @ sig else sig)
          in case signalMap sig of
               Some s \<Rightarrow> Inr s
             | None \<Rightarrow> Inl (ErrNew ''unknown signal: %s'' [sig]))"

definition resolveStopSignal :: "container \<Rightarrow> signal" where
  "resolveStopSignal x =
     (if StopSignal x \<noteq> '''' then (case parseSignal (StopSignal x) of Inl _ \<Rightarrow> SIGTERM | Inr sig \<Rightarrow> sig)
      else SIGTERM)"

section \<open>Tasks (\<open>task.go\<close>)\<close>

definition killTimeout :: duration where "killTimeout = 30 * second"

definition getTask :: "containerdClient \<Rightarrow> ctx \<Rightarrow> string \<Rightarrow> (containerd_call list, error + int) state" where
  "getTask cl c i = do {
     err \<leftarrow> ctrd (client_api cl) (KLoadContainer c i);
     case err of
       Some e \<Rightarrow> State_Monad.return (Inl (ErrWrap ''failed to load container %s: %w'' [i] e))
     | None \<Rightarrow> do {
         r \<leftarrow> ctrd_task (client_api cl) c i;
         State_Monad.return (case r of
             Inl e \<Rightarrow> Inl (ErrWrap ''failed to get task for %s: %w'' [i] e)
           | Inr pid \<Rightarrow> Inr pid) } }"

text \<open>\<open>if err := task.Kill(...); err != nil \<and> !IsNotFound(err)\<close>.\<close>

definition kill_failed :: "containerd_api \<Rightarrow> error option \<Rightarrow> error option" where
  "kill_failed api r = (case r of None \<Rightarrow> None | Some e \<Rightarrow> if errdefs_IsNotFound api e then None else Some e)"

text \<open>The last branch of \<open>stopTask\<close>: the timer of the graceful stop has fired.\<close>

definition stop_hard :: "containerdClient \<Rightarrow> ctx \<Rightarrow> string \<Rightarrow> (containerd_call list, error option) state" where
  "stop_hard cl c i = do {
     err \<leftarrow> ctrd (client_api cl) (KKill c i SIGKILL);
     case kill_failed (client_api cl) err of
       Some e \<Rightarrow> State_Monad.return (Some (ErrWrap ''failed to send SIGKILL to %s: %w'' [i] e))
     | None \<Rightarrow> do {
         b \<leftarrow> ctrd_select (client_api cl) (Some c) (Some killTimeout);
         case b of
           ExitCh _ \<Rightarrow> do { _ \<leftarrow> ctrd (client_api cl) (KTaskDelete c i); State_Monad.return None }
         | CtxDone \<Rightarrow> State_Monad.return
             (Some (ErrWrap ''context canceled waiting for SIGKILL on %s: %w'' [i] (CtxErr (client_api cl) c)))
         | TimerFired \<Rightarrow> State_Monad.return (Some (ErrNew ''timeout waiting for SIGKILL on %s'' [i])) } }"

definition stopTask ::
  "containerdClient \<Rightarrow> ctx \<Rightarrow> string \<Rightarrow> signal \<Rightarrow> duration \<Rightarrow> (containerd_call list, error option) state" where
  "stopTask cl c i sig timeout = do {
     r \<leftarrow> getTask cl c i;
     case r of
       Inl e \<Rightarrow> State_Monad.return (Some e)
     | Inr _ \<Rightarrow> do {
         werr \<leftarrow> ctrd (client_api cl) (KWait c i);
         case werr of
           Some e \<Rightarrow> State_Monad.return (Some (ErrWrap ''failed to wait on task %s: %w'' [i] e))
         | None \<Rightarrow> do {
             err \<leftarrow> ctrd (client_api cl) (KKill c i sig);
             case kill_failed (client_api cl) err of
               Some e \<Rightarrow> State_Monad.return (Some (ErrWrap ''failed to send %s to %s: %w'' [signal_String sig, i] e))
             | None \<Rightarrow> do {
                 b \<leftarrow> ctrd_select (client_api cl) (Some c) (Some timeout);
                 case b of
                   ExitCh _ \<Rightarrow> do { _ \<leftarrow> ctrd (client_api cl) (KTaskDelete c i); State_Monad.return None }
                 | CtxDone \<Rightarrow> State_Monad.return
                     (Some (ErrWrap ''context canceled waiting for %s on %s: %w'' [signal_String sig, i]
                       (CtxErr (client_api cl) c)))
                 | TimerFired \<Rightarrow> stop_hard cl c i } } } }"

definition killTask :: "containerdClient \<Rightarrow> ctx \<Rightarrow> string \<Rightarrow> string \<Rightarrow> (containerd_call list, error option) state" where
  "killTask cl c i sig = do {
     r \<leftarrow> getTask cl c i;
     case r of
       Inl e \<Rightarrow> State_Monad.return (Some e)
     | Inr _ \<Rightarrow>
         (case parseSignal sig of
            Inl e \<Rightarrow> State_Monad.return (Some (ErrWrap ''invalid signal for %s: %w'' [i] e))
          | Inr s \<Rightarrow> do {
              err \<leftarrow> ctrd (client_api cl) (KKill c i s);
              State_Monad.return (wrapf ''failed to kill task %s: %w'' [i] err) }) }"

definition startTask :: "containerdClient \<Rightarrow> ctx \<Rightarrow> string \<Rightarrow> (containerd_call list, error option) state" where
  "startTask cl c i = do {
     err \<leftarrow> ctrd (client_api cl) (KLoadContainer c i);
     case err of
       Some e \<Rightarrow> State_Monad.return (Some (ErrWrap ''failed to load container %s: %w'' [i] e))
     | None \<Rightarrow> do {
         r \<leftarrow> ctrd_task (client_api cl) c i;
         case r of
           Inl e \<Rightarrow>
             if \<not> errdefs_IsNotFound (client_api cl) e
             then State_Monad.return (Some (ErrWrap ''failed to get task for %s: %w'' [i] e))
             else do {
               nerr \<leftarrow> ctrd (client_api cl) (KNewTask c i);
               case nerr of
                 Some e' \<Rightarrow> State_Monad.return (Some (ErrWrap ''failed to create task for %s: %w'' [i] e'))
               | None \<Rightarrow> ctrd (client_api cl) (KStart c i) }
         | Inr _ \<Rightarrow> ctrd (client_api cl) (KStart c i) } }"

definition pauseTask :: "containerdClient \<Rightarrow> ctx \<Rightarrow> string \<Rightarrow> (containerd_call list, error option) state" where
  "pauseTask cl c i = do {
     r \<leftarrow> getTask cl c i;
     case r of
       Inl e \<Rightarrow> State_Monad.return (Some e)
     | Inr _ \<Rightarrow> ctrd (client_api cl) (KPause c i) }"

definition resumeTask :: "containerdClient \<Rightarrow> ctx \<Rightarrow> string \<Rightarrow> (containerd_call list, error option) state" where
  "resumeTask cl c i = do {
     r \<leftarrow> getTask cl c i;
     case r of
       Inl e \<Rightarrow> State_Monad.return (Some e)
     | Inr _ \<Rightarrow> ctrd (client_api cl) (KResume c i) }"

section \<open>Running a command in a task (\<open>task.go\<close>)\<close>

text \<open>\<open>status.Result()\<close>: a closed channel yields the zero status, whose code is 0.\<close>

definition status_Result :: "exit_status option \<Rightarrow> error + int" where
  "status_Result st = (case st of
     None \<Rightarrow> Inr 0 | Some (ExitStatus n) \<Rightarrow> Inr n | Some (ExitError e) \<Rightarrow> Inl e)"

text \<open>From the exec that has been created to the result; the deferred deletion follows in \<open>execTask\<close>.\<close>

definition run_exec :: "containerd_api \<Rightarrow> ctx \<Rightarrow> string \<Rightarrow> string \<Rightarrow> (containerd_call list, error option) state" where
  "run_exec api c execID description = do {
     werr \<leftarrow> ctrd api (KExecWait c execID);
     case werr of
       Some e \<Rightarrow> State_Monad.return (Some (ErrWrap ''failed to wait on %s: %w'' [description] e))
     | None \<Rightarrow> do {
         serr \<leftarrow> ctrd api (KExecStart c execID);
         case serr of
           Some e \<Rightarrow> State_Monad.return (Some (ErrWrap ''failed to start %s: %w'' [description] e))
         | None \<Rightarrow> do {
             b \<leftarrow> ctrd_select api (Some c) None;
             tr \<leftarrow> State_Monad.get;
             State_Monad.return (case b of
                 ExitCh st \<Rightarrow>
                   (case status_Result st of
                      Inl e \<Rightarrow> Some (ErrWrap ''%s failed: %w'' [description] e)
                    | Inr code \<Rightarrow>
                        if code \<noteq> 0
                        then Some (ErrNew ''%s exited with code %d: %s'' [description, itoa code, ExecStderr api tr execID])
                        else None)
               | _ \<Rightarrow> Some (ErrWrap ''%s canceled: %w'' [description] (CtxErr api c))) } } }"

definition execTask ::
  "containerd_api \<Rightarrow> ctx \<Rightarrow> string \<Rightarrow> process_spec \<Rightarrow> string \<Rightarrow> string \<Rightarrow> (containerd_call list, error option) state" where
  "execTask api c task pspec execID description = do {
     err \<leftarrow> ctrd api (KExec c task execID pspec);
     case err of
       Some e \<Rightarrow> State_Monad.return (Some (ErrWrap ''failed to exec %s: %w'' [description] e))
     | None \<Rightarrow> do {
         r \<leftarrow> run_exec api c execID description;
         _ \<leftarrow> ctrd api (KExecDelete c execID);
         State_Monad.return r } }"

definition quoted :: "string \<Rightarrow> string" where
  "quoted s = CHR 0x27 # s @ [CHR 0x27]"

definition exec_env :: "string list" where
  "exec_env = [''PATH=/usr/local/sbin:/usr/local/bin:/usr/sbin:/usr/bin:/sbin:/bin'']"

definition exec_process :: "string list \<Rightarrow> process_spec" where
  "exec_process cmdArgs = \<lparr>ProcArgs = cmdArgs, ProcCwd = ''/'', ProcEnv = exec_env, ProcUID = 0, ProcGID = 0,
     ProcCapabilities = []\<rparr>"

definition execInContainer ::
  "containerdClient \<Rightarrow> ctx \<Rightarrow> string \<Rightarrow> string \<Rightarrow> string list \<Rightarrow> (containerd_call list, error option) state" where
  "execInContainer cl c i command args = do {
     r \<leftarrow> getTask cl c i;
     case r of
       Inl e \<Rightarrow> State_Monad.return (Some e)
     | Inr _ \<Rightarrow> do {
         n \<leftarrow> next_counter;
         execTask (client_api cl) c i (exec_process (command # args)) (''pumba-exec-'' @ itoa n)
           (''exec in '' @ i @ '' '' @ quoted (join_with '' '' (command # args))) } }"

section \<open>Listing (\<open>container.go\<close>, \<open>client.go\<close>)\<close>

text \<open>Reading a missing key of a Go map gives the empty string.\<close>

definition label :: "(string \<times> string) list \<Rightarrow> string \<Rightarrow> string" where
  "label labels k = (case map_of labels k of Some v \<Rightarrow> v | None \<Rightarrow> '''')"

definition resolveContainerName :: "string \<Rightarrow> (string \<times> string) list \<Rightarrow> string" where
  "resolveContainerName i labels =
     (let name = label labels ''io.kubernetes.container.name'';
          pod = label labels ''io.kubernetes.pod.name'';
          ns = label labels ''io.kubernetes.pod.namespace'' in
      if name \<noteq> '''' then
        (if pod \<noteq> '''' \<and> ns \<noteq> '''' then ns @ ''/'' @ pod @ ''/'' @ name
         else if pod \<noteq> '''' then pod @ ''/'' @ name
         else name)
      else if label labels ''nerdctl/name'' \<noteq> '''' then label labels ''nerdctl/name''
      else if label labels ''com.docker.compose.service'' \<noteq> '''' then label labels ''com.docker.compose.service''
      else i)"

definition ctrd_container :: "string \<Rightarrow> container_info \<Rightarrow> string \<Rightarrow> container" where
  "ctrd_container i info st =
     \<lparr>ContainerID = i, ContainerName = resolveContainerName i (InfoLabels info), Image = InfoImage info,
      ImageID = InfoImage info, RunState = st, CLabels = InfoLabels info, Networks = []\<rparr>"

text \<open>The result \<open>(nil, true, nil)\<close>, a container to skip, is \<open>Inr None\<close>.\<close>

definition toContainer ::
  "containerd_api \<Rightarrow> ctx \<Rightarrow> string \<Rightarrow> bool \<Rightarrow> (containerd_call list, error + container option) state" where
  "toContainer api c i all = do {
     inf \<leftarrow> sdk_call (KInfo c i) (\<lambda>tr. ContainerInfo api tr c i);
     case inf of
       Inl e \<Rightarrow> State_Monad.return (Inl (ErrWrap ''failed to get container info for %s: %w'' [i] e))
     | Inr info \<Rightarrow> do {
         t \<leftarrow> ctrd_task api c i;
         case t of
           Inl e \<Rightarrow> State_Monad.return
             (if \<not> errdefs_IsNotFound api e then Inl (ErrWrap ''failed to get task for %s: %w'' [i] e)
              else if \<not> all then Inr None
              else Inr (Some (ctrd_container i info StateExited)))
         | Inr _ \<Rightarrow> do {
             st \<leftarrow> sdk_call (KStatus c i) (\<lambda>tr. TaskRunning api tr c i);
             State_Monad.return (case st of
                 Inl e \<Rightarrow> Inl (ErrWrap ''failed to get task status for %s: %w'' [i] e)
               | Inr True \<Rightarrow> Inr (Some (ctrd_container i info StateRunning))
               | Inr False \<Rightarrow>
                   if \<not> all then Inr None else Inr (Some (ctrd_container i info StateExited))) } } }"

text \<open>The loop of \<open>ListContainers\<close>: a container whose conversion fails is only logged.\<close>

primrec convert_all ::
  "containerd_api \<Rightarrow> ctx \<Rightarrow> filter_func \<Rightarrow> bool \<Rightarrow> string list \<Rightarrow> (containerd_call list, container list) state" where
  "convert_all api c fn all [] = State_Monad.return []"
| "convert_all api c fn all (i # is) = do {
     r \<leftarrow> toContainer api c i all;
     rest \<leftarrow> convert_all api c fn all is;
     State_Monad.return (case r of
         Inl _ \<Rightarrow> rest
       | Inr None \<Rightarrow> rest
       | Inr (Some pc) \<Rightarrow> if fn pc then pc # rest else rest) }"

definition containerd_ListContainers ::
  "containerdClient \<Rightarrow> ctx \<Rightarrow> filter_func \<Rightarrow> list_opts \<Rightarrow> (containerd_call list, error + container list) state" where
  "containerd_ListContainers cl c fn opts =
     (if length (LLabels opts) > 0
      then State_Monad.return (Inl (errorf ''containerd runtime: label filtering is not yet implemented''))
      else do {
        let c = nsCtx cl c;
        r \<leftarrow> sdk_call (KContainers c) (\<lambda>tr. Containers (client_api cl) tr c);
        case r of
          Inl e \<Rightarrow> State_Monad.return (Inl (ErrWrap ''failed to list containerd containers: %w'' [] e))
        | Inr containers \<Rightarrow> do {
            result \<leftarrow> convert_all (client_api cl) c fn (All opts) containers;
            State_Monad.return (Inr result) } })"

section \<open>Lifecycle operations (\<open>client.go\<close>)\<close>

definition containerd_StopContainer ::
  "containerdClient \<Rightarrow> ctx \<Rightarrow> container \<Rightarrow> int \<Rightarrow> bool \<Rightarrow> (containerd_call list, error option) state" where
  "containerd_StopContainer cl c x timeout dryrun =
     (let sig = resolveStopSignal x in
      if dryrun then State_Monad.return None
      else stopTask cl (nsCtx cl c) (ContainerID x) sig (int64 (timeout * second)))"

definition containerd_KillContainer ::
  "containerdClient \<Rightarrow> ctx \<Rightarrow> container \<Rightarrow> string \<Rightarrow> bool \<Rightarrow> (containerd_call list, error option) state" where
  "containerd_KillContainer cl c x sig dryrun =
     (if dryrun then State_Monad.return None else killTask cl (nsCtx cl c) (ContainerID x) sig)"

definition containerd_StartContainer ::
  "containerdClient \<Rightarrow> ctx \<Rightarrow> container \<Rightarrow> bool \<Rightarrow> (containerd_call list, error option) state" where
  "containerd_StartContainer cl c x dryrun =
     (if dryrun then State_Monad.return None else startTask cl (nsCtx cl c) (ContainerID x))"

definition containerd_RestartContainer ::
  "containerdClient \<Rightarrow> ctx \<Rightarrow> container \<Rightarrow> duration \<Rightarrow> bool \<Rightarrow> (containerd_call list, error option) state" where
  "containerd_RestartContainer cl c x timeout dryrun =
     (if dryrun then State_Monad.return None
      else do {
        let c = nsCtx cl c;
        let sig = resolveStopSignal x;
        err \<leftarrow> stopTask cl c (ContainerID x) sig timeout;
        case err of
          Some e \<Rightarrow> State_Monad.return (Some (ErrWrap ''restart: stop failed: %w'' [] e))
        | None \<Rightarrow> startTask cl c (ContainerID x) })"

definition forceKillTask :: "containerdClient \<Rightarrow> ctx \<Rightarrow> string \<Rightarrow> (containerd_call list, unit) state" where
  "forceKillTask cl c i = do {
     r \<leftarrow> ctrd_task (client_api cl) c i;
     case r of
       Inl _ \<Rightarrow> State_Monad.return ()
     | Inr _ \<Rightarrow> do {
         wErr \<leftarrow> ctrd (client_api cl) (KWait c i);
         _ \<leftarrow> ctrd (client_api cl) (KKill c i SIGKILL);
         _ \<leftarrow> (if wErr = None then do { _ \<leftarrow> ctrd_select (client_api cl) (Some c) None; State_Monad.return () }
               else State_Monad.return ());
         _ \<leftarrow> ctrd (client_api cl) (KTaskDelete c i);
         State_Monad.return () } }"

definition containerd_RemoveContainer ::
  "containerdClient \<Rightarrow> ctx \<Rightarrow> container \<Rightarrow> remove_opts \<Rightarrow> (containerd_call list, error option) state" where
  "containerd_RemoveContainer cl c x opts =
     (if RDryRun opts then State_Monad.return None
      else do {
        let c = nsCtx cl c;
        let i = ContainerID x;
        lerr \<leftarrow> ctrd (client_api cl) (KLoadContainer c i);
        case lerr of
          Some e \<Rightarrow> State_Monad.return (Some (ErrWrap ''failed to load container %s: %w'' [i] e))
        | None \<Rightarrow> do {
            _ \<leftarrow> (if Force opts then forceKillTask cl c i else State_Monad.return ());
            inf \<leftarrow> sdk_call (KInfo c i) (\<lambda>tr. ContainerInfo (client_api cl) tr c i);
            case inf of
              Inl e \<Rightarrow> State_Monad.return
                (if errdefs_IsNotFound (client_api cl) e then None
                 else Some (ErrWrap ''failed to get container info %s: %w'' [i] e))
            | Inr info \<Rightarrow> do {
                derr \<leftarrow> ctrd (client_api cl) (KDelete c i (SnapshotKey info \<noteq> ''''));
                State_Monad.return (case derr of
                    Some e \<Rightarrow> if errdefs_IsNotFound (client_api cl) e then None
                              else Some (ErrWrap ''failed to delete container %s: %w'' [i] e)
                  | None \<Rightarrow> None) } } })"

definition containerd_PauseContainer ::
  "containerdClient \<Rightarrow> ctx \<Rightarrow> container \<Rightarrow> bool \<Rightarrow> (containerd_call list, error option) state" where
  "containerd_PauseContainer cl c x dryrun =
     (if dryrun then State_Monad.return None else pauseTask cl (nsCtx cl c) (ContainerID x))"

definition containerd_UnpauseContainer ::
  "containerdClient \<Rightarrow> ctx \<Rightarrow> container \<Rightarrow> bool \<Rightarrow> (containerd_call list, error option) state" where
  "containerd_UnpauseContainer cl c x dryrun =
     (if dryrun then State_Monad.return None else resumeTask cl (nsCtx cl c) (ContainerID x))"

definition containerd_StopContainerWithID ::
  "containerdClient \<Rightarrow> ctx \<Rightarrow> string \<Rightarrow> duration \<Rightarrow> bool \<Rightarrow> (containerd_call list, error option) state" where
  "containerd_StopContainerWithID cl c i timeout dryrun =
     (if dryrun then State_Monad.return None else stopTask cl (nsCtx cl c) i SIGTERM timeout)"

definition containerd_ExecContainer ::
  "containerdClient \<Rightarrow> ctx \<Rightarrow> container \<Rightarrow> string \<Rightarrow> string list \<Rightarrow> bool \<Rightarrow> (containerd_call list, error option) state" where
  "containerd_ExecContainer cl c x command args dryrun =
     (if dryrun then State_Monad.return None
      else
        let (command, args) =
          (if length args = 0
           then (case str_fields command of [] \<Rightarrow> (command, args) | f # fs \<Rightarrow> (f, fs))
           else (command, args))
        in execInContainer cl (nsCtx cl c) (ContainerID x) command args)"

section \<open>Facts: listing\<close>

lemma emits_toContainer:
  "P (KInfo c i) \<Longrightarrow> P (KTask c i) \<Longrightarrow> P (KStatus c i) \<Longrightarrow> emits P (toContainer api c i all)"
  unfolding toContainer_def by (intro ctrd_intros)

lemma emits_convert_all:
  "(\<And>i. P (KInfo c i)) \<Longrightarrow> (\<And>i. P (KTask c i)) \<Longrightarrow> (\<And>i. P (KStatus c i)) \<Longrightarrow>
    emits P (convert_all api c fn all is)"
  by (induction "is") (auto intro!: ctrd_intros emits_toContainer)

lemma convert_all_filter:
  "run_state (convert_all api c fn all is) tr = (cs, tr') \<Longrightarrow> x \<in> set cs \<Longrightarrow> fn x"
proof (induction "is" arbitrary: cs tr tr')
  case (Cons i "is")
  then show ?case by (auto split: prod.splits sum.splits option.splits if_splits)
qed simp

interpretation containerd: lister "containerd_ListContainers cl" "filter containerd_effect" for cl
proof unfold_locales
  show "f x" if "run_state (containerd_ListContainers cl c f os) w = (Inr cs, w')" and "x \<in> set cs"
    for c f os w cs w' x
    using that by (auto simp: containerd_ListContainers_def Let_def
        split: sum.splits if_splits prod.splits elim: convert_all_filter)
  show "quiet (filter containerd_effect) (containerd_ListContainers cl c f os)" for c f os
    unfolding containerd_ListContainers_def Let_def
    by (intro emits_quiet ctrd_intros emits_convert_all) simp_all
qed

section \<open>Facts: signals\<close>

lemma parse_int_cases: "(\<exists>n. parse_int s = Inr n) \<or> (\<exists>e. parse_int s = Inl e)"
  by (cases "parse_int s") auto

lemma signalMap_bounds: "signalMap name = Some s \<Longrightarrow> 1 \<le> s \<and> s \<le> 31"
  by (auto simp: signalMap_def split: if_splits)

lemma signalMap_SIG: "signalMap name = Some s \<Longrightarrow> prefix ''SIG'' name"
  by (auto simp: signalMap_def split: if_splits)

definition named_signal :: "string \<Rightarrow> string" where
  "named_signal s = (if prefix ''SIG'' (to_upper s) then to_upper s else ''SIG'' @ to_upper s)"

lemma parseSignal_eq:
  "parseSignal s = (case parse_int s of
     Inr n \<Rightarrow> if n < 1 then Inl (ErrNew ''invalid signal number: %d'' [itoa n]) else Inr n
   | Inl _ \<Rightarrow> (case signalMap (named_signal s) of
       Some k \<Rightarrow> Inr k | None \<Rightarrow> Inl (ErrNew ''unknown signal: %s'' [named_signal s])))"
  unfolding parseSignal_def named_signal_def Let_def if_not_P by (simp cong: option.case_cong)

text \<open>A signal that the containerd runtime accepts is positive: it is the decimal number that was given,
  or one of the thirteen names of its table, in any case and with or without the prefix \<open>SIG\<close>, and
  then at most 31. Everything else is an error, so that no task is sent the null signal.\<close>

theorem parseSignal_bounds:
  "case parseSignal s of
     Inr n \<Rightarrow> 1 \<le> n \<and> (parse_int s = Inr n \<or> (signalMap (named_signal s) = Some n \<and> n \<le> 31))
   | Inl e \<Rightarrow> (case parse_int s of Inr n \<Rightarrow> n < 1 | Inl _ \<Rightarrow> signalMap (named_signal s) = None)"
  using signalMap_bounds [of "named_signal s"]
  by (auto simp: parseSignal_eq split: sum.splits option.splits)

definition kill_names :: "string list" where
  "kill_names = [''SIGHUP'', ''SIGINT'', ''SIGQUIT'', ''SIGILL'', ''SIGTRAP'', ''SIGIOT'', ''SIGBUS'',
     ''SIGFPE'', ''SIGKILL'', ''SIGUSR1'', ''SIGSEGV'', ''SIGUSR2'', ''SIGPIPE'', ''SIGALRM'',
     ''SIGTERM'', ''SIGCHLD'', ''SIGCONT'', ''SIGSTOP'', ''SIGTSTP'', ''SIGTTIN'', ''SIGTTOU'', ''SIGURG'',
     ''SIGXCPU'', ''SIGXFSZ'', ''SIGVTALRM'', ''SIGPROF'', ''SIGWINCH'', ''SIGIO'']"

lemma dom_linuxSignals: "dom linuxSignals = set kill_names"
  by (simp add: linuxSignals_def kill_names_def dom_map_of_conv_image_fst)

text \<open>Of the 28 signal names that the kill command accepts, the containerd runtime knows these twelve;
  for the other ones a kill passes the validation of the command line and then fails on every
  container. The name SIGABRT, which the runtime knows, is refused by the command.\<close>

theorem kill_signals_of_containerd:
  "dom linuxSignals \<inter> {s. \<exists>n. parseSignal s = Inr n} =
     {''SIGALRM'', ''SIGCONT'', ''SIGHUP'', ''SIGINT'', ''SIGKILL'', ''SIGPIPE'', ''SIGQUIT'', ''SIGSTOP'',
      ''SIGTERM'', ''SIGTRAP'', ''SIGUSR1'', ''SIGUSR2''} \<and>
   card (dom linuxSignals) = 28 \<and> linuxSignals ''SIGABRT'' = None \<and> parseSignal ''SIGABRT'' = Inr 6"
proof (intro conjI)
  have "filter (\<lambda>s. case parseSignal s of Inr _ \<Rightarrow> True | Inl _ \<Rightarrow> False) kill_names =
     [''SIGHUP'', ''SIGINT'', ''SIGQUIT'', ''SIGTRAP'', ''SIGKILL'', ''SIGUSR1'', ''SIGUSR2'', ''SIGPIPE'',
      ''SIGALRM'', ''SIGTERM'', ''SIGCONT'', ''SIGSTOP'']" by code_simp
  moreover have "(case parseSignal s of Inr _ \<Rightarrow> True | Inl _ \<Rightarrow> False) \<longleftrightarrow> (\<exists>n. parseSignal s = Inr n)" for s
    by (cases "parseSignal s") simp_all
  ultimately show "dom linuxSignals \<inter> {s. \<exists>n. parseSignal s = Inr n} =
     {''SIGALRM'', ''SIGCONT'', ''SIGHUP'', ''SIGINT'', ''SIGKILL'', ''SIGPIPE'', ''SIGQUIT'', ''SIGSTOP'',
      ''SIGTERM'', ''SIGTRAP'', ''SIGUSR1'', ''SIGUSR2''}"
    unfolding dom_linuxSignals Int_def mem_Collect_eq by (simp flip: set_filter) auto
  show "card (dom linuxSignals) = 28" unfolding dom_linuxSignals by (subst distinct_card) code_simp+
  show "linuxSignals ''SIGABRT'' = None" by (simp add: linuxSignals_def)
  show "parseSignal ''SIGABRT'' = Inr 6" by code_simp
qed

section \<open>Facts: stopping a task\<close>

text \<open>The calls of \<open>stopTask\<close> when none of them fails.\<close>

definition stop_calls :: "ctx \<Rightarrow> string \<Rightarrow> signal \<Rightarrow> containerd_call list" where
  "stop_calls c i sig = [KLoadContainer c i, KTask c i, KWait c i, KKill c i sig]"

lemma getTask_run:
  "run_state (getTask cl c i) tr =
    (case CallResult (client_api cl) tr (KLoadContainer c i) of
       Some e \<Rightarrow> (Inl (ErrWrap ''failed to load container %s: %w'' [i] e), tr @ [KLoadContainer c i])
     | None \<Rightarrow>
       (case ContainerTask (client_api cl) (tr @ [KLoadContainer c i]) c i of
          Inl e \<Rightarrow> Inl (ErrWrap ''failed to get task for %s: %w'' [i] e) | Inr pid \<Rightarrow> Inr pid,
        tr @ [KLoadContainer c i, KTask c i]))"
  by (simp add: getTask_def split: option.splits)


end
