(* ===== verification/ContainerdSidecar.thy ===== *)
theory ContainerdSidecar
  imports ContainerdTask DockerSidecar
begin

text \<open>
  \<open>pkg/runtime/containerd\<close>: the sidecar containers (\<open>sidecar.go\<close>), the lists of \<open>tc\<close> and \<open>iptables\<close>
  commands (\<open>commands.go\<close>) and the operations that run them (\<open>netem.go\<close>, \<open>iptables.go\<close>). The last
  sections compare the commands with those of the Docker runtime.
\<close>

section \<open>Sidecars (\<open>sidecar.go\<close>)\<close>

definition sidecarCleanupTimeout :: duration where "sidecarCleanupTimeout = 30 * second"
definition sidecarKillTimeout :: duration where "sidecarKillTimeout = 5 * second"

definition networkCapabilities :: "string list" where
  "networkCapabilities = [''CAP_NET_ADMIN'', ''CAP_NET_RAW'']"

definition ctrd_pullImage :: "containerdClient \<Rightarrow> ctx \<Rightarrow> string \<Rightarrow> (containerd_call list, error option) state" where
  "ctrd_pullImage cl c ref = do {
     err \<leftarrow> ctrd (client_api cl) (KPull c ref);
     State_Monad.return (wrapf ''failed to pull image %s: %w'' [ref] err) }"

definition cleanupSidecar :: "containerdClient \<Rightarrow> ctx \<Rightarrow> string \<Rightarrow> (containerd_call list, error option) state" where
  "cleanupSidecar cl c i = do {
     t \<leftarrow> ctrd_task (client_api cl) c i;
     _ \<leftarrow> (case t of
         Inl _ \<Rightarrow> State_Monad.return None
       | Inr _ \<Rightarrow> do {
           waitErr \<leftarrow> ctrd (client_api cl) (KWait c i);
           _ \<leftarrow> ctrd (client_api cl) (KKill c i SIGKILL);
           _ \<leftarrow> (if waitErr = None
                 then do { _ \<leftarrow> ctrd_select (client_api cl) None (Some sidecarKillTimeout); State_Monad.return () }
                 else State_Monad.return ());
           ctrd (client_api cl) (KTaskDelete c i) });
     err \<leftarrow> ctrd (client_api cl) (KDelete c i True);
     State_Monad.return
       (wrapf ''failed to delete sidecar container: %w'' [] (kill_failed (client_api cl) err)) }"

definition sidecar_exec_spec :: "string list \<Rightarrow> process_spec" where
  "sidecar_exec_spec cmdArgs = (exec_process cmdArgs)\<lparr>ProcCapabilities := networkCapabilities\<rparr>"

definition runSidecarCmd ::
  "containerdClient \<Rightarrow> ctx \<Rightarrow> string \<Rightarrow> string \<Rightarrow> string list \<Rightarrow> (containerd_call list, error option) state" where
  "runSidecarCmd cl c task command args = do {
     n \<leftarrow> next_counter;
     execTask (client_api cl) c task (sidecar_exec_spec (command # args)) (''pumba-sc-exec-'' @ itoa n)
       (''sidecar exec '' @ quoted (join_with '' '' (command # args))) }"

definition sidecar_opts :: "string \<Rightarrow> string \<Rightarrow> int \<Rightarrow> container_opt list" where
  "sidecar_opts sidecarID img targetPID =
     [WithImage img, WithNewSnapshot (sidecarID @ ''-snapshot'') img,
      WithNewSpec [WithImageConfig img, WithProcessArgs [''sleep'', ''infinity''],
        WithLinuxNamespace ''network'' (''/proc/'' @ itoa targetPID @ ''/ns/net''),
        WithCapabilities networkCapabilities]]"

text \<open>The body after the sidecar has been created, and the whole with the deferred cleanup.\<close>

definition use_ctrd_sidecar ::
  "containerdClient \<Rightarrow> ctx \<Rightarrow> string \<Rightarrow> string \<Rightarrow> string list list \<Rightarrow> (containerd_call list, error option) state" where
  "use_ctrd_sidecar cl c i command argsList = do {
     terr \<leftarrow> ctrd (client_api cl) (KNewTask c i);
     case terr of
       Some e \<Rightarrow> State_Monad.return (Some (ErrWrap ''failed to create sidecar task: %w'' [] e))
     | None \<Rightarrow> do {
         serr \<leftarrow> ctrd (client_api cl) (KStart c i);
         case serr of
           Some e \<Rightarrow> State_Monad.return (Some (ErrWrap ''failed to start sidecar task: %w'' [] e))
         | None \<Rightarrow> for_err (runSidecarCmd cl c i command) argsList } }"

definition sidecar_cleanup_ctx :: "containerdClient \<Rightarrow> ctx \<Rightarrow> ctx" where
  "sidecar_cleanup_ctx cl c = nsCtx cl (cleanup_ctx c sidecarCleanupTimeout)"

definition create_ctrd_sidecar ::
  "containerdClient \<Rightarrow> ctx \<Rightarrow> string \<Rightarrow> int \<Rightarrow> string \<Rightarrow> string list list \<Rightarrow> (containerd_call list, error option) state" where
  "create_ctrd_sidecar cl c img targetPID command argsList = do {
     n \<leftarrow> next_counter;
     let sidecarID = ''pumba-sidecar-'' @ itoa n;
     cerr \<leftarrow> ctrd (client_api cl) (KNewContainer c sidecarID (sidecar_opts sidecarID img targetPID));
     case cerr of
       Some e \<Rightarrow> State_Monad.return (Some (ErrWrap ''failed to create sidecar container: %w'' [] e))
     | None \<Rightarrow> do {
         r \<leftarrow> use_ctrd_sidecar cl c sidecarID command argsList;
         _ \<leftarrow> cleanupSidecar cl (sidecar_cleanup_ctx cl c) sidecarID;
         State_Monad.return r } }"

definition sidecarExec ::
  "containerdClient \<Rightarrow> ctx \<Rightarrow> container \<Rightarrow> string \<Rightarrow> bool \<Rightarrow> string \<Rightarrow> string list list \<Rightarrow>
     (containerd_call list, error option) state" where
  "sidecarExec cl c target sidecarImage pull command argsList = do {
     let c = nsCtx cl c;
     perr \<leftarrow> (if pull then ctrd_pullImage cl c sidecarImage else State_Monad.return None);
     case perr of
       Some e \<Rightarrow> State_Monad.return (Some (ErrWrap ''failed to pull sidecar image %s: %w'' [sidecarImage] e))
     | None \<Rightarrow> do {
         t \<leftarrow> getTask cl c (ContainerID target);
         case t of
           Inl e \<Rightarrow> State_Monad.return (Some (ErrWrap ''failed to get target task for sidecar: %w'' [] e))
         | Inr targetPID \<Rightarrow>
             if targetPID = 0
             then State_Monad.return (Some (ErrNew ''target task for %s has PID 0 (not running)'' [ContainerID target]))
             else do {
               im \<leftarrow> sdk_call (KGetImage c sidecarImage) (\<lambda>tr. GetImage (client_api cl) tr c sidecarImage);
               case im of
                 Inl e \<Rightarrow> State_Monad.return (Some (ErrWrap ''failed to get sidecar image %s: %w'' [sidecarImage] e))
               | Inr img \<Rightarrow> create_ctrd_sidecar cl c img targetPID command argsList } } }"

section \<open>Commands (\<open>commands.go\<close>)\<close>

definition buildNetemCommands ::
  "string \<Rightarrow> string list \<Rightarrow> ip_net list \<Rightarrow> string list \<Rightarrow> string list \<Rightarrow> string list list" where
  "buildNetemCommands netInterface netemCmd ips sports dports =
     (if length ips = 0 \<and> length sports = 0 \<and> length dports = 0
      then [[''qdisc'', ''add'', ''dev'', netInterface, ''root'', ''netem''] @ netemCmd]
      else
        [[''qdisc'', ''add'', ''dev'', netInterface, ''root'', ''handle'', ''1:'', ''prio''],
         [''qdisc'', ''add'', ''dev'', netInterface, ''parent'', ''1:1'', ''handle'', ''10:'', ''sfq''],
         [''qdisc'', ''add'', ''dev'', netInterface, ''parent'', ''1:2'', ''handle'', ''20:'', ''sfq''],
         [''qdisc'', ''add'', ''dev'', netInterface, ''parent'', ''1:3'', ''handle'', ''30:'', ''netem''] @ netemCmd] @
        map (\<lambda>ip. [''filter'', ''add'', ''dev'', netInterface, ''protocol'', ''ip'', ''parent'', ''1:0'', ''prio'', ''1'',
          ''u32'', ''match'', ''ip'', ''dst'', ipnet_string ip, ''flowid'', ''1:3'']) ips @
        map (\<lambda>sport. [''filter'', ''add'', ''dev'', netInterface, ''protocol'', ''ip'', ''parent'', ''1:0'', ''prio'', ''1'',
          ''u32'', ''match'', ''ip'', ''sport'', sport, ''0xffff'', ''flowid'', ''1:3'']) sports @
        map (\<lambda>dport. [''filter'', ''add'', ''dev'', netInterface, ''protocol'', ''ip'', ''parent'', ''1:0'', ''prio'', ''1'',
          ''u32'', ''match'', ''ip'', ''dport'', dport, ''0xffff'', ''flowid'', ''1:3'']) dports)"

definition buildStopNetemCommands :: "string \<Rightarrow> bool \<Rightarrow> string list list" where
  "buildStopNetemCommands netInterface hasFilters =
     (if \<not> hasFilters then [[''qdisc'', ''del'', ''dev'', netInterface, ''root'']]
      else
        [[''qdisc'', ''del'', ''dev'', netInterface, ''parent'', ''1:1'', ''handle'', ''10:''],
         [''qdisc'', ''del'', ''dev'', netInterface, ''parent'', ''1:2'', ''handle'', ''20:''],
         [''qdisc'', ''del'', ''dev'', netInterface, ''parent'', ''1:3'', ''handle'', ''30:''],
         [''qdisc'', ''del'', ''dev'', netInterface, ''root'', ''handle'', ''1:'', ''prio'']])"

definition buildIPTablesCommands ::
  "string list \<Rightarrow> string list \<Rightarrow> ip_net list \<Rightarrow> ip_net list \<Rightarrow> string list \<Rightarrow> string list \<Rightarrow> string list list" where
  "buildIPTablesCommands cmdPrefix cmdSuffix srcIPs dstIPs sports dports =
     (let commands =
        map (\<lambda>ip. cmdPrefix @ [''-s'', ipnet_string ip] @ cmdSuffix) srcIPs @
        map (\<lambda>ip. cmdPrefix @ [''-d'', ipnet_string ip] @ cmdSuffix) dstIPs @
        map (\<lambda>sport. cmdPrefix @ [''--sport'', sport] @ cmdSuffix) sports @
        map (\<lambda>dport. cmdPrefix @ [''--dport'', dport] @ cmdSuffix) dports
      in if length commands = 0 then commands @ [cmdPrefix @ cmdSuffix] else commands)"

section \<open>Network emulation and packet filters (\<open>netem.go\<close>, \<open>iptables.go\<close>)\<close>

definition runTCCommands ::
  "containerdClient \<Rightarrow> ctx \<Rightarrow> string \<Rightarrow> string list list \<Rightarrow> (containerd_call list, error option) state" where
  "runTCCommands cl c i commands = for_err (\<lambda>args. do {
     err \<leftarrow> execInContainer cl c i ''tc'' args;
     State_Monad.return (wrapf ''failed to run tc command: %w'' [] err) }) commands"

definition runIPTablesCommands ::
  "containerdClient \<Rightarrow> ctx \<Rightarrow> string \<Rightarrow> string list list \<Rightarrow> (containerd_call list, error option) state" where
  "runIPTablesCommands cl c i commands = (let c = nsCtx cl c in for_err (\<lambda>args. do {
     err \<leftarrow> execInContainer cl c i ''iptables'' args;
     State_Monad.return (wrapf ''failed to run iptables command: %w'' [] err) }) commands)"

definition containerd_NetemContainer ::
  "containerdClient \<Rightarrow> ctx \<Rightarrow> netem_request \<Rightarrow> (containerd_call list, error option) state" where
  "containerd_NetemContainer cl c req =
     (if NDryRun req then State_Monad.return None
      else
        let commands = buildNetemCommands (NInterface req) (NCommand req) (NIPs req) (NSPorts req) (NDPorts req) in
        if SImage (NSidecar req) \<noteq> ''''
        then sidecarExec cl c (NContainer req) (SImage (NSidecar req)) (SPull (NSidecar req)) ''tc'' commands
        else runTCCommands cl (nsCtx cl c) (ContainerID (NContainer req)) commands)"

definition containerd_StopNetemContainer ::
  "containerdClient \<Rightarrow> ctx \<Rightarrow> netem_request \<Rightarrow> (containerd_call list, error option) state" where
  "containerd_StopNetemContainer cl c req =
     (if NDryRun req then State_Monad.return None
      else
        let hasFilters = (length (NIPs req) > 0 \<or> length (NSPorts req) > 0 \<or> length (NDPorts req) > 0);
            commands = buildStopNetemCommands (NInterface req) hasFilters in
        if SImage (NSidecar req) \<noteq> ''''
        then sidecarExec cl c (NContainer req) (SImage (NSidecar req)) (SPull (NSidecar req)) ''tc'' commands
        else runTCCommands cl (nsCtx cl c) (ContainerID (NContainer req)) commands)"

definition containerd_IPTablesContainer ::
  "containerdClient \<Rightarrow> ctx \<Rightarrow> iptables_request \<Rightarrow> (containerd_call list, error option) state" where
  "containerd_IPTablesContainer cl c req =
     (if IDryRun req then State_Monad.return None
      else
        let commands = buildIPTablesCommands (CmdPrefix req) (CmdSuffix req) (SrcIPs req) (DstIPs req)
              (ISPorts req) (IDPorts req) in
        if SImage (ISidecar req) \<noteq> ''''
        then sidecarExec cl c (IContainer req) (SImage (ISidecar req)) (SPull (ISidecar req)) ''iptables'' commands
        else runIPTablesCommands cl c (ContainerID (IContainer req)) commands)"

definition containerd_StopIPTablesContainer ::
  "containerdClient \<Rightarrow> ctx \<Rightarrow> iptables_request \<Rightarrow> (containerd_call list, error option) state" where
  "containerd_StopIPTablesContainer cl c req =
     (if IDryRun req then State_Monad.return None
      else
        let commands = buildIPTablesCommands (CmdPrefix req) (CmdSuffix req) (SrcIPs req) (DstIPs req)
              (ISPorts req) (IDPorts req) in
        if SImage (ISidecar req) \<noteq> ''''
        then sidecarExec cl c (IContainer req) (SImage (ISidecar req)) (SPull (ISidecar req)) ''iptables'' commands
        else runIPTablesCommands cl c (ContainerID (IContainer req)) commands)"

section \<open>Facts: commands in a task\<close>

text \<open>The calls on a sidecar's task, and the argument vectors that are executed in it.\<close>

fun on_task :: "ctx \<Rightarrow> string \<Rightarrow> containerd_call \<Rightarrow> bool" where
  "on_task c i (KNewTask c' i') = (c' = c \<and> i' = i)"
| "on_task c i (KStart c' i') = (c' = c \<and> i' = i)"
| "on_task c i KCounter = True"
| "on_task c i (KExec c' i' e p) = (c' = c \<and> i' = i)"
| "on_task c i (KExecWait c' e) = (c' = c)"
| "on_task c i (KExecStart c' e) = (c' = c)"
| "on_task c i (KExecDelete c' e) = (c' = c)"
| "on_task c i k = False"

fun exec_args :: "containerd_call list \<Rightarrow> string list list" where
  "exec_args [] = []"
| "exec_args (KExec c i e p # evs) = ProcArgs p # exec_args evs"
| "exec_args (k # evs) = exec_args evs"

lemma exec_args_append [simp]: "exec_args (xs @ ys) = exec_args xs @ exec_args ys"
  by (induction xs rule: exec_args.induct) simp_all

text \<open>C25: Executing a command in a task returns nil exactly when the process was created, waited on and
  started and its exit status with code 0 was received. A process that was created is deleted on
  every path, as the last call.\<close>

theorem execTask_deletes:
  "ensures (execTask api c task pspec execID description) (\<lambda>tr r evs.
     let create = KExec c task execID pspec; run = [create, KExecWait c execID, KExecStart c execID] in
     case CallResult api tr create of
       Some e \<Rightarrow> r \<noteq> None \<and> evs = [create]
     | None \<Rightarrow> \<exists>mid. prefix (create # mid) run \<and> evs = create # mid @ [KExecDelete c execID] \<and>
         (r = None \<longleftrightarrow> create # mid = run \<and> CallResult api (tr @ [create, KExecWait c execID]) (KExecStart c execID) = None \<and>
            (\<exists>st. selected api (tr @ run) (Some c) None = ExitCh st \<and> status_Result st = Inr 0)))"
  by (rule ensuresI)
    (auto simp: execTask_def run_exec_def Let_def split: option.splits sum.splits wait_branch.splits if_splits)

lemma execTask_ensures:
  "ensures (execTask api c i p e d) (\<lambda>tr r evs. list_all (on_task c i) evs \<and> exec_args evs = [ProcArgs p])"
  by (rule ensuresI)
    (auto simp: execTask_def run_exec_def split: option.splits sum.splits wait_branch.splits if_splits)

lemma ensures_next_counter: "ensures next_counter (\<lambda>tr n evs. evs = [KCounter])"
  unfolding next_counter_def by (rule ensures_sdk_call) simp

lemma ensures_ctrd: "ensures (ctrd api k) (\<lambda>tr r evs. evs = [k] \<and> r = CallResult api tr k)"
  unfolding ctrd_def by (rule ensures_sdk_call) simp

lemma runSidecarCmd_ensures:
  "ensures (runSidecarCmd cl c i command args)
     (\<lambda>tr r evs. list_all (on_task c i) evs \<and> exec_args evs = [command # args])"
  unfolding runSidecarCmd_def
  by (rule ensures_bind [OF ensures_next_counter execTask_ensures])
    (simp add: sidecar_exec_spec_def exec_process_def)

section \<open>Facts: sidecars\<close>

definition ctrd_cleanup :: "ctx \<Rightarrow> string \<Rightarrow> containerd_call list \<Rightarrow> bool" where
  "ctrd_cleanup c i evs \<longleftrightarrow>
     evs = [KTask c i, KDelete c i True] \<or>
     evs = [KTask c i, KWait c i, KKill c i SIGKILL, KTaskDelete c i, KDelete c i True]"

lemma cleanupSidecar_ensures: "ensures (cleanupSidecar cl c i) (\<lambda>tr r evs. ctrd_cleanup c i evs)"
  by (rule ensuresI) (auto simp: cleanupSidecar_def ctrd_cleanup_def split: sum.splits if_splits)

lemma use_ctrd_sidecar_ensures:
  "ensures (use_ctrd_sidecar cl c i command argsList) (\<lambda>tr r evs. list_all (on_task c i) evs \<and>
     (if r = None then exec_args evs = map ((#) command) argsList
      else prefix (exec_args evs) (map ((#) command) argsList)))" (is "ensures _ ?Q")
proof -
  have step: "ensures (runSidecarCmd cl c i command args) (\<lambda>tr r evs. list_all (on_task c i) evs \<and>
     (if r = None then exec_args evs = [command # args] else prefix (exec_args evs) [command # args]))" for args
    by (rule ensures_mono [OF runSidecarCmd_ensures]) simp
  note cmds = ensures_for_err [OF step exec_args.simps(1) exec_args_append]
  have started: "ensures (case serr of
         Some e \<Rightarrow> State_Monad.return (Some (ErrWrap ''failed to start sidecar task: %w'' [] e))
       | None \<Rightarrow> for_err (runSidecarCmd cl c i command) argsList) ?Q" for serr
    by (cases serr) (simp_all only: option.case cmds, rule ensures_return, simp)
  have created: "ensures (case terr of
         Some e \<Rightarrow> State_Monad.return (Some (ErrWrap ''failed to create sidecar task: %w'' [] e))
       | None \<Rightarrow> do {
           serr \<leftarrow> ctrd (client_api cl) (KStart c i);
           case serr of
             Some e \<Rightarrow> State_Monad.return (Some (ErrWrap ''failed to start sidecar task: %w'' [] e))
           | None \<Rightarrow> for_err (runSidecarCmd cl c i command) argsList }) ?Q" for terr
    by (cases terr) (simp_all only: option.case, rule ensures_bind [OF ensures_ctrd started],
        auto intro!: ensures_return split: if_splits)
  show ?thesis
    unfolding use_ctrd_sidecar_def by (rule ensures_bind [OF ensures_ctrd created]) (auto split: if_splits)
qed

fun before_sidecar :: "containerd_call \<Rightarrow> bool" where
  "before_sidecar (KPull c r) = True"
| "before_sidecar (KLoadContainer c i) = True"
| "before_sidecar (KTask c i) = True"
| "before_sidecar (KGetImage c r) = True"
| "before_sidecar KCounter = True"
| "before_sidecar k = False"

text \<open>What a run of \<open>create_ctrd_sidecar\<close> does: the creation, the use and the cleanup.\<close>

definition sidecar_cycle ::
  "containerdClient \<Rightarrow> ctx \<Rightarrow> string list list \<Rightarrow> containerd_call list \<Rightarrow> error option \<Rightarrow> containerd_call list \<Rightarrow> bool" where
  "sidecar_cycle cl c cmds tr r evs \<longleftrightarrow>
     (\<exists>pre i opts rest. evs = pre @ KNewContainer c i opts # rest \<and> list_all before_sidecar pre \<and>
       (case CallResult (client_api cl) (tr @ pre) (KNewContainer c i opts) of
          Some e \<Rightarrow> r \<noteq> None \<and> rest = []
        | None \<Rightarrow> \<exists>mid fin. rest = mid @ fin \<and> list_all (on_task c i) mid \<and>
            ctrd_cleanup (sidecar_cleanup_ctx cl c) i fin \<and>
            (if r = None then exec_args mid = cmds else prefix (exec_args mid) cmds)))"

lemma sidecar_cycleI:
  assumes "list_all before_sidecar pre" "CallResult (client_api cl) (tr @ pre) (KNewContainer c i opts) = None"
    and "list_all (on_task c i) mid" "ctrd_cleanup (sidecar_cleanup_ctx cl c) i fin"
    and "if r = None then exec_args mid = cmds else prefix (exec_args mid) cmds"
  shows "sidecar_cycle cl c cmds tr r (pre @ KNewContainer c i opts # mid @ fin)"
  unfolding sidecar_cycle_def using assms
  by (rule_tac exI [of _ pre], rule_tac exI [of _ i], rule_tac exI [of _ opts], rule_tac exI [of _ "mid @ fin"])
    (simp only: option.case simp_thms, rule exI [of _ mid], rule exI [of _ fin], simp)

lemma sidecar_cycle_failI:
  assumes "list_all before_sidecar pre" "CallResult (client_api cl) (tr @ pre) (KNewContainer c i opts) = Some e"
    and "r \<noteq> None"
  shows "sidecar_cycle cl c cmds tr r (pre @ [KNewContainer c i opts])"
  unfolding sidecar_cycle_def using assms
  by (rule_tac exI [of _ pre], rule_tac exI [of _ i], rule_tac exI [of _ opts], rule_tac exI [of _ "[]"]) simp

lemma create_ctrd_sidecar_ensures:
  "ensures (create_ctrd_sidecar cl c img pid command argsList)
     (sidecar_cycle cl c (map ((#) command) argsList))" (is "ensures _ (?Q :: _ \<Rightarrow> _)")
proof (rule ensuresI)
  fix tr r tr' assume run: "run_state (create_ctrd_sidecar cl c img pid command argsList) tr = (r, tr')"
  define i where "i = ''pumba-sidecar-'' @ itoa (execCounter (tr @ [KCounter]))"
  define create where "create = KNewContainer c i (sidecar_opts i img pid)"
  show "\<exists>evs. tr' = tr @ evs \<and> sidecar_cycle cl c (map ((#) command) argsList) tr r evs"
  proof (cases "CallResult (client_api cl) (tr @ [KCounter]) create")
    case (Some e)
    with run have "tr' = tr @ [KCounter] @ [create]" "r \<noteq> None"
      by (auto simp: create_ctrd_sidecar_def Let_def i_def create_def)
    then show ?thesis
      using sidecar_cycle_failI [of "[KCounter]" cl tr c i "sidecar_opts i img pid" e r] Some
      by (intro exI [of _ "[KCounter, create]"]) (simp add: create_def)
  next
    case None
    obtain t u where u: "run_state (use_ctrd_sidecar cl c i command argsList) (tr @ [KCounter, create]) = (u, t)" by fastforce
    obtain v t' where v: "run_state (cleanupSidecar cl (sidecar_cleanup_ctx cl c) i) t = (v, t')" by fastforce
    have r: "r = u" "tr' = t'" using run None u v
      by (auto simp: create_ctrd_sidecar_def Let_def i_def create_def)
    obtain mid where mid: "t = (tr @ [KCounter, create]) @ mid" "list_all (on_task c i) mid"
      "if u = None then exec_args mid = map ((#) command) argsList else prefix (exec_args mid) (map ((#) command) argsList)"
      using ensuresE [OF use_ctrd_sidecar_ensures u] by blast
    obtain fin where fin: "t' = t @ fin" "ctrd_cleanup (sidecar_cleanup_ctx cl c) i fin"
      using ensuresE [OF cleanupSidecar_ensures v] by blast
    show ?thesis
      using sidecar_cycleI [of "[KCounter]" cl tr c i "sidecar_opts i img pid" mid fin u] None mid fin r
      by (intro exI [of _ "[KCounter, create] @ mid @ fin"]) (simp add: create_def)
  qed
qed

definition sidecar_outcome ::
  "containerdClient \<Rightarrow> ctx \<Rightarrow> string list list \<Rightarrow> containerd_call list \<Rightarrow> error option \<Rightarrow> containerd_call list \<Rightarrow> bool" where
  "sidecar_outcome cl c cmds tr r evs \<longleftrightarrow>
     (r \<noteq> None \<and> list_all before_sidecar evs) \<or> sidecar_cycle cl c cmds tr r evs"

lemma sidecar_cycle_append:
  "list_all before_sidecar xs \<Longrightarrow> sidecar_cycle cl c cmds (tr @ xs) r evs \<Longrightarrow> sidecar_cycle cl c cmds tr r (xs @ evs)"
  unfolding sidecar_cycle_def
  by (elim exE conjE, rename_tac pre i opts rest, rule_tac x = "xs @ pre" in exI) auto

lemma outcome_bind:
  "ensures m (\<lambda>tr a evs. list_all before_sidecar evs) \<Longrightarrow> (\<And>x. ensures (f x) (sidecar_outcome cl c cmds)) \<Longrightarrow>
    ensures (State_Monad.bind m f) (sidecar_outcome cl c cmds)"
  by (erule ensures_bind, assumption) (auto simp: sidecar_outcome_def sidecar_cycle_append)

lemma outcome_error: "ensures (State_Monad.return (Some e)) (sidecar_outcome cl c cmds)"
  by (rule ensures_return) (simp add: sidecar_outcome_def)

lemma emits_getTask:
  "P (KLoadContainer c i) \<Longrightarrow> P (KTask c i) \<Longrightarrow> emits P (getTask cl c i)"
  unfolding getTask_def by (intro ctrd_intros)

lemma before_create:
  "ensures (if pull then ctrd_pullImage cl c img else State_Monad.return None) (\<lambda>tr a evs. list_all before_sidecar evs)"
  "ensures (getTask cl c i) (\<lambda>tr a evs. list_all before_sidecar evs)"
  "ensures (sdk_call (KGetImage c img) f) (\<lambda>tr a evs. list_all before_sidecar evs)"
  unfolding ctrd_pullImage_def
  by (intro ensures_emits ctrd_intros emits_getTask emits_sdk_call; simp)+

lemma sidecarExec_outcome:
  "ensures (sidecarExec cl c target img pull command argsList)
     (sidecar_outcome cl (nsCtx cl c) (map ((#) command) argsList))"
proof -
  have create: "ensures (create_ctrd_sidecar cl (nsCtx cl c) im pid command argsList)
     (sidecar_outcome cl (nsCtx cl c) (map ((#) command) argsList))" for im pid
    by (rule ensures_mono [OF create_ctrd_sidecar_ensures]) (simp add: sidecar_outcome_def)
  show ?thesis
    unfolding sidecarExec_def Let_def
    by (intro outcome_bind before_create ensures_cases outcome_error create)
qed

section \<open>Facts: the commands that run\<close>

lemma before_sidecar_args: "list_all before_sidecar evs \<Longrightarrow> exec_args evs = []"
proof (induction evs)
  case (Cons k evs)
  then show ?case by (cases k) simp_all
qed simp

lemma ctrd_cleanup_args: "ctrd_cleanup c i evs \<Longrightarrow> exec_args evs = []"
  by (auto simp: ctrd_cleanup_def)

lemma sidecar_cycle_args:
  assumes "sidecar_cycle cl c cmds tr r evs"
  shows "if r = None then exec_args evs = cmds else prefix (exec_args evs) cmds"
proof -
  obtain pre i opts rest where evs: "evs = pre @ KNewContainer c i opts # rest" "list_all before_sidecar pre"
    and rest: "case CallResult (client_api cl) (tr @ pre) (KNewContainer c i opts) of
        Some e \<Rightarrow> r \<noteq> None \<and> rest = []
      | None \<Rightarrow> \<exists>mid fin. rest = mid @ fin \<and> list_all (on_task c i) mid \<and>
          ctrd_cleanup (sidecar_cleanup_ctx cl c) i fin \<and>
          (if r = None then exec_args mid = cmds else prefix (exec_args mid) cmds)"
    using assms unfolding sidecar_cycle_def by blast
  show ?thesis
    using rest before_sidecar_args [OF evs(2)] unfolding evs(1)
    by (auto simp: ctrd_cleanup_args split: option.splits if_splits)
qed

lemma sidecarExec_args:
  "runs_commands exec_args (sidecarExec cl c x img pull tool argsList) (map ((#) tool) argsList)"
  unfolding runs_commands_def
proof (rule ensures_mono [OF sidecarExec_outcome])
  fix tr r evs assume "sidecar_outcome cl (nsCtx cl c) (map ((#) tool) argsList) tr r evs"
  then show "if r = None then exec_args evs = map ((#) tool) argsList else prefix (exec_args evs) (map ((#) tool) argsList)"
    unfolding sidecar_outcome_def by (auto dest: sidecar_cycle_args before_sidecar_args)
qed

lemma execInContainer_args:
  "ensures (execInContainer cl c i tool args) (\<lambda>tr r evs. list_all (\<lambda>_. True) evs \<and>
    (if r = None then exec_args evs = [tool # args] else prefix (exec_args evs) [tool # args]))" (is "ensures _ ?Q")
proof -
  have exec: "ensures (do { n \<leftarrow> next_counter; execTask api c i (exec_process (tool # args)) (f n) d }) ?Q" for api f d
    by (rule ensures_bind [OF ensures_next_counter execTask_ensures])
      (simp add: exec_process_def list_all_iff)
  have err: "ensures (State_Monad.return (Some e)) ?Q" for e by (rule ensures_return) simp
  have found: "ensures (case r of Inl e \<Rightarrow> State_Monad.return (Some e)
      | Inr _ \<Rightarrow> do { n \<leftarrow> next_counter; execTask api c i (exec_process (tool # args)) (f n) d }) ?Q" for r :: "error + int" and api f d
    by (intro ensures_cases err exec)
  show ?thesis
    unfolding execInContainer_def
    by (rule ensures_bind [OF before_create(2) found]) (auto simp: before_sidecar_args list_all_iff)
qed

lemma containerd_tool_args:
  "runs_commands exec_args (runTCCommands cl c i argsList) (map ((#) ''tc'') argsList)"
  "runs_commands exec_args (runIPTablesCommands cl c i argsList) (map ((#) ''iptables'') argsList)"
proof -
  have turn: "ensures (do { err \<leftarrow> execInContainer cl c i tool args; State_Monad.return (wrapf f [] err) })
      (\<lambda>tr r evs. list_all (\<lambda>_. True) evs \<and>
        (if r = None then exec_args evs = [tool # args] else prefix (exec_args evs) [tool # args]))" for c tool f args
    by (rule ensures_bind_return [OF execInContainer_args]) simp
  note loop = ensures_for_err [OF turn exec_args.simps(1) exec_args_append]
  show "runs_commands exec_args (runTCCommands cl c i argsList) (map ((#) ''tc'') argsList)"
    unfolding runs_commands_def runTCCommands_def by (rule ensures_mono [OF loop]) simp
  show "runs_commands exec_args (runIPTablesCommands cl c i argsList) (map ((#) ''iptables'') argsList)"
    unfolding runs_commands_def runIPTablesCommands_def Let_def by (rule ensures_mono [OF loop]) simp
qed

lemma buildNetemCommands_request:
  "buildNetemCommands (NInterface nr) (NCommand nr) (NIPs nr) (NSPorts nr) (NDPorts nr) = netem_commands nr"
  by (simp add: buildNetemCommands_def netem_commands_def netem_unfiltered_def netem_start_commands_def
      netem_filter_commands_def tc_filter_def Let_def)

lemma buildIPTablesCommands_request:
  "buildIPTablesCommands (CmdPrefix ir) (CmdSuffix ir) (SrcIPs ir) (DstIPs ir) (ISPorts ir) (IDPorts ir) =
     (if iptables_unfiltered ir then [CmdPrefix ir @ CmdSuffix ir] else iptables_filter_commands ir)"
  by (auto simp: buildIPTablesCommands_def iptables_unfiltered_def iptables_filter_commands_def Let_def)

lemma containerd_runs:
  "runs_commands exec_args (containerd_NetemContainer cl c nr) (netem_vectors nr)"
  "runs_commands exec_args (containerd_IPTablesContainer cl c ir) (iptables_vectors ir)"
  "runs_commands exec_args (containerd_StopIPTablesContainer cl c ir) (iptables_vectors ir)"
  by (simp_all add: containerd_NetemContainer_def containerd_IPTablesContainer_def containerd_StopIPTablesContainer_def
      netem_vectors_def iptables_vectors_def Let_def buildNetemCommands_request buildIPTablesCommands_request
      sidecarExec_args containerd_tool_args runs_commands_return)

definition containerd_stop_vectors :: "netem_request \<Rightarrow> string list list" where
  "containerd_stop_vectors nr =
     (if NDryRun nr then []
      else map ((#) ''tc'') (buildStopNetemCommands (NInterface nr) (\<not> netem_unfiltered nr)))"

lemma containerd_stop_runs:
  "runs_commands exec_args (containerd_StopNetemContainer cl c nr) (containerd_stop_vectors nr)"
proof -
  have "(length (NIPs nr) > 0 \<or> length (NSPorts nr) > 0 \<or> length (NDPorts nr) > 0) = (\<not> netem_unfiltered nr)"
    by (auto simp: netem_unfiltered_def)
  then show ?thesis
    by (simp add: containerd_StopNetemContainer_def containerd_stop_vectors_def Let_def
        sidecarExec_args containerd_tool_args runs_commands_return del: length_greater_0_conv)
qed

section \<open>Properties\<close>


text \<open>The containerd runtime runs the same commands as the Docker runtime: the same \<open>tc\<close> commands to start an
  emulation, the same ones to stop it when it has filters, and the same \<open>iptables\<close> commands. Only the
  stop of an emulation without filters differs: it deletes the root queueing discipline whatever its
  kind, where Docker names \<open>netem\<close>.\<close>

theorem containerd_commands_as_docker:
  "buildNetemCommands (NInterface nr) (NCommand nr) (NIPs nr) (NSPorts nr) (NDPorts nr) = netem_commands nr \<and>
   buildStopNetemCommands (NInterface nr) (\<not> netem_unfiltered nr) =
     (if netem_unfiltered nr then map butlast (netem_stop_commands nr) else netem_stop_commands nr) \<and>
   buildIPTablesCommands (CmdPrefix ir) (CmdSuffix ir) (SrcIPs ir) (DstIPs ir) (ISPorts ir) (IDPorts ir) =
     (if iptables_unfiltered ir then [CmdPrefix ir @ CmdSuffix ir] else iptables_filter_commands ir)"
  unfolding buildNetemCommands_request buildIPTablesCommands_request
  by (simp add: buildStopNetemCommands_def netem_stop_commands_def Let_def)

end
