(* ===== verification/ContainerdStress.thy ===== *)
theory ContainerdStress
  imports ContainerdSidecar GoPath
begin

text \<open>
  \<open>pkg/runtime/containerd\<close>: the cgroup of a target (\<open>cgroup.go\<close>), the stress-ng sidecar in it
  (\<open>stress_sidecar.go\<close>) and the stress operation (\<open>stress.go\<close>).
\<close>

section \<open>Cgroups (\<open>cgroup.go\<close>)\<close>

definition isSystemdCgroup :: "string \<Rightarrow> bool" where
  "isSystemdCgroup cgroupParent = suffix ''.slice'' (path_Base cgroupParent)"

definition cgroupChildPath :: "string \<Rightarrow> string \<Rightarrow> string" where
  "cgroupChildPath cgroupParent sidecarID =
     (if isSystemdCgroup cgroupParent
      then join_with '':'' [path_Base cgroupParent, ''pumba'', sidecarID]
      else path_Join [cgroupParent, sidecarID])"

text \<open>The loop over the lines, with its \<open>break\<close>: the paths \<open>cgroupPath\<close> and \<open>v1MemoryPath\<close> after it.\<close>

fun scan_cgroup :: "string list \<Rightarrow> string \<Rightarrow> string \<times> string" where
  "scan_cgroup [] v1MemoryPath = ('''', v1MemoryPath)"
| "scan_cgroup (line # ls) v1MemoryPath =
     (case split_n (CHR '':'') 3 line of
        [p0, p1, p2] \<Rightarrow>
          if p2 = ''/'' then scan_cgroup ls v1MemoryPath
          else if p0 = ''0'' \<and> p1 = '''' then (p2, v1MemoryPath)
          else if v1MemoryPath = '''' \<and> strings_contains p1 ''memory'' then scan_cgroup ls p2
          else scan_cgroup ls v1MemoryPath
      | _ \<Rightarrow> scan_cgroup ls v1MemoryPath)"

text \<open>\<open>resolveCgroupPath\<close> on the contents of the file.\<close>

definition parse_cgroup :: "int \<Rightarrow> string \<Rightarrow> error + string \<times> string" where
  "parse_cgroup pid data =
     (let (v2, v1) = scan_cgroup (split_on (CHR 0x0A) (trim_space data)) '''';
          cgroupPath = (if v2 = '''' then v1 else v2) in
      if cgroupPath = '''' then
        Inl (ErrNew ''could not parse cgroup path for PID %d (content length: %d bytes)''
          [itoa pid, itoa (int (length data))])
      else Inr (cgroupPath,
        (case last_index (CHR ''/'') cgroupPath of
           Some n \<Rightarrow> if n > 0 then take n cgroupPath else ''/''
         | None \<Rightarrow> ''/'')))"

definition resolveCgroupPath ::
  "containerd_api \<Rightarrow> int \<Rightarrow> (containerd_call list, error + string \<times> string) state" where
  "resolveCgroupPath api pid = do {
     r \<leftarrow> sdk_call (KReadCgroup pid) (\<lambda>tr. ReadCgroup api tr pid);
     State_Monad.return (case r of
         Inl e \<Rightarrow> Inl (ErrWrap ''failed to read cgroup for PID %d: %w'' [itoa pid] e)
       | Inr data \<Rightarrow> parse_cgroup pid data) }"

section \<open>The stress-ng sidecar (\<open>stress_sidecar.go\<close>)\<close>

definition buildStressSpecOpts ::
  "string \<Rightarrow> string list \<Rightarrow> string \<Rightarrow> string \<Rightarrow> string \<Rightarrow> bool \<Rightarrow> spec_opt list" where
  "buildStressSpecOpts img stressors cgroupPath cgroupParent sidecarID injectCgroup =
     (if injectCgroup then
        [WithImageConfig img,
         WithProcessArgs ([''/cg-inject'', ''--cgroup-path'', cgroupPath, ''--'', ''/stress-ng''] @ stressors),
         WithLinuxNamespace ''cgroup'' ''/proc/1/ns/cgroup'',
         WithMount ''bind'' ''/sys/fs/cgroup'' ''/sys/fs/cgroup'' [''bind'', ''rw'', ''nosuid'', ''nodev'', ''noexec'']]
      else
        [WithImageConfig img, WithProcessArgs (''/stress-ng'' # stressors),
         WithCgroup (cgroupChildPath cgroupParent sidecarID)])"

definition deleteContainer :: "containerdClient \<Rightarrow> ctx \<Rightarrow> string \<Rightarrow> (containerd_call list, unit) state" where
  "deleteContainer cl c i = do { _ \<leftarrow> ctrd (client_api cl) (KDelete c i True); State_Monad.return () }"

definition startSidecarTask :: "containerdClient \<Rightarrow> ctx \<Rightarrow> string \<Rightarrow> (containerd_call list, error option) state" where
  "startSidecarTask cl c i = do {
     nerr \<leftarrow> ctrd (client_api cl) (KNewTask c i);
     case nerr of
       Some e \<Rightarrow> State_Monad.return (Some (ErrWrap ''failed to create stress task: %w'' [] e))
     | None \<Rightarrow> do {
         werr \<leftarrow> ctrd (client_api cl) (KWait c i);
         case werr of
           Some e \<Rightarrow> do {
             _ \<leftarrow> ctrd (client_api cl) (KTaskDelete (CtxWithoutCancel c) i);
             State_Monad.return (Some (ErrWrap ''failed to set up stress task wait: %w'' [] e)) }
         | None \<Rightarrow> do {
             serr \<leftarrow> ctrd (client_api cl) (KStart c i);
             case serr of
               Some e \<Rightarrow> do {
                 _ \<leftarrow> ctrd (client_api cl) (KTaskDelete (CtxWithoutCancel c) i);
                 State_Monad.return (Some (ErrWrap ''failed to start stress task: %w'' [] e)) }
             | None \<Rightarrow> State_Monad.return None } } }"

definition stress_opts ::
  "string \<Rightarrow> string \<Rightarrow> string list \<Rightarrow> string \<Rightarrow> string \<Rightarrow> bool \<Rightarrow> container_opt list" where
  "stress_opts sidecarID img stressors cgroupPath cgroupParent injectCgroup =
     [WithImage img, WithNewSnapshot (sidecarID @ ''-snapshot'') img,
      WithNewSpec (buildStressSpecOpts img stressors cgroupPath cgroupParent sidecarID injectCgroup),
      WithContainerLabels [(''com.gaiaadm.pumba.skip'', ''true'')]]"

text \<open>\<open>createStressSidecar\<close> from the image on, and the whole.\<close>

definition launch_stress_sidecar ::
  "containerdClient \<Rightarrow> ctx \<Rightarrow> string \<Rightarrow> string list \<Rightarrow> string \<times> string \<Rightarrow> bool \<Rightarrow>
     (containerd_call list, error + string) state" where
  "launch_stress_sidecar cl c img stressors paths injectCgroup = do {
     n \<leftarrow> next_counter;
     let sidecarID = ''pumba-stress-'' @ itoa n;
     cerr \<leftarrow> ctrd (client_api cl)
       (KNewContainer c sidecarID (stress_opts sidecarID img stressors (fst paths) (snd paths) injectCgroup));
     case cerr of
       Some e \<Rightarrow> State_Monad.return (Inl (ErrWrap ''failed to create stress sidecar: %w'' [] e))
     | None \<Rightarrow> do {
         err \<leftarrow> startSidecarTask cl c sidecarID;
         case err of
           Some e \<Rightarrow> do {
             _ \<leftarrow> deleteContainer cl (sidecar_cleanup_ctx cl c) sidecarID;
             State_Monad.return (Inl e) }
         | None \<Rightarrow> State_Monad.return (Inr sidecarID) } }"

definition createStressSidecar ::
  "containerdClient \<Rightarrow> ctx \<Rightarrow> container \<Rightarrow> string \<Rightarrow> string list \<Rightarrow> bool \<Rightarrow> bool \<Rightarrow>
     (containerd_call list, error + string) state" where
  "createStressSidecar cl c target sidecarImage stressors injectCgroup pull = do {
     t \<leftarrow> getTask cl c (ContainerID target);
     case t of
       Inl e \<Rightarrow> State_Monad.return (Inl (ErrWrap ''failed to get target task for stress sidecar: %w'' [] e))
     | Inr targetPID \<Rightarrow>
         if targetPID = 0
         then State_Monad.return (Inl (ErrNew ''target task for %s has PID 0 (not running)'' [ContainerID target]))
         else do {
           r \<leftarrow> resolveCgroupPath (client_api cl) targetPID;
           case r of
             Inl e \<Rightarrow> State_Monad.return (Inl (ErrWrap ''failed to resolve cgroup for stress sidecar: %w'' [] e))
           | Inr paths \<Rightarrow> do {
               perr \<leftarrow> (if pull then ctrd_pullImage cl c sidecarImage else State_Monad.return None);
               case perr of
                 Some e \<Rightarrow> State_Monad.return (Inl (ErrWrap ''failed to pull stress image: %w'' [] e))
               | None \<Rightarrow> do {
                   im \<leftarrow> sdk_call (KGetImage c sidecarImage) (\<lambda>tr. GetImage (client_api cl) tr c sidecarImage);
                   case im of
                     Inl e \<Rightarrow> State_Monad.return (Inl (ErrWrap ''failed to get stress image %s: %w'' [sidecarImage] e))
                   | Inr img \<Rightarrow> launch_stress_sidecar cl c img stressors paths injectCgroup } } } }"

text \<open>
  The goroutine that waits for the sidecar: the values it sends on the two channels. \<open>status, ok\<close> is
  what the channel of \<open>Wait\<close> gives, \<open>None\<close> when it was closed; the timer of the second select is the
  outer \<open>None\<close>.
\<close>

definition await_stress ::
  "containerdClient \<Rightarrow> ctx \<Rightarrow> string \<Rightarrow> (containerd_call list, exit_status option option) state" where
  "await_stress cl c sidecarID = do {
     b \<leftarrow> ctrd_select (client_api cl) (Some c) None;
     case b of
       ExitCh st \<Rightarrow> State_Monad.return (Some st)
     | _ \<Rightarrow> do {
         _ \<leftarrow> ctrd (client_api cl) (KKill (CtxWithoutCancel c) sidecarID SIGKILL);
         b' \<leftarrow> ctrd_select (client_api cl) None (Some sidecarKillTimeout);
         State_Monad.return (case b' of ExitCh st \<Rightarrow> Some st | _ \<Rightarrow> None) } }"

definition waitStressSidecar ::
  "containerdClient \<Rightarrow> ctx \<Rightarrow> string \<Rightarrow> (containerd_call list, string list \<times> error list) state" where
  "waitStressSidecar cl c sidecarID = do {
     status \<leftarrow> await_stress cl c sidecarID;
     _ \<leftarrow> ctrd (client_api cl) (KTaskDelete (sidecar_cleanup_ctx cl c) sidecarID);
     _ \<leftarrow> deleteContainer cl (sidecar_cleanup_ctx cl c) sidecarID;
     State_Monad.return (case status of
         None \<Rightarrow> ([], [ErrNew ''stress sidecar %s: timed out waiting for task to exit after SIGKILL'' [sidecarID]])
       | Some None \<Rightarrow> ([], [ErrNew ''stress sidecar %s: wait channel closed unexpectedly'' [sidecarID]])
       | Some (Some st) \<Rightarrow>
           (case status_Result (Some st) of
              Inl e \<Rightarrow> ([], [ErrWrap ''stress sidecar error: %w'' [] e])
            | Inr code \<Rightarrow>
                if code \<noteq> 0 then ([], [ErrNew ''stress sidecar exited with code %d'' [itoa code]])
                else ([sidecarID], []))) }"

section \<open>Stress (\<open>stress.go\<close>)\<close>

text \<open>
  The goroutines of \<open>stressDirectExec\<close> and \<open>stressSidecar\<close> are run when the caller would start them, before
  it goes on.
\<close>

definition stressDirectExec ::
  "containerdClient \<Rightarrow> ctx \<Rightarrow> container \<Rightarrow> string list \<Rightarrow> duration \<Rightarrow> (containerd_call list, stress_result) state" where
  "stressDirectExec cl c x stressors duration = do {
     let secs = max 1 (ceil_Seconds duration);
     let args = [''--timeout'', itoa secs @ ''s''] @ stressors;
     err \<leftarrow> execInContainer cl (nsCtx cl c) (ContainerID x) ''stress-ng'' args;
     State_Monad.return (case err of
         Some e \<Rightarrow> \<lparr>SidecarID = ContainerID x, Output = [], Errors = [e]\<rparr>
       | None \<Rightarrow> \<lparr>SidecarID = ContainerID x, Output = [ContainerID x], Errors = []\<rparr>) }"

definition stressSidecar ::
  "containerdClient \<Rightarrow> ctx \<Rightarrow> container \<Rightarrow> string \<Rightarrow> string list \<Rightarrow> bool \<Rightarrow> bool \<Rightarrow>
     (containerd_call list, error + stress_result) state" where
  "stressSidecar cl c target sidecarImage stressors injectCgroup pull = do {
     let c = nsCtx cl c;
     r \<leftarrow> createStressSidecar cl c target sidecarImage stressors injectCgroup pull;
     case r of
       Inl e \<Rightarrow> State_Monad.return (Inl e)
     | Inr sidecarID \<Rightarrow> do {
         out \<leftarrow> waitStressSidecar cl c sidecarID;
         State_Monad.return (Inr \<lparr>SidecarID = sidecarID, Output = fst out, Errors = snd out\<rparr>) } }"

definition containerd_StressContainer ::
  "containerdClient \<Rightarrow> ctx \<Rightarrow> stress_request \<Rightarrow> (containerd_call list, error + stress_result) state" where
  "containerd_StressContainer cl c req =
     (if StDryRun req then State_Monad.return (Inr \<lparr>SidecarID = '''', Output = [], Errors = []\<rparr>)
      else if SImage (StSidecar req) \<noteq> ''''
      then stressSidecar cl c (StContainer req) (SImage (StSidecar req)) (Stressors req) (InjectCgroup req)
             (SPull (StSidecar req))
      else do {
        res \<leftarrow> stressDirectExec cl c (StContainer req) (Stressors req) (StDuration req);
        State_Monad.return (Inr res) })"

section \<open>Facts: cgroups\<close>

lemma split_v2_line: "split_n (CHR '':'') 3 (''0::'' @ p) = [''0'', '''', p]"
  by (simp add: numeral_3_eq_3)

lemma parse_cgroup_v2:
  assumes "no_space p" and "p \<noteq> ''/''" and "p = q @ CHR ''/'' # e" and "CHR ''/'' \<notin> set e"
  shows "parse_cgroup pid (''0::'' @ p @ [CHR 0x0A]) = Inr (p, if q = '''' then ''/'' else q)"
proof -
  let ?l = "''0::'' @ p"
  have "no_space ?l" using assms(1) by (rule cgroup_line_no_space)
  then have "trim_space (?l @ [CHR 0x0A]) = ?l" "CHR 0x0A \<notin> set ?l"
    by (rule trim_space_line, rule no_space_newline)
  then have "scan_cgroup (split_on (CHR 0x0A) (trim_space (?l @ [CHR 0x0A]))) '''' = (p, '''')"
    using assms(2) split_v2_line [of p] by (simp add: split_on_no_sep_id [of _ p])
  moreover have "last_index (CHR ''/'') p = Some (length q)" using last_index_append_sep [OF assms(4)] assms(3) by simp
  ultimately show ?thesis using assms(3) by (simp add: parse_cgroup_def)
qed

section \<open>Properties\<close>

text \<open>C29: A target in the cgroup \<open>ps/e\<close> (a unified hierarchy) is found there with its parent, and a stress
  sidecar is placed beside it: as a scope of the parent slice under systemd, as the child \<open>ps/id\<close> of
  the same parent under cgroupfs.\<close>

theorem stress_cgroup_placement:
  assumes "list_all cgroup_elem (ps @ [e])" and "ps \<noteq> []" and "plain_elem sid"
  shows "parse_cgroup pid (''0::'' @ abs_path (ps @ [e]) @ [CHR 0x0A]) = Inr (abs_path (ps @ [e]), abs_path ps) \<and>
    cgroupChildPath (abs_path ps) sid =
      (if suffix ''.slice'' (last ps) then last ps @ '':pumba:'' @ sid else abs_path (ps @ [sid]))"
proof
  have plain: "list_all plain_elem (ps @ [e])" using assms(1) by (auto simp: cgroup_elem_def list_all_iff)
  then have e: "CHR ''/'' \<notin> set e" by (simp add: plain_elem_def slash_def)
  obtain qs q where q: "ps = qs @ [q]" using assms(2) by (cases ps rule: rev_cases) auto
  have ps: "abs_path ps \<noteq> ''''" using assms(2) by (cases ps) simp_all
  then show "parse_cgroup pid (''0::'' @ abs_path (ps @ [e]) @ [CHR 0x0A]) = Inr (abs_path (ps @ [e]), abs_path ps)"
    using parse_cgroup_v2 [OF cgroup_path_no_space [OF assms(1)], of "abs_path ps" e pid] e
    by (cases "abs_path ps") (simp_all add: slash_def)
  have base: "path_Base (abs_path ps) = last ps" using path_Base_abs [of q qs] plain q by simp
  show "cgroupChildPath (abs_path ps) sid =
      (if suffix ''.slice'' (last ps) then last ps @ '':pumba:'' @ sid else abs_path (ps @ [sid]))"
    using path_Join_abs [of ps sid] plain assms(2,3)
    by (simp add: cgroupChildPath_def isSystemdCgroup_def base)
qed

theorem stress_cgroup_placement_witness:
  "parse_cgroup 7 (''0::/system.slice/docker-a1.scope'' @ [CHR 0x0A]) =
     Inr (''/system.slice/docker-a1.scope'', ''/system.slice'') \<and>
   cgroupChildPath ''/system.slice'' ''pumba-stress-1'' = ''system.slice:pumba:pumba-stress-1''"
  using stress_cgroup_placement [of "[''system.slice'']" "''docker-a1.scope''" "''pumba-stress-1''" 7]
  by (simp add: cgroup_elem_def no_space_bytes plain_elem_def is_space_def slash_def suffix_def)

text \<open>The calls that create and start a stress sidecar.\<close>

definition stress_started_calls :: "ctx \<Rightarrow> string \<Rightarrow> containerd_call list" where
  "stress_started_calls c i = [KNewTask c i, KWait c i, KStart c i]"

lemma startSidecarTask_ensures:
  "ensures (startSidecarTask cl c i) (\<lambda>tr r evs. r = None \<longrightarrow> evs = stress_started_calls c i)"
  by (rule ensuresI) (auto simp: startSidecarTask_def stress_started_calls_def split: option.splits)

text \<open>A stress sidecar that was created but whose task did not start is deleted with its snapshot, in a
  context that the cancellation of the caller's context does not reach, and the error is returned.
  Its ID is returned exactly when it was created, waited on and started, in this order.\<close>

theorem launch_stress_sidecar_cleans:
  "ensures (launch_stress_sidecar cl c img stressors paths inject) (\<lambda>tr r evs.
     \<exists>i opts rest. evs = KCounter # KNewContainer c i opts # rest \<and>
       i = ''pumba-stress-'' @ itoa (execCounter (tr @ [KCounter])) \<and>
       (case r of
          Inr j \<Rightarrow> j = i \<and> rest = stress_started_calls c i
        | Inl e \<Rightarrow>
            (case CallResult (client_api cl) (tr @ [KCounter]) (KNewContainer c i opts) of
               Some _ \<Rightarrow> rest = []
             | None \<Rightarrow> rest \<noteq> [] \<and> last rest = KDelete (sidecar_cleanup_ctx cl c) i True \<and>
                 ctx_detached (sidecar_cleanup_ctx cl c))))"
proof (rule ensuresI)
  fix tr r tr' assume run: "run_state (launch_stress_sidecar cl c img stressors paths inject) tr = (r, tr')"
  let ?i = "''pumba-stress-'' @ itoa (execCounter (tr @ [KCounter]))"
  let ?opts = "stress_opts ?i img stressors (fst paths) (snd paths) inject"
  let ?cc = "sidecar_cleanup_ctx cl c" let ?create = "KNewContainer c ?i ?opts"
  have detached: "ctx_detached ?cc" by (simp add: sidecar_cleanup_ctx_def nsCtx_def)
  obtain e t where start: "run_state (startSidecarTask cl c ?i) (tr @ [KCounter, ?create]) = (e, t)" by fastforce
  obtain xs where xs: "t = (tr @ [KCounter, ?create]) @ xs" "e = None \<longrightarrow> xs = stress_started_calls c ?i"
    by (rule ensuresE [OF startSidecarTask_ensures start])
  define rest where "rest = (if CallResult (client_api cl) (tr @ [KCounter]) ?create \<noteq> None then []
     else if e = None then xs else xs @ [KDelete ?cc ?i True])"
  have "tr' = tr @ KCounter # ?create # rest \<and> (case r of
      Inr j \<Rightarrow> j = ?i \<and> rest = stress_started_calls c ?i
    | Inl _ \<Rightarrow> (case CallResult (client_api cl) (tr @ [KCounter]) ?create of
         Some _ \<Rightarrow> rest = [] | None \<Rightarrow> rest \<noteq> [] \<and> last rest = KDelete ?cc ?i True \<and> ctx_detached ?cc))"
    using run start xs detached
    by (cases "CallResult (client_api cl) (tr @ [KCounter]) ?create"; cases e)
      (auto simp: launch_stress_sidecar_def deleteContainer_def Let_def rest_def)
  then show "\<exists>evs. tr' = tr @ evs \<and> (\<exists>i opts rest. evs = KCounter # KNewContainer c i opts # rest \<and> i = ?i \<and>
       (case r of
          Inr j \<Rightarrow> j = i \<and> rest = stress_started_calls c i
        | Inl e \<Rightarrow>
            (case CallResult (client_api cl) (tr @ [KCounter]) (KNewContainer c i opts) of
               Some _ \<Rightarrow> rest = []
             | None \<Rightarrow> rest \<noteq> [] \<and> last rest = KDelete ?cc i True \<and> ctx_detached ?cc)))"
    by blast
qed

text \<open>C28: The goroutine that waits for a stress sidecar always deletes its task and the sidecar, as its last
  calls and in a detached context; it kills the task before when the wait was ended by the context.
  It sends exactly one value: the ID of the sidecar when the exit code 0 was received, else an error.\<close>

theorem waitStressSidecar_deletes:
  "ensures (waitStressSidecar cl c i) (\<lambda>tr out evs. \<exists>kill.
     kill = (case selected (client_api cl) tr (Some c) None of
       ExitCh _ \<Rightarrow> [] | _ \<Rightarrow> [KKill (CtxWithoutCancel c) i SIGKILL]) \<and>
     evs = kill @ [KTaskDelete (sidecar_cleanup_ctx cl c) i, KDelete (sidecar_cleanup_ctx cl c) i True] \<and>
     ctx_detached (sidecar_cleanup_ctx cl c) \<and>
     (case selected (client_api cl) (tr @ kill) (if kill = [] then Some c else None)
         (if kill = [] then None else Some sidecarKillTimeout) of
        ExitCh (Some (ExitStatus n)) \<Rightarrow> if n = 0 then out = ([i], []) else fst out = [] \<and> length (snd out) = 1
      | _ \<Rightarrow> fst out = [] \<and> length (snd out) = 1))"
  by (rule ensuresI)
    (auto simp: waitStressSidecar_def await_stress_def deleteContainer_def sidecar_cleanup_ctx_def nsCtx_def
      status_Result_def split: wait_branch.splits option.splits exit_status.splits)

end
