(* ===== verification/Containerd.thy ===== *)
theory Containerd
  imports Cli ContainerdStress Emulation
begin

text \<open>
  The containerd runtime as one client: the record of its operations, the proof that it meets the
  contract \<open>runtime_client\<close> of the chaos commands, and the ID that its stress operation returns.
\<close>

definition containerd_client :: "containerdClient \<Rightarrow> containerd_call list client" where
  "containerd_client cl = \<lparr>
     ListContainers = containerd_ListContainers cl,
     StopContainer = containerd_StopContainer cl,
     KillContainer = containerd_KillContainer cl,
     StartContainer = containerd_StartContainer cl,
     RestartContainer = containerd_RestartContainer cl,
     RemoveContainer = containerd_RemoveContainer cl,
     PauseContainer = containerd_PauseContainer cl,
     UnpauseContainer = containerd_UnpauseContainer cl,
     StopContainerWithID = containerd_StopContainerWithID cl,
     ExecContainer = containerd_ExecContainer cl,
     NetemContainer = containerd_NetemContainer cl,
     StopNetemContainer = containerd_StopNetemContainer cl,
     IPTablesContainer = containerd_IPTablesContainer cl,
     StopIPTablesContainer = containerd_StopIPTablesContainer cl,
     StressContainer = containerd_StressContainer cl,
     CloseClient = containerd_Close cl\<rparr>"

lemma containerd_client_sel [simp]:
  "ListContainers (containerd_client cl) = containerd_ListContainers cl"
  "StopContainer (containerd_client cl) = containerd_StopContainer cl"
  "KillContainer (containerd_client cl) = containerd_KillContainer cl"
  "StartContainer (containerd_client cl) = containerd_StartContainer cl"
  "RestartContainer (containerd_client cl) = containerd_RestartContainer cl"
  "RemoveContainer (containerd_client cl) = containerd_RemoveContainer cl"
  "PauseContainer (containerd_client cl) = containerd_PauseContainer cl"
  "UnpauseContainer (containerd_client cl) = containerd_UnpauseContainer cl"
  "StopContainerWithID (containerd_client cl) = containerd_StopContainerWithID cl"
  "ExecContainer (containerd_client cl) = containerd_ExecContainer cl"
  "NetemContainer (containerd_client cl) = containerd_NetemContainer cl"
  "StopNetemContainer (containerd_client cl) = containerd_StopNetemContainer cl"
  "IPTablesContainer (containerd_client cl) = containerd_IPTablesContainer cl"
  "StopIPTablesContainer (containerd_client cl) = containerd_StopIPTablesContainer cl"
  "StressContainer (containerd_client cl) = containerd_StressContainer cl"
  by (simp_all add: containerd_client_def)

lemmas containerd_dry_defs = containerd_StopContainer_def containerd_KillContainer_def
  containerd_StartContainer_def containerd_RestartContainer_def containerd_RemoveContainer_def
  containerd_PauseContainer_def containerd_UnpauseContainer_def containerd_StopContainerWithID_def
  containerd_ExecContainer_def containerd_NetemContainer_def containerd_StopNetemContainer_def
  containerd_IPTablesContainer_def containerd_StopIPTablesContainer_def containerd_StressContainer_def

interpretation containerd_runtime: runtime_client "containerd_client cl" "filter containerd_effect" for cl
  by (rule runtime_client.intro, simp add: containerd.lister_axioms, unfold_locales)
    (simp_all add: containerd_dry_defs Let_def view.confined_return)

interpretation containerd_emulation: command_runtime "containerd_client cl" exec_args containerd_stop_vectors for cl
  by unfold_locales (simp_all add: containerd_runs containerd_stop_runs)

section \<open>The ID of a stress workload\<close>

lemma stressDirectExec_id:
  "ensures (stressDirectExec cl c x stressors d) (\<lambda>tr res evs. SidecarID res = ContainerID x)"
  unfolding stressDirectExec_def Let_def
  by (rule ensures_bind_return [of _ "\<lambda>tr r evs. True"])
    (auto simp: ensures_def execInContainer_def getTask_run execTask_def run_exec_def
      split: option.splits prod.splits sum.splits)

lemma createStressSidecar_id:
  "ensures (createStressSidecar cl c x img stressors inject pull)
     (\<lambda>tr r evs. case r of Inl e \<Rightarrow> True | Inr i \<Rightarrow> \<exists>n. i = ''pumba-stress-'' @ itoa n)" (is "ensures _ ?Q")
proof -
  have err: "ensures (State_Monad.return (Inl e)) ?Q" for e by (rule ensures_return) simp
  have ok: "ensures (State_Monad.return (Inr (''pumba-stress-'' @ itoa n))) ?Q" for n
    by (rule ensures_return) auto
  have any: "emits (\<lambda>k. True) m \<Longrightarrow> (\<And>x. ensures (f x) ?Q) \<Longrightarrow> ensures (State_Monad.bind m f) ?Q"
    for m :: "(containerd_call list, 'a) state" and f
    by (erule ensures_bind [OF ensures_emits], assumption) auto
  have pull: "emits (\<lambda>k. True) (ctrd_pullImage cl c i)" for i
    unfolding ctrd_pullImage_def by (intro ctrd_intros TrueI)
  have resolve: "emits (\<lambda>k. True) (resolveCgroupPath (client_api cl) pid)" for pid
    unfolding resolveCgroupPath_def by (intro ctrd_intros emits_sdk_call TrueI)
  have start: "emits (\<lambda>k. True) (startSidecarTask cl c i)" for i
    unfolding startSidecarTask_def by (intro ctrd_intros TrueI)
  have delete: "emits (\<lambda>k. True) (deleteContainer cl c' i)" for c' i
    unfolding deleteContainer_def by (intro ctrd_intros TrueI)
  have launch: "ensures (launch_stress_sidecar cl c im stressors paths inject) ?Q" for im paths
    unfolding launch_stress_sidecar_def Let_def
    by (intro any ensures_cases err ok ctrd_intros start delete TrueI)
  show ?thesis
    unfolding createStressSidecar_def
    by (intro any ensures_cases err launch ctrd_intros emits_getTask emits_sdk_call pull resolve TrueI)
qed

lemma emits_waitStressSidecar: "emits (\<lambda>k. True) (waitStressSidecar cl c i)"
  unfolding waitStressSidecar_def await_stress_def deleteContainer_def
  by (intro ctrd_intros TrueI; split wait_branch.split; intro conjI allI impI ctrd_intros TrueI)

lemma stressSidecar_id:
  "ensures (stressSidecar cl c x img stressors inject pull)
     (\<lambda>tr r evs. case r of Inl e \<Rightarrow> True | Inr res \<Rightarrow> \<exists>n. SidecarID res = ''pumba-stress-'' @ itoa n)" (is "ensures _ ?Q")
proof -
  have "ensures (case r of Inl e \<Rightarrow> State_Monad.return (Inl e)
     | Inr sidecarID \<Rightarrow> do {
         out \<leftarrow> waitStressSidecar cl (nsCtx cl c) sidecarID;
         State_Monad.return (Inr \<lparr>SidecarID = sidecarID, Output = fst out, Errors = snd out\<rparr>) })
     (\<lambda>tr r' evs. (case r of Inl e \<Rightarrow> True | Inr i \<Rightarrow> \<exists>n. i = ''pumba-stress-'' @ itoa n) \<longrightarrow> ?Q tr r' evs)" for r
    by (cases r) (auto intro!: ensures_return ensures_bind_return [OF ensures_emits [OF emits_waitStressSidecar]])
  then show ?thesis
    unfolding stressSidecar_def Let_def by (rule ensures_bind [OF createStressSidecar_id]) blast
qed


section \<open>Dry runs\<close>

text \<open>A daemon to evaluate on: one container with a running task, every call answers without an error.\<close>

definition sample_containerd :: containerdClient where
  "sample_containerd = \<lparr>client_api = \<lparr>
     Containers = (\<lambda>tr c. Inr [''c1'']),
     ContainerInfo = (\<lambda>tr c i. Inr \<lparr>InfoImage = ''img'', InfoLabels = [], SnapshotKey = ''''\<rparr>),
     ContainerTask = (\<lambda>tr c i. Inr 7),
     TaskRunning = (\<lambda>tr c i. Inr True),
     GetImage = (\<lambda>tr c r. Inr r),
     ReadCgroup = (\<lambda>tr p. Inr ''0::/system.slice/c1.scope''),
     CallResult = (\<lambda>tr k. None),
     selected = (\<lambda>tr c d. ExitCh (Some (ExitStatus 0))),
     ExecStderr = (\<lambda>tr e. ''''),
     CtxErr = (\<lambda>c. errorf ''context canceled''),
     errdefs_IsNotFound = (\<lambda>e. False)\<rparr>, client_ns = defaultNamespace\<rparr>"

text \<open>With --dry-run, no command of the command line changes anything on a containerd host: it only lists
  containers and reads their state.\<close>

theorem containerd_dry_run_no_effect:
  assumes "cmd \<in> set (initializeCLICommands en tc (containerd_client cl))" and "act \<in> set (actions_of cmd)"
    and "flag_Bool (flag_Global f) ''dry-run''" and "run_state (act f wakeups) tr = (r, tr')"
  shows "filter containerd_effect tr' = filter containerd_effect tr"
  by (rule confinedD [OF containerd_runtime.dry.cli_confined [OF assms(1-3)] assms(4)])

theorem containerd_dry_run_no_effect_witness:
  "\<exists>r tr'. run_state (NewAction_Action CtxTop (containerd_client sample_containerd) (kill_spec plain_env)
       (CliCtx \<lparr>val_String = (\<lambda>_. ''''), val_Bool = (\<lambda>_. True), val_BoolT = (\<lambda>_. True),
         val_Duration = (\<lambda>_. 0), val_Int = (\<lambda>_. 0), val_Float64 = (\<lambda>_. Fin 0), val_StringSlice = (\<lambda>_. [])\<rparr>
         [''web''] None) [Tick]) [] = (r, tr') \<and>
     filter containerd_effect tr' = []"
proof -
  let ?act = "NewAction_Action CtxTop (containerd_client sample_containerd) (kill_spec plain_env)"
  let ?flags = "CliCtx \<lparr>val_String = (\<lambda>_. ''''), val_Bool = (\<lambda>_. True), val_BoolT = (\<lambda>_. True),
     val_Duration = (\<lambda>_. 0), val_Int = (\<lambda>_. 0), val_Float64 = (\<lambda>_. Fin 0), val_StringSlice = (\<lambda>_. [])\<rparr> [''web''] None"
  obtain r tr' where run: "run_state (?act ?flags [Tick]) [] = (r, tr')" by fastforce
  have cmd: "NewAction CtxTop (containerd_client sample_containerd) (kill_spec plain_env)
      \<in> set (initializeCLICommands plain_env CtxTop (containerd_client sample_containerd))"
    by (simp add: initializeCLICommands_def)
  have act: "?act \<in> set (actions_of (NewAction CtxTop (containerd_client sample_containerd) (kill_spec plain_env)))"
    by (simp add: NewAction_def)
  have dry: "flag_Bool (flag_Global ?flags) ''dry-run''" by (simp add: flag_Bool_def)
  have "filter containerd_effect tr' = filter containerd_effect []"
    by (rule containerd_dry_run_no_effect [OF cmd act dry run])
  with run show ?thesis by auto
qed

end
