(* ===== verification/ContainerdAuthority.thy ===== *)
theory ContainerdAuthority
  imports Authority Containerd
begin

text \<open>
  The containerd client acts only on containers whose description the filter accepts, on the containers that
  it created, and on the execs that it created.
\<close>

section \<open>Handles of the containerd library\<close>

fun containerd_needs :: "containerd_call \<Rightarrow> handle set" where
  "containerd_needs (KKill c i s) = {ContainerHandle i}"
| "containerd_needs (KTaskDelete c i) = {ContainerHandle i}"
| "containerd_needs (KNewTask c i) = {ContainerHandle i}"
| "containerd_needs (KStart c i) = {ContainerHandle i}"
| "containerd_needs (KPause c i) = {ContainerHandle i}"
| "containerd_needs (KResume c i) = {ContainerHandle i}"
| "containerd_needs (KExec c i e p) = {ContainerHandle i}"
| "containerd_needs (KExecStart c e) = {ExecHandle e}"
| "containerd_needs (KExecDelete c e) = {ExecHandle e}"
| "containerd_needs (KDelete c i snapshot) = {ContainerHandle i}"
| "containerd_needs k = {}"

lemma containerd_effect_needs: "containerd_effect k \<Longrightarrow> containerd_needs k = {} \<Longrightarrow>
    (\<exists>c i. k = KPull c i) \<or> (\<exists>c i opts. k = KNewContainer c i opts)"
  by (cases k) simp_all

text \<open>
  Here the caller chooses the IDs: a creation gives its ID when it succeeds, so that the ID of a container
  that was there before is not given by an attempt to create it.
\<close>

definition containerd_gives :: "containerd_api \<Rightarrow> filter_func \<Rightarrow> containerd_call list \<Rightarrow> containerd_call \<Rightarrow> handle set" where
  "containerd_gives api sel tr k = (case k of
     KInfo c i \<Rightarrow>
       (case ContainerInfo api tr c i of
          Inl err \<Rightarrow> {}
        | Inr info \<Rightarrow> if sel (ctrd_container i info '''') then {ContainerHandle i} else {})
   | KNewContainer c i opts \<Rightarrow> if CallResult api tr k = None then {ContainerHandle i} else {}
   | KExec c i e p \<Rightarrow> if CallResult api tr k = None then {ExecHandle e} else {}
   | _ \<Rightarrow> {})"

abbreviation containerd_acts ::
  "containerdClient \<Rightarrow> filter_func \<Rightarrow> containerd_call list \<Rightarrow> (containerd_call list, 'a) state \<Rightarrow> bool" where
  "containerd_acts cl sel \<equiv> acts containerd_needs (containerd_gives (client_api cl) sel)"

abbreviation containerd_owned :: "containerdClient \<Rightarrow> filter_func \<Rightarrow> containerd_call list \<Rightarrow> handle set" where
  "containerd_owned cl sel \<equiv> owned (containerd_gives (client_api cl) sel)"

lemma containerd_gives_creations:
  "CallResult api tr (KNewContainer c i opts) = None \<Longrightarrow>
    containerd_gives api sel tr (KNewContainer c i opts) = {ContainerHandle i}"
  "CallResult api tr (KExec c i e p) = None \<Longrightarrow> containerd_gives api sel tr (KExec c i e p) = {ExecHandle e}"
  by (simp_all add: containerd_gives_def)

definition state_blind :: "filter_func \<Rightarrow> bool" where
  "state_blind sel \<longleftrightarrow> (\<forall>x s. sel (x\<lparr>RunState := s\<rparr>) = sel x)"

lemma state_blind_accepts: "state_blind (accepts M names pattern)"
  by (simp add: state_blind_def accepts_def applyContainerFilter_iff IsPumba_def IsPumbaSkip_def)

section \<open>Listing\<close>

lemma containerd_list_authority:
  "confined (authority containerd_needs (containerd_gives (client_api cl) sel)) (containerd_ListContainers cl c f os)"
  unfolding containerd_ListContainers_def Let_def
  by (rule acts_free) (intro ctrd_intros emits_convert_all; simp)

lemma convert_all_owned:
  fixes cl :: containerdClient
  assumes "state_blind sel" and "\<And>y. f y \<Longrightarrow> sel y"
  shows "run_state (convert_all (client_api cl) c f all is) tr = (cs, tr') \<Longrightarrow> x \<in> set cs \<Longrightarrow>
    owned_target sel (containerd_gives (client_api cl) sel) tr' x"
proof (induction "is" arbitrary: cs tr tr')
  case (Cons i "is")
  obtain r t where r: "run_state (toContainer (client_api cl) c i all) tr = (r, t)" by fastforce
  obtain rest where rest: "run_state (convert_all (client_api cl) c f all is) t = (rest, tr')"
    "x \<in> set rest \<or> r = Inr (Some x) \<and> f x"
    using Cons.prems r by (auto split: prod.splits sum.splits option.splits if_splits)
  show ?case
  proof (cases "x \<in> set rest")
    case True
    with Cons.IH [OF rest(1)] show ?thesis by blast
  next
    case False
    then have x: "r = Inr (Some x)" "sel x" using rest(2) assms(2) by auto
    then obtain info s where info: "ContainerInfo (client_api cl) tr c i = Inr info" "x = ctrd_container i info s"
      using r by (auto simp: toContainer_def split: sum.splits prod.splits if_splits bool.splits)
    obtain evs where "t = (tr @ [KInfo c i]) @ evs"
      using r by (auto simp: toContainer_def split: sum.splits prod.splits if_splits)
    moreover have "ctrd_container i info '''' = x\<lparr>RunState := ''''\<rparr>" by (simp add: info(2) ctrd_container_def)
    then have "ContainerHandle i \<in> containerd_gives (client_api cl) sel tr (KInfo c i)"
      using info(1) x(2) assms(1) by (simp add: containerd_gives_def state_blind_def)
    ultimately have "ContainerHandle i \<in> containerd_owned cl sel t"
      using owned_append [of "containerd_gives (client_api cl) sel" "tr @ [KInfo c i]" evs] by auto
    moreover have "emits (\<lambda>k. containerd_needs k = {}) (convert_all (client_api cl) c f all is)"
      by (rule emits_convert_all) simp_all
    then have "authority containerd_needs (containerd_gives (client_api cl) sel) t tr'"
      using acts_free confinedD rest(1) by metis
    moreover have "ContainerID x = i" by (simp add: info(2) ctrd_container_def)
    ultimately show ?thesis using x(2) unfolding owned_target_def by (blast dest: authority_owned [THEN subsetD])
  qed
qed simp

lemma containerd_lists_owned:
  assumes "state_blind sel"
  shows "lists_only sel (owned_target sel (containerd_gives (client_api cl) sel)) (containerd_ListContainers cl)"
  unfolding lists_only_def containerd_ListContainers_def
  by (auto simp: Let_def split: sum.splits if_splits prod.splits elim!: convert_all_owned [OF assms, rotated])

section \<open>Tasks\<close>

lemma ctrd_acts:
  "containerd_needs k \<subseteq> containerd_owned cl sel w \<Longrightarrow> containerd_acts cl sel w (ctrd (client_api cl) k)"
  "containerd_acts cl sel w (ctrd_task (client_api cl) c i)"
  "containerd_acts cl sel w (ctrd_select (client_api cl) co d)"
  "containerd_acts cl sel w next_counter"
  unfolding ctrd_def ctrd_task_def ctrd_select_def next_counter_def
  by (intro authority.above_intros acts_call; simp)+

lemma acts_case_wait:
  "(\<And>st. b = ExitCh st \<Longrightarrow> acts needs gives w (f st)) \<Longrightarrow> acts needs gives w m \<Longrightarrow> acts needs gives w m' \<Longrightarrow>
    acts needs gives w (case b of ExitCh st \<Rightarrow> f st | CtxDone \<Rightarrow> m | TimerFired \<Rightarrow> m')"
  by (cases b) simp_all

lemmas ctrd_acts_intros = authority.above_intros acts_call ctrd_acts acts_case_wait

lemma getTask_acts: "containerd_acts cl sel w (getTask cl c i)"
  unfolding getTask_def by (intro ctrd_acts_intros) simp_all

lemma tasks_act:
  assumes "ContainerHandle i \<in> containerd_owned cl sel w"
  shows "containerd_acts cl sel w (stopTask cl c i s d)" "containerd_acts cl sel w (startTask cl c i)"
    "containerd_acts cl sel w (killTask cl c i sg)" "containerd_acts cl sel w (pauseTask cl c i)"
    "containerd_acts cl sel w (resumeTask cl c i)"
  unfolding stopTask_def stop_hard_def startTask_def killTask_def pauseTask_def resumeTask_def
  by (intro ctrd_acts_intros getTask_acts; simp add: assms)+

lemma ctrd_given:
  assumes "containerd_needs k \<subseteq> containerd_owned cl sel w"
    and "\<And>u. CallResult (client_api cl) u k = None \<Longrightarrow> h \<in> containerd_gives (client_api cl) sel u k"
    and "\<And>v e. containerd_owned cl sel w \<subseteq> containerd_owned cl sel v \<Longrightarrow> containerd_acts cl sel v (g (Some e))"
    and "\<And>v. containerd_owned cl sel w \<subseteq> containerd_owned cl sel v \<Longrightarrow> h \<in> containerd_owned cl sel v \<Longrightarrow>
      containerd_acts cl sel v (g None)"
  shows "containerd_acts cl sel w (State_Monad.bind (ctrd (client_api cl) k) g)"
  unfolding ctrd_def
proof (rule acts_given [where G = "\<lambda>r. if r = None then {h} else {}"])
  show "containerd_acts cl sel v (g a)"
    if "containerd_owned cl sel w \<subseteq> containerd_owned cl sel v" "(if a = None then {h} else {}) \<subseteq> containerd_owned cl sel v"
    for v a using that assms(3,4) by (cases a) auto
qed (use assms(1,2) in auto)

lemma execTask_acts:
  assumes "ContainerHandle i \<in> containerd_owned cl sel w"
  shows "containerd_acts cl sel w (execTask (client_api cl) c i p e d)"
  unfolding execTask_def run_exec_def
  by (rule ctrd_given [where h = "ExecHandle e"])
    (simp_all add: assms containerd_gives_creations, intro ctrd_acts_intros, (intro ctrd_acts_intros; simp)+)

lemma exec_acts:
  "ContainerHandle i \<in> containerd_owned cl sel w \<Longrightarrow> containerd_acts cl sel w (execInContainer cl c i command args)"
  unfolding execInContainer_def by (intro ctrd_acts_intros getTask_acts execTask_acts)

lemma containerd_lifecycle_acts:
  assumes "ContainerHandle (ContainerID x) \<in> containerd_owned cl sel w"
  shows "containerd_acts cl sel w (containerd_StopContainer cl c x n d)"
    "containerd_acts cl sel w (containerd_KillContainer cl c x sg d)"
    "containerd_acts cl sel w (containerd_StartContainer cl c x d)"
    "containerd_acts cl sel w (containerd_RestartContainer cl c x t d)"
    "containerd_acts cl sel w (containerd_RemoveContainer cl c x ro)"
    "containerd_acts cl sel w (containerd_PauseContainer cl c x d)"
    "containerd_acts cl sel w (containerd_UnpauseContainer cl c x d)"
    "containerd_acts cl sel w (containerd_ExecContainer cl c x s args d)"
  unfolding containerd_dry_defs forceKillTask_def Let_def
  by (intro ctrd_acts_intros tasks_act exec_acts; simp add: assms)+

lemma containerd_StopID_acts:
  "ContainerHandle i \<in> containerd_owned cl sel w \<Longrightarrow> containerd_acts cl sel w (containerd_StopContainerWithID cl c i t d)"
  unfolding containerd_StopContainerWithID_def by (intro ctrd_acts_intros tasks_act)

section \<open>Sidecars\<close>

lemma pull_acts: "containerd_acts cl sel w (ctrd_pullImage cl c img)"
  unfolding ctrd_pullImage_def by (intro ctrd_acts_intros) simp_all

lemma new_container_given:
  assumes "\<And>v e. containerd_acts cl sel v (g (Some e))"
    and "\<And>v. ContainerHandle i \<in> containerd_owned cl sel v \<Longrightarrow> containerd_acts cl sel v (g None)"
  shows "containerd_acts cl sel w (State_Monad.bind (ctrd (client_api cl) (KNewContainer c i opts)) g)"
  by (rule ctrd_given [where h = "ContainerHandle i"]) (simp_all add: containerd_gives_creations assms)

lemma sidecar_acts: "containerd_acts cl sel w (sidecarExec cl c x img pull tool argsList)"
proof -
  have use: "containerd_acts cl sel v (use_ctrd_sidecar cl c i tool argsList)"
    and cleanup: "containerd_acts cl sel v (cleanupSidecar cl c i)"
    if "ContainerHandle i \<in> containerd_owned cl sel v" for v c i
    unfolding use_ctrd_sidecar_def runSidecarCmd_def cleanupSidecar_def
    by (intro ctrd_acts_intros execTask_acts; simp add: that)+
  have create: "containerd_acts cl sel w (create_ctrd_sidecar cl c im pid tool argsList)" for c im pid
    unfolding create_ctrd_sidecar_def Let_def
    by (rule authority.above_intros, rule ctrd_acts, rule new_container_given)
      (simp_all only: option.case, (intro authority.above_intros use cleanup; assumption)+)
  show ?thesis
    unfolding sidecarExec_def Let_def by (intro ctrd_acts_intros getTask_acts pull_acts create) simp_all
qed

lemma containerd_network_acts:
  "ContainerHandle (ContainerID (NContainer nr)) \<in> containerd_owned cl sel w \<Longrightarrow>
    containerd_acts cl sel w (containerd_NetemContainer cl c nr)"
  "ContainerHandle (ContainerID (NContainer nr)) \<in> containerd_owned cl sel w \<Longrightarrow>
    containerd_acts cl sel w (containerd_StopNetemContainer cl c nr)"
  "ContainerHandle (ContainerID (IContainer ir)) \<in> containerd_owned cl sel w \<Longrightarrow>
    containerd_acts cl sel w (containerd_IPTablesContainer cl c ir)"
  "ContainerHandle (ContainerID (IContainer ir)) \<in> containerd_owned cl sel w \<Longrightarrow>
    containerd_acts cl sel w (containerd_StopIPTablesContainer cl c ir)"
  unfolding containerd_dry_defs Let_def runTCCommands_def runIPTablesCommands_def
  by (intro authority.above_intros sidecar_acts exec_acts; assumption)+

section \<open>Stress workloads\<close>

text \<open>The sidecar is created and started, and its ID is owned where it is returned.\<close>

lemma start_stress_acts:
  assumes "ContainerHandle i \<in> containerd_owned cl sel w"
  shows "containerd_acts cl sel w (startSidecarTask cl c i)" "containerd_acts cl sel w (deleteContainer cl c i)"
    "containerd_acts cl sel w (waitStressSidecar cl c i)"
  unfolding startSidecarTask_def deleteContainer_def waitStressSidecar_def await_stress_def
  by (intro ctrd_acts_intros; simp add: assms)+

lemma launch_stress_acts: "containerd_acts cl sel w (launch_stress_sidecar cl c im st paths inject)"
  unfolding launch_stress_sidecar_def Let_def
  by (rule authority.above_intros, rule ctrd_acts, rule new_container_given)
    (simp_all only: option.case, (intro authority.above_intros start_stress_acts; assumption)+)

lemma create_stress_acts: "containerd_acts cl sel w (createStressSidecar cl c x im st inject pull)"
  unfolding createStressSidecar_def resolveCgroupPath_def
  by (intro ctrd_acts_intros getTask_acts pull_acts launch_stress_acts) simp_all

lemma launch_stress_owned:
  assumes "run_state (launch_stress_sidecar cl c im st paths inject) tr = (Inr i, tr')"
  shows "ContainerHandle i \<in> containerd_owned cl sel tr'"
proof -
  let ?u = "tr @ [KCounter]"
  define j where "j = ''pumba-stress-'' @ itoa (execCounter ?u)"
  define k where "k = KNewContainer c j (stress_opts j im st (fst paths) (snd paths) inject)"
  from assms have ok: "CallResult (client_api cl) ?u k = None" "i = j"
    and start: "run_state (startSidecarTask cl c j) (?u @ [k]) = (None, tr')"
    by (auto simp: launch_stress_sidecar_def Let_def j_def k_def split: option.splits prod.splits)
  have given: "ContainerHandle j \<in> containerd_owned cl sel (?u @ [k])"
    unfolding owned_snoc [of _ ?u] using ok(1) by (simp add: k_def containerd_gives_creations)
  show ?thesis
    using authority_owned [OF authority.confined_at [OF start_stress_acts(1) [OF given] start]] given ok(2) by blast
qed

lemma create_stress_owned:
  assumes "run_state (createStressSidecar cl c x im st inject pull) tr = (Inr i, tr')"
  shows "ContainerHandle i \<in> containerd_owned cl sel tr'"
  using assms by (auto simp: createStressSidecar_def split: sum.splits prod.splits option.splits if_splits
      intro: launch_stress_owned)

lemma containerd_stress_acts:
  assumes "ContainerHandle (ContainerID (StContainer sr)) \<in> containerd_owned cl sel w"
  shows "containerd_acts cl sel w (containerd_StressContainer cl c sr)"
proof -
  have sidecar: "containerd_acts cl sel w (stressSidecar cl c x im st inject pull)" for x im st inject pull
    unfolding stressSidecar_def Let_def
  proof (rule authority.above_bind, rule create_stress_acts)
    fix u a v assume "run_state (createStressSidecar cl (nsCtx cl c) x im st inject pull) u = (a, v)"
    then show "containerd_acts cl sel v (case a of Inl e \<Rightarrow> State_Monad.return (Inl e)
       | Inr i \<Rightarrow> do { out \<leftarrow> waitStressSidecar cl (nsCtx cl c) i;
           State_Monad.return (Inr \<lparr>SidecarID = i, Output = fst out, Errors = snd out\<rparr>) })"
      by (cases a) (simp_all, (intro authority.above_intros start_stress_acts create_stress_owned; assumption)+)
  qed
  show ?thesis
    unfolding containerd_StressContainer_def stressDirectExec_def Let_def
    by (intro authority.above_intros sidecar exec_acts assms)
qed

lemma containerd_stress_owned:
  assumes "ContainerHandle (ContainerID (StContainer sr)) \<in> containerd_owned cl sel w"
    and "authority containerd_needs (containerd_gives (client_api cl) sel) w u"
    and run: "run_state (containerd_StressContainer cl c sr) u = (Inr res, v)" and "\<not> StDryRun sr"
  shows "ContainerHandle (SidecarID res) \<in> containerd_owned cl sel v"
proof (cases "SImage (StSidecar sr) = ''''")
  case True
  have "authority containerd_needs (containerd_gives (client_api cl) sel) w v"
    using authority.R_trans [OF assms(2) confined_aboveD [OF containerd_stress_acts [OF assms(1)] assms(2) run]] .
  moreover have "SidecarID res = ContainerID (StContainer sr)"
    using run True assms(4) by (auto simp: containerd_StressContainer_def stressDirectExec_def split: prod.splits option.splits)
  ultimately show ?thesis using assms(1) authority_owned by fastforce
next
  case False
  with run assms(4) obtain i t out where create: "run_state (createStressSidecar cl (nsCtx cl c) (StContainer sr)
      (SImage (StSidecar sr)) (Stressors sr) (InjectCgroup sr) (SPull (StSidecar sr))) u = (Inr i, t)"
    and wait: "run_state (waitStressSidecar cl (nsCtx cl c) i) t = (out, v)" and i: "SidecarID res = i"
    by (auto simp: containerd_StressContainer_def stressSidecar_def Let_def split: sum.splits prod.splits)
  have given: "ContainerHandle i \<in> containerd_owned cl sel t" by (rule create_stress_owned [OF create])
  show ?thesis
    using authority_owned [OF authority.confined_at [OF start_stress_acts(3) [OF given] wait]] given i by blast
qed

section \<open>The contract\<close>

interpretation containerd_authority:
  targeted_client "authority containerd_needs (containerd_gives (client_api cl) (accepts M names pattern))"
  "containerd_client cl" "\<lambda>_. True" "accepts M names pattern"
  "owned_target (accepts M names pattern) (containerd_gives (client_api cl) (accepts M names pattern))"
  "\<lambda>w i. ContainerHandle i \<in> containerd_owned cl (accepts M names pattern) w" for cl M names pattern
  by unfold_locales
    (simp_all add: containerd_lists_owned state_blind_accepts containerd_list_authority containerd_lifecycle_acts
      containerd_StopID_acts containerd_network_acts containerd_stress_acts owned_target_def authority_owned [THEN subsetD],
      blast intro: containerd_stress_owned)

end
