(* ===== verification/Selection.thy ===== *)
theory Selection
  imports DockerAuthority ContainerdAuthority
begin

text \<open>
  Which containers a run may touch. A client that logs its calls is a \<open>targeted_client\<close> of the order in
  which the log only grows by calls on accepted containers; the lister of each runtime meets the
  filter, so that no command calls an operation on a container that was not selected. Below the client, the
  \<open>targeted_client\<close> of \<open>DockerAuthority\<close> and \<open>ContainerdAuthority\<close> gives the same for the calls of the SDK.
\<close>

section \<open>The target of a call\<close>

text \<open>\<open>StopContainerWithID\<close> is called with an ID that a stress operation returned, not with a container.\<close>

fun call_target :: "client_call \<Rightarrow> container option" where
  "call_target (CStop c x n d) = Some x"
| "call_target (CKill c x s d) = Some x"
| "call_target (CStart c x d) = Some x"
| "call_target (CRestart c x t d) = Some x"
| "call_target (CRemove c x ro) = Some x"
| "call_target (CPause c x d) = Some x"
| "call_target (CUnpause c x d) = Some x"
| "call_target (CStopID c i t d) = None"
| "call_target (CExec c x s args d) = Some x"
| "call_target (CNetem c r) = Some (NContainer r)"
| "call_target (CStopNetem c r) = Some (NContainer r)"
| "call_target (CIPTables c r) = Some (IContainer r)"
| "call_target (CStopIPTables c r) = Some (IContainer r)"
| "call_target (CStress c r) = Some (StContainer r)"

definition on_targets :: "(container \<Rightarrow> bool) \<Rightarrow> call_log \<Rightarrow> bool" where
  "on_targets sel l \<longleftrightarrow> list_all (\<lambda>(k, q). pred_option sel (call_target k)) l"

definition log_order :: "(container \<Rightarrow> bool) \<Rightarrow> 'w \<times> call_log \<Rightarrow> 'w \<times> call_log \<Rightarrow> bool" where
  "log_order sel u v \<longleftrightarrow> (\<exists>evs. snd v = snd u @ evs \<and> on_targets sel evs)"

lemma logged_on_targets: "pred_option sel (call_target k) \<Longrightarrow> confined (log_order sel) (logged k oc m)"
  by (rule confinedI) (auto simp: log_order_def on_targets_def split: prod.splits)

lemma log_order_effect_order: "effect_order (log_order sel)"
  by unfold_locales (auto simp: log_order_def on_targets_def)

lemma recorded_targeted:
  assumes "lister (ListContainers cl) eff"
  shows "targeted_client (log_order sel) (recorded cl) (\<lambda>_. True) sel (\<lambda>_. sel) (\<lambda>_ _. True)"
proof (intro targeted_client.intro targeted_client_axioms.intro log_order_effect_order)
  have "lists_only sel (\<lambda>_. sel) (ListContainers cl)"
    by (rule lists_only_filter) (rule lister.lst_filter [OF assms])
  moreover have "ListContainers (recorded cl) = lift_lister (ListContainers cl)"
    by (simp add: fun_eq_iff lift_lister_def recorded_def)
  ultimately show "lists_only sel (\<lambda>_. sel) (ListContainers (recorded cl))"
    by (auto dest: lists_only_lift)
  show "confined (log_order sel) (ListContainers (recorded cl) c f os)" for c f os
    by (rule confinedI) (auto simp: log_order_def on_targets_def split: prod.splits)
qed (simp_all add: confined_above logged_on_targets)

interpretation docker_targets:
  targeted_client "log_order sel" "recorded (docker_client api)" "\<lambda>_. True" sel "\<lambda>_. sel" "\<lambda>_ _. True" for sel api
  by (rule recorded_targeted) (rule docker_runtime.lister_axioms)

interpretation containerd_targets:
  targeted_client "log_order sel" "recorded (containerd_client cl)" "\<lambda>_. True" sel "\<lambda>_. sel" "\<lambda>_ _. True" for sel cl
  by (rule recorded_targeted) (rule containerd_runtime.lister_axioms)

interpretation podman_targets:
  targeted_client "log_order sel" "recorded (podman_client h (podman_of api rl uri))" "\<lambda>_. True" sel "\<lambda>_. sel" "\<lambda>_ _. True" for sel h api rl uri
  by (rule recorded_targeted) (rule podman_runtime.lister_axioms)

section \<open>Properties\<close>

text \<open>The containers that the arguments of a command line name, and a run whose calls are all on them.\<close>

definition named_by :: "(string \<Rightarrow> string \<Rightarrow> bool option) \<Rightarrow> flags \<Rightarrow> container \<Rightarrow> bool" where
  "named_by M f = accepts M (fst (getNamesOrPattern f)) (snd (getNamesOrPattern f))"

definition touches_only :: "(container \<Rightarrow> bool) \<Rightarrow> ('w \<times> call_log, 'a) state \<Rightarrow> bool" where
  "touches_only sel m \<longleftrightarrow> (\<forall>w. on_targets sel (snd (snd (run_state m (w, [])))))"

lemma touches_onlyI: "confined (log_order sel) m \<Longrightarrow> touches_only sel m"
  unfolding touches_only_def confined_def log_order_def by (metis append_Nil snd_conv)

text \<open>C1: No command touches a container that was not selected: on each of the three runtimes, whatever it
  answers and however often the command repeats, every operation that a command of the command line
  calls, undoing included, is on a container that the filter accepts for the names or the pattern
  given. The filter accepts no container of Pumba and none with the skip label.\<close>

theorem only_selected_touched:
  "(\<forall>cmd \<in> set (initializeCLICommands en tc (recorded (docker_client api))). \<forall>act \<in> set (actions_of cmd).
      touches_only (named_by (regexp_MatchString en) f) (act f wakeups)) \<and>
   (\<forall>cmd \<in> set (initializeCLICommands kn tc (recorded (containerd_client cl))). \<forall>act \<in> set (actions_of cmd).
      touches_only (named_by (regexp_MatchString kn) f) (act f wakeups)) \<and>
   (\<forall>cmd \<in> set (initializeCLICommands en tc (recorded (podman_client h (podman_of api rl uri)))). \<forall>act \<in> set (actions_of cmd).
      touches_only (named_by (regexp_MatchString en) f) (act f wakeups)) \<and>
   (named_by M f x \<longrightarrow> \<not> IsPumba x \<and> \<not> IsPumbaSkip x)"
proof (intro conjI ballI touches_onlyI)
  show "named_by M f x \<longrightarrow> \<not> IsPumba x \<and> \<not> IsPumbaSkip x"
    by (simp add: named_by_def accepts_def applyContainerFilter_iff)
qed ((rule docker_targets.cli_confined containerd_targets.cli_confined podman_targets.cli_confined, assumption+),
    simp_all add: named_by_def)+

definition kill_named :: flags where
  "kill_named = CliCtx \<lparr>val_String = (\<lambda>_. ''''), val_Bool = (\<lambda>_. False), val_BoolT = (\<lambda>_. True),
     val_Duration = (\<lambda>_. 0), val_Int = (\<lambda>_. 0), val_Float64 = (\<lambda>_. Fin 0), val_StringSlice = (\<lambda>_. [])\<rparr>
     [''web''] None"

definition web_log :: call_log where
  "web_log = snd (snd (run_state (NewAction_Action CtxTop (recorded (docker_client sample_docker)) (kill_spec plain_env)
     kill_named []) ([], [])))"

theorem only_selected_touched_witness:
  "on_targets (named_by (regexp_MatchString (plain_env :: (docker_call list \<times> call_log) env)) kill_named) web_log \<and>
   map (map_option ContainerName \<circ> call_target \<circ> fst) web_log = [Some ''/web'']"
proof -
  let ?cl = "recorded (docker_client sample_docker)"
  let ?cmd = "NewAction CtxTop ?cl (kill_spec plain_env)"
  have "?cmd \<in> set (initializeCLICommands plain_env CtxTop ?cl)" by (simp add: initializeCLICommands_def)
  moreover have "NewAction_Action CtxTop ?cl (kill_spec plain_env) \<in> set (actions_of ?cmd)" by (simp add: NewAction_def)
  ultimately have "touches_only (named_by (regexp_MatchString (plain_env :: (docker_call list \<times> call_log) env)) kill_named)
      (NewAction_Action CtxTop ?cl (kill_spec plain_env) kill_named [])"
    using only_selected_touched [of plain_env CtxTop sample_docker kill_named "[]"] by blast
  then have "on_targets (named_by (regexp_MatchString (plain_env :: (docker_call list \<times> call_log) env)) kill_named) web_log"
    by (simp add: touches_only_def web_log_def)
  moreover have "map (map_option ContainerName \<circ> call_target \<circ> fst) web_log = [Some ''/web'']" by code_simp
  ultimately show ?thesis by blast
qed

text \<open>C2: Down to the calls of the SDK: in the trace of a run of any command, on each of the three runtimes,
  every call that changes something on a container or an exec names one that an earlier answer of the
  same trace has given. These are the containers whose description, as the runtime gave it, the filter
  accepts, the containers that the run created, and the execs that it created in them. The ID by which a
  stress workload is stopped is one of these, also when other targets' goroutines ran in between.\<close>

theorem only_given_handles_used:
  "(\<forall>cmd \<in> set (initializeCLICommands en tc (docker_client api)). \<forall>act \<in> set (actions_of cmd).
      authorised docker_needs (docker_gives api (named_by (regexp_MatchString en) f)) []
        (snd (run_state (act f wakeups) []))) \<and>
   (\<forall>cmd \<in> set (initializeCLICommands kn tc (containerd_client cl)). \<forall>act \<in> set (actions_of cmd).
      authorised containerd_needs (containerd_gives (client_api cl) (named_by (regexp_MatchString kn) f)) []
        (snd (run_state (act f wakeups) []))) \<and>
   (\<forall>cmd \<in> set (initializeCLICommands en tc (podman_client h (podman_of api rl uri))). \<forall>act \<in> set (actions_of cmd).
      authorised docker_needs (docker_gives api (named_by (regexp_MatchString en) f)) []
        (snd (run_state (act f wakeups) [])))"
  unfolding named_by_def
  by (intro conjI ballI; rule authorised_run;
      (rule docker_authority.cli_confined containerd_authority.cli_confined podman_authority.cli_confined, assumption+);
      simp)

definition web_trace :: "docker_call list" where
  "web_trace = snd (run_state (NewAction_Action CtxTop (docker_client sample_docker) (kill_spec plain_env) kill_named []) [])"

theorem only_given_handles_used_witness:
  "authorised docker_needs (docker_gives sample_docker (named_by (regexp_MatchString (plain_env :: docker_call list env)) kill_named))
     [] web_trace \<and>
   map docker_needs web_trace = [{}, {}, {}, {ContainerHandle ''c1''}]"
proof -
  let ?cl = "docker_client sample_docker"
  let ?cmd = "NewAction CtxTop ?cl (kill_spec plain_env)"
  have "?cmd \<in> set (initializeCLICommands plain_env CtxTop ?cl)" by (simp add: initializeCLICommands_def)
  moreover have "NewAction_Action CtxTop ?cl (kill_spec plain_env) \<in> set (actions_of ?cmd)" by (simp add: NewAction_def)
  ultimately have "authorised docker_needs
      (docker_gives sample_docker (named_by (regexp_MatchString (plain_env :: docker_call list env)) kill_named)) [] web_trace"
    unfolding web_trace_def using only_given_handles_used [of plain_env CtxTop sample_docker kill_named "[]"] by blast
  moreover have "map docker_needs web_trace = [{}, {}, {}, {ContainerHandle ''c1''}]" by code_simp
  ultimately show ?thesis by blast
qed

end
