(* ===== verification/Protection.thy ===== *)
theory Protection
  imports Docker Podman Containerd
begin

text \<open>
  What every operation of the Docker and Podman runtimes keeps: the containers they create carry the
  label that excludes them from every later selection. The operations are the \<open>ordered_client\<close> of the
  preorder \<open>extends (spared MS flt x)\<close>, so that it holds for every sequence of them.
\<close>

text \<open>
  \<open>spared\<close>: a container that the call creates, whatever else is known of it, is rejected by the filter
  that any selection uses.
\<close>

fun spared :: "(string \<Rightarrow> string \<Rightarrow> bool option) \<Rightarrow> filter_spec \<Rightarrow> container \<Rightarrow> docker_call \<Rightarrow> bool" where
  "spared MS flt x (DCreate c config hconfig) =
     (\<not> applyContainerFilter MS flt (x\<lparr>CLabels := CfgLabels config\<rparr>))"
| "spared MS flt x k = True"

lemma spared_skip: "CfgLabels config = [(''com.gaiaadm.pumba.skip'', ''true'')] \<Longrightarrow> spared MS flt x (DCreate c config h)"
  by (simp add: applyContainerFilter_iff IsPumbaSkip_def pumbaSkipLabel_def)

text \<open>A call of an open client: the operations do not close it either.\<close>

definition open_spared :: "(string \<Rightarrow> string \<Rightarrow> bool option) \<Rightarrow> filter_spec \<Rightarrow> container \<Rightarrow> docker_call \<Rightarrow> bool" where
  "open_spared MS flt x k \<longleftrightarrow> k \<noteq> DClose \<and> spared MS flt x k"

lemma open_spared_DCreate: "spared MS flt x (DCreate c config h) \<Longrightarrow> open_spared MS flt x (DCreate c config h)"
  by (simp add: open_spared_def)

fun creates :: "docker_call \<Rightarrow> bool" where
  "creates (DCreate c config hconfig) = True"
| "creates k = False"

lemma open_spared_other [simp]: "\<not> creates k \<Longrightarrow> k \<noteq> DClose \<Longrightarrow> open_spared MS flt x k"
  by (cases k) (simp_all add: open_spared_def)

lemma spared_configs:
  "spared MS flt x (DCreate c (sidecar_config img) h)"
  "stressContainerConfig t s img d cp path inject = (config, hconfig) \<Longrightarrow> spared MS flt x (DCreate c config hconfig)"
  "buildStressConfig img s d fp parent pp inject = (config, hconfig) \<Longrightarrow> spared MS flt x (DCreate c config hconfig)"
  by (auto intro!: spared_skip simp del: spared.simps simp: sidecar_config_def stressContainerConfig_def
      buildStressConfig_def skipLabelKey_def Let_def split: if_splits)

section \<open>Docker\<close>

lemma lifecycle_emits:
  assumes P: "\<And>k. \<not> creates k \<Longrightarrow> k \<noteq> DClose \<Longrightarrow> P k"
  shows "emits P (docker_ListContainers api c f os)"
    "emits P (docker_StopContainer api c y n d)"
    "emits P (docker_KillContainer api c y s d)"
    "emits P (docker_StartContainer api c y d)"
    "emits P (docker_RestartContainer api c y t d)"
    "emits P (docker_RemoveContainer api c y ro)"
    "emits P (docker_PauseContainer api c y d)"
    "emits P (docker_UnpauseContainer api c y d)"
    "emits P (docker_StopContainerWithID api c i t d)"
    "emits P (docker_ExecContainer api c y s args d)"
proof -
  have list: "emits P (docker_ListContainers api c f os)"
    unfolding docker_ListContainers_def docker_listContainers_def by (intro docker_intros emits_inspect_all) (simp_all add: P)
  then show "emits P (docker_ListContainers api c f os)" .
  have wait: "emits P (waitForStop api c y n)" for y n
    unfolding waitForStop_def by (rule emits_wait_loop) (simp add: P)
  show "emits P (docker_StopContainer api c y n d)"
    unfolding docker_StopContainer_def by (intro docker_intros wait) (simp_all add: P)
qed (unfold docker_dry_defs, (intro exec_intros; simp add: P)+)

lemmas spared_lifecycle = lifecycle_emits [OF open_spared_other]

lemma spared_sidecar:
  "emits (open_spared MS flt x) (removeSidecar api c i)"
  "emits (open_spared MS flt x) (runSidecar api c y argsList img tool pull)"
  "emits (open_spared MS flt x) (execOnContainer api c y tool args priv)"
proof -
  show removal: "emits (open_spared MS flt x) (removeSidecar api c i)" for c i
    unfolding removeSidecar_def sidecarRemovalComplete_def by (intro docker_intros) simp_all
  have exec: "emits (open_spared MS flt x) (runSidecarExec api c i tool args)" for c i args
    unfolding runSidecarExec_def by (intro exec_intros emits_runExecAttached) simp_all
  have execs: "emits (open_spared MS flt x) (run_sidecar_execs api c i tool argsList)" for c i
    by (induction argsList) (simp, intro docker_intros removal exec, assumption?)+
  show "emits (open_spared MS flt x) (runSidecar api c y argsList img tool pull)"
    unfolding runSidecar_def pullSidecarImage_def use_sidecar_def
    by (intro docker_intros removal execs open_spared_DCreate spared_configs) simp_all
  show "emits (open_spared MS flt x) (execOnContainer api c y tool args priv)"
    unfolding execOnContainer_def by (intro exec_intros emits_runExecAttached) simp_all
qed

lemma spared_network:
  "emits (open_spared MS flt x) (docker_NetemContainer api c nr)"
  "emits (open_spared MS flt x) (docker_StopNetemContainer api c nr)"
  "emits (open_spared MS flt x) (docker_IPTablesContainer api c ir)"
  "emits (open_spared MS flt x) (docker_StopIPTablesContainer api c ir)"
  unfolding docker_dry_defs tcCommands_def ipTablesCommands_def exec_commands_def
  by (intro docker_intros spared_sidecar)+

lemma spared_stress: "emits (open_spared MS flt x) (docker_StressContainer api c sr)"
proof -
  have run: "emits (open_spared MS flt x) (run_stress_sidecar api c i)" for i
    unfolding run_stress_sidecar_def collect_output_def by (intro docker_intros spared_sidecar) simp_all
  have create: "stressContainerConfig t s img d cp path inject = (config, hconfig) \<Longrightarrow>
      emits (open_spared MS flt x) (create_stress_sidecar api c config hconfig pull)"
    for t s img d cp path inject config hconfig pull
    unfolding create_stress_sidecar_def pullImage_def
    by (intro docker_intros run open_spared_DCreate; (erule spared_configs(2) | simp))
  show ?thesis
    unfolding docker_StressContainer_def stressContainerCommand_def stressResolveDriver_def cgroupDriver_def
      inspectCgroupParent_def
    by (intro docker_intros create) simp_all
qed

interpretation docker_spared: ordered_client "extends (open_spared MS flt x)" "docker_client api" "\<lambda>_. True" for MS flt x api
  by unfold_locales (simp_all add: spared_lifecycle spared_network spared_stress)

section \<open>Podman\<close>

lemma spared_podman_stress: "emits (open_spared MS flt x) (podman_StressContainer h p c sr)"
proof -
  have run: "emits (open_spared MS flt x) (run_podman_stress api c i)" for api i
    unfolding run_podman_stress_def drainStressOutput_def removeOnError_def by (intro docker_intros) simp_all
  have create: "buildStressConfig img s d fp parent pp inject = (config, hconfig) \<Longrightarrow>
      emits (open_spared MS flt x) (create_podman_stress api c config hconfig pull)"
    for api img s d fp parent pp inject config hconfig pull
    unfolding create_podman_stress_def pullStressImage_def
    by (intro docker_intros run open_spared_DCreate; (erule spared_configs(3) | simp))
  show ?thesis
    unfolding podman_StressContainer_def resolveCgroup_def host_read_def Let_def
    by (intro docker_intros create) simp_all
qed

interpretation podman_spared:
  ordered_client "extends (open_spared MS flt x)" "podman_client h (podman_of api rl uri)" "\<lambda>_. True" for MS flt x h api rl uri
  by unfold_locales
    (auto simp: spared_lifecycle spared_network spared_podman_stress podman_NetemContainer_def podman_StopNetemContainer_def
      podman_IPTablesContainer_def podman_StopIPTablesContainer_def intro: emission.confined_return)

text \<open>A rootless Podman client creates nothing: its network and stress operations end before any call.\<close>

lemma rootless_emits:
  assumes "\<And>k. \<not> creates k \<Longrightarrow> P k"
  shows "emits P (podman_NetemContainer (podman_of api True uri) c nr)"
    "emits P (podman_StopNetemContainer (podman_of api True uri) c nr)"
    "emits P (podman_IPTablesContainer (podman_of api True uri) c ir)"
    "emits P (podman_StopIPTablesContainer (podman_of api True uri) c ir)"
    "emits P (podman_StressContainer h (podman_of api True uri) c sr)"
  unfolding podman_overrides by (simp_all add: emission.confined_return)

interpretation podman_rootless:
  ordered_client "extends (\<lambda>k. \<not> creates k)" "podman_client h (podman_of api True uri)" "\<lambda>_. True" for h api uri
  by unfold_locales (simp_all add: lifecycle_emits rootless_emits)

section \<open>containerd\<close>

text \<open>
  The containerd runtime labels its stress sidecars, not those of the network commands: these have
  whatever labels containerd gives a container without the option.
\<close>

fun skip_option :: "container_opt \<Rightarrow> bool" where
  "skip_option (WithContainerLabels ls) = (map_of ls pumbaSkipLabel = Some ''true'')"
| "skip_option _ = False"

fun label_option :: "container_opt \<Rightarrow> bool" where
  "label_option (WithContainerLabels ls) = True"
| "label_option _ = False"

fun created_with :: "(container_opt list \<Rightarrow> bool) \<Rightarrow> containerd_call \<Rightarrow> bool" where
  "created_with P (KNewContainer c i opts) = P opts"
| "created_with P k = True"

lemma stress_sidecars_labelled:
  "emits (created_with (list_ex skip_option)) (containerd_StressContainer cl c sr)"
proof -
  let ?P = "created_with (list_ex skip_option)"
  have pulling: "emits ?P (ctrd_pullImage cl c i)" for c i
    unfolding ctrd_pullImage_def by (intro ctrd_intros) simp_all
  have resolve: "emits ?P (resolveCgroupPath (client_api cl) pid)" for pid
    unfolding resolveCgroupPath_def by (intro ctrd_intros) simp_all
  have start: "emits ?P (startSidecarTask cl c i)" for c i
    unfolding startSidecarTask_def by (intro ctrd_intros) simp_all
  have delete: "emits ?P (deleteContainer cl c i)" for c i
    unfolding deleteContainer_def by (intro ctrd_intros) simp_all
  have launch: "emits ?P (launch_stress_sidecar cl c im st paths inj)" for c im st paths inj
    unfolding launch_stress_sidecar_def Let_def
    by (intro ctrd_intros start delete) (simp_all add: stress_opts_def pumbaSkipLabel_def)
  have create: "emits ?P (createStressSidecar cl c x im st inj pull)" for c x im st inj pull
    unfolding createStressSidecar_def
    by (intro ctrd_intros emits_getTask resolve pulling launch) simp_all
  have wait: "emits ?P (waitStressSidecar cl c i)" for c i
  proof -
    have "emits ?P (await_stress cl c i)"
      unfolding await_stress_def by (intro ctrd_intros; split wait_branch.split; intro conjI allI impI ctrd_intros) simp_all
    then show ?thesis unfolding waitStressSidecar_def by (intro ctrd_intros delete) simp_all
  qed
  have exec: "emits ?P (execInContainer cl c i t args)" for c i t args
    unfolding execInContainer_def execTask_def run_exec_def by (intro ctrd_intros emits_getTask) simp_all
  show ?thesis
    unfolding containerd_StressContainer_def stressSidecar_def stressDirectExec_def Let_def
    by (intro ctrd_intros create wait exec)
qed

lemma network_sidecars_unlabelled:
  "emits (created_with (\<lambda>opts. \<not> list_ex label_option opts)) (sidecarExec cl c x img pull tool argsList)"
proof -
  let ?P = "created_with (\<lambda>opts. \<not> list_ex label_option opts)"
  have pulling: "emits ?P (ctrd_pullImage cl c i)" for c i
    unfolding ctrd_pullImage_def by (intro ctrd_intros) simp_all
  have cleanup: "emits ?P (cleanupSidecar cl c i)" for c i
    unfolding cleanupSidecar_def by (intro ctrd_intros) simp_all
  have cmd: "emits ?P (runSidecarCmd cl c i tool args)" for c i args
    unfolding runSidecarCmd_def execTask_def run_exec_def by (intro ctrd_intros) simp_all
  have use: "emits ?P (use_ctrd_sidecar cl c i tool argsList)" for c i
    unfolding use_ctrd_sidecar_def by (intro ctrd_intros cmd) simp_all
  have create: "emits ?P (create_ctrd_sidecar cl c im pid tool argsList)" for c im pid
    unfolding create_ctrd_sidecar_def Let_def
    by (intro ctrd_intros use cleanup) (simp_all add: sidecar_opts_def)
  show ?thesis
    unfolding sidecarExec_def Let_def by (intro ctrd_intros emits_getTask pulling create) simp_all
qed

section \<open>Properties\<close>

text \<open>C31: A Podman client that found its socket rootless never creates a container, whatever operations are
  performed on it and in whatever order: the operations that would need a sidecar (network emulation,
  packet filters and their undoing, stress) are refused before the first call.\<close>

theorem podman_rootless_creates_nothing:
  assumes "issued (podman_client h (podman_of api True uri)) [] tr"
  shows "list_all (\<lambda>k. \<not> creates k) tr"
proof -
  have "extends (\<lambda>k. \<not> creates k) [] tr" by (rule podman_rootless.issued_within [OF assms]) simp
  then show ?thesis by (simp add: extends_def)
qed

definition sample_host :: podman_host where
  "sample_host = \<lparr>cgroupReader = (\<lambda>tr p. Inr ''0::/machine.slice/libpod-a.scope''), host_Stat = (\<lambda>tr p. None),
     is_NotExist = (\<lambda>e. False)\<rparr>"

theorem podman_rootless_creates_nothing_witness:
  "\<exists>tr. issued (podman_client sample_host (podman_of sample_docker True ''unix:///run/podman.sock'')) [] tr \<and>
     tr = [DKill CtxTop ''web-id'' ''SIGKILL''] \<and> list_all (\<lambda>k. \<not> creates k) tr"
proof -
  let ?cl = "podman_client sample_host (podman_of sample_docker True ''unix:///run/podman.sock'')"
  let ?nr = "\<lparr>NContainer = named ''web'', NInterface = ''eth0'', NCommand = [''delay'', ''100ms''], NIPs = [],
     NSPorts = [], NDPorts = [], NDuration = second, NSidecar = \<lparr>SImage = ''tc'', SPull = False\<rparr>, NDryRun = False\<rparr>"
  have "run_state (issue ?cl (CNetem CtxTop ?nr)) [] = ((), [])"
    by (simp add: podman_overrides)
  then have "issued ?cl [] []" by (rule issued_call [OF issued_refl])
  moreover have "run_state (issue ?cl (CKill CtxTop (named ''web'') ''SIGKILL'' False)) [] =
      ((), [DKill CtxTop ''web-id'' ''SIGKILL''])"
    by (simp add: docker_KillContainer_def named_def docker_act_def)
  ultimately have "issued ?cl [] [DKill CtxTop ''web-id'' ''SIGKILL'']" by (rule issued_call)
  from podman_rootless_creates_nothing [OF this] this show ?thesis by blast
qed

end
