(* ===== verification/ContainerdIds.thy ===== *)
theory ContainerdIds
  imports Containerd
begin

text \<open>
  What every operation of the containerd runtime keeps: each container and each exec that it creates
  gets its ID from an increment of the global counter made just before, and none closes the client. The operations are the
  \<open>ordered_client\<close> of the preorder \<open>numbered\<close>, so that it holds for every sequence of them.
\<close>

section \<open>IDs from the counter\<close>

fun new_id :: "containerd_call \<Rightarrow> string option" where
  "new_id (KNewContainer c i opts) = Some i"
| "new_id (KExec c i e p) = Some e"
| "new_id k = None"

definition counter_ids :: "int \<Rightarrow> string list" where
  "counter_ids n = map (\<lambda>p. p @ ''-'' @ itoa n) [''pumba-sidecar'', ''pumba-stress'', ''pumba-exec'', ''pumba-sc-exec'']"

primrec fresh_ids :: "containerd_call list \<Rightarrow> containerd_call list \<Rightarrow> bool" where
  "fresh_ids tr [] = True"
| "fresh_ids tr (k # evs) =
     (k \<noteq> KClose \<and>
      (case new_id k of None \<Rightarrow> True
       | Some i \<Rightarrow> tr \<noteq> [] \<and> last tr = KCounter \<and> i \<in> set (counter_ids (execCounter tr))) \<and>
      fresh_ids (tr @ [k]) evs)"

definition numbered :: "containerd_call list \<Rightarrow> containerd_call list \<Rightarrow> bool" where
  "numbered tr tr' \<longleftrightarrow> (\<exists>evs. tr' = tr @ evs \<and> fresh_ids tr evs)"

lemma fresh_ids_append: "fresh_ids tr (xs @ ys) \<longleftrightarrow> fresh_ids tr xs \<and> fresh_ids (tr @ xs) ys"
  by (induction xs arbitrary: tr) simp_all

interpretation numbering: effect_order numbered
proof unfold_locales
  show "numbered w w" for w by (simp add: numbered_def)
  show "numbered u v \<Longrightarrow> numbered v w \<Longrightarrow> numbered u w" for u v w
    unfolding numbered_def using fresh_ids_append by (metis append_assoc)
qed

section \<open>Operations\<close>

lemma numbered_calls:
  "new_id k = None \<and> k \<noteq> KClose \<Longrightarrow> confined numbered (sdk_call k f)"
  "new_id k = None \<and> k \<noteq> KClose \<Longrightarrow> confined numbered (ctrd api k)"
  "confined numbered (ctrd_task api c i)"
  "confined numbered (ctrd_select api co d)"
  "confined numbered next_counter"
  by (auto simp: confined_def numbered_def)

lemma numbered_case_wait:
  "(\<And>st. confined numbered (f st)) \<Longrightarrow> confined numbered m \<Longrightarrow> confined numbered m' \<Longrightarrow>
    confined numbered (case b of ExitCh st \<Rightarrow> f st | CtxDone \<Rightarrow> m | TimerFired \<Rightarrow> m')"
  by (cases b) simp_all

lemmas numbered_intros = numbering.confined_intros numbered_calls numbered_case_wait

lemma numbered_new:
  assumes "\<And>n. \<exists>k f. m n = do { r \<leftarrow> ctrd api k; f r } \<and> new_id k \<in> Some ` set (counter_ids n) \<and>
    (\<forall>r. confined numbered (f r))"
  shows "confined numbered (do { n \<leftarrow> next_counter; m n })"
proof (rule confinedI)
  fix tr a tr' assume run: "run_state (do { n \<leftarrow> next_counter; m n }) tr = (a, tr')"
  let ?t = "tr @ [KCounter]"
  obtain k f where k: "m (execCounter ?t) = do { r \<leftarrow> ctrd api k; f r }"
    "new_id k \<in> Some ` set (counter_ids (execCounter ?t))" "\<And>r. confined numbered (f r)"
    using assms by blast
  from run have "run_state (f (CallResult api ?t k)) (?t @ [k]) = (a, tr')" by (simp add: k(1))
  then have "numbered (?t @ [k]) tr'" by (rule confinedD [OF k(3)])
  moreover have "numbered tr (?t @ [k])"
    unfolding numbered_def using k(2) by (intro exI [of _ "[KCounter, k]"]) (auto elim: new_id.elims)
  ultimately show "numbered tr tr'" by (rule numbering.R_trans [rotated])
qed

lemma numbered_execTask:
  assumes "\<And>n. e n \<in> set (counter_ids n)"
  shows "confined numbered (do { n \<leftarrow> next_counter; execTask api c i p (e n) (d n) })"
proof (rule numbered_new)
  fix n
  let ?rest = "\<lambda>err. case err of
       Some x \<Rightarrow> State_Monad.return (Some (ErrWrap ''failed to exec %s: %w'' [d n] x))
     | None \<Rightarrow> do { r \<leftarrow> run_exec api c (e n) (d n); _ \<leftarrow> ctrd api (KExecDelete c (e n)); State_Monad.return r }"
  have "confined numbered (?rest err)" for err
    unfolding run_exec_def by (intro numbered_intros) simp_all
  then show "\<exists>k f. execTask api c i p (e n) (d n) = do { r \<leftarrow> ctrd api k; f r } \<and>
      new_id k \<in> Some ` set (counter_ids n) \<and> (\<forall>r. confined numbered (f r))"
    unfolding execTask_def using assms [of n]
    by (intro exI [of _ "KExec c i (e n) p"] exI [of _ ?rest]) simp
qed

lemma counter_ids_mem:
  "''pumba-sidecar-'' @ itoa n \<in> set (counter_ids n)" "''pumba-stress-'' @ itoa n \<in> set (counter_ids n)"
  "''pumba-exec-'' @ itoa n \<in> set (counter_ids n)" "''pumba-sc-exec-'' @ itoa n \<in> set (counter_ids n)"
  by (simp_all add: counter_ids_def)

lemma numbered_getTask: "confined numbered (getTask cl c i)"
  unfolding getTask_def by (intro numbered_intros) simp_all

lemma numbered_exec: "confined numbered (execInContainer cl c i command args)"
  unfolding execInContainer_def
  by (intro numbering.confined_bind numbering.confined_case_sum numbering.confined_return numbered_getTask
      numbered_execTask counter_ids_mem)

lemma numbered_tasks:
  "confined numbered (stopTask cl c i s d)" "confined numbered (startTask cl c i)"
  "confined numbered (killTask cl c i sg)" "confined numbered (pauseTask cl c i)" "confined numbered (resumeTask cl c i)"
  unfolding stopTask_def stop_hard_def startTask_def killTask_def pauseTask_def resumeTask_def
  by (intro numbered_intros numbered_getTask; simp)+

lemma numbered_list: "confined numbered (containerd_ListContainers cl c f os)"
proof -
  have conv: "confined numbered (toContainer api c i all)" for api c i all
    unfolding toContainer_def by (intro numbered_intros) simp_all
  have "confined numbered (convert_all api c f all is)" for api c all "is"
    by (induction "is") (auto intro!: numbered_intros conv)
  then show ?thesis
    unfolding containerd_ListContainers_def Let_def by (intro numbered_intros) simp_all
qed

lemma numbered_remove: "confined numbered (containerd_RemoveContainer cl c x ro)"
  unfolding containerd_RemoveContainer_def forceKillTask_def Let_def by (intro numbered_intros) simp_all

lemma numbered_sidecar: "confined numbered (sidecarExec cl c x img pull tool argsList)"
proof -
  have cleanup: "confined numbered (cleanupSidecar cl c i)" for c i
    unfolding cleanupSidecar_def by (intro numbered_intros) simp_all
  have cmd: "confined numbered (runSidecarCmd cl c i tool args)" for c i args
    unfolding runSidecarCmd_def by (intro numbered_execTask counter_ids_mem)
  have use: "confined numbered (use_ctrd_sidecar cl c i tool argsList)" for c i
    unfolding use_ctrd_sidecar_def by (intro numbered_intros cmd) simp_all
  have create: "confined numbered (create_ctrd_sidecar cl c im pid tool argsList)" for c im pid
    unfolding create_ctrd_sidecar_def Let_def
    by (rule numbered_new, intro exI conjI allI, rule refl, simp add: counter_ids_def)
      (intro numbered_intros use cleanup)
  have pulling: "confined numbered (ctrd_pullImage cl c im)" for c im
    unfolding ctrd_pullImage_def by (intro numbered_intros) simp_all
  show ?thesis
    unfolding sidecarExec_def Let_def by (intro numbered_intros pulling numbered_getTask create) simp_all
qed

lemma numbered_network:
  "confined numbered (containerd_NetemContainer cl c nr)"
  "confined numbered (containerd_StopNetemContainer cl c nr)"
  "confined numbered (containerd_IPTablesContainer cl c ir)"
  "confined numbered (containerd_StopIPTablesContainer cl c ir)"
  unfolding containerd_dry_defs Let_def runTCCommands_def runIPTablesCommands_def
  by (intro numbered_intros numbered_sidecar numbered_exec)+

lemma numbered_stress: "confined numbered (containerd_StressContainer cl c sr)"
proof -
  have delete: "confined numbered (deleteContainer cl c i)" for c i
    unfolding deleteContainer_def by (intro numbered_intros) simp_all
  have start: "confined numbered (startSidecarTask cl c i)" for c i
    unfolding startSidecarTask_def by (intro numbered_intros) simp_all
  have launch: "confined numbered (launch_stress_sidecar cl c im st paths inj)" for c im st paths inj
    unfolding launch_stress_sidecar_def Let_def
    by (rule numbered_new, intro exI conjI allI, rule refl, simp add: counter_ids_def)
      (intro numbered_intros start delete)
  have pulling: "confined numbered (ctrd_pullImage cl c im)" for c im
    unfolding ctrd_pullImage_def by (intro numbered_intros) simp_all
  have wait: "confined numbered (waitStressSidecar cl c i)" for c i
    unfolding waitStressSidecar_def await_stress_def
    by (intro numbered_intros delete) simp_all
  have create: "confined numbered (createStressSidecar cl c x im st inj pull)" for c x im st inj pull
    unfolding createStressSidecar_def resolveCgroupPath_def
    by (intro numbered_intros numbered_getTask pulling launch) simp_all
  show ?thesis
    unfolding containerd_StressContainer_def stressSidecar_def stressDirectExec_def Let_def
    by (intro numbered_intros create wait numbered_exec)
qed

lemma numbered_lifecycle:
  "confined numbered (containerd_StopContainer cl c x n d)"
  "confined numbered (containerd_KillContainer cl c x sg d)"
  "confined numbered (containerd_StartContainer cl c x d)"
  "confined numbered (containerd_RestartContainer cl c x t d)"
  "confined numbered (containerd_PauseContainer cl c x d)"
  "confined numbered (containerd_UnpauseContainer cl c x d)"
  "confined numbered (containerd_StopContainerWithID cl c i t d)"
  "confined numbered (containerd_ExecContainer cl c x s args d)"
  unfolding containerd_dry_defs Let_def by (intro numbered_intros numbered_tasks numbered_exec)+

interpretation containerd_numbered: ordered_client numbered "containerd_client cl" "\<lambda>_. True" for cl
  by unfold_locales (simp_all add: numbered_list numbered_lifecycle numbered_remove numbered_network numbered_stress)

section \<open>Distinct IDs\<close>

lemma itoa_digits: "0 \<le> n \<Longrightarrow> CHR ''-'' \<notin> set (itoa n)"
proof -
  assume "0 \<le> n"
  then have "itoa n = nat_digits (nat n)" by (simp add: itoa_def)
  moreover have "list_all is_digit (nat_digits (nat n))" using nat_digits_correct by blast
  moreover have "\<not> is_digit (CHR ''-'')" by (simp add: is_digit_def)
  ultimately show ?thesis by (metis list_all_iff)
qed

lemma itoa_inj:
  assumes "0 \<le> n" and "0 \<le> m" and "itoa n = itoa m"
  shows "n = m"
proof -
  have "nat_digits (nat n) = nat_digits (nat m)" using assms by (simp add: itoa_def)
  then have "int (nat n) = int (nat m)" by (metis nat_digits_correct)
  then show ?thesis using assms(1,2) by simp
qed

lemma counter_ids_inj:
  assumes "i \<in> set (counter_ids n)" and "i \<in> set (counter_ids m)" and "0 \<le> n" and "0 \<le> m"
  shows "n = m"
proof -
  have tail: "takeWhile (\<lambda>x. x \<noteq> CHR ''-'') (rev (p @ ''-'' @ itoa k)) = rev (itoa k)" if "0 \<le> k" for p k
    using itoa_digits [OF that] by (simp add: takeWhile_append)
  obtain p q where "i = p @ ''-'' @ itoa n" "i = q @ ''-'' @ itoa m"
    using assms(1,2) by (auto simp: counter_ids_def)
  then have "rev (itoa n) = rev (itoa m)" using tail [OF assms(3), of p] tail [OF assms(4), of q] by simp
  then show ?thesis using itoa_inj [OF assms(3,4)] by simp
qed

lemma fresh_ids_open: "fresh_ids tr evs \<Longrightarrow> KClose \<notin> set evs"
  by (induction evs arbitrary: tr) auto

text \<open>The IDs given so far, with the value of the counter they were made from.\<close>

definition ids_below :: "containerd_call list \<Rightarrow> bool" where
  "ids_below tr \<longleftrightarrow> (\<forall>i \<in> set (List.map_filter new_id tr). \<exists>n. i \<in> set (counter_ids n) \<and> 0 \<le> n \<and> n \<le> execCounter tr \<and>
     (tr \<noteq> [] \<and> last tr = KCounter \<longrightarrow> n < execCounter tr))"

lemma execCounter_other: "k \<noteq> KCounter \<Longrightarrow> execCounter (tr @ [k]) = execCounter tr"
  by (simp add: execCounter_def)

lemma execCounter_nonneg: "0 \<le> execCounter tr"
  by (simp add: execCounter_def)

lemma fresh_ids_distinct:
  assumes "fresh_ids [] tr" and "length tr < 2 ^ 64"
  shows "distinct (List.map_filter new_id tr) \<and> ids_below tr"
  using assms
proof (induction tr rule: rev_induct)
  case Nil
  then show ?case by (simp add: ids_below_def List.map_filter_simps)
next
  case (snoc k tr)
  then have IH: "distinct (List.map_filter new_id tr)" "ids_below tr" by (simp_all add: fresh_ids_append)
  consider "k = KCounter" | "k \<noteq> KCounter" "new_id k = None" | i where "k \<noteq> KCounter" "new_id k = Some i"
    by (cases "new_id k") auto
  then show ?case
  proof cases
    case 1
    have "length (filter (\<lambda>k. k = KCounter) (tr @ [k])) < 2 ^ 64"
      by (rule le_less_trans [OF length_filter_le snoc.prems(2)])
    then have "execCounter tr < execCounter (tr @ [k])" using 1 by (intro execCounter_grows) simp_all
    then show ?thesis using IH 1
      by (fastforce simp: ids_below_def List.map_filter_def)
  next
    case 2
    then show ?thesis using IH by (fastforce simp: ids_below_def List.map_filter_def execCounter_other)
  next
    case (3 i)
    have i: "tr \<noteq> []" "last tr = KCounter" "i \<in> set (counter_ids (execCounter tr))"
      using snoc.prems(1) 3 by (simp_all add: fresh_ids_append)
    have "i \<notin> set (List.map_filter new_id tr)"
    proof
      assume "i \<in> set (List.map_filter new_id tr)"
      then obtain n where "i \<in> set (counter_ids n)" "0 \<le> n" "n < execCounter tr"
        using IH(2) i(1,2) unfolding ids_below_def by blast
      with counter_ids_inj [OF i(3)] show False by (auto simp: execCounter_nonneg)
    qed
    moreover have "List.map_filter new_id (tr @ [k]) = List.map_filter new_id tr @ [i]"
      using 3 by (simp add: List.map_filter_def)
    ultimately show ?thesis using IH i(3) 3(1)
      by (fastforce simp: ids_below_def execCounter_other execCounter_nonneg)
  qed
qed

section \<open>Properties\<close>

text \<open>C27: Whatever operations a containerd client performs from its start, in any order, no two of the
  containers and execs it creates get the same ID, as long as it makes fewer than \<open>2 ^ 64\<close> calls.\<close>

theorem containerd_ids_distinct:
  assumes "issued (containerd_client cl) [] tr" and "length tr < 2 ^ 64"
  shows "distinct (List.map_filter new_id tr)"
proof -
  have "numbered [] tr" by (rule containerd_numbered.issued_within [OF assms(1)]) simp
  then show ?thesis using fresh_ids_distinct [OF _ assms(2)] by (simp add: numbered_def)
qed

definition sample_emulation :: netem_request where
  "sample_emulation = \<lparr>NContainer = named ''web'', NInterface = ''eth0'', NCommand = [''delay'', ''100ms''], NIPs = [],
     NSPorts = [], NDPorts = [], NDuration = second, NSidecar = \<lparr>SImage = ''tc'', SPull = False\<rparr>, NDryRun = False\<rparr>"

theorem containerd_ids_distinct_witness:
  "\<exists>tr. issued (containerd_client sample_containerd) [] tr \<and> distinct (List.map_filter new_id tr) \<and>
     List.map_filter new_id tr = [''pumba-sidecar-1'', ''pumba-sc-exec-2'', ''pumba-sidecar-3'', ''pumba-sc-exec-4'']"
proof -
  let ?cl = "containerd_client sample_containerd"
  let ?t = "snd (run_state (issue ?cl (CNetem CtxTop sample_emulation)) [])"
  let ?u = "snd (run_state (issue ?cl (CStopNetem CtxTop sample_emulation)) ?t)"
  have "issued ?cl [] ?t" by (rule issued_call [OF issued_refl]) (rule prod.collapse [symmetric])
  then have u: "issued ?cl [] ?u" by (rule issued_call) (rule prod.collapse [symmetric])
  have ids: "List.map_filter new_id ?u = [''pumba-sidecar-1'', ''pumba-sc-exec-2'', ''pumba-sidecar-3'', ''pumba-sc-exec-4'']"
    by code_simp
  have "length ?u = 34" by code_simp
  then have "length ?u < 2 ^ 64" by simp
  from containerd_ids_distinct [OF u this] u ids show ?thesis by blast
qed

end
