(* ===== verification/Startup.thy ===== *)
theory Startup
  imports Docker Containerd Podman
begin

text \<open>
  The start of the program (\<open>cmd/main.go\<close>, \<open>cmd/runtime.go\<close>, \<open>cmd/logging.go\<close>): logging, the TLS
  configuration, the client of the selected runtime, and its closing. \<open>main\<close> builds the application
  from \<open>globalFlags\<close> and \<open>initializeCLICommands\<close> (theory Cli); the parsing of the command line and the
  dispatch to the commands are urfave/cli's.

  Reading files and certificates is \<open>tls_env\<close>, a parameter; \<open>'pool\<close> and \<open>'cert\<close> are the types of
  \<open>x509.CertPool\<close> and \<open>tls.Certificate\<close>.
\<close>

section \<open>Logging (\<open>logging.go\<close>)\<close>

datatype log_level = DebugLevel | InfoLevel | WarnLevel | ErrorLevel | FatalLevel | PanicLevel

text \<open>What \<open>setupLogging\<close> configures; the hook is its URL, the least level it accepts and its channel.\<close>

record log_config =
  LogLevel :: log_level
  LogJSON :: bool
  SlackHook :: "(string \<times> log_level \<times> string) option"

definition parse_level :: "string \<Rightarrow> log_level" where
  "parse_level level =
     (if level = ''debug'' \<or> level = ''DEBUG'' then DebugLevel
      else if level = ''info'' \<or> level = ''INFO'' then InfoLevel
      else if level = ''warning'' \<or> level = ''WARNING'' then WarnLevel
      else if level = ''error'' \<or> level = ''ERROR'' then ErrorLevel
      else if level = ''fatal'' \<or> level = ''FATAL'' then FatalLevel
      else if level = ''panic'' \<or> level = ''PANIC'' then PanicLevel
      else WarnLevel)"

definition setupLogging :: "flags \<Rightarrow> log_config" where
  "setupLogging f =
     (let level = parse_level (flag_String f ''log-level'') in
      \<lparr>LogLevel = level, LogJSON = flag_Bool f ''json'',
       SlackHook = (if flag_String f ''slackhook'' \<noteq> ''''
         then Some (flag_String f ''slackhook'', level, flag_String f ''slackchannel'') else None)\<rparr>)"

section \<open>TLS (\<open>runtime.go\<close>)\<close>

record ('pool, 'cert) tls_config =
  InsecureSkipVerify :: bool
  RootCAs :: "'pool option"
  Certificates :: "'cert list"

text \<open>\<open>pool_of_PEM\<close> is a new pool after \<open>AppendCertsFromPEM\<close>, whose result the code drops.\<close>

record ('pool, 'cert) tls_env =
  os_ReadFile :: "string \<Rightarrow> error + string"
  pool_of_PEM :: "string \<Rightarrow> 'pool"
  LoadX509KeyPair :: "string \<Rightarrow> string \<Rightarrow> error + 'cert"
  X509KeyPair :: "string \<Rightarrow> string \<Rightarrow> error + 'cert"

text \<open>The TLS flags are declared at the root only, where \<open>GlobalString\<close> and \<open>GlobalBool\<close> find them.\<close>

definition load_roots ::
  "('pool, 'cert) tls_env \<Rightarrow> string \<Rightarrow> error + 'pool option" where
  "load_roots env caCertFlag =
     (if caCertFlag \<noteq> '''' then
        (if prefix ''/'' caCertFlag then
           (case os_ReadFile env caCertFlag of
              Inl err \<Rightarrow> Inl (ErrWrap ''unable to read CA certificate: %w'' [] err)
            | Inr caCert \<Rightarrow> Inr (Some (pool_of_PEM env caCert)))
         else Inr (Some (pool_of_PEM env caCertFlag)))
      else Inr None)"

definition load_certificate ::
  "('pool, 'cert) tls_env \<Rightarrow> string \<Rightarrow> string \<Rightarrow> error + 'cert list" where
  "load_certificate env certFlag keyFlag =
     (if certFlag \<noteq> '''' \<and> keyFlag \<noteq> '''' then
        (case (if prefix ''/'' certFlag \<and> prefix ''/'' keyFlag
               then LoadX509KeyPair env certFlag keyFlag else X509KeyPair env certFlag keyFlag) of
           Inl err \<Rightarrow> Inl (ErrWrap ''unable to load client certificate: %w'' [] err)
         | Inr cert \<Rightarrow> Inr [cert])
      else Inr [])"

definition tlsConfig ::
  "('pool, 'cert) tls_env \<Rightarrow> cli_ctx \<Rightarrow> error + ('pool, 'cert) tls_config option" where
  "tlsConfig env c =
     (let g = flag_Global c in
      if flag_Bool g ''tls'' \<or> flag_Bool g ''tlsverify'' then
        (case load_roots env (flag_String g ''tlscacert'') of
           Inl err \<Rightarrow> Inl err
         | Inr roots \<Rightarrow>
         (case load_certificate env (flag_String g ''tlscert'') (flag_String g ''tlskey'') of
            Inl err \<Rightarrow> Inl err
          | Inr certs \<Rightarrow> Inr (Some
              \<lparr>InsecureSkipVerify = \<not> flag_Bool g ''tlsverify'', RootCAs = roots, Certificates = certs\<rparr>)))
      else Inr None)"

section \<open>The runtime client (\<open>runtime.go\<close>, \<open>main.go\<close>)\<close>

datatype runtime =
    DockerRuntime "docker_call list client"
  | ContainerdRuntime containerdClient
  | PodmanRuntime podmanClient

text \<open>What the three constructors take from outside the repository.\<close>

record ('pool, 'cert) runtime_env =
  re_tls :: "('pool, 'cert) tls_env"
  re_socket :: socket_env
  re_docker_New :: "string \<Rightarrow> ('pool, 'cert) tls_config http_client \<Rightarrow> error + docker_api"
  re_podman_New :: "string \<Rightarrow> unit http_client \<Rightarrow> error + docker_api"
  re_containerd_New :: "string \<Rightarrow> error + containerd_api"

definition createRuntimeClient ::
  "('pool, 'cert) runtime_env \<Rightarrow> cli_ctx \<Rightarrow> (docker_call list, error + runtime) state" where
  "createRuntimeClient env c =
     (let f = NewV1FromApp c; rt = flag_String f ''runtime'' in
      if rt = ''docker'' then
        State_Monad.return
          (case tlsConfig (re_tls env) c of
             Inl err \<Rightarrow> Inl err
           | Inr tlsCfg \<Rightarrow>
           (case NewClient (url_Parse (re_socket env)) (re_docker_New env) (flag_String f ''host'') tlsCfg of
              Inl err \<Rightarrow> Inl (ErrWrap ''could not create Docker client: %w'' [] err)
            | Inr cl \<Rightarrow> Inr (DockerRuntime cl)))
      else if rt = ''containerd'' then
        State_Monad.return
          (case containerd_NewClient (re_containerd_New env) (flag_String f ''containerd-socket'')
              (flag_String f ''containerd-namespace'') of
             Inl err \<Rightarrow> Inl (ErrWrap ''could not create containerd client: %w'' [] err)
           | Inr cl \<Rightarrow> Inr (ContainerdRuntime cl))
      else if rt = ''podman'' then do {
        r \<leftarrow> podman_NewClient (re_socket env) (re_podman_New env) (flag_String f ''podman-socket'');
        State_Monad.return (case r of
            Inl err \<Rightarrow> Inl (ErrWrap ''could not create podman client: %w'' [] err)
          | Inr cl \<Rightarrow> Inr (PodmanRuntime cl)) }
      else State_Monad.return (Inl (ErrNew ''unsupported runtime: %s'' [rt])))"

text \<open>\<open>before\<close>: the logging that is set up first, and the client that is stored in \<open>runtimeClient\<close>.\<close>

definition before ::
  "('pool, 'cert) runtime_env \<Rightarrow> cli_ctx \<Rightarrow> (docker_call list, log_config \<times> (error + runtime)) state" where
  "before env c = do {
     let logging = setupLogging (NewV1FromApp c);
     r \<leftarrow> createRuntimeClient env c;
     State_Monad.return (logging, r) }"

text \<open>The directory of the default certificates, and the flags of the application, from \<open>main\<close>.\<close>

definition root_cert_path :: "(string \<Rightarrow> string) \<Rightarrow> string" where
  "root_cert_path getenv =
     (if getenv ''DOCKER_CERT_PATH'' \<noteq> '''' then getenv ''DOCKER_CERT_PATH'' else ''/etc/ssl/docker'')"

definition app_flags :: "(string \<Rightarrow> string) \<Rightarrow> (cli_flag \<times> string) list" where
  "app_flags getenv = globalFlags (root_cert_path getenv)"

section \<open>Facts\<close>

lemma NewClient_Inr: "NewClient parse mk host tls = Inr cl \<Longrightarrow> \<exists>api. cl = docker_client api"
  by (auto simp: NewClient_def split: sum.splits)

lemma containerd_NewClient_Inr: "containerd_NewClient mk socket ns = Inr cl \<Longrightarrow> client_ns cl \<noteq> ''''"
  by (auto simp: containerd_NewClient_def defaultNamespace_def Let_def split: sum.splits if_splits)

lemma podman_NewClient_ensures:
  "ensures (podman_NewClient env mk explicit) (\<lambda>tr r evs. filter docker_effect evs = [] \<and>
     (case r of Inl e \<Rightarrow> True
      | Inr p \<Rightarrow> evs = [DInfo (CtxTimeout CtxBackground bootstrapTimeout)] \<and>
          (\<exists>api rootless uri. p = podman_of api rootless uri)))"
  by (rule ensuresI) (auto simp: podman_NewClient_run Let_def split: sum.splits, intro exI, rule refl)

definition runtime_names :: "string list" where
  "runtime_names = [''docker'', ''containerd'', ''podman'']"

section \<open>Properties\<close>

text \<open>The selected runtime is the one that is connected to: the flag names one of the three runtimes or
  the start fails without any call. The Docker and containerd clients are made without a call, the
  Podman one with the question for the daemon's information, and none of them changes anything on
  the host. A Docker client wraps the SDK's client, and a Podman client embeds the same one.\<close>

theorem createRuntimeClient_selects:
  "ensures (createRuntimeClient env c) (\<lambda>tr r evs.
     let rt = flag_String (flag_Global c) ''runtime'' in
     filter docker_effect evs = [] \<and>
     (case r of
        Inl e \<Rightarrow> rt \<in> set runtime_names \<or> (e = ErrNew ''unsupported runtime: %s'' [rt] \<and> evs = [])
      | Inr (DockerRuntime cl) \<Rightarrow> rt = ''docker'' \<and> evs = [] \<and> (\<exists>api. cl = docker_client api)
      | Inr (ContainerdRuntime cl) \<Rightarrow> rt = ''containerd'' \<and> evs = [] \<and> client_ns cl \<noteq> ''''
      | Inr (PodmanRuntime p) \<Rightarrow> rt = ''podman'' \<and> evs = [DInfo (CtxTimeout CtxBackground bootstrapTimeout)] \<and>
          (\<exists>api rootless uri. p = podman_of api rootless uri)))"
proof -
  let ?f = "flag_Global c" let ?rt = "flag_String ?f ''runtime''"
  consider (docker) "?rt = ''docker''" | (containerd) "?rt = ''containerd''" | (podman) "?rt = ''podman''"
    | (other) "?rt \<notin> set runtime_names" by (auto simp: runtime_names_def)
  then show ?thesis
  proof cases
    case docker
    show ?thesis unfolding createRuntimeClient_def NewV1FromApp_def Let_def docker
      by (simp add: runtime_names_def, rule ensures_return) (auto simp: runtime_names_def split: sum.splits dest: NewClient_Inr)
  next
    case containerd
    show ?thesis unfolding createRuntimeClient_def NewV1FromApp_def Let_def containerd
      by (simp add: runtime_names_def, rule ensures_return) (auto simp: runtime_names_def split: sum.splits dest: containerd_NewClient_Inr)
  next
    case podman
    show ?thesis unfolding createRuntimeClient_def NewV1FromApp_def Let_def podman
      by (simp add: runtime_names_def, rule ensures_bind_return [OF podman_NewClient_ensures])
        (auto simp: runtime_names_def split: sum.splits)
  next
    case other
    then have "createRuntimeClient env c = State_Monad.return (Inl (ErrNew ''unsupported runtime: %s'' [?rt]))"
      by (simp add: createRuntimeClient_def NewV1FromApp_def Let_def runtime_names_def)
    then show ?thesis by (simp only: Let_def) (rule ensures_return, simp)
  qed
qed

text \<open>TLS is used exactly when --tls or --tlsverify is set, and the peer's certificate is then verified
  exactly when --tlsverify is; a client certificate is presented exactly when both of its flags are
  set. A file or a key pair that cannot be read is an error.\<close>

theorem tlsConfig_verifies:
  "case tlsConfig env c of
     Inl e \<Rightarrow> flag_Bool (flag_Global c) ''tls'' \<or> flag_Bool (flag_Global c) ''tlsverify''
   | Inr None \<Rightarrow> \<not> flag_Bool (flag_Global c) ''tls'' \<and> \<not> flag_Bool (flag_Global c) ''tlsverify''
   | Inr (Some t) \<Rightarrow>
       (flag_Bool (flag_Global c) ''tls'' \<or> flag_Bool (flag_Global c) ''tlsverify'') \<and>
       (InsecureSkipVerify t \<longleftrightarrow> \<not> flag_Bool (flag_Global c) ''tlsverify'') \<and>
       (RootCAs t \<noteq> None \<longleftrightarrow> flag_String (flag_Global c) ''tlscacert'' \<noteq> '''') \<and>
       (Certificates t \<noteq> [] \<longleftrightarrow>
         flag_String (flag_Global c) ''tlscert'' \<noteq> '''' \<and> flag_String (flag_Global c) ''tlskey'' \<noteq> '''')"
  by (auto simp: tlsConfig_def load_roots_def load_certificate_def Let_def split: sum.splits if_splits)

end
