(* ===== verification/Program.thy ===== *)
theory Program
  imports Startup Protection ContainerdIds
begin

text \<open>
  The program as \<open>cmd/main.go\<close> puts it together: its package variables and what the SDKs were asked so
  far as one state, the application with its \<open>Before\<close> and \<open>After\<close> hooks, and the run of \<open>main\<close> to its
  exit status. The commands work on whatever client \<open>before\<close> has stored, through one client that reads
  the variable; what each runtime's own client keeps is kept by this one (\<open>program_runtimes\<close>).

  The dispatch of the command line is urfave/cli's, a parameter with its documented behaviour as the
  hypothesis \<open>dispatches\<close>.
\<close>

section \<open>The state of the program\<close>

text \<open>
  The traces of the two SDKs, the package variable \<open>runtimeClient\<close> (\<open>None\<close> is nil) and the global
  configuration of the logger.
\<close>

record program =
  Docker_calls :: "docker_call list"
  Containerd_calls :: "containerd_call list"
  runtimeClient :: "runtime option"
  Logging :: log_config

text \<open>A part of a state on which a component works alone.\<close>

definition zoom :: "('h \<Rightarrow> 'w) \<Rightarrow> ('w \<Rightarrow> 'h \<Rightarrow> 'h) \<Rightarrow> ('w, 'a) state \<Rightarrow> ('h, 'a) state" where
  "zoom get put m = State (\<lambda>h. case run_state m (get h) of (a, w) \<Rightarrow> (a, put w h))"

lemma run_zoom [simp]:
  "run_state (zoom get put m) h = (case run_state m (get h) of (a, w) \<Rightarrow> (a, put w h))"
  by (simp add: zoom_def)

locale state_part =
  fixes get :: "'h \<Rightarrow> 'w" and put :: "'w \<Rightarrow> 'h \<Rightarrow> 'h"
  assumes get_put: "get (put w h) = w" and put_get: "put (get h) h = h" and put_put: "put v (put w h) = put v h"

text \<open>What a preorder on the part says of the whole: the rest is untouched.\<close>

definition on_part :: "('h \<Rightarrow> 'w) \<Rightarrow> ('w \<Rightarrow> 'h \<Rightarrow> 'h) \<Rightarrow> ('w \<Rightarrow> 'w \<Rightarrow> bool) \<Rightarrow> 'h \<Rightarrow> 'h \<Rightarrow> bool" where
  "on_part get put R h h' \<longleftrightarrow> (\<exists>w. R (get h) w \<and> h' = put w h)"

context state_part
begin

lemma on_part_refl: "R (get h) (get h) \<Longrightarrow> on_part get put R h h"
  unfolding on_part_def by (metis put_get)

lemma on_part_trans:
  "(\<And>x y z. R x y \<Longrightarrow> R y z \<Longrightarrow> R x z) \<Longrightarrow> on_part get put R u v \<Longrightarrow> on_part get put R v w \<Longrightarrow> on_part get put R u w"
  unfolding on_part_def by (metis get_put put_put)

lemma zoom_confined: "confined R m \<Longrightarrow> confined (on_part get put R) (zoom get put m)"
  by (rule confinedI) (auto simp: on_part_def split: prod.splits dest: confinedD)

end

definition put_docker :: "docker_call list \<Rightarrow> program \<Rightarrow> program" where
  "put_docker tr p = p\<lparr>Docker_calls := tr\<rparr>"

definition put_containerd :: "containerd_call list \<Rightarrow> program \<Rightarrow> program" where
  "put_containerd tr p = p\<lparr>Containerd_calls := tr\<rparr>"

interpretation docker_part: state_part Docker_calls put_docker
  by unfold_locales (simp_all add: put_docker_def)

interpretation containerd_part: state_part Containerd_calls put_containerd
  by unfold_locales (simp_all add: put_containerd_def)

section \<open>The client of the commands\<close>

text \<open>
  \<open>func() ctr.Client { return runtimeClient }\<close>: an operation of the commands is the operation \<open>d\<close> of a
  client on the Docker API or \<open>k\<close> of one on the containerd API, whichever is stored.
\<close>

definition with_client ::
  "podman_host \<Rightarrow> (docker_call list client \<Rightarrow> (docker_call list, 'a) state) \<Rightarrow>
     (containerd_call list client \<Rightarrow> (containerd_call list, 'a) state) \<Rightarrow> 'a \<Rightarrow> (program, 'a) state" where
  "with_client h d k nil = do {
     p \<leftarrow> State_Monad.get;
     case runtimeClient p of
       None \<Rightarrow> State_Monad.return nil
     | Some rt \<Rightarrow>
         (case rt of
            DockerRuntime cl \<Rightarrow> zoom Docker_calls put_docker (d cl)
          | ContainerdRuntime cl \<Rightarrow> zoom Containerd_calls put_containerd (k (containerd_client cl))
          | PodmanRuntime pc \<Rightarrow> zoom Docker_calls put_docker (d (podman_client h pc))) }"

definition program_client :: "podman_host \<Rightarrow> program client" where
  "program_client h = \<lparr>
     ListContainers = (\<lambda>c f os. with_client h (\<lambda>cl. ListContainers cl c f os) (\<lambda>cl. ListContainers cl c f os) (Inl nil_panic)),
     StopContainer = (\<lambda>c x n d. with_client h (\<lambda>cl. StopContainer cl c x n d) (\<lambda>cl. StopContainer cl c x n d) (Some nil_panic)),
     KillContainer = (\<lambda>c x s d. with_client h (\<lambda>cl. KillContainer cl c x s d) (\<lambda>cl. KillContainer cl c x s d) (Some nil_panic)),
     StartContainer = (\<lambda>c x d. with_client h (\<lambda>cl. StartContainer cl c x d) (\<lambda>cl. StartContainer cl c x d) (Some nil_panic)),
     RestartContainer = (\<lambda>c x t d. with_client h (\<lambda>cl. RestartContainer cl c x t d) (\<lambda>cl. RestartContainer cl c x t d) (Some nil_panic)),
     RemoveContainer = (\<lambda>c x ro. with_client h (\<lambda>cl. RemoveContainer cl c x ro) (\<lambda>cl. RemoveContainer cl c x ro) (Some nil_panic)),
     PauseContainer = (\<lambda>c x d. with_client h (\<lambda>cl. PauseContainer cl c x d) (\<lambda>cl. PauseContainer cl c x d) (Some nil_panic)),
     UnpauseContainer = (\<lambda>c x d. with_client h (\<lambda>cl. UnpauseContainer cl c x d) (\<lambda>cl. UnpauseContainer cl c x d) (Some nil_panic)),
     StopContainerWithID = (\<lambda>c i t d. with_client h (\<lambda>cl. StopContainerWithID cl c i t d) (\<lambda>cl. StopContainerWithID cl c i t d) (Some nil_panic)),
     ExecContainer = (\<lambda>c x s args d. with_client h (\<lambda>cl. ExecContainer cl c x s args d) (\<lambda>cl. ExecContainer cl c x s args d) (Some nil_panic)),
     NetemContainer = (\<lambda>c nr. with_client h (\<lambda>cl. NetemContainer cl c nr) (\<lambda>cl. NetemContainer cl c nr) (Some nil_panic)),
     StopNetemContainer = (\<lambda>c nr. with_client h (\<lambda>cl. StopNetemContainer cl c nr) (\<lambda>cl. StopNetemContainer cl c nr) (Some nil_panic)),
     IPTablesContainer = (\<lambda>c ir. with_client h (\<lambda>cl. IPTablesContainer cl c ir) (\<lambda>cl. IPTablesContainer cl c ir) (Some nil_panic)),
     StopIPTablesContainer = (\<lambda>c ir. with_client h (\<lambda>cl. StopIPTablesContainer cl c ir) (\<lambda>cl. StopIPTablesContainer cl c ir) (Some nil_panic)),
     StressContainer = (\<lambda>c sr. with_client h (\<lambda>cl. StressContainer cl c sr) (\<lambda>cl. StressContainer cl c sr) (Inl nil_panic)),
     CloseClient = with_client h CloseClient CloseClient (Some nil_panic)\<rparr>"

section \<open>The application (\<open>main.go\<close>)\<close>

text \<open>The hooks: \<open>before\<close> stores the client, the closure of \<open>After\<close> closes it when it was stored.\<close>

definition app_Before :: "('pool, 'cert) runtime_env \<Rightarrow> cli_ctx \<Rightarrow> (program, error option) state" where
  "app_Before env c = do {
     r \<leftarrow> zoom Docker_calls put_docker (before env c);
     p \<leftarrow> State_Monad.get;
     case r of
       (logging, Inl err) \<Rightarrow> do {
         State_Monad.set (p\<lparr>Logging := logging\<rparr>);
         State_Monad.return (Some err) }
     | (logging, Inr cl) \<Rightarrow> do {
         State_Monad.set (p\<lparr>Logging := logging, runtimeClient := Some cl\<rparr>);
         State_Monad.return None } }"

definition app_After :: "podman_host \<Rightarrow> (program, error option) state" where
  "app_After h = do {
     p \<leftarrow> State_Monad.get;
     if runtimeClient p \<noteq> None then CloseClient (program_client h) else State_Monad.return None }"

text \<open>\<open>versionSingature\<close>, from the variables that the linker sets.\<close>

record build_info = version :: string  commit :: string  branch :: string  buildTime :: string

definition unset_build :: build_info where
  "unset_build = \<lparr>version = ''local'', commit = ''none'', branch = ''none'', buildTime = ''none''\<rparr>"

definition versionSingature :: "build_info \<Rightarrow> string" where
  "versionSingature b = version b @ '' - ['' @ branch b @ '':'' @ take 7 (commit b) @ ''] '' @ buildTime b"

definition re2Prefix :: string where "re2Prefix = ''re2:''"

text \<open>
  The events that the process can react to: a tick of the command's timer and a signal with its number.
  \<open>handleSignals\<close> ends the top context at SIGINT or SIGTERM; it asks for no other signal.
\<close>

datatype process_event = TimerTick | Received int

definition SIGINT :: int where "SIGINT = 2"
definition SIGTERM :: int where "SIGTERM = 15"

definition handleSignals :: "process_event list \<Rightarrow> wakeup list" where
  "handleSignals evs = List.map_filter (\<lambda>e. case e of
     TimerTick \<Rightarrow> Some Tick
   | Received s \<Rightarrow> if s = SIGINT \<or> s = SIGTERM then Some TopDone else None) evs"

record app =
  App_Name :: string
  App_Version :: string
  App_Authors :: "(string \<times> string) list"
  EnableBashCompletion :: bool
  App_Usage :: string
  App_ArgsUsage :: string
  Before :: "cli_ctx \<Rightarrow> (program, error option) state"
  After :: "(program, error option) state"
  Commands :: "program cli_command list"
  Flags :: "(cli_flag \<times> string) list"

definition main_app ::
  "('pool, 'cert) runtime_env \<Rightarrow> podman_host \<Rightarrow> program env \<Rightarrow> build_info \<Rightarrow> (string \<Rightarrow> string) \<Rightarrow> app" where
  "main_app env h en b getenv = \<lparr>
     App_Name = ''Pumba'',
     App_Version = versionSingature b,
     App_Authors = [(''Alexei Ledenev'', ''alexei.led@gmail.com'')],
     EnableBashCompletion = True,
     App_Usage = ''Pumba is a resilience testing tool, that helps applications tolerate random Docker container failures: process, network and performance.'',
     App_ArgsUsage = ''containers (name, list of names, or RE2 regex if prefixed with '' @ CHR 0x22 # re2Prefix @ [CHR 0x22, CHR '')''],
     Before = app_Before env,
     After = app_After h,
     Commands = initializeCLICommands en CtxTop (program_client h),
     Flags = app_flags getenv\<rparr>"

text \<open>
  urfave/cli: what it makes of the arguments for an application (\<open>parse_args\<close>), how it joins the error
  of a command with that of \<open>After\<close> (\<open>NewMultiError\<close>), and \<open>App.Run\<close>, which is given the wakeups that the
  command's loop sees while it runs.
\<close>

datatype invocation =
    Shown "error option"            \<comment> \<open>help, version, completion or a usage error of the root: no hook runs\<close>
  | Hooked cli_ctx "error option"   \<comment> \<open>as before, after the root was parsed: the hooks run, no command does\<close>
  | Called cli_ctx nat flags        \<comment> \<open>the root's context, the action that is called and the context it gets\<close>

record urfave =
  parse_args :: "app \<Rightarrow> string list \<Rightarrow> invocation"
  multi_error :: "error \<Rightarrow> error \<Rightarrow> error"
  app_Run :: "app \<Rightarrow> string list \<Rightarrow> wakeup list \<Rightarrow> (program, loop_result) state"

definition app_actions :: "app \<Rightarrow> (flags \<Rightarrow> wakeup list \<Rightarrow> (program, loop_result) state) list" where
  "app_actions a = concat (map actions_of (Commands a))"

text \<open>The exit status of the process: \<open>log.Fatal\<close> is 1, a panic is 2; \<open>None\<close> while it runs.\<close>

definition exit_status :: "loop_result \<Rightarrow> nat option" where
  "exit_status r = (case r of
     Waiting \<Rightarrow> None
   | Panicked \<Rightarrow> Some 2
   | Returned None \<Rightarrow> Some 0
   | Returned (Some err) \<Rightarrow> Some 1)"

text \<open>\<open>init\<close>, then \<open>main\<close>.\<close>

definition init_program :: program where
  "init_program = \<lparr>Docker_calls = [], Containerd_calls = [], runtimeClient = None,
     Logging = \<lparr>LogLevel = WarnLevel, LogJSON = False, SlackHook = None\<rparr>\<rparr>"

definition main ::
  "urfave \<Rightarrow> ('pool, 'cert) runtime_env \<Rightarrow> podman_host \<Rightarrow> program env \<Rightarrow> build_info \<Rightarrow> (string \<Rightarrow> string) \<Rightarrow>
     string list \<Rightarrow> process_event list \<Rightarrow> (program, nat option) state" where
  "main u env h en b getenv args events = do {
     r \<leftarrow> app_Run u (main_app env h en b getenv) args (handleSignals events);
     State_Monad.return (exit_status r) }"

section \<open>The documented dispatch\<close>

text \<open>
  The documentation of the hooks: \<open>Before\<close> runs before any command, which is not run when it fails;
  \<open>After\<close> runs after the command, even when this panics or \<open>Before\<close> has failed, and a second error is
  joined to the first.
\<close>

definition run_hooked ::
  "(error \<Rightarrow> error \<Rightarrow> error) \<Rightarrow> app \<Rightarrow> cli_ctx \<Rightarrow> (program, loop_result) state \<Rightarrow> (program, loop_result) state" where
  "run_hooked join a appc act = do {
     b \<leftarrow> Before a appc;
     r \<leftarrow> (case b of Some err \<Rightarrow> State_Monad.return (Returned (Some err)) | None \<Rightarrow> act);
     case r of
       Waiting \<Rightarrow> State_Monad.return Waiting
     | Panicked \<Rightarrow> do { _ \<leftarrow> After a; State_Monad.return Panicked }
     | Returned err \<Rightarrow> do {
         e \<leftarrow> After a;
         State_Monad.return (Returned (case (err, e) of
             (Some x, Some y) \<Rightarrow> Some (join x y)
           | (None, y) \<Rightarrow> y
           | (x, None) \<Rightarrow> x)) } }"

definition dispatches :: "urfave \<Rightarrow> bool" where
  "dispatches u \<longleftrightarrow> (\<forall>a args wakeups. case parse_args u a args of
     Shown err \<Rightarrow> app_Run u a args wakeups = State_Monad.return (Returned err)
   | Hooked appc err \<Rightarrow> app_Run u a args wakeups = run_hooked (multi_error u) a appc (State_Monad.return (Returned err))
   | Called appc i f \<Rightarrow> i < length (app_actions a) \<and> flag_Global f = appc \<and>
       app_Run u a args wakeups = run_hooked (multi_error u) a appc ((app_actions a ! i) f wakeups))"

section \<open>What the stored client keeps\<close>

text \<open>The clients that \<open>createRuntimeClient\<close> makes.\<close>

definition linked :: "runtime \<Rightarrow> bool" where
  "linked rt = (case rt of
     DockerRuntime cl \<Rightarrow> \<exists>api. cl = docker_client api
   | ContainerdRuntime cl \<Rightarrow> client_ns cl \<noteq> ''''
   | PodmanRuntime pc \<Rightarrow> \<exists>api rl uri. pc = podman_of api rl uri)"

definition program_order ::
  "(docker_call list \<Rightarrow> docker_call list \<Rightarrow> bool) \<Rightarrow> (containerd_call list \<Rightarrow> containerd_call list \<Rightarrow> bool) \<Rightarrow>
     program \<Rightarrow> program \<Rightarrow> bool" where
  "program_order RD RK p p' = (case runtimeClient p of
     None \<Rightarrow> p' = p
   | Some rt \<Rightarrow>
       (case rt of
          ContainerdRuntime cl \<Rightarrow> on_part Containerd_calls put_containerd RK p p'
        | _ \<Rightarrow> on_part Docker_calls put_docker (\<lambda>tr tr'. linked rt \<longrightarrow> RD tr tr') p p'))"

text \<open>
  The locale of the three runtimes as one: each keeps a preorder of its own trace, for the flags that
  satisfy \<open>ok\<close>. The client of the program then keeps both.
\<close>

locale program_runtimes = docker: effect_order RD + containerd: effect_order RK
  for RD :: "docker_call list \<Rightarrow> docker_call list \<Rightarrow> bool" and RK :: "containerd_call list \<Rightarrow> containerd_call list \<Rightarrow> bool" +
  fixes h :: podman_host and ok :: "bool \<Rightarrow> bool"
  assumes docker_ops: "ordered_client RD (docker_client api) ok"
    and podman_ops: "ordered_client RD (podman_client h (podman_of api rl uri)) ok"
    and containerd_ops: "ordered_client RK (containerd_client cl) ok"

lemma runtimeClient_put [simp]:
  "runtimeClient (put_docker tr p) = runtimeClient p" "runtimeClient (put_containerd kt p) = runtimeClient p"
  by (simp_all add: put_docker_def put_containerd_def)

lemma on_part_runtimeClient:
  "on_part Docker_calls put_docker Q p p' \<Longrightarrow> runtimeClient p' = runtimeClient p"
  "on_part Containerd_calls put_containerd S p p' \<Longrightarrow> runtimeClient p' = runtimeClient p"
  by (auto simp: on_part_def)

context program_runtimes
begin

lemma program_order_refl: "program_order RD RK p p"
  by (auto simp: program_order_def docker.R_refl containerd.R_refl docker_part.on_part_refl
      containerd_part.on_part_refl split: option.splits runtime.splits)

lemma program_order_trans:
  assumes uv: "program_order RD RK u v" and vw: "program_order RD RK v w"
  shows "program_order RD RK u w"
proof (cases "runtimeClient u")
  case None
  with uv vw show ?thesis by (simp add: program_order_def)
next
  case (Some rt)
  let ?Q = "\<lambda>tr tr'. linked rt \<longrightarrow> RD tr tr'"
  have RD: "on_part Docker_calls put_docker ?Q u v \<Longrightarrow> on_part Docker_calls put_docker ?Q v w \<Longrightarrow>
      on_part Docker_calls put_docker ?Q u w"
    by (rule docker_part.on_part_trans) (auto intro: docker.R_trans)
  have RK: "on_part Containerd_calls put_containerd RK u v \<Longrightarrow> on_part Containerd_calls put_containerd RK v w \<Longrightarrow>
      on_part Containerd_calls put_containerd RK u w"
    by (rule containerd_part.on_part_trans) (auto intro: containerd.R_trans)
  from uv Some have same: "runtimeClient v = Some rt"
    by (auto simp: program_order_def on_part_runtimeClient split: runtime.splits)
  show ?thesis using uv vw RD RK
    by (cases rt) (simp_all add: program_order_def Some same)
qed

lemma with_client_confined:
  assumes "\<And>api. confined RD (d (docker_client api))"
    and "\<And>api rl uri. confined RD (d (podman_client h (podman_of api rl uri)))"
    and "\<And>cl. confined RK (k (containerd_client cl))"
  shows "confined (program_order RD RK) (with_client h d k nil)"
proof (rule confinedI)
  fix p a p' assume run: "run_state (with_client h d k nil) p = (a, p')"
  show "program_order RD RK p p'"
  proof (cases "runtimeClient p")
    case None
    with run show ?thesis by (simp add: with_client_def program_order_def)
  next
    case (Some rt)
    have d: "confined (on_part Docker_calls put_docker (\<lambda>tr tr'. linked rt \<longrightarrow> RD tr tr')) (zoom Docker_calls put_docker (d cl))"
      if "rt = DockerRuntime cl \<or> (\<exists>pc. rt = PodmanRuntime pc \<and> cl = podman_client h pc)" for cl
      using that assms(1,2) by (intro docker_part.zoom_confined) (auto simp: linked_def confined_def)
    note k = containerd_part.zoom_confined [OF assms(3)]
    show ?thesis
    proof (cases rt)
      case (DockerRuntime cl)
      with run Some have "run_state (zoom Docker_calls put_docker (d cl)) p = (a, p')"
        by (simp add: with_client_def del: run_zoom)
      from confinedD [OF d this] DockerRuntime Some show ?thesis by (simp add: program_order_def)
    next
      case (ContainerdRuntime cl)
      with run Some have "run_state (zoom Containerd_calls put_containerd (k (containerd_client cl))) p = (a, p')"
        by (simp add: with_client_def del: run_zoom)
      from confinedD [OF k this] ContainerdRuntime Some show ?thesis by (simp add: program_order_def)
    next
      case (PodmanRuntime pc)
      with run Some have "run_state (zoom Docker_calls put_docker (d (podman_client h pc))) p = (a, p')"
        by (simp add: with_client_def del: run_zoom)
      from confinedD [OF d this] PodmanRuntime Some show ?thesis by (simp add: program_order_def)
    qed
  qed
qed

lemmas runtime_ops = ordered_client.run_ops [OF docker_ops] ordered_client.run_ops [OF podman_ops]
  ordered_client.run_ops [OF containerd_ops]

end

sublocale program_runtimes \<subseteq> ordered_client "program_order RD RK" "program_client h" ok
proof unfold_locales
  show "program_order RD RK p p" for p by (rule program_order_refl)
  show "program_order RD RK u v \<Longrightarrow> program_order RD RK v w \<Longrightarrow> program_order RD RK u w" for u v w
    by (rule program_order_trans)
qed (unfold program_client_def, auto intro!: with_client_confined intro: runtime_ops)

interpretation dry_program:
  program_runtimes "\<lambda>w w'. filter docker_effect w' = filter docker_effect w"
    "\<lambda>w w'. filter containerd_effect w' = filter containerd_effect w" h "\<lambda>d. d" for h
  by unfold_locales

interpretation open_program:
  program_runtimes "extends (open_spared MS flt x)" numbered h "\<lambda>_. True" for MS flt x h
  by unfold_locales

section \<open>Facts\<close>

definition runtime_name :: "runtime \<Rightarrow> string" where
  "runtime_name rt = (case rt of DockerRuntime cl \<Rightarrow> ''docker'' | ContainerdRuntime cl \<Rightarrow> ''containerd'' | PodmanRuntime pc \<Rightarrow> ''podman'')"

text \<open>
  The well-formed states of a run for the context \<open>c\<close> of the root, while its client is open: the logger
  is set up from the flags; the client is the one the flags select, and only its SDK was called.
\<close>

definition working :: "cli_ctx \<Rightarrow> program \<Rightarrow> bool" where
  "working c p \<longleftrightarrow> Logging p = setupLogging (flag_Global c) \<and> (case runtimeClient p of
     None \<Rightarrow> Containerd_calls p = [] \<and> filter docker_effect (Docker_calls p) = []
   | Some rt \<Rightarrow> runtime_name rt = flag_String (flag_Global c) ''runtime'' \<and> linked rt \<and>
       (case rt of
          ContainerdRuntime cl \<Rightarrow> Docker_calls p = [] \<and> KClose \<notin> set (Containerd_calls p)
        | _ \<Rightarrow> Containerd_calls p = [] \<and> DClose \<notin> set (Docker_calls p)))"

lemma app_Before_run:
  assumes "run_state (app_Before env c) init_program = (b, p)"
  shows "working c p" "b = None \<longleftrightarrow> runtimeClient p \<noteq> None" "Containerd_calls p = []"
    "filter docker_effect (Docker_calls p) = []"
proof -
  obtain r tr where r: "run_state (createRuntimeClient env c) [] = (r, tr)" by fastforce
  note made = ensuresE [OF createRuntimeClient_selects r]
  from assms r have p: "p = (case r of
       Inl e \<Rightarrow> init_program\<lparr>Docker_calls := tr, Logging := setupLogging (flag_Global c)\<rparr>
     | Inr rt \<Rightarrow> init_program\<lparr>Docker_calls := tr, Logging := setupLogging (flag_Global c), runtimeClient := Some rt\<rparr>)"
      "b = (case r of Inl e \<Rightarrow> Some e | Inr rt \<Rightarrow> None)"
    by (auto simp: app_Before_def before_def init_program_def put_docker_def NewV1FromApp_def Let_def
        split: sum.splits prod.splits)
  show "b = None \<longleftrightarrow> runtimeClient p \<noteq> None" "Containerd_calls p = []"
    by (simp_all add: p init_program_def split: sum.splits)
  show "filter docker_effect (Docker_calls p) = []"
    by (rule made) (auto simp: p Let_def split: sum.splits)
  show "working c p"
    by (rule made) (auto simp: p working_def init_program_def linked_def runtime_name_def Let_def
        split: sum.splits runtime.splits)
qed

definition client_closed :: "program \<Rightarrow> program" where
  "client_closed p = (case runtimeClient p of
     Some (ContainerdRuntime cl) \<Rightarrow> put_containerd (Containerd_calls p @ [KClose]) p
   | Some (PodmanRuntime pc) \<Rightarrow> put_docker (Docker_calls p @ [DClose]) p
   | _ \<Rightarrow> p)"

lemma client_closed_quiet [simp]:
  "filter docker_effect (Docker_calls (client_closed p)) = filter docker_effect (Docker_calls p)"
  "filter containerd_effect (Containerd_calls (client_closed p)) = filter containerd_effect (Containerd_calls p)"
  by (simp_all add: client_closed_def put_docker_def put_containerd_def split: option.split runtime.split)

lemma app_After_run:
  assumes "run_state (app_After h) p = (e, p')" and "pred_option linked (runtimeClient p)"
  shows "p' = client_closed p"
  using assms
  by (auto simp: app_After_def program_client_def with_client_def client_closed_def linked_def docker_client_def docker_Close_def
      containerd_client_def containerd_Close_def podman_client_def podman_Close_def put_docker_def podman_of_def
      split: option.splits runtime.splits prod.splits)

text \<open>A run of the program: no hook, or \<open>Before\<close>, then possibly an action, then, unless it still waits, \<open>After\<close>.\<close>

lemma main_runs:
  assumes "dispatches u" and "run_state (main u env h en b getenv args events) init_program = (status, p')"
  obtains (shown) err where "parse_args u (main_app env h en b getenv) args = Shown err" "p' = init_program" "status \<noteq> None"
  | (hooked) c e p1 p2 where "run_state (app_Before env c) init_program = (e, p1)"
    "(\<exists>err. parse_args u (main_app env h en b getenv) args = Hooked c err) \<or>
     (\<exists>i f. parse_args u (main_app env h en b getenv) args = Called c i f \<and> flag_Global f = c)"
    "p2 = p1 \<and> status \<noteq> None \<or> e = None \<and> (\<exists>act i f s. act \<in> set (app_actions (main_app env h en b getenv)) \<and>
       parse_args u (main_app env h en b getenv) args = Called c i f \<and>
       run_state (act f (handleSignals events)) p1 = (s, p2) \<and> (status = None \<longrightarrow> s = Waiting))"
    "e \<noteq> None \<Longrightarrow> status = Some 1"
    "if status = None then p' = p2 else \<exists>x. run_state (app_After h) p2 = (x, p')"
proof -
  let ?a = "main_app env h en b getenv" let ?w = "handleSignals events"
  obtain r where r: "run_state (app_Run u ?a args ?w) init_program = (r, p')" "status = exit_status r"
    using assms(2) by (auto simp: main_def split: prod.splits)
  have status: "status = None \<longleftrightarrow> r = Waiting"
    by (auto simp: r(2) exit_status_def split: loop_result.splits option.splits)
  have before: "Before ?a = app_Before env" "After ?a = app_After h" by (simp_all add: main_app_def)
  have hooks: thesis if run: "run_state (run_hooked (multi_error u) ?a c act) init_program = (r, p')"
    and parse: "(\<exists>err. parse_args u ?a args = Hooked c err) \<or> (\<exists>i f. parse_args u ?a args = Called c i f \<and> flag_Global f = c)"
    and act: "\<And>p1 p2 s. run_state act p1 = (s, p2) \<Longrightarrow> p2 = p1 \<and> s \<noteq> Waiting \<or> (\<exists>act' i f. act' \<in> set (app_actions ?a) \<and>
      parse_args u ?a args = Called c i f \<and> run_state (act' f ?w) p1 = (s, p2))" for c act
  proof -
    obtain e p1 where e: "run_state (app_Before env c) init_program = (e, p1)" by fastforce
    obtain s p2 where s: "run_state (case e of Some err \<Rightarrow> State_Monad.return (Returned (Some err)) | None \<Rightarrow> act) p1 = (s, p2)"
      by fastforce
    have waiting: "r = Waiting \<longleftrightarrow> s = Waiting"
      using run e s unfolding run_hooked_def by (cases s) (auto simp: before split: prod.splits)
    show thesis
    proof (rule hooked [OF e parse])
      show "p2 = p1 \<and> status \<noteq> None \<or> e = None \<and> (\<exists>act i f s. act \<in> set (app_actions ?a) \<and>
         parse_args u ?a args = Called c i f \<and> run_state (act f ?w) p1 = (s, p2) \<and> (status = None \<longrightarrow> s = Waiting))"
      proof (cases e)
        case None
        with s act [of p1 s p2] show ?thesis unfolding status waiting by auto
      next
        case (Some err)
        with s show ?thesis unfolding status waiting by auto
      qed
      show "status = Some 1" if "e \<noteq> None"
        using run e s that unfolding r(2) run_hooked_def exit_status_def
        by (cases e) (auto simp: before split: prod.splits option.splits)
      show "if status = None then p' = p2 else \<exists>x. run_state (app_After h) p2 = (x, p')"
        using run e s unfolding status run_hooked_def
        by (cases s) (auto simp: before split: prod.splits)
    qed
  qed
  from assms(1) have d: "case parse_args u ?a args of
     Shown err \<Rightarrow> app_Run u ?a args ?w = State_Monad.return (Returned err)
   | Hooked c err \<Rightarrow> app_Run u ?a args ?w = run_hooked (multi_error u) ?a c (State_Monad.return (Returned err))
   | Called c i f \<Rightarrow> i < length (app_actions ?a) \<and> flag_Global f = c \<and>
       app_Run u ?a args ?w = run_hooked (multi_error u) ?a c ((app_actions ?a ! i) f ?w)"
    unfolding dispatches_def by blast
  show thesis
  proof (cases "parse_args u ?a args")
    case (Shown err)
    with d r show thesis by (intro shown) (auto simp: exit_status_def split: option.splits)
  next
    case (Hooked c err)
    with d r(1) show thesis by (intro hooks [of c "State_Monad.return (Returned err)"]) auto
  next
    case (Called c i f)
    with d r(1) show thesis
      by (intro hooks [of c "(app_actions ?a ! i) f ?w"]) (auto intro: nth_mem)
  qed
qed

lemma app_action_confined:
  assumes "ordered_client R (program_client h) ok" and "act \<in> set (app_actions (main_app env h en b getenv))"
    and "ok (flag_Bool (flag_Global f) ''dry-run'')" and "run_state (act f wakeups) p = (s, p')"
  shows "R p p'"
proof -
  obtain cmd where "cmd \<in> set (initializeCLICommands en CtxTop (program_client h))" "act \<in> set (actions_of cmd)"
    using assms(2) by (auto simp: app_actions_def main_app_def)
  from confinedD [OF ordered_client.cli_confined [OF assms(1) this assms(3)] assms(4)] show ?thesis .
qed

lemma working_docker:
  assumes "working c p" and "runtimeClient p = Some rt" and "\<nexists>cl. rt = ContainerdRuntime cl"
    and "on_part Docker_calls put_docker (\<lambda>tr tr'. linked rt \<longrightarrow> extends (open_spared MS flt x) tr tr') p p'"
  shows "working c p'"
  using assms by (cases rt) (auto simp: working_def on_part_def extends_def list_all_iff open_spared_def put_docker_def)

lemma working_containerd:
  assumes "working c p" and "runtimeClient p = Some (ContainerdRuntime cl)"
    and "on_part Containerd_calls put_containerd numbered p p'"
  shows "working c p'"
  using assms by (auto simp: working_def on_part_def numbered_def put_containerd_def dest: fresh_ids_open)

lemma working_action:
  assumes "working c p" and "act \<in> set (app_actions (main_app env h en b getenv))"
    and "run_state (act f wakeups) p = (s, p')"
  shows "working c p' \<and> runtimeClient p' = runtimeClient p"
proof -
  have "program_order (extends (open_spared undefined undefined undefined)) numbered p p'"
    by (rule app_action_confined [OF open_program.ordered_client_axioms assms(2) _ assms(3)]) simp
  then show ?thesis using assms(1) working_docker [OF assms(1)] working_containerd [OF assms(1)]
    by (auto simp: program_order_def split: option.splits runtime.splits dest: on_part_runtimeClient)
qed

text \<open>The loop ends when a signal is among its wakeups.\<close>

lemma chaos_loop_ends: "TopDone \<in> set wakeups \<Longrightarrow> fst (run_state (chaos_loop run params c wakeups) w) \<noteq> Waiting"
proof (induction wakeups arbitrary: w)
  case (Cons wk rest)
  then show ?case by (subst chaos_loop_run) (auto split: prod.split wakeup.split)
qed simp

lemma RunChaosCommand_ends:
  "TopDone \<in> set wakeups \<Longrightarrow> run_state (RunChaosCommand tc run params wakeups) w = (r, w') \<Longrightarrow> r \<noteq> Waiting"
  using chaos_loop_ends [of wakeups run params "CtxCancel tc" w] by (auto simp: RunChaosCommand_def split: if_splits)

lemma NewAction_ends:
  "TopDone \<in> set wakeups \<Longrightarrow> run_state (NewAction_Action tc cl sp f wakeups) w = (r, w') \<Longrightarrow> r \<noteq> Waiting"
  by (auto simp: NewAction_Action_def Let_def dest: RunChaosCommand_ends
      split: if_splits sum.splits prod.splits loop_result.splits)

lemma app_action_ends:
  assumes "act \<in> set (app_actions (main_app env h en b getenv))" and "TopDone \<in> set wakeups"
    and "run_state (act f wakeups) p = (s, p')"
  shows "s \<noteq> Waiting"
  using assms
  by (auto simp: app_actions_def main_app_def initializeCLICommands_def NewAction_def dest: NewAction_ends)

text \<open>Every state in which a run can be seen is well-formed, with the close of the client at its end.\<close>

lemma main_working:
  assumes "dispatches u" and "run_state (main u env h en b getenv args events) init_program = (status, p)"
  obtains (shown) err where "parse_args u (main_app env h en b getenv) args = Shown err" "p = init_program" "status \<noteq> None"
  | (hooked) c p2 where "working c p2" "p = (if status = None then p2 else client_closed p2)"
    "runtimeClient p2 = None \<Longrightarrow> status = Some 1"
    "(\<exists>err. parse_args u (main_app env h en b getenv) args = Hooked c err) \<or>
     (\<exists>i f. parse_args u (main_app env h en b getenv) args = Called c i f \<and> flag_Global f = c)"
  using assms
proof (cases rule: main_runs)
  case (shown err)
  then show thesis by (rule that(1))
next
  case (hooked c e p1 p2)
  have p2: "working c p2 \<and> runtimeClient p2 = runtimeClient p1"
    using hooked(3) app_Before_run(1) [OF hooked(1)] working_action by blast
  then have linked: "pred_option linked (runtimeClient p2)"
    by (auto simp: working_def split: option.splits)
  show thesis
  proof (rule that(2))
    show "working c p2" using p2 by blast
    show "p = (if status = None then p2 else client_closed p2)"
      using hooked(5) app_After_run [OF _ linked] by (auto split: if_splits)
    show "status = Some 1" if "runtimeClient p2 = None"
      using that p2 app_Before_run(2) [OF hooked(1)] hooked(4) by auto
  qed (rule hooked(2))
qed

section \<open>A run to evaluate\<close>

text \<open>A library that calls the action \<open>i\<close> in the context \<open>f\<close>, for every application that has it.\<close>

definition call_action :: "nat \<Rightarrow> flags \<Rightarrow> app \<Rightarrow> invocation" where
  "call_action i f a = (if i < length (app_actions a) then Called (flag_Global f) i f else Shown None)"

definition sample_urfave :: "nat \<Rightarrow> flags \<Rightarrow> urfave" where
  "sample_urfave i f =
     \<lparr>parse_args = (\<lambda>a args. call_action i f a),
      multi_error = (\<lambda>x y. ErrJoin [x, y]),
      app_Run = (\<lambda>a args wakeups. case call_action i f a of
          Called c j g \<Rightarrow> run_hooked (\<lambda>x y. ErrJoin [x, y]) a c ((app_actions a ! j) g wakeups)
        | _ \<Rightarrow> State_Monad.return (Returned None))\<rparr>"

lemma sample_urfave_dispatches: "dispatches (sample_urfave i f)"
  by (simp add: dispatches_def sample_urfave_def call_action_def)

definition sample_host :: podman_host where
  "sample_host = \<lparr>cgroupReader = (\<lambda>tr p. Inr ''''), host_Stat = (\<lambda>tr p. None), is_NotExist = (\<lambda>e. False)\<rparr>"

text \<open>A host on which containerd answers, and a kill of \<open>c1\<close> every five nanoseconds.\<close>

definition sample_env :: "(unit, unit) runtime_env" where
  "sample_env = \<lparr>re_tls = \<lparr>os_ReadFile = (\<lambda>p. Inr ''''), pool_of_PEM = (\<lambda>s. ()),
        LoadX509KeyPair = (\<lambda>c k. Inr ()), X509KeyPair = (\<lambda>c k. Inr ())\<rparr>,
     re_socket = \<lparr>os_Getenv = (\<lambda>n. ''''), execLookPath = (\<lambda>n. None), execCommand = (\<lambda>c args. Inr ''''),
        os_Stat = (\<lambda>p. None), tcp_Dial = (\<lambda>d a. None), url_Parse = (\<lambda>s. Inl (ErrExt ''parse''))\<rparr>,
     re_docker_New = (\<lambda>s t. Inr sample_docker), re_podman_New = (\<lambda>s t. Inr sample_docker),
     re_containerd_New = (\<lambda>s. Inr (client_api sample_containerd))\<rparr>"

definition kill_c1 :: "bool \<Rightarrow> flags" where
  "kill_c1 dry = (let values = \<lparr>
     val_String = (\<lambda>n. if n = ''runtime'' then ''containerd'' else if n = ''signal'' then ''SIGKILL'' else ''''),
     val_Bool = (\<lambda>n. n = ''dry-run'' \<and> dry), val_BoolT = (\<lambda>n. False), val_Duration = (\<lambda>n. 5), val_Int = (\<lambda>n. 0),
     val_Float64 = (\<lambda>n. Fin 0), val_StringSlice = (\<lambda>n. [])\<rparr>
   in CliCtx values [''c1''] (Some (CliCtx values [] None)))"

definition sample_main :: "bool \<Rightarrow> process_event list \<Rightarrow> nat option \<times> program" where
  "sample_main dry events = run_state (main (sample_urfave 0 (kill_c1 dry)) sample_env sample_host plain_env unset_build
     (\<lambda>n. '''') [''kill'', ''c1''] events) init_program"

section \<open>Properties\<close>

text \<open>C6: A signal ends the program and its client is closed: with SIGINT or SIGTERM among the events a run
  never stays waiting, and a run that has ended closed the containerd or Podman client exactly once,
  as its last call. While it still runs, and with Docker, nothing is closed.\<close>

theorem program_shuts_down:
  assumes "dispatches u" and "run_state (main u env h en b getenv args events) init_program = (status, p)"
  shows "(Received SIGINT \<in> set events \<or> Received SIGTERM \<in> set events \<longrightarrow> status \<noteq> None) \<and>
    (case runtimeClient p of
       None \<Rightarrow> Containerd_calls p = []
     | Some (DockerRuntime cl) \<Rightarrow> DClose \<notin> set (Docker_calls p)
     | Some (ContainerdRuntime cl) \<Rightarrow> \<exists>tr. KClose \<notin> set tr \<and>
         Containerd_calls p = tr @ (if status = None then [] else [KClose])
     | Some (PodmanRuntime pc) \<Rightarrow> \<exists>tr. DClose \<notin> set tr \<and>
         Docker_calls p = tr @ (if status = None then [] else [DClose]))"
proof
  show "Received SIGINT \<in> set events \<or> Received SIGTERM \<in> set events \<longrightarrow> status \<noteq> None"
  proof
    assume "Received SIGINT \<in> set events \<or> Received SIGTERM \<in> set events"
    then have "TopDone \<in> set (handleSignals events)"
      by (force simp: handleSignals_def List.map_filter_def SIGINT_def SIGTERM_def)
    from assms this show "status \<noteq> None"
      by (cases rule: main_runs) (auto dest: app_action_ends)
  qed
  from assms show "case runtimeClient p of
       None \<Rightarrow> Containerd_calls p = []
     | Some (DockerRuntime cl) \<Rightarrow> DClose \<notin> set (Docker_calls p)
     | Some (ContainerdRuntime cl) \<Rightarrow> \<exists>tr. KClose \<notin> set tr \<and>
         Containerd_calls p = tr @ (if status = None then [] else [KClose])
     | Some (PodmanRuntime pc) \<Rightarrow> \<exists>tr. DClose \<notin> set tr \<and>
         Docker_calls p = tr @ (if status = None then [] else [DClose])"
    by (cases rule: main_working)
      (auto simp: init_program_def working_def client_closed_def put_docker_def put_containerd_def split: option.splits runtime.splits)
qed

theorem program_shuts_down_witness:
  "fst (sample_main False [TimerTick, Received 2]) \<noteq> None \<and>
   (\<exists>tr. KClose \<notin> set tr \<and> Containerd_calls (snd (sample_main False [TimerTick, Received 2])) = tr @ [KClose])"
proof -
  obtain status p where run: "sample_main False [TimerTick, Received 2] = (status, p)" by fastforce
  note shut = program_shuts_down [OF sample_urfave_dispatches run [unfolded sample_main_def]]
  have "case runtimeClient (snd (sample_main False [TimerTick, Received 2])) of Some (ContainerdRuntime cl) \<Rightarrow> True | _ \<Rightarrow> False"
    by code_simp
  then obtain cl where "runtimeClient p = Some (ContainerdRuntime cl)"
    using run by (auto split: option.splits runtime.splits)
  with shut run show ?thesis by (auto simp: SIGINT_def)
qed

text \<open>C7: The whole program with --dry-run changes nothing on the host: whatever the runtime, the command, the
  other flags, the answers of the daemon and the signals, no call that it makes has an effect.\<close>

theorem program_dry_run:
  assumes "dispatches u" and "run_state (main u env h en b getenv args events) init_program = (status, p)"
    and "\<And>c i f. parse_args u (main_app env h en b getenv) args = Called c i f \<Longrightarrow> flag_Bool c ''dry-run''"
  shows "filter docker_effect (Docker_calls p) = [] \<and> filter containerd_effect (Containerd_calls p) = []"
  using assms(1,2)
proof (cases rule: main_runs)
  case (hooked c e p1 p2)
  have "filter docker_effect (Docker_calls p1) = [] \<and> filter containerd_effect (Containerd_calls p1) = []"
    using app_Before_run(3,4) [OF hooked(1)] by simp
  moreover have "program_order (\<lambda>w w'. filter docker_effect w' = filter docker_effect w)
      (\<lambda>w w'. filter containerd_effect w' = filter containerd_effect w) p1 p2"
    if "act \<in> set (app_actions (main_app env h en b getenv))" "parse_args u (main_app env h en b getenv) args = Called c i f"
      "run_state (act f (handleSignals events)) p1 = (s, p2)" for act i f s
  proof -
    have "flag_Global f = c" using hooked(2) that(2) by auto
    then show ?thesis using assms(3) [OF that(2)]
      by (intro app_action_confined [OF dry_program.ordered_client_axioms that(1) _ that(3)]) simp
  qed
  moreover have "pred_option linked (runtimeClient p1)"
    using app_Before_run(1) [OF hooked(1)] by (auto simp: working_def split: option.splits)
  ultimately have quiet: "filter docker_effect (Docker_calls p2) = []" "filter containerd_effect (Containerd_calls p2) = []"
    and linked: "pred_option linked (runtimeClient p2)"
    using hooked(3) by (fastforce simp: program_order_def on_part_def put_docker_def put_containerd_def
        split: option.splits runtime.splits)+
  have "p = p2 \<or> p = client_closed p2" using hooked(5) app_After_run [OF _ linked] by (auto split: if_splits)
  with quiet show ?thesis by auto
qed (simp add: init_program_def)

theorem program_dry_run_witness:
  "filter containerd_effect (Containerd_calls (snd (sample_main True [TimerTick, Received 15]))) = [] \<and>
   length (Containerd_calls (snd (sample_main True [TimerTick, Received 15]))) = 9"
proof -
  obtain status p where run: "sample_main True [TimerTick, Received 15] = (status, p)" by fastforce
  have "filter docker_effect (Docker_calls p) = [] \<and> filter containerd_effect (Containerd_calls p) = []"
    by (rule program_dry_run [OF sample_urfave_dispatches run [unfolded sample_main_def]])
      (auto simp: sample_urfave_def call_action_def kill_c1_def flag_Bool_def Let_def split: if_splits)
  moreover have "length (Containerd_calls (snd (sample_main True [TimerTick, Received 15]))) = 9" by code_simp
  ultimately show ?thesis using run by simp
qed

text \<open>C8: Once the root's flags were parsed, the state of the program is well-formed whenever it is seen: the
  logger is set up from the flags, the stored client is of the runtime that the flags name and was made
  for it, and no call went to the SDK of another runtime. Without a client the program has failed, and
  nothing on the host was changed.\<close>

theorem program_well_formed:
  assumes "dispatches u" and "run_state (main u env h en b getenv args events) init_program = (status, p)"
    and "parse_args u (main_app env h en b getenv) args = Called c i f"
  shows "Logging p = setupLogging c \<and> (case runtimeClient p of
       None \<Rightarrow> status = Some 1 \<and> Containerd_calls p = [] \<and> filter docker_effect (Docker_calls p) = []
     | Some rt \<Rightarrow> runtime_name rt = flag_String c ''runtime'' \<and> linked rt \<and>
         (case rt of ContainerdRuntime cl \<Rightarrow> Docker_calls p = [] | _ \<Rightarrow> Containerd_calls p = []))"
  using assms(1,2)
proof (cases rule: main_working)
  case (hooked c' p2)
  with assms(3) have "flag_Global c = c" "c' = c" by auto
  with hooked(1-3) show ?thesis
    by (auto simp: working_def client_closed_def put_docker_def put_containerd_def split: option.splits runtime.splits)
qed (use assms(3) in simp)

theorem program_well_formed_witness:
  "\<exists>rt. runtimeClient (snd (sample_main False [TimerTick])) = Some rt \<and> runtime_name rt = ''containerd'' \<and>
     linked rt \<and> Docker_calls (snd (sample_main False [TimerTick])) = []"
proof -
  let ?f = "kill_c1 False"
  obtain status p where run: "sample_main False [TimerTick] = (status, p)" by fastforce
  have "0 < length (app_actions (main_app sample_env sample_host plain_env unset_build (\<lambda>n. '''')))"
    by (simp add: app_actions_def main_app_def initializeCLICommands_def NewAction_def)
  then have "parse_args (sample_urfave 0 ?f) (main_app sample_env sample_host plain_env unset_build (\<lambda>n. '''')) [''kill'', ''c1''] =
      Called (flag_Global ?f) 0 ?f"
    by (simp add: sample_urfave_def call_action_def)
  note typed = program_well_formed [OF sample_urfave_dispatches run [unfolded sample_main_def] this]
  have "case runtimeClient (snd (sample_main False [TimerTick])) of Some (ContainerdRuntime cl) \<Rightarrow> True | _ \<Rightarrow> False"
    by code_simp
  with typed run show ?thesis
    by (auto simp: runtime_name_def split: option.splits runtime.splits)
qed

end
