(* ===== verification/Spec2Isabelle.thy ===== *)
theory Spec2Isabelle
  imports Selection Protection ContainerdIds Program
begin

text \<open>
  Pumba (\<open>alexei-led/pumba\<close>) injects failures into containers: it kills, stops, pauses, restarts, removes
  them, runs commands in them, delays or drops their network traffic, and stresses their resources. This
  library models the Go program under \<open>cmd/\<close> and \<open>pkg/\<close> and proves what makes it correct. Every
  definition keeps the name it has in the source, or one that says which function it is the loop or the
  rest of.

  \<^bold>\<open>The program.\<close> \<open>main\<close> builds an application of urfave/cli. Its \<open>Before\<close> hook sets the logger up and
  connects to the selected runtime (Docker, containerd or Podman); the action of a command parses its
  flags, builds a chaos command and repeats it with each tick of a timer until an error, a signal or the
  end (\<open>RunChaosCommand\<close>). A run lists the containers, keeps those that the filter accepts, possibly a
  random choice of them, and applies an action to each, one after the other or in goroutines of an
  errgroup. Each action calls \<open>container.Client\<close>, the interface that each runtime implements with
  calls of its SDK. Many actions have an undoing: what was stopped is started, what was paused is
  unpaused, an emulation is stopped, rules and sidecars are removed, and this also when the run was
  interrupted, under a context that the interruption does not reach.

  \<^bold>\<open>The model.\<close> An effectful function is a state monad of the library. The world of a runtime is the
  trace of the calls to its SDK; the SDK is a record of oracles which answer a call from the trace before
  it, so that every theorem holds for all answers, also those that change from call to call. A Go
  \<open>error\<close> is \<open>error option\<close>, a pair \<open>(T, error)\<close> is \<open>error + T\<close>. A context is the chain of constructors
  that built it. A goroutine is a \<open>task\<close>: atomic steps, \<open>select\<close> statements with the list of their
  branches, and a result; an errgroup is a relation between the groups of running tasks (\<open>par_step\<close>), and
  a parallel run takes the path that a scheduler picks, any scheduler. A \<open>client\<close> is the record of the
  operations of \<open>container.Client\<close> on any world, so that the chaos commands are verified once, for all
  runtimes.

  \<^bold>\<open>The theories\<close>, in the order of their imports:
  \<^item> \<open>GoBase\<close>: errors, contexts, durations, the state monad with loops, and the judgements that the proofs
    compose: \<open>confined\<close> (what a program keeps, with the locale \<open>effect_order\<close>) and \<open>ensures\<close> (what it
    returns together with the calls it makes). \<open>Tasks\<close>: goroutines and errgroups, and \<open>task_from\<close>, what a
    goroutine keeps from a world on, however its steps interleave with those of others. \<open>GoStrings\<close>,
    \<open>GoPath\<close>, \<open>GoTime\<close>, \<open>NetAddr\<close>, \<open>Regex\<close>: the functions of Go's standard library that the code uses.
  \<^item> \<open>Util\<close> (\<open>pkg/util\<close>): interface names, ports and networks, against a language, a decimal reading and a
    print-and-parse round trip.
  \<^item> \<open>Container\<close>, \<open>Client\<close> (\<open>pkg/container\<close>): containers, requests, filters, the selection of the targets,
    and the contracts of a runtime as the locales \<open>lister\<close>, \<open>targeted_client\<close>, \<open>ordered_client\<close> and
    \<open>runtime_client\<close>.
  \<^item> \<open>CliFlags\<close> (\<open>pkg/chaos/cliflags\<close>), \<open>Runner\<close> (\<open>pkg/chaos\<close>): flags, the chaos loop, the runner.
  \<^item> \<open>Lifecycle\<close>, \<open>Netem\<close>, \<open>IPTables\<close>, \<open>Stress\<close> (the packages under \<open>pkg/chaos\<close>): the commands. The
    lemmas say which calls a run makes, in which order, and when it fails, over any runtime.
  \<^item> \<open>Cli\<close> (\<open>pkg/chaos/cmd\<close>, the \<open>cmd\<close> packages, \<open>cmd/commands.go\<close>, \<open>cmd/flags.go\<close>): declared flags,
    parsers and builders, and the command tree; what every operation keeps, every command keeps.
  \<^item> \<open>DockerApi\<close>, \<open>DockerLifecycle\<close>, \<open>DockerSidecar\<close>, \<open>DockerStress\<close>, \<open>Docker\<close> (\<open>pkg/runtime/docker\<close>);
    \<open>ContainerdApi\<close>, \<open>ContainerdTask\<close>, \<open>ContainerdSidecar\<close>, \<open>ContainerdStress\<close>, \<open>Containerd\<close>
    (\<open>pkg/runtime/containerd\<close>); \<open>PodmanCgroup\<close>, \<open>PodmanSocket\<close>, \<open>Podman\<close> (\<open>pkg/runtime/podman\<close>): the
    SDK as oracles, the operations, their behaviour on every path, and the interpretation of the
    contracts on the operations of the runtime.
  \<^item> \<open>Authority\<close>, \<open>DockerAuthority\<close>, \<open>ContainerdAuthority\<close>: the handles that a call of an SDK needs and an
    answer gives, and that every operation of a runtime uses only handles that it was given.
  \<^item> \<open>Emulation\<close>: the locale \<open>command_runtime\<close>, down to the argument vectors of \<open>tc\<close> and \<open>iptables\<close>.
    \<open>Selection\<close>: no command touches a container that was not selected, stated of the operations of the
    client and of the handles in the calls of the SDK. \<open>Protection\<close> and
    \<open>ContainerdIds\<close>: two more preorders that the operations keep, for the labels of Pumba's own
    containers and for the IDs of those of containerd.
  \<^item> \<open>Startup\<close>, \<open>Program\<close> (\<open>cmd/main.go\<close>, \<open>cmd/runtime.go\<close>, \<open>cmd/logging.go\<close>): logging, TLS, the runtime
    client; the state of the program, the hooks, the signals, the exit status. The locale \<open>state_part\<close>
    places a runtime's trace in the state of the program, \<open>program_runtimes\<close> makes one client of three.
  \<^item> This theory: what holds across runtimes.

  \<^bold>\<open>The contracts.\<close> A fact about what commands keep is proved once: \<open>ordered_client\<close> asks that every
  operation stays within a preorder of worlds (for the values of the dry-run flag that matter), and gives
  it for every command, loop included, and for every sequence of operations (\<open>issued\<close>). It is the case
  of \<open>targeted_client\<close> in which the containers do not matter. In the general case an operation is asked
  only about a container that the filter accepts and that a listing has returned, and from any world that
  lies above the one in which it did (\<open>above\<close>): a goroutine relies on what it learned to stay true while
  the others run, and the ID that a stress workload returned may be used later to stop it. The preorders
  are the calls on selected containers, the authorised calls, the equality of effects for dry runs, the
  skip label on created containers, the fresh IDs of containerd, the containers that a rootless Podman
  does not create, and the sequences themselves.

  \<^bold>\<open>Bounds.\<close> Nothing runs on fuel. The chaos loop consumes a list of wakeups, one for each time its
  \<open>select\<close> returns; at the end of the list it still waits, and \<open>Waiting\<close> is a result of its own. The wait
  after a stop is bounded by the number of polls that fit into its timer (\<open>wait_polls\<close>), at which the timer
  has fired. The steps of a group of tasks are well-founded, as a task is a finite tree on every path.
  Durations are integers with Go's wrap-around written out (\<open>int64\<close>); the counter of containerd counts
  modulo \<open>2 ^ 64\<close>, which is a hypothesis of the statement on distinct IDs. A float is NaN,
  an infinity, negative zero or the rational that it stands for.

  \<^bold>\<open>Simplifications.\<close> An operation of a client is one atomic step of the task that calls it, so that two
  goroutines interleave between operations and not within them. The goroutines by which the runtimes
  collect the output of a stress workload run when they are started; whether their result arrives before
  the duration ends is left open by the \<open>select\<close> of the stress command, which may take any branch. A
  panic of the chaos loop is the result \<open>Panicked\<close>. A nil dereference inside an operation, on a response
  in which a part is missing, is the error \<open>nil_panic\<close> of that operation and ends it; the commands
  treat it like any other error, where the program would end.

  \<^bold>\<open>Parameters.\<close> What is not in the repository is an argument: the Docker and containerd SDKs, urfave/cli
  (its parsing, its dispatch, with the documented order of the hooks as the hypothesis \<open>dispatches\<close>),
  errgroup (whose \<open>Wait\<close> returns the first error, \<open>errgroup_ok\<close>), the user's regular expressions, the
  random source, the file system, environment and network, X.509, \<open>url.Parse\<close>.

  \<^bold>\<open>Not modelled.\<close> Log messages (but the configuration of the logger is), usage texts of flags, the
  keep-alive settings of the HTTP transport, the progress messages of a pull; the generated mocks, the
  helpers and the tests; images, deployment and documentation. They have no part in what the program does
  to a container.
\<close>

section \<open>Every command is a sequence of client operations\<close>

text \<open>Whatever the runtime, a run of any command of the command line, chaos loop and undoing included,
  reaches its final world through operations of the container client alone: it is a sequence of
  listings and of the operations of \<open>container.Client\<close>, so what each of these keeps, the run keeps.\<close>

theorem commands_issue:
  assumes "cmd \<in> set (initializeCLICommands en tc cl)" and "act \<in> set (actions_of cmd)"
    and "run_state (act f wakeups) w = (r, w')"
  shows "issued cl w w'"
  by (rule confinedD [OF issuing.cli_confined [OF assms(1,2)] assms(3)]) simp

definition kill_web :: flags where
  "kill_web = CliCtx \<lparr>val_String = (\<lambda>_. ''''), val_Bool = (\<lambda>_. False), val_BoolT = (\<lambda>_. True),
     val_Duration = (\<lambda>_. 0), val_Int = (\<lambda>_. 0), val_Float64 = (\<lambda>_. Fin 0), val_StringSlice = (\<lambda>_. [])\<rparr>
     [''web''] None"

theorem commands_issue_witness:
  "\<exists>r w'. run_state (NewAction_Action CtxTop (docker_client sample_docker) (kill_spec plain_env) kill_web [Tick]) [] = (r, w') \<and>
     issued (docker_client sample_docker) [] w'"
proof -
  let ?act = "NewAction_Action CtxTop (docker_client sample_docker) (kill_spec plain_env)"
  obtain r w' where run: "run_state (?act kill_web [Tick]) [] = (r, w')" by fastforce
  have cmd: "NewAction CtxTop (docker_client sample_docker) (kill_spec plain_env)
      \<in> set (initializeCLICommands plain_env CtxTop (docker_client sample_docker))"
    by (simp add: initializeCLICommands_def)
  have act: "?act \<in> set (actions_of (NewAction CtxTop (docker_client sample_docker) (kill_spec plain_env)))"
    by (simp add: NewAction_def)
  from commands_issue [OF cmd act run] run show ?thesis by blast
qed

section \<open>Pumba's own containers are never targets\<close>

text \<open>C5: Whatever a Docker client does from a fresh start, in any order, every container it creates carries a
  label with which no selection picks it: neither names nor a pattern nor the rest of what is known of
  the container make the filter accept it. The same holds of a Podman client, rootless or not.\<close>

theorem own_containers_spared:
  assumes "issued (docker_client api) [] dt" and "issued (podman_client h (podman_of api rl uri)) [] pt"
  shows "list_all (spared MS flt x) (dt @ pt)"
proof -
  have "extends (open_spared MS flt x) [] dt" by (rule docker_spared.issued_within [OF assms(1)]) simp
  moreover have "extends (open_spared MS flt x) [] pt" by (rule podman_spared.issued_within [OF assms(2)]) simp
  ultimately show ?thesis by (auto simp: extends_def list_all_iff open_spared_def)
qed

definition sidecar_created :: docker_call where
  "sidecar_created = DCreate CtxTop (sidecar_config ''tc'') (sidecar_hconfig (named ''web''))"

theorem own_containers_spared_witness:
  "\<exists>tr. issued (docker_client sample_docker) [] tr \<and> sidecar_created \<in> set tr \<and>
     list_all (spared (\<lambda>_ _. Some True) \<lparr>FNames = [''web''], FPattern = '''', FOpts = \<lparr>All = True, LLabels = []\<rparr>\<rparr>
       (named ''web'')) tr"
proof -
  let ?cl = "docker_client sample_docker"
  let ?t = "snd (run_state (issue ?cl (CNetem CtxTop sample_emulation)) [])"
  have t: "issued ?cl [] ?t" by (rule issued_call [OF issued_refl]) (rule prod.collapse [symmetric])
  have "sidecar_created \<in> set ?t" by code_simp
  with own_containers_spared [OF t issued_refl] t show ?thesis by auto
qed

text \<open>The containerd runtime labels only part of what it creates. Each stress sidecar is created with the
  skip label; the sidecars of the network commands are created without any label, so that nothing
  Pumba sets keeps a later selection from them.\<close>

theorem containerd_sidecar_labels:
  "emits (created_with (list_ex skip_option)) (containerd_StressContainer cl c sr) \<and>
   emits (created_with (\<lambda>opts. \<not> list_ex label_option opts)) (sidecarExec cl c x img pull tool argsList)"
  by (simp add: stress_sidecars_labelled network_sidecars_unlabelled)

section \<open>One meaning of the network commands for all runtimes\<close>

text \<open>C3: The three runtimes implement the same requests: for an emulation, for the rules of the packet filter
  and for their deletion, each runs exactly the argument vectors that the request stands for, in
  order, when it returns nil, and only the first ones of them otherwise. A dry run runs none.\<close>

theorem runtimes_run_requests:
  "runs_commands tool_words (docker_NetemContainer api c nr) (netem_vectors nr) \<and>
   runs_commands tool_words (podman_NetemContainer (podman_of api rl uri) c nr) (netem_vectors nr) \<and>
   runs_commands exec_args (containerd_NetemContainer cl c nr) (netem_vectors nr) \<and>
   runs_commands tool_words (docker_IPTablesContainer api c ir) (iptables_vectors ir) \<and>
   runs_commands tool_words (podman_IPTablesContainer (podman_of api rl uri) c ir) (iptables_vectors ir) \<and>
   runs_commands exec_args (containerd_IPTablesContainer cl c ir) (iptables_vectors ir) \<and>
   runs_commands tool_words (docker_StopIPTablesContainer api c ir) (iptables_vectors ir) \<and>
   runs_commands tool_words (podman_StopIPTablesContainer (podman_of api rl uri) c ir) (iptables_vectors ir) \<and>
   runs_commands exec_args (containerd_StopIPTablesContainer cl c ir) (iptables_vectors ir)"
  using podman_emulation.Netem_runs podman_emulation.IPTables_runs podman_emulation.StopIPTables_runs
  by (simp add: docker_runs containerd_runs)


end
